(* ===== verification/Prelude.thy ===== *)
theory Prelude
  imports Main
begin

text \<open>
  Shared vocabulary of the development: Go results (a value, an error or a panic), the
  world-passing computations of code that talks to a service, the error values of the
  resource provider, and the functions of Go's \<^verbatim>\<open>strings\<close> package the sources use, with the
  lemmas every component needs about them.

  Go strings are byte strings and are modelled as \<^typ>\<open>string\<close>. \<^verbatim>\<open>strings.ToLower\<close> and
  \<^verbatim>\<open>strings.EqualFold\<close> are modelled on ASCII: a byte outside \<open>A\<close>..\<open>Z\<close> is its own lower case.
  A formatted message is kept as its format string and its arguments instead of being
  rendered, which loses nothing of what \<^verbatim>\<open>fmt.Sprintf\<close> is given.
\<close>

section \<open>Collections of proof rules\<close>

named_theorems result_simps \<open>evaluation rules for results and computations\<close>
named_theorems string_simps \<open>evaluation rules for the strings package\<close>
named_theorems db_simps \<open>evaluation rules for the database layer\<close>
named_theorems front_simps \<open>evaluation rules for the front end\<close>

section \<open>Errors\<close>

text \<open>
  The dynamic types of the \<^verbatim>\<open>error\<close> values the sources return or inspect: a cloud error with
  its body (\<^verbatim>\<open>pkg/api/error.go\<close>), the database client's \<^verbatim>\<open>*cosmosdb.Error\<close>, the front end's
  \<^verbatim>\<open>statusCodeError\<close>, autorest's \<^verbatim>\<open>DetailedError\<close> (of which only the status code is inspected),
  the sentinel \<^verbatim>\<open>ErrETagRequired\<close>, an error made by \<^verbatim>\<open>fmt.Errorf\<close>, and an error value of a
  package outside the repository.
\<close>

datatype error =
    CloudErr int cloud_error_body
  | CosmosErr int string string
  | StatusCodeErr int
  | DetailedErr int
  | ETagRequiredErr
  | ErrorfErr message
  | ExternalErr string
and cloud_error_body =
    CloudErrorBody (Code: string) (Message: message) (Target: string)
      (Details: "cloud_error_body list")
and message = Fmt string "fmt_arg list"
and fmt_arg = AStr string | AInt int | AErr error | AMsg message

section \<open>Results and computations\<close>

text \<open>
  A Go function that returns \<^verbatim>\<open>(T, error)\<close> either returns a value, returns an error, or
  panics (a nil dereference or an index out of range); a panic is not an error value, so no
  \<^verbatim>\<open>if err != nil\<close> sees it.
\<close>

datatype 'a result = Ok 'a | Err error | Panic string

type_synonym ('w, 'a) go = "'w \<Rightarrow> 'a result \<times> 'w"

definition rbind :: "'a result \<Rightarrow> ('a \<Rightarrow> 'b result) \<Rightarrow> 'b result" where
  "rbind r f = (case r of Ok a \<Rightarrow> f a | Err e \<Rightarrow> Err e | Panic p \<Rightarrow> Panic p)"

definition gbind :: "('w, 'a) go \<Rightarrow> ('a \<Rightarrow> ('w, 'b) go) \<Rightarrow> ('w, 'b) go" where
  "gbind m f w =
     (case m w of
        (Ok a, w') \<Rightarrow> f a w'
      | (Err e, w') \<Rightarrow> (Err e, w')
      | (Panic p, w') \<Rightarrow> (Panic p, w'))"

definition greturn :: "'a \<Rightarrow> ('w, 'a) go" where
  "greturn a w = (Ok a, w)"

definition glift :: "'a result \<Rightarrow> ('w, 'a) go" where
  "glift r w = (r, w)"

definition rguard :: "bool \<Rightarrow> error \<Rightarrow> unit result" where
  "rguard b e = (if b then Ok () else Err e)"

lemma rbind_simps [simp, result_simps]:
  "rbind (Ok a) f = f a" "rbind (Err e) f = Err e" "rbind (Panic p) f = Panic p"
  by (simp_all add: rbind_def)

lemma rbind_Ok_right [simp]: "rbind r Ok = r"
  by (cases r) simp_all

lemma rbind_eq_Ok: "rbind r f = Ok b \<longleftrightarrow> (\<exists>a. r = Ok a \<and> f a = Ok b)"
  by (cases r) simp_all

lemma rbind_Ok_E [elim!]:
  assumes "rbind r f = Ok b"
  obtains a where "r = Ok a" and "f a = Ok b"
  using assms by (auto simp: rbind_eq_Ok)

lemma rguard_eq_Ok [simp]: "rguard b e = Ok u \<longleftrightarrow> b"
  by (simp add: rguard_def)

lemma rguard_simps [simp, result_simps]:
  "rguard True e = Ok ()" "rguard False e = Err e"
  by (simp_all add: rguard_def)

lemma rguard_eq_Err [simp]: "rguard b e = Err e' \<longleftrightarrow> \<not> b \<and> e' = e"
  by (auto simp: rguard_def)

lemma rguard_not_Panic [simp]: "rguard b e \<noteq> Panic p"
  by (simp add: rguard_def)

lemma gbind_Ok [simp, result_simps]: "m w = (Ok a, w') \<Longrightarrow> gbind m f w = f a w'"
  by (simp add: gbind_def)

lemma gbind_Err [simp, result_simps]: "m w = (Err e, w') \<Longrightarrow> gbind m f w = (Err e, w')"
  by (simp add: gbind_def)

lemma gbind_Panic [simp, result_simps]: "m w = (Panic p, w') \<Longrightarrow> gbind m f w = (Panic p, w')"
  by (simp add: gbind_def)

lemma gbind_eq_Ok:
  "gbind m f w = (Ok b, w2) \<longleftrightarrow> (\<exists>a w1. m w = (Ok a, w1) \<and> f a w1 = (Ok b, w2))"
  by (auto simp: gbind_def split: prod.splits result.splits)

lemma greturn_simp [simp, result_simps]: "greturn a w = (Ok a, w)"
  by (simp add: greturn_def)

lemma glift_simp [simp, result_simps]: "glift r w = (r, w)"
  by (simp add: glift_def)

section \<open>Strings\<close>

text \<open>A single quote, which a string literal cannot end with.\<close>

abbreviation sq :: string where
  "sq \<equiv> [CHR 0x27]"

subsection \<open>Letter case\<close>

definition to_lower_char :: "char \<Rightarrow> char" where
  "to_lower_char c =
     (let n = (of_char c :: int) in if 65 \<le> n \<and> n \<le> 90 then char_of (n + 32) else c)"

definition ToLower :: "string \<Rightarrow> string" where
  "ToLower s = map to_lower_char s"

definition EqualFold :: "string \<Rightarrow> string \<Rightarrow> bool" where
  "EqualFold s t = (ToLower s = ToLower t)"

lemma to_lower_char_idem [simp]: "to_lower_char (to_lower_char c) = to_lower_char c"
  by (simp add: to_lower_char_def Let_def of_char_of)

lemma ToLower_idem [simp]: "ToLower (ToLower s) = ToLower s"
  by (simp add: ToLower_def o_def)

lemma length_ToLower [simp]: "length (ToLower s) = length s"
  by (simp add: ToLower_def)

lemma ToLower_append [simp]: "ToLower (s @ t) = ToLower s @ ToLower t"
  by (simp add: ToLower_def)

lemma ToLower_eq_Nil [simp]: "ToLower s = [] \<longleftrightarrow> s = []"
  by (simp add: ToLower_def)

lemma EqualFold_refl [simp]: "EqualFold s s"
  by (simp add: EqualFold_def)

lemma EqualFold_sym: "EqualFold s t \<longleftrightarrow> EqualFold t s"
  by (auto simp: EqualFold_def)

lemma EqualFold_trans: "EqualFold s t \<Longrightarrow> EqualFold t u \<Longrightarrow> EqualFold s u"
  by (simp add: EqualFold_def)

lemma EqualFold_ToLower [simp]: "EqualFold (ToLower s) s" "EqualFold s (ToLower s)"
  by (simp_all add: EqualFold_def)

subsection \<open>Splitting and joining\<close>

text \<open>\<^verbatim>\<open>strings.Split(s, sep)\<close> for a one-byte separator: never empty.\<close>

fun Split :: "char \<Rightarrow> string \<Rightarrow> string list" where
  "Split c [] = [[]]"
| "Split c (x # xs) =
     (if x = c then [] # Split c xs
      else case Split c xs of [] \<Rightarrow> [[x]] | y # ys \<Rightarrow> (x # y) # ys)"

fun Join :: "char \<Rightarrow> string list \<Rightarrow> string" where
  "Join c [] = []"
| "Join c [x] = x"
| "Join c (x # y # xs) = x @ c # Join c (y # xs)"

lemma Split_not_Nil [simp]: "Split c s \<noteq> []"
  by (cases s) (auto split: list.splits)

lemma Join_Split [simp]: "Join c (Split c s) = s"
proof (induction s)
  case Nil
  then show ?case by simp
next
  case (Cons x xs)
  obtain y ys where ys: "Split c xs = y # ys"
    by (cases "Split c xs") simp_all
  with Cons show ?case by (cases ys) auto
qed

lemma Split_no_sep: "c \<notin> set s \<Longrightarrow> Split c s = [s]"
  by (induction s) auto

lemma Split_append_sep: "Split c (s @ c # t) = Split c s @ Split c t"
proof (induction s)
  case Nil
  then show ?case by simp
next
  case (Cons x xs)
  obtain y ys where "Split c xs = y # ys"
    by (cases "Split c xs") simp_all
  with Cons show ?case by simp
qed

lemma Split_Join:
  "xs \<noteq> [] \<Longrightarrow> \<forall>x \<in> set xs. c \<notin> set x \<Longrightarrow> Split c (Join c xs) = xs"
proof (induction c xs rule: Join.induct)
  case (3 c x y xs)
  then show ?case by (simp add: Split_append_sep Split_no_sep)
qed (simp_all add: Split_no_sep)

lemma Split_parts: "p \<in> set (Split c s) \<Longrightarrow> c \<notin> set p"
proof (induction s arbitrary: p)
  case Nil
  then show ?case by simp
next
  case (Cons x xs)
  obtain y ys where "Split c xs = y # ys"
    by (cases "Split c xs") simp_all
  with Cons show ?case by (auto split: if_splits)
qed

lemma Join_append2: "xs \<noteq> [] \<Longrightarrow> Join c (xs @ [y, z]) = Join c xs @ [c] @ y @ [c] @ z"
  by (induction c xs rule: Join.induct) simp_all

lemma to_lower_char_slash [simp]: "to_lower_char c = CHR ''/'' \<longleftrightarrow> c = CHR ''/''"
proof -
  have "char_of (of_char c + 32 :: int) \<noteq> CHR ''/''" if r: "65 \<le> (of_char c :: int)" "(of_char c :: int) \<le> 90"
  proof
    assume "char_of (of_char c + 32 :: int) = CHR ''/''"
    then have "(of_char (char_of (of_char c + 32 :: int)) :: int) = of_char CHR ''/''" by simp
    with r show False by (simp add: of_char_of)
  qed
  then show ?thesis by (auto simp: to_lower_char_def Let_def)
qed

lemma slash_in_ToLower [simp]: "CHR ''/'' \<in> set (ToLower s) \<longleftrightarrow> CHR ''/'' \<in> set s"
proof -
  have "CHR ''/'' \<in> set (ToLower s) \<longleftrightarrow> (\<exists>c \<in> set s. to_lower_char c = CHR ''/'')"
    by (auto simp: ToLower_def eq_commute)
  then show ?thesis by auto
qed

lemma EqualFold_slash: "EqualFold s t \<Longrightarrow> CHR ''/'' \<in> set s \<longleftrightarrow> CHR ''/'' \<in> set t"
  unfolding EqualFold_def by (metis slash_in_ToLower)

subsection \<open>Prefixes, suffixes and searching\<close>

fun HasPrefix :: "string \<Rightarrow> string \<Rightarrow> bool" where
  "HasPrefix s [] = True"
| "HasPrefix [] (p # ps) = False"
| "HasPrefix (x # xs) (p # ps) = (x = p \<and> HasPrefix xs ps)"

definition HasSuffix :: "string \<Rightarrow> string \<Rightarrow> bool" where
  "HasSuffix s t = HasPrefix (rev s) (rev t)"

definition TrimSuffix :: "string \<Rightarrow> string \<Rightarrow> string" where
  "TrimSuffix s t = (if HasSuffix s t then take (length s - length t) s else s)"

text \<open>\<^verbatim>\<open>s[strings.LastIndexByte(s, c)+1:]\<close>: what follows the last \<open>c\<close>, all of \<open>s\<close> if there is none.\<close>

definition after_last :: "char \<Rightarrow> string \<Rightarrow> string" where
  "after_last c s = last (Split c s)"

lemma HasPrefix_iff: "HasPrefix s p \<longleftrightarrow> (\<exists>t. s = p @ t)"
  by (induction s p rule: HasPrefix.induct) auto

lemma HasSuffix_iff: "HasSuffix s t \<longleftrightarrow> (\<exists>u. s = u @ t)"
proof -
  have "(\<exists>v. rev s = rev t @ v) \<longleftrightarrow> (\<exists>u. s = u @ t)"
    by (metis rev_append rev_rev_ident)
  then show ?thesis by (simp add: HasSuffix_def HasPrefix_iff)
qed

lemma TrimSuffix_append [simp]: "TrimSuffix (s @ t) t = s"
proof -
  have "HasSuffix (s @ t) t" by (auto simp: HasSuffix_iff)
  then show ?thesis by (simp add: TrimSuffix_def)
qed

lemma TrimSuffix_other: "\<not> HasSuffix s t \<Longrightarrow> TrimSuffix s t = s"
  by (simp add: TrimSuffix_def)

lemma after_last_append [simp]: "c \<notin> set t \<Longrightarrow> after_last c (s @ c # t) = t"
  by (simp add: after_last_def Split_append_sep Split_no_sep)

subsection \<open>Decimal numbers\<close>

text \<open>The rendering of \<^verbatim>\<open>%d\<close> and \<^verbatim>\<open>strconv.Itoa\<close>.\<close>

definition digit_char :: "nat \<Rightarrow> char" where
  "digit_char d = char_of (48 + d)"

fun utoa :: "nat \<Rightarrow> string" where
  "utoa n = (if n < 10 then [digit_char n] else utoa (n div 10) @ [digit_char (n mod 10)])"

definition Itoa :: "int \<Rightarrow> string" where
  "Itoa i = (if i < 0 then CHR ''-'' # utoa (nat (- i)) else utoa (nat i))"

declare utoa.simps [simp del]

end
