(* ===== verification/Api.thy ===== *)
theory Api
  imports Prelude
begin

text \<open>
  The internal API of the resource provider, \<^verbatim>\<open>src/pkg/api\<close>: the cluster model stored in the
  database, the three kinds of database document, cloud errors, the install-phase enumeration
  with its JSON encoding, and the retention of JSON fields a reader does not know.

  A pointer is an \<open>option\<close> where the sources can meet a nil, a slice or map whose nil-ness the
  sources test is an \<open>option\<close> too. The embedded cluster of a cluster document and the embedded
  subscription of a subscription document are set by every constructor of such a document and
  are modelled as never nil. A time is an \<open>int\<close> (seconds), a private key its encoding.
\<close>

section \<open>JSON values\<close>

text \<open>A JSON text is modelled by the value it denotes; object members keep their order.\<close>

datatype json =
    JNull
  | JBool bool
  | JNum int
  | JStr string
  | JArr "json list"
  | JObj "(string \<times> json) list"

section \<open>Cloud errors\<close>

definition NewCloudError :: "int \<Rightarrow> string \<Rightarrow> string \<Rightarrow> string \<Rightarrow> fmt_arg list \<Rightarrow> error" where
  "NewCloudError statusCode code target message a =
     CloudErr statusCode (CloudErrorBody code (Fmt message a) target [])"

definition CloudError_Error :: "int \<Rightarrow> cloud_error_body \<Rightarrow> message" where
  "CloudError_Error statusCode b =
     Fmt ''%d: %s: %s: %s'' [AInt statusCode, AStr (Code b), AStr (Target b), AMsg (Message b)]"

definition CloudErrorCodeInternalServerError :: string where
  "CloudErrorCodeInternalServerError = ''InternalServerError''"
definition CloudErrorCodeInvalidParameter :: string where
  "CloudErrorCodeInvalidParameter = ''InvalidParameter''"
definition CloudErrorCodeInvalidRequestContent :: string where
  "CloudErrorCodeInvalidRequestContent = ''InvalidRequestContent''"
definition CloudErrorCodeInvalidResource :: string where
  "CloudErrorCodeInvalidResource = ''InvalidResource''"
definition CloudErrorCodeInvalidResourceGroup :: string where
  "CloudErrorCodeInvalidResourceGroup = ''InvalidResourceGroup''"
definition CloudErrorCodeInvalidResourceNamespace :: string where
  "CloudErrorCodeInvalidResourceNamespace = ''InvalidResourceNamespace''"
definition CloudErrorCodeInvalidResourceType :: string where
  "CloudErrorCodeInvalidResourceType = ''InvalidResourceType''"
definition CloudErrorCodeInvalidSubscriptionID :: string where
  "CloudErrorCodeInvalidSubscriptionID = ''InvalidSubscriptionID''"
definition CloudErrorCodeMismatchingResourceID :: string where
  "CloudErrorCodeMismatchingResourceID = ''MismatchingResourceID''"
definition CloudErrorCodeMismatchingResourceName :: string where
  "CloudErrorCodeMismatchingResourceName = ''MismatchingResourceName''"
definition CloudErrorCodeMismatchingResourceType :: string where
  "CloudErrorCodeMismatchingResourceType = ''MismatchingResourceType''"
definition CloudErrorCodePropertyChangeNotAllowed :: string where
  "CloudErrorCodePropertyChangeNotAllowed = ''PropertyChangeNotAllowed''"
definition CloudErrorCodeRequestNotAllowed :: string where
  "CloudErrorCodeRequestNotAllowed = ''RequestNotAllowed''"
definition CloudErrorCodeResourceGroupNotFound :: string where
  "CloudErrorCodeResourceGroupNotFound = ''ResourceGroupNotFound''"
definition CloudErrorCodeResourceNotFound :: string where
  "CloudErrorCodeResourceNotFound = ''ResourceNotFound''"
definition CloudErrorCodeUnsupportedMediaType :: string where
  "CloudErrorCodeUnsupportedMediaType = ''UnsupportedMediaType''"
definition CloudErrorCodeInvalidLinkedVNet :: string where
  "CloudErrorCodeInvalidLinkedVNet = ''InvalidLinkedVNet''"
definition CloudErrorCodeNotFound :: string where
  "CloudErrorCodeNotFound = ''NotFound''"
definition CloudErrorCodeForbidden :: string where
  "CloudErrorCodeForbidden = ''Forbidden''"
definition CloudErrorCodeInvalidSubscriptionState :: string where
  "CloudErrorCodeInvalidSubscriptionState = ''InvalidSubscriptionState''"
definition CloudErrorCodeInvalidServicePrincipalCredentials :: string where
  "CloudErrorCodeInvalidServicePrincipalCredentials = ''InvalidServicePrincipalCredentials''"
definition CloudErrorCodeInvalidResourceProviderPermissions :: string where
  "CloudErrorCodeInvalidResourceProviderPermissions = ''InvalidResourceProviderPermissions''"
definition CloudErrorCodeInvalidServicePrincipalPermissions :: string where
  "CloudErrorCodeInvalidServicePrincipalPermissions = ''InvalidServicePrincipalPermissions''"
definition CloudErrorCodeInvalidLocation :: string where
  "CloudErrorCodeInvalidLocation = ''InvalidLocation''"
definition CloudErrorCodeInvalidOperationID :: string where
  "CloudErrorCodeInvalidOperationID = ''InvalidOperationID''"

section \<open>Missing fields\<close>

type_synonym missing_fields = "(string \<rightharpoonup> json) option"

definition CodecMissingField :: "missing_fields \<Rightarrow> string \<Rightarrow> json \<Rightarrow> bool \<times> missing_fields" where
  "CodecMissingField mf field v =
     (True, Some ((case mf of None \<Rightarrow> Map.empty | Some m \<Rightarrow> m)(field \<mapsto> v)))"

definition CodecMissingFields :: "missing_fields \<Rightarrow> missing_fields" where
  "CodecMissingFields mf = mf"

section \<open>Clusters\<close>

type_synonym ProvisioningState = string
type_synonym VMSize = string
type_synonym Visibility = string

definition ProvisioningStateCreating :: ProvisioningState where
  "ProvisioningStateCreating = ''Creating''"
definition ProvisioningStateUpdating :: ProvisioningState where
  "ProvisioningStateUpdating = ''Updating''"
definition ProvisioningStateDeleting :: ProvisioningState where
  "ProvisioningStateDeleting = ''Deleting''"
definition ProvisioningStateSucceeded :: ProvisioningState where
  "ProvisioningStateSucceeded = ''Succeeded''"
definition ProvisioningStateFailed :: ProvisioningState where
  "ProvisioningStateFailed = ''Failed''"

lemmas ProvisioningState_defs =
  ProvisioningStateCreating_def ProvisioningStateUpdating_def ProvisioningStateDeleting_def
  ProvisioningStateSucceeded_def ProvisioningStateFailed_def

definition VMSizeStandardD2sV3 :: VMSize where "VMSizeStandardD2sV3 = ''Standard_D2s_v3''"
definition VMSizeStandardD4sV3 :: VMSize where "VMSizeStandardD4sV3 = ''Standard_D4s_v3''"
definition VMSizeStandardD8sV3 :: VMSize where "VMSizeStandardD8sV3 = ''Standard_D8s_v3''"

lemmas VMSize_defs = VMSizeStandardD2sV3_def VMSizeStandardD4sV3_def VMSizeStandardD8sV3_def

definition VisibilityPublic :: Visibility where "VisibilityPublic = ''Public''"
definition VisibilityPrivate :: Visibility where "VisibilityPrivate = ''Private''"

lemmas Visibility_defs = VisibilityPublic_def VisibilityPrivate_def

record ClusterProfile =
  cp_MissingFields :: missing_fields
  cp_Domain :: string
  cp_Version :: string
  cp_ResourceGroupID :: string

record ConsoleProfile =
  con_MissingFields :: missing_fields
  con_URL :: string

record ServicePrincipalProfile =
  spp_MissingFields :: missing_fields
  spp_TenantID :: string
  spp_ClientID :: string
  spp_ClientSecret :: string

record NetworkProfile =
  np_MissingFields :: missing_fields
  np_PodCIDR :: string
  np_ServiceCIDR :: string
  np_PrivateEndpointIP :: string

record MasterProfile =
  mp_MissingFields :: missing_fields
  mp_VMSize :: VMSize
  mp_SubnetID :: string

record WorkerProfile =
  wp_MissingFields :: missing_fields
  wp_Name :: string
  wp_VMSize :: VMSize
  wp_DiskSizeGB :: int
  wp_SubnetID :: string
  wp_Count :: int

record APIServerProfile =
  ap_MissingFields :: missing_fields
  ap_Visibility :: Visibility
  ap_URL :: string
  ap_IP :: string

record IngressProfile =
  ip_MissingFields :: missing_fields
  ip_Name :: string
  ip_Visibility :: Visibility
  ip_IP :: string

type_synonym InstallPhase = int

record Install =
  ins_MissingFields :: missing_fields
  ins_Now :: int
  ins_Phase :: InstallPhase

record Properties =
  p_MissingFields :: missing_fields
  p_ProvisioningState :: ProvisioningState
  p_FailedProvisioningState :: ProvisioningState
  p_ClusterProfile :: ClusterProfile
  p_ConsoleProfile :: ConsoleProfile
  p_ServicePrincipalProfile :: ServicePrincipalProfile
  p_NetworkProfile :: NetworkProfile
  p_MasterProfile :: MasterProfile
  p_WorkerProfiles :: "WorkerProfile list option"
  p_APIServerProfile :: APIServerProfile
  p_IngressProfiles :: "IngressProfile list option"
  p_Install :: "Install option"
  p_StorageSuffix :: string
  p_SSHKey :: "string option"
  p_AdminKubeconfig :: "string option"
  p_KubeadminPassword :: string

record OpenShiftCluster =
  oc_MissingFields :: missing_fields
  oc_ID :: string
  oc_Name :: string
  oc_Type :: string
  oc_Location :: string
  oc_Tags :: "(string \<rightharpoonup> string) option"
  oc_Properties :: Properties

text \<open>Go's zero values of the cluster types.\<close>

definition zero_Properties :: Properties where
  "zero_Properties = \<lparr>
     p_MissingFields = None, p_ProvisioningState = [], p_FailedProvisioningState = [],
     p_ClusterProfile = \<lparr>cp_MissingFields = None, cp_Domain = [], cp_Version = [], cp_ResourceGroupID = []\<rparr>,
     p_ConsoleProfile = \<lparr>con_MissingFields = None, con_URL = []\<rparr>,
     p_ServicePrincipalProfile =
       \<lparr>spp_MissingFields = None, spp_TenantID = [], spp_ClientID = [], spp_ClientSecret = []\<rparr>,
     p_NetworkProfile =
       \<lparr>np_MissingFields = None, np_PodCIDR = [], np_ServiceCIDR = [], np_PrivateEndpointIP = []\<rparr>,
     p_MasterProfile = \<lparr>mp_MissingFields = None, mp_VMSize = [], mp_SubnetID = []\<rparr>,
     p_WorkerProfiles = None,
     p_APIServerProfile = \<lparr>ap_MissingFields = None, ap_Visibility = [], ap_URL = [], ap_IP = []\<rparr>,
     p_IngressProfiles = None, p_Install = None, p_StorageSuffix = [], p_SSHKey = None,
     p_AdminKubeconfig = None, p_KubeadminPassword = []\<rparr>"

definition zero_OpenShiftCluster :: OpenShiftCluster where
  "zero_OpenShiftCluster = \<lparr>
     oc_MissingFields = None, oc_ID = [], oc_Name = [], oc_Type = [], oc_Location = [],
     oc_Tags = None, oc_Properties = zero_Properties\<rparr>"

text \<open>The accesses the sources make most.\<close>

abbreviation oc_ProvisioningState :: "OpenShiftCluster \<Rightarrow> ProvisioningState" where
  "oc_ProvisioningState oc \<equiv> p_ProvisioningState (oc_Properties oc)"

abbreviation oc_FailedProvisioningState :: "OpenShiftCluster \<Rightarrow> ProvisioningState" where
  "oc_FailedProvisioningState oc \<equiv> p_FailedProvisioningState (oc_Properties oc)"

definition set_ProvisioningState :: "ProvisioningState \<Rightarrow> OpenShiftCluster \<Rightarrow> OpenShiftCluster" where
  "set_ProvisioningState s oc =
     oc\<lparr>oc_Properties := (oc_Properties oc)\<lparr>p_ProvisioningState := s\<rparr>\<rparr>"

definition set_FailedProvisioningState :: "ProvisioningState \<Rightarrow> OpenShiftCluster \<Rightarrow> OpenShiftCluster" where
  "set_FailedProvisioningState s oc =
     oc\<lparr>oc_Properties := (oc_Properties oc)\<lparr>p_FailedProvisioningState := s\<rparr>\<rparr>"

definition clear_ClientSecret :: "OpenShiftCluster \<Rightarrow> OpenShiftCluster" where
  "clear_ClientSecret oc =
     oc\<lparr>oc_Properties := (oc_Properties oc)\<lparr>p_ServicePrincipalProfile :=
       (p_ServicePrincipalProfile (oc_Properties oc))\<lparr>spp_ClientSecret := []\<rparr>\<rparr>\<rparr>"

lemma set_ProvisioningState_sels [simp]:
  "oc_ProvisioningState (set_ProvisioningState s oc) = s"
  "oc_FailedProvisioningState (set_ProvisioningState s oc) = oc_FailedProvisioningState oc"
  "oc_ID (set_ProvisioningState s oc) = oc_ID oc"
  "oc_Name (set_ProvisioningState s oc) = oc_Name oc"
  "oc_Type (set_ProvisioningState s oc) = oc_Type oc"
  by (simp_all add: set_ProvisioningState_def)

lemma set_FailedProvisioningState_sels [simp]:
  "oc_ProvisioningState (set_FailedProvisioningState s oc) = oc_ProvisioningState oc"
  "oc_FailedProvisioningState (set_FailedProvisioningState s oc) = s"
  "oc_ID (set_FailedProvisioningState s oc) = oc_ID oc"
  "oc_Name (set_FailedProvisioningState s oc) = oc_Name oc"
  "oc_Type (set_FailedProvisioningState s oc) = oc_Type oc"
  by (simp_all add: set_FailedProvisioningState_def)

lemma clear_ClientSecret_sels [simp]:
  "oc_ProvisioningState (clear_ClientSecret oc) = oc_ProvisioningState oc"
  "oc_FailedProvisioningState (clear_ClientSecret oc) = oc_FailedProvisioningState oc"
  "oc_ID (clear_ClientSecret oc) = oc_ID oc"
  "spp_ClientSecret (p_ServicePrincipalProfile (oc_Properties (clear_ClientSecret oc))) = []"
  by (simp_all add: clear_ClientSecret_def)

section \<open>Subscriptions and asynchronous operations\<close>

type_synonym SubscriptionState = string

definition SubscriptionStateRegistered :: SubscriptionState where
  "SubscriptionStateRegistered = ''Registered''"
definition SubscriptionStateUnregistered :: SubscriptionState where
  "SubscriptionStateUnregistered = ''Unregistered''"
definition SubscriptionStateWarned :: SubscriptionState where
  "SubscriptionStateWarned = ''Warned''"
definition SubscriptionStateSuspended :: SubscriptionState where
  "SubscriptionStateSuspended = ''Suspended''"
definition SubscriptionStateDeleted :: SubscriptionState where
  "SubscriptionStateDeleted = ''Deleted''"

lemmas SubscriptionState_defs =
  SubscriptionStateRegistered_def SubscriptionStateUnregistered_def SubscriptionStateWarned_def
  SubscriptionStateSuspended_def SubscriptionStateDeleted_def

record SubscriptionProperties =
  sp_MissingFields :: missing_fields
  sp_TenantID :: string

record Subscription =
  s_MissingFields :: missing_fields
  s_State :: SubscriptionState
  s_Properties :: "SubscriptionProperties option"

definition zero_Subscription :: Subscription where
  "zero_Subscription = \<lparr>s_MissingFields = None, s_State = [], s_Properties = None\<rparr>"

record AsyncOperation =
  ao_MissingFields :: missing_fields
  ao_ID :: string
  ao_Name :: string
  ao_InitialProvisioningState :: ProvisioningState
  ao_ProvisioningState :: ProvisioningState
  ao_StartTime :: int
  ao_EndTime :: "int option"
  ao_Error :: "cloud_error_body option"

section \<open>Documents\<close>

record OpenShiftClusterDocument =
  doc_MissingFields :: missing_fields
  doc_ID :: string
  doc_ResourceID :: string
  doc_Timestamp :: int
  doc_Self :: string
  doc_ETag :: string
  doc_Attachments :: string
  doc_Key :: string
  doc_PartitionKey :: string
  doc_ClusterResourceGroupIDKey :: string
  doc_LeaseOwner :: string
  doc_LeaseExpires :: int
  doc_Dequeues :: int
  doc_AsyncOperationID :: string
  doc_OpenShiftCluster :: OpenShiftCluster

record SubscriptionDocument =
  sd_MissingFields :: missing_fields
  sd_ID :: string
  sd_ResourceID :: string
  sd_Timestamp :: int
  sd_Self :: string
  sd_ETag :: string
  sd_Attachments :: string
  sd_LeaseOwner :: string
  sd_LeaseExpires :: int
  sd_Dequeues :: int
  sd_Deleting :: bool
  sd_Subscription :: Subscription

record AsyncOperationDocument =
  ad_MissingFields :: missing_fields
  ad_ID :: string
  ad_ResourceID :: string
  ad_Timestamp :: int
  ad_Self :: string
  ad_ETag :: string
  ad_Attachments :: string
  ad_AsyncOperation :: AsyncOperation
  ad_OpenShiftClusterKey :: string
  ad_OpenShiftCluster :: "OpenShiftCluster option"

text \<open>A page of documents: \<^verbatim>\<open>_count\<close>, \<^verbatim>\<open>_rid\<close> and \<^verbatim>\<open>Documents\<close>, the same for the three kinds.\<close>

record 'd Documents =
  ds_Count :: int
  ds_ResourceID :: string
  ds_Documents :: "'d list"

definition zero_OpenShiftClusterDocument :: OpenShiftClusterDocument where
  "zero_OpenShiftClusterDocument = \<lparr>
     doc_MissingFields = None, doc_ID = [], doc_ResourceID = [], doc_Timestamp = 0, doc_Self = [],
     doc_ETag = [], doc_Attachments = [], doc_Key = [], doc_PartitionKey = [],
     doc_ClusterResourceGroupIDKey = [], doc_LeaseOwner = [], doc_LeaseExpires = 0,
     doc_Dequeues = 0, doc_AsyncOperationID = [], doc_OpenShiftCluster = zero_OpenShiftCluster\<rparr>"

definition zero_SubscriptionDocument :: SubscriptionDocument where
  "zero_SubscriptionDocument = \<lparr>
     sd_MissingFields = None, sd_ID = [], sd_ResourceID = [], sd_Timestamp = 0, sd_Self = [],
     sd_ETag = [], sd_Attachments = [], sd_LeaseOwner = [], sd_LeaseExpires = 0, sd_Dequeues = 0,
     sd_Deleting = False, sd_Subscription = zero_Subscription\<rparr>"

section \<open>Operations of the provider\<close>

record Display =
  d_Provider :: string
  d_Resource :: string
  d_Operation :: string
  d_Description :: string

record Operation =
  op_Name :: string
  op_Display :: Display

record OperationList =
  ol_Operations :: "Operation list"

definition ExampleOperationListResponse :: OperationList where
  "ExampleOperationListResponse = \<lparr>ol_Operations = [
     \<lparr>op_Name = ''Microsoft.RedHatOpenShift/openShiftClusters/read'',
      op_Display = \<lparr>d_Provider = ''Azure Red Hat OpenShift'', d_Resource = ''openShiftClusters'',
        d_Operation = ''Read OpenShift cluster'', d_Description = []\<rparr>\<rparr>]\<rparr>"

section \<open>Install phases\<close>

definition InstallPhaseDeployStorage :: InstallPhase where "InstallPhaseDeployStorage = 0"
definition InstallPhaseDeployResources :: InstallPhase where "InstallPhaseDeployResources = 1"
definition InstallPhaseRemoveBootstrap :: InstallPhase where "InstallPhaseRemoveBootstrap = 2"

definition InstallPhaseName :: string where
  "InstallPhaseName =
     ''InstallPhaseDeployStorageInstallPhaseDeployResourcesInstallPhaseRemoveBootstrap''"

definition InstallPhaseIndex :: "nat list" where
  "InstallPhaseIndex = [0, 25, 52, 79]"

text \<open>Go's \<^verbatim>\<open>s[i:j]\<close>, for indices in range.\<close>

definition slice :: "string \<Rightarrow> nat \<Rightarrow> nat \<Rightarrow> string" where
  "slice s i j = take (j - i) (drop i s)"

definition InstallPhase_String :: "InstallPhase \<Rightarrow> string" where
  "InstallPhase_String i =
     (if i < 0 \<or> i \<ge> int (length InstallPhaseIndex) - 1
      then ''InstallPhase('' @ Itoa i @ '')''
      else slice InstallPhaseName (InstallPhaseIndex ! nat i) (InstallPhaseIndex ! (nat i + 1)))"

definition InstallPhaseValues :: "InstallPhase list" where
  "InstallPhaseValues = [0, 1, 2]"

definition InstallPhaseNameToValueMap :: "(string \<times> InstallPhase) list" where
  "InstallPhaseNameToValueMap =
     [(slice InstallPhaseName 0 25, 0), (slice InstallPhaseName 25 52, 1), (slice InstallPhaseName 52 79, 2)]"

definition InstallPhaseString :: "string \<Rightarrow> InstallPhase result" where
  "InstallPhaseString s =
     (case map_of InstallPhaseNameToValueMap s of
        Some v \<Rightarrow> Ok v
      | None \<Rightarrow> Err (ErrorfErr (Fmt ''%s does not belong to InstallPhase values'' [AStr s])))"

definition IsAInstallPhase :: "InstallPhase \<Rightarrow> bool" where
  "IsAInstallPhase i = list_ex (\<lambda>v. i = v) InstallPhaseValues"

definition InstallPhase_MarshalJSON :: "InstallPhase \<Rightarrow> json" where
  "InstallPhase_MarshalJSON p = JStr (InstallPhase_String p)"

text \<open>\<^verbatim>\<open>json.Unmarshal\<close> into a fresh string: a JSON null leaves the string empty.\<close>

definition unmarshal_string :: "json \<Rightarrow> string \<Rightarrow> string result" where
  "unmarshal_string j s =
     (case j of JStr t \<Rightarrow> Ok t | JNull \<Rightarrow> Ok s | _ \<Rightarrow> Err (ExternalErr ''json: cannot unmarshal into string''))"

definition InstallPhase_UnmarshalJSON :: "json \<Rightarrow> InstallPhase result" where
  "InstallPhase_UnmarshalJSON b = rbind (unmarshal_string b []) InstallPhaseString"

subsection \<open>The names are what the index table cuts out\<close>

lemma InstallPhase_names:
  "slice InstallPhaseName 0 25 = ''InstallPhaseDeployStorage''"
  "slice InstallPhaseName 25 52 = ''InstallPhaseDeployResources''"
  "slice InstallPhaseName 52 79 = ''InstallPhaseRemoveBootstrap''"
  by code_simp+

lemma IsAInstallPhase_iff: "IsAInstallPhase i \<longleftrightarrow> 0 \<le> i \<and> i < 3"
  by (auto simp: IsAInstallPhase_def InstallPhaseValues_def)

lemma InstallPhase_String_simps:
  "InstallPhase_String 0 = ''InstallPhaseDeployStorage''"
  "InstallPhase_String 1 = ''InstallPhaseDeployResources''"
  "InstallPhase_String 2 = ''InstallPhaseRemoveBootstrap''"
  "\<not> IsAInstallPhase i \<Longrightarrow> InstallPhase_String i = ''InstallPhase('' @ Itoa i @ '')''"
  by (simp_all add: InstallPhase_String_def InstallPhaseIndex_def InstallPhase_names IsAInstallPhase_iff)
    linarith

lemma InstallPhaseString_other:
  "InstallPhaseString (''InstallPhase('' @ s) =
     Err (ErrorfErr (Fmt ''%s does not belong to InstallPhase values'' [AStr (''InstallPhase('' @ s)]))"
  by (simp add: InstallPhaseString_def InstallPhaseNameToValueMap_def InstallPhase_names)

text \<open>
  Round trip of an install phase through its JSON encoding: a phase of the enumeration is
  read back as itself, and the encoding of any other integer is rejected with an error.
\<close>
theorem install_phase_roundtrip:
  "InstallPhase_UnmarshalJSON (InstallPhase_MarshalJSON p) =
     (if IsAInstallPhase p then Ok p
      else Err (ErrorfErr (Fmt ''%s does not belong to InstallPhase values'' [AStr (InstallPhase_String p)])))"
proof (cases "IsAInstallPhase p")
  case True
  then consider "p = 0" | "p = 1" | "p = 2"
    by (auto simp: IsAInstallPhase_def InstallPhaseValues_def)
  then show ?thesis
    using True
    by cases (simp_all add: InstallPhase_UnmarshalJSON_def InstallPhase_MarshalJSON_def
      unmarshal_string_def InstallPhase_String_simps InstallPhaseString_def
      InstallPhaseNameToValueMap_def InstallPhase_names)
next
  case False
  then show ?thesis
    using InstallPhaseString_other [of "Itoa p @ '')''"]
    by (simp add: InstallPhase_UnmarshalJSON_def InstallPhase_MarshalJSON_def unmarshal_string_def
      InstallPhase_String_simps(4))
qed

end
