(* ===== verification/Http.thy ===== *)
theory Http
  imports Api "HOL-Library.AList"
begin

text \<open>
  What the sources use of Go's \<^verbatim>\<open>net/http\<close>: headers with their canonical keys, requests and
  responses as the database client sends and receives them, and the response a front-end handler
  writes, with \<^verbatim>\<open>WriteError\<close> and \<^verbatim>\<open>WriteCloudError\<close> of \<^verbatim>\<open>src/pkg/api/error.go\<close>. The body of a
  request or response is of a type \<open>'b\<close> on which nothing is assumed.
\<close>

section \<open>Headers\<close>

type_synonym header = "(string \<times> string list) list"

definition is_upper :: "char \<Rightarrow> bool" where
  "is_upper c = (let n = (of_char c :: int) in 65 \<le> n \<and> n \<le> 90)"

definition is_lower :: "char \<Rightarrow> bool" where
  "is_lower c = (let n = (of_char c :: int) in 97 \<le> n \<and> n \<le> 122)"

definition to_upper_char :: "char \<Rightarrow> char" where
  "to_upper_char c = (if is_lower c then char_of ((of_char c :: int) - 32) else c)"

definition validHeaderFieldByte :: "char \<Rightarrow> bool" where
  "validHeaderFieldByte c =
     (is_upper c \<or> is_lower c \<or> (let n = (of_char c :: int) in 48 \<le> n \<and> n \<le> 57) \<or>
      c \<in> set (''!#$%&*+-.^_`|~'' @ sq))"

fun canonical_from :: "bool \<Rightarrow> string \<Rightarrow> string" where
  "canonical_from upper [] = []"
| "canonical_from upper (c # s) =
     (if upper then to_upper_char c else to_lower_char c) # canonical_from (c = CHR ''-'') s"

definition CanonicalMIMEHeaderKey :: "string \<Rightarrow> string" where
  "CanonicalMIMEHeaderKey s = (if list_all validHeaderFieldByte s then canonical_from True s else s)"

definition Header_Set :: "string \<Rightarrow> string \<Rightarrow> header \<Rightarrow> header" where
  "Header_Set k v h = AList.update (CanonicalMIMEHeaderKey k) [v] h"

definition Header_Get :: "header \<Rightarrow> string \<Rightarrow> string" where
  "Header_Get h k = (case map_of h (CanonicalMIMEHeaderKey k) of Some (v # _) \<Rightarrow> v | _ \<Rightarrow> [])"

lemma map_of_Header_Set [simp]:
  "map_of (Header_Set k v h) = (map_of h)(CanonicalMIMEHeaderKey k \<mapsto> [v])"
  by (simp add: Header_Set_def update_conv')

lemma Header_Get_Set:
  "Header_Get (Header_Set k v h) k' =
     (if CanonicalMIMEHeaderKey k' = CanonicalMIMEHeaderKey k then v else Header_Get h k')"
  by (simp add: Header_Get_def)

section \<open>Requests and responses\<close>

record 'b http_request =
  rq_Method :: string
  rq_URL :: string
  rq_Header :: header
  rq_Body :: "'b option"

record 'b http_response =
  rs_StatusCode :: int
  rs_Header :: header
  rs_Body :: 'b

definition MethodGet :: string where "MethodGet = ''GET''"
definition MethodPost :: string where "MethodPost = ''POST''"
definition MethodPut :: string where "MethodPut = ''PUT''"
definition MethodPatch :: string where "MethodPatch = ''PATCH''"
definition MethodDelete :: string where "MethodDelete = ''DELETE''"

lemmas Method_defs = MethodGet_def MethodPost_def MethodPut_def MethodPatch_def MethodDelete_def

section \<open>Writing a response\<close>

text \<open>
  The state of an \<^verbatim>\<open>http.ResponseWriter\<close>: the header map, the status code sent (none yet, or the
  first one written: \<^verbatim>\<open>net/http\<close> ignores a second \<^verbatim>\<open>WriteHeader\<close>), the pieces of body written, and the
  status code the front end's logging wrapper (\<^verbatim>\<open>logResponseWriter\<close>) has recorded, the last one given to \<^verbatim>\<open>WriteHeader\<close>.
  A write before a \<^verbatim>\<open>WriteHeader\<close> sends status 200. A piece of body is a JSON value or a cloud error.
\<close>

datatype 'b piece = PBody 'b | PCloudError int "cloud_error_body option" | PNewline

record 'b response_writer =
  rw_Header :: header
  rw_Status :: "int option"
  rw_Body :: "'b piece list"
  rw_Logged :: int

definition new_writer :: "'b response_writer" where
  "new_writer = \<lparr>rw_Header = [], rw_Status = None, rw_Body = [], rw_Logged = 200\<rparr>"

definition WriteHeader :: "int \<Rightarrow> 'b response_writer \<Rightarrow> 'b response_writer" where
  "WriteHeader statusCode w =
     (case rw_Status w of None \<Rightarrow> w\<lparr>rw_Status := Some statusCode, rw_Logged := statusCode\<rparr> | Some _ \<Rightarrow> w\<lparr>rw_Logged := statusCode\<rparr>)"

definition Write :: "'b piece \<Rightarrow> 'b response_writer \<Rightarrow> 'b response_writer" where
  "Write b w =
     w\<lparr>rw_Status := Some (case rw_Status w of None \<Rightarrow> 200 | Some s \<Rightarrow> s), rw_Body := rw_Body w @ [b]\<rparr>"

definition WriteCloudError :: "int \<Rightarrow> cloud_error_body option \<Rightarrow> 'b response_writer \<Rightarrow> 'b response_writer" where
  "WriteCloudError statusCode body w = Write (PCloudError statusCode body) (WriteHeader statusCode w)"

definition WriteError ::
    "int \<Rightarrow> string \<Rightarrow> string \<Rightarrow> string \<Rightarrow> fmt_arg list \<Rightarrow> 'b response_writer \<Rightarrow> 'b response_writer" where
  "WriteError statusCode code target message a w =
     WriteCloudError statusCode (Some (CloudErrorBody code (Fmt message a) target [])) w"

definition rw_code :: "'b response_writer \<Rightarrow> int" where
  "rw_code w = (case rw_Status w of None \<Rightarrow> 200 | Some s \<Rightarrow> s)"

lemma WriteHeader_status [simp]:
  "rw_Status (WriteHeader s w) = Some (case rw_Status w of None \<Rightarrow> s | Some s' \<Rightarrow> s')"
  by (simp add: WriteHeader_def split: option.splits)

lemma WriteHeader_other [simp]:
  "rw_Body (WriteHeader s w) = rw_Body w" "rw_Header (WriteHeader s w) = rw_Header w"
  by (simp_all add: WriteHeader_def split: option.splits)

lemma WriteHeader_logged [simp]: "rw_Logged (WriteHeader s w) = s"
  by (simp add: WriteHeader_def split: option.splits)

lemma Write_sels [simp]:
  "rw_Logged (Write b w) = rw_Logged w"
  "rw_Body (Write b w) = rw_Body w @ [b]" "rw_Header (Write b w) = rw_Header w"
  "rw_Status (Write b w) = Some (rw_code w)"
  by (simp_all add: Write_def Let_def rw_code_def)

lemma WriteError_sels [simp]:
  "rw_Logged (WriteError s c t m a w) = s"
  "rw_Status (WriteError s c t m a w) = Some (case rw_Status w of None \<Rightarrow> s | Some s' \<Rightarrow> s')"
  "rw_Header (WriteError s c t m a w) = rw_Header w"
  "rw_Body (WriteError s c t m a w) = rw_Body w @ [PCloudError s (Some (CloudErrorBody c (Fmt m a) t []))]"
  by (simp_all add: WriteError_def WriteCloudError_def rw_code_def)

end
