(* ===== verification/Cosmos.thy ===== *)
theory Cosmos
  imports Http
begin

text \<open>
  The Cosmos DB client, \<^verbatim>\<open>src/pkg/database/cosmosdb\<close>: the request loop with its 429 retries, the
  document clients (three generated files that differ in the document type only, so they are one
  group of definitions over the type), and the trigger, collection and database clients.

  The service behind the client is the parameter \<open>dc_Do\<close>, the JSON codec a record of parameters
  (\<open>codec\<close>), and so are the signature of a request (an HMAC over the text given here) and the
  clock. Sleeping changes nothing that is modelled. A list of pages is read until the service sends
  no continuation, which it need not ever do: that loop takes fuel.
\<close>

section \<open>Options and errors\<close>

record Options =
  opt_NoETag :: bool
  opt_PreTriggers :: "string list"
  opt_PostTriggers :: "string list"
  opt_PartitionKeyRangeID :: string

definition zero_Options :: Options where
  "zero_Options = \<lparr>opt_NoETag = False, opt_PreTriggers = [], opt_PostTriggers = [], opt_PartitionKeyRangeID = []\<rparr>"

definition Error_Error :: "int \<Rightarrow> string \<Rightarrow> string \<Rightarrow> message" where
  "Error_Error statusCode code msg = Fmt ''%d %s: %s'' [AInt statusCode, AStr code, AStr msg]"

definition IsErrorStatusCode :: "error \<Rightarrow> int \<Rightarrow> bool" where
  "IsErrorStatusCode err statusCode = (case err of CosmosErr s _ _ \<Rightarrow> s = statusCode | _ \<Rightarrow> False)"

text \<open>The same of a result: a nil error has no status code.\<close>

definition is_status :: "'a result \<Rightarrow> int \<Rightarrow> bool" where
  "is_status r statusCode = (case r of Err e \<Rightarrow> IsErrorStatusCode e statusCode | _ \<Rightarrow> False)"

lemma is_status_simps [simp, result_simps]:
  "\<not> is_status (Ok a) s" "\<not> is_status (Panic p) s" "is_status (Err e) s = IsErrorStatusCode e s"
  by (simp_all add: is_status_def)

lemma IsErrorStatusCode_simps [simp]:
  "IsErrorStatusCode (CosmosErr s c m) s' \<longleftrightarrow> s = s'" "\<not> IsErrorStatusCode (CloudErr s b) s'"
  "\<not> IsErrorStatusCode (StatusCodeErr s) s'" "\<not> IsErrorStatusCode (ErrorfErr f) s'"
  "\<not> IsErrorStatusCode (ExternalErr x) s'" "\<not> IsErrorStatusCode ETagRequiredErr s'"
  by (simp_all add: IsErrorStatusCode_def)

lemma IsErrorStatusCode_NewCloudError [simp]: "\<not> IsErrorStatusCode (NewCloudError s c t m a) s'"
  by (simp add: NewCloudError_def)

section \<open>Retrying on a failed precondition\<close>

text \<open>\<open>retry_loop f n\<close> makes at most \<open>n + 1\<close> attempts; the last one's result is returned as it is.\<close>

fun retry_loop :: "('s, 'a) go \<Rightarrow> nat \<Rightarrow> ('s, 'a) go" where
  "retry_loop f 0 s = f s"
| "retry_loop f (Suc n) s =
     (case f s of (r, s') \<Rightarrow> if \<not> is_status r 412 then (r, s') else retry_loop f n s')"

definition RetryOnPreconditionFailed :: "('s, 'a) go \<Rightarrow> ('s, 'a) go" where
  "RetryOnPreconditionFailed f = retry_loop f 4"

section \<open>The request loop\<close>

record ('b, 'w) databaseClient =
  dc_NewRequest :: "string \<Rightarrow> unit result"
  dc_Do :: "'b http_request \<Rightarrow> ('w, 'b http_response) go"
  dc_date :: "'w \<Rightarrow> string"
  dc_sign :: "string \<Rightarrow> string \<Rightarrow> string"
  dc_decodeError :: "'b \<Rightarrow> string \<times> string"
  dc_databaseAccount :: string
  dc_masterKey :: string
  dc_maxRetries :: nat

definition authorizeRequest ::
    "('b, 'w) databaseClient \<Rightarrow> 'w \<Rightarrow> 'b http_request \<Rightarrow> string \<Rightarrow> string \<Rightarrow> 'b http_request" where
  "authorizeRequest c w req resourceType resourceLink =
     (let date = dc_date c w; nl = [CHR 0x0A];
          sig = dc_sign c (dc_masterKey c)
            (ToLower (rq_Method req) @ nl @ resourceType @ nl @ resourceLink @ nl @ ToLower date @ nl @ nl) in
      req\<lparr>rq_Header := Header_Set ''x-ms-date'' date (Header_Set ''Authorization'' sig (rq_Header req))\<rparr>)"

text \<open>\<^verbatim>\<open>strconv.ParseInt(s, 10, 0)\<close>: decimal digits with an optional sign, in 64 bits.\<close>

fun parse_digits :: "int \<Rightarrow> string \<Rightarrow> int option" where
  "parse_digits n [] = Some n"
| "parse_digits n (c # s) =
     (let d = (of_char c :: int) in if 48 \<le> d \<and> d \<le> 57 then parse_digits (10 * n + (d - 48)) s else None)"

definition ParseInt :: "string \<Rightarrow> int result" where
  "ParseInt s =
     (let bad = Err (ExternalErr ''strconv.ParseInt'');
          neg = (case s of c # _ \<Rightarrow> c = CHR ''-'' | [] \<Rightarrow> False);
          t = (case s of c # u \<Rightarrow> if c = CHR ''-'' \<or> c = CHR ''+'' then u else s | [] \<Rightarrow> []) in
      if t = [] then bad
      else case parse_digits 0 t of
             None \<Rightarrow> bad
           | Some n \<Rightarrow>
               (let i = (if neg then - n else n) in
                if - (2 ^ 63) \<le> i \<and> i < 2 ^ 63 then Ok i else bad))"

text \<open>
  \<open>inp\<close> is the encoded input, none if the call has none; \<open>out\<close> is the decoder of the output, none if
  the caller wants none. Decoding delivers nil for a JSON null.
\<close>

definition new_headers :: "'x option \<Rightarrow> header option \<Rightarrow> header" where
  "new_headers inp headers =
     Header_Set ''x-ms-version'' ''2018-12-31''
       (fold (\<lambda>(k, v) h. AList.update (CanonicalMIMEHeaderKey k) v h)
          (case headers of None \<Rightarrow> [] | Some hs \<Rightarrow> hs)
          (case inp of None \<Rightarrow> [] | Some _ \<Rightarrow> Header_Set ''Content-Type'' ''application/json'' []))"

definition build_request ::
    "('b, 'w) databaseClient \<Rightarrow> 'w \<Rightarrow> string \<Rightarrow> string \<Rightarrow> string \<Rightarrow> string \<Rightarrow> 'b option \<Rightarrow> header option \<Rightarrow>
     'b http_request" where
  "build_request c w method path resourceType resourceLink body headers =
     authorizeRequest c w
       \<lparr>rq_Method = method, rq_URL = ''https://'' @ dc_databaseAccount c @ ''.documents.azure.com/'' @ path,
        rq_Header = new_headers body headers, rq_Body = body\<rparr> resourceType resourceLink"

definition receive ::
    "('b, 'w) databaseClient \<Rightarrow> int \<Rightarrow> ('b \<Rightarrow> 'o option result) option \<Rightarrow> 'b http_response \<Rightarrow> 'o option result" where
  "receive c expectedStatusCode out resp =
     (if rs_StatusCode resp \<noteq> expectedStatusCode
      then (if Header_Get (rs_Header resp) ''Content-Type'' = ''application/json''
            then Err (case dc_decodeError c (rs_Body resp) of (code, msg) \<Rightarrow> CosmosErr (rs_StatusCode resp) code msg)
            else Err (CosmosErr (rs_StatusCode resp) [] []))
      else case out of
             Some dec \<Rightarrow>
               if Header_Get (rs_Header resp) ''Content-Type'' = ''application/json''
               then dec (rs_Body resp) else Ok None
           | None \<Rightarrow> Ok None)"

definition do_once ::
    "('b, 'w) databaseClient \<Rightarrow> string \<Rightarrow> string \<Rightarrow> string \<Rightarrow> string \<Rightarrow> int \<Rightarrow> 'b result option \<Rightarrow>
     ('b \<Rightarrow> 'o option result) option \<Rightarrow> header option \<Rightarrow> 'w \<Rightarrow>
     ('b http_response option \<times> 'o option result) \<times> 'w" where
  "do_once c method path resourceType resourceLink expectedStatusCode inp out headers w =
     (case dc_NewRequest c (''https://'' @ dc_databaseAccount c @ ''.documents.azure.com/'' @ path) of
        Err e \<Rightarrow> ((None, Err e), w)
      | Panic p \<Rightarrow> ((None, Panic p), w)
      | Ok _ \<Rightarrow>
          (case (case inp of None \<Rightarrow> Ok None | Some r \<Rightarrow> rbind r (\<lambda>b. Ok (Some b))) of
             Err e \<Rightarrow> ((None, Err e), w)
           | Panic p \<Rightarrow> ((None, Panic p), w)
           | Ok body \<Rightarrow>
               (case dc_Do c (build_request c w method path resourceType resourceLink body headers) w of
                  (Err e, w') \<Rightarrow> ((None, Err e), w')
                | (Panic p, w') \<Rightarrow> ((None, Panic p), w')
                | (Ok resp, w') \<Rightarrow> ((Some resp, receive c expectedStatusCode out resp), w'))))"

text \<open>
  \<open>do_loop once n last\<close>: the attempts that are left. The result is either an early return (the
  \<^verbatim>\<open>err2\<close> of a malformed \<^verbatim>\<open>x-ms-retry-after-ms\<close>) or the response and error of the last attempt.
\<close>

fun do_loop ::
    "('w \<Rightarrow> ('b http_response option \<times> 'o option result) \<times> 'w) \<Rightarrow> nat \<Rightarrow>
     'b http_response option \<times> 'o option result \<Rightarrow> 'w \<Rightarrow>
     (error + 'b http_response option \<times> 'o option result) \<times> 'w" where
  "do_loop once 0 prev w = (Inr prev, w)"
| "do_loop once (Suc n) prev w =
     (case once w of ((resp, r), w') \<Rightarrow>
        if \<not> is_status r 429 then (Inr (resp, r), w')
        else case ParseInt (case resp of None \<Rightarrow> [] | Some rs \<Rightarrow> Header_Get (rs_Header rs) ''x-ms-retry-after-ms'') of
               Err e \<Rightarrow> (Inl e, w')
             | _ \<Rightarrow> do_loop once n (resp, r) w')"

definition do ::
    "('b, 'w) databaseClient \<Rightarrow> string \<Rightarrow> string \<Rightarrow> string \<Rightarrow> string \<Rightarrow> int \<Rightarrow> 'b result option \<Rightarrow>
     ('b \<Rightarrow> 'o option result) option \<Rightarrow> header option \<Rightarrow> 'w \<Rightarrow>
     ('o option result \<times> header option) \<times> 'w" where
  "do c method path resourceType resourceLink expectedStatusCode inp out headers w =
     (case do_loop (do_once c method path resourceType resourceLink expectedStatusCode inp out headers)
             (dc_maxRetries c) (None, Ok None) w of
        (Inl e, w') \<Rightarrow> ((Err e, headers), w')
      | (Inr (resp, r), w') \<Rightarrow>
          ((r, (case (resp, headers) of (Some rs, Some _) \<Rightarrow> Some (rs_Header rs) | _ \<Rightarrow> headers)), w'))"

text \<open>A call that has no use for the response's headers.\<close>

definition do_req ::
    "('b, 'w) databaseClient \<Rightarrow> string \<Rightarrow> string \<Rightarrow> string \<Rightarrow> string \<Rightarrow> int \<Rightarrow> 'b result option \<Rightarrow>
     ('b \<Rightarrow> 'o option result) option \<Rightarrow> header option \<Rightarrow> ('w, 'o option) go" where
  "do_req c method path resourceType resourceLink expectedStatusCode inp out headers w =
     (case do c method path resourceType resourceLink expectedStatusCode inp out headers w of
        ((r, _), w') \<Rightarrow> (r, w'))"

definition default_maxRetries :: nat where
  "default_maxRetries = 10"

text \<open>\<^verbatim>\<open>NewDatabaseClient\<close>: \<open>b64\<close> decodes the key.\<close>

definition NewDatabaseClient ::
    "(string \<Rightarrow> string result) \<Rightarrow> ('b, 'w) databaseClient \<Rightarrow> string \<Rightarrow> string \<Rightarrow> ('b, 'w) databaseClient result" where
  "NewDatabaseClient b64 lib databaseAccount masterKey =
     rbind (b64 masterKey) (\<lambda>k. Ok (lib\<lparr>dc_databaseAccount := databaseAccount, dc_masterKey := k,
        dc_maxRetries := default_maxRetries\<rparr>))"


section \<open>Document clients\<close>

record Parameter =
  par_Name :: string
  par_Value :: string

record Query =
  q_Query :: string
  q_Parameters :: "Parameter list"

text \<open>What a generated document client knows of its document type: two fields and the codec.\<close>

record ('b, 'd) codec =
  cd_ID :: "'d \<Rightarrow> string"
  cd_ETag :: "'d \<Rightarrow> string"
  cd_Encode :: "'d \<Rightarrow> 'b result"
  cd_EncodeQuery :: "Query \<Rightarrow> 'b result"
  cd_Decode :: "'b \<Rightarrow> 'd option result"
  cd_DecodeAll :: "'b \<Rightarrow> 'd Documents option result"

record ('b, 'd, 'w) documentClient =
  d_databaseClient :: "('b, 'w) databaseClient"
  d_codec :: "('b, 'd) codec"
  d_path :: string

record DocumentIterator =
  it_partitionkey :: string
  it_query :: Query
  it_continuation :: string
  it_done :: bool
  it_options :: "Options option"

definition Join_comma :: "string list \<Rightarrow> string" where
  "Join_comma xs = Join CHR '','' xs"

definition setOptions :: "('d \<Rightarrow> string) \<Rightarrow> Options option \<Rightarrow> 'd option \<Rightarrow> header \<Rightarrow> header result" where
  "setOptions etag options doc headers =
     (case options of
        None \<Rightarrow> Ok headers
      | Some o' \<Rightarrow>
          rbind (case doc of
                   Some d \<Rightarrow>
                     if \<not> opt_NoETag o'
                     then (if etag d = [] then Err ETagRequiredErr else Ok (Header_Set ''If-Match'' (etag d) headers))
                     else Ok headers
                 | None \<Rightarrow> Ok headers) (\<lambda>h.
          let h = (if opt_PreTriggers o' \<noteq> []
                   then Header_Set ''X-Ms-Documentdb-Pre-Trigger-Include'' (Join_comma (opt_PreTriggers o')) h else h);
              h = (if opt_PostTriggers o' \<noteq> []
                   then Header_Set ''X-Ms-Documentdb-Post-Trigger-Include'' (Join_comma (opt_PostTriggers o')) h else h);
              h = (if opt_PartitionKeyRangeID o' \<noteq> []
                   then Header_Set ''X-Ms-Documentdb-PartitionKeyRangeID'' (opt_PartitionKeyRangeID o') h else h) in
          Ok h))"

definition partition_header :: "string \<Rightarrow> string" where
  "partition_header partitionkey = ''[\"'' @ partitionkey @ ''\"]''"

definition document_Create ::
    "('b, 'd, 'w) documentClient \<Rightarrow> string \<Rightarrow> 'd \<Rightarrow> Options option \<Rightarrow> ('w, 'd option) go" where
  "document_Create c partitionkey newdoc options w =
     (let headers = Header_Set ''X-Ms-Documentdb-Partitionkey'' (partition_header partitionkey) [];
          options = Some ((case options of None \<Rightarrow> zero_Options | Some o' \<Rightarrow> o')\<lparr>opt_NoETag := True\<rparr>) in
      case setOptions (cd_ETag (d_codec c)) options (Some newdoc) headers of
        Err e \<Rightarrow> (Err e, w)
      | Panic p \<Rightarrow> (Panic p, w)
      | Ok headers \<Rightarrow>
          do_req (d_databaseClient c) MethodPost (d_path c @ ''/docs'') ''docs'' (d_path c) 201
            (Some (cd_Encode (d_codec c) newdoc)) (Some (cd_Decode (d_codec c))) (Some headers) w)"

definition document_Get ::
    "('b, 'd, 'w) documentClient \<Rightarrow> string \<Rightarrow> string \<Rightarrow> Options option \<Rightarrow> ('w, 'd option) go" where
  "document_Get c partitionkey id' options w =
     (let headers = Header_Set ''X-Ms-Documentdb-Partitionkey'' (partition_header partitionkey) [];
          link = d_path c @ ''/docs/'' @ id' in
      case setOptions (cd_ETag (d_codec c)) options None headers of
        Err e \<Rightarrow> (Err e, w)
      | Panic p \<Rightarrow> (Panic p, w)
      | Ok headers \<Rightarrow>
          do_req (d_databaseClient c) MethodGet link ''docs'' link 200
            None (Some (cd_Decode (d_codec c))) (Some headers) w)"

definition document_Replace ::
    "('b, 'd, 'w) documentClient \<Rightarrow> string \<Rightarrow> 'd \<Rightarrow> Options option \<Rightarrow> ('w, 'd option) go" where
  "document_Replace c partitionkey newdoc options w =
     (let headers = Header_Set ''X-Ms-Documentdb-Partitionkey'' (partition_header partitionkey) [];
          link = d_path c @ ''/docs/'' @ cd_ID (d_codec c) newdoc in
      case setOptions (cd_ETag (d_codec c)) options (Some newdoc) headers of
        Err e \<Rightarrow> (Err e, w)
      | Panic p \<Rightarrow> (Panic p, w)
      | Ok headers \<Rightarrow>
          do_req (d_databaseClient c) MethodPut link ''docs'' link 200
            (Some (cd_Encode (d_codec c) newdoc)) (Some (cd_Decode (d_codec c))) (Some headers) w)"

definition document_Delete ::
    "('b, 'd, 'w) documentClient \<Rightarrow> string \<Rightarrow> 'd \<Rightarrow> Options option \<Rightarrow> ('w, unit) go" where
  "document_Delete c partitionkey doc options w =
     (let headers = Header_Set ''X-Ms-Documentdb-Partitionkey'' (partition_header partitionkey) [];
          link = d_path c @ ''/docs/'' @ cd_ID (d_codec c) doc in
      case setOptions (cd_ETag (d_codec c)) options (Some doc) headers of
        Err e \<Rightarrow> (Err e, w)
      | Panic p \<Rightarrow> (Panic p, w)
      | Ok headers \<Rightarrow>
          gbind (do_req (d_databaseClient c) MethodDelete link ''docs'' link 204
                   None (None :: ('b \<Rightarrow> unit option result) option) (Some headers)) (\<lambda>_. greturn ()) w)"

subsection \<open>Iterators\<close>

definition document_Query :: "string \<Rightarrow> Query \<Rightarrow> Options option \<Rightarrow> DocumentIterator" where
  "document_Query partitionkey query options =
     \<lparr>it_partitionkey = partitionkey, it_query = query, it_continuation = [], it_done = False, it_options = options\<rparr>"

text \<open>
  One page of an iterator: the page (nil when the iterator is done) and the iterator after it. On an
  error the iterator is unchanged. \<open>page_request\<close> is what the two raw iterators share: the call, the
  continuation read from the response's headers, and the end of the list.
\<close>

definition page_request ::
    "('b, 'd, 'w) documentClient \<Rightarrow> string \<Rightarrow> 'b result option \<Rightarrow> header \<Rightarrow> DocumentIterator \<Rightarrow>
     ('w, 'd Documents option \<times> DocumentIterator) go" where
  "page_request c method inp headers i w =
     (case setOptions (cd_ETag (d_codec c)) (it_options i) None headers of
        Err e \<Rightarrow> (Err e, w)
      | Panic p \<Rightarrow> (Panic p, w)
      | Ok headers \<Rightarrow>
          (case do (d_databaseClient c) method (d_path c @ ''/docs'') ''docs'' (d_path c) 200 inp
                  (Some (cd_DecodeAll (d_codec c))) (Some headers) w of
             ((Ok docs, hs), w') \<Rightarrow>
               (let cont = Header_Get (case hs of None \<Rightarrow> [] | Some h \<Rightarrow> h) ''X-Ms-Continuation'' in
                (Ok (docs, i\<lparr>it_continuation := cont, it_done := (cont = [])\<rparr>), w'))
           | ((Err e, _), w') \<Rightarrow> (Err e, w')
           | ((Panic p, _), w') \<Rightarrow> (Panic p, w')))"

definition query_NextRaw ::
    "('b, 'd, 'w) documentClient \<Rightarrow> DocumentIterator \<Rightarrow> ('w, 'd Documents option \<times> DocumentIterator) go" where
  "query_NextRaw c i w =
     (if it_done i then (Ok (None, i), w)
      else
        let h = Header_Set ''Content-Type'' ''application/query+json''
              (Header_Set ''X-Ms-Documentdb-Isquery'' ''True'' (Header_Set ''X-Ms-Max-Item-Count'' ''-1'' []));
            h = (if it_partitionkey i \<noteq> []
                 then Header_Set ''X-Ms-Documentdb-Partitionkey'' (partition_header (it_partitionkey i)) h
                 else Header_Set ''X-Ms-Documentdb-Query-Enablecrosspartition'' ''True'' h);
            h = (if it_continuation i \<noteq> [] then Header_Set ''X-Ms-Continuation'' (it_continuation i) h else h) in
        page_request c MethodPost (Some (cd_EncodeQuery (d_codec c) (it_query i))) h i w)"

definition list_NextRaw ::
    "('b, 'd, 'w) documentClient \<Rightarrow> DocumentIterator \<Rightarrow> ('w, 'd Documents option \<times> DocumentIterator) go" where
  "list_NextRaw c i w =
     (if it_done i then (Ok (None, i), w)
      else
        let h = Header_Set ''X-Ms-Max-Item-Count'' ''-1'' [];
            h = (if it_continuation i \<noteq> [] then Header_Set ''X-Ms-Continuation'' (it_continuation i) h else h) in
        page_request c MethodGet None h i w)"

definition document_List :: "Options option \<Rightarrow> DocumentIterator" where
  "document_List options = document_Query [] \<lparr>q_Query = [], q_Parameters = []\<rparr> options"

text \<open>The change feed: its options are never set, and \<^verbatim>\<open>304 Not Modified\<close> is an empty page.\<close>

definition document_ChangeFeed :: "Options option \<Rightarrow> DocumentIterator" where
  "document_ChangeFeed options = document_List None"

definition changefeed_Next ::
    "('b, 'd, 'w) documentClient \<Rightarrow> DocumentIterator \<Rightarrow> ('w, 'd Documents option \<times> DocumentIterator) go" where
  "changefeed_Next c i w =
     (let h = Header_Set ''X-Ms-Max-Item-Count'' ''-1'' (Header_Set ''A-IM'' ''Incremental feed'' []);
          h = (if it_continuation i \<noteq> [] then Header_Set ''If-None-Match'' (it_continuation i) h else h) in
      case setOptions (cd_ETag (d_codec c)) (it_options i) None h of
        Err e \<Rightarrow> (Err e, w)
      | Panic p \<Rightarrow> (Panic p, w)
      | Ok headers \<Rightarrow>
          (case do (d_databaseClient c) MethodGet (d_path c @ ''/docs'') ''docs'' (d_path c) 200 None
                  (Some (cd_DecodeAll (d_codec c))) (Some headers) w of
             ((r, hs), w') \<Rightarrow>
               (case (if is_status r 304 then Ok None else r) of
                  Ok docs \<Rightarrow>
                    (Ok (docs, i\<lparr>it_continuation := Header_Get (case hs of None \<Rightarrow> [] | Some h \<Rightarrow> h) ''Etag''\<rparr>), w')
                | Err e \<Rightarrow> (Err e, w')
                | Panic p \<Rightarrow> (Panic p, w'))))"

text \<open>
  \<open>all_loop next n\<close> reads pages until the iterator is done, at most \<open>n\<close> of them; running out of fuel
  stands for a loop that is still running.
\<close>

definition still_running :: "'a result" where
  "still_running = Panic ''still running''"

definition append_page :: "'d Documents \<Rightarrow> 'd Documents \<Rightarrow> 'd Documents" where
  "append_page acc page =
     \<lparr>ds_Count = ds_Count acc + ds_Count page, ds_ResourceID = ds_ResourceID page,
      ds_Documents = ds_Documents acc @ ds_Documents page\<rparr>"

fun all_loop ::
    "('i \<Rightarrow> ('w, 'd Documents option \<times> 'i) go) \<Rightarrow> nat \<Rightarrow> 'd Documents \<Rightarrow> 'i \<Rightarrow> ('w, 'd Documents) go" where
  "all_loop next 0 acc i w = (still_running, w)"
| "all_loop next (Suc n) acc i w =
     (case next i w of
        (Err e, w') \<Rightarrow> (Err e, w')
      | (Panic p, w') \<Rightarrow> (Panic p, w')
      | (Ok (None, _), w') \<Rightarrow> (Ok acc, w')
      | (Ok (Some page, i'), w') \<Rightarrow> all_loop next n (append_page acc page) i' w')"

definition all_docs ::
    "nat \<Rightarrow> ('i \<Rightarrow> ('w, 'd Documents option \<times> 'i) go) \<Rightarrow> 'i \<Rightarrow> ('w, 'd Documents) go" where
  "all_docs fuel next i = all_loop next fuel \<lparr>ds_Count = 0, ds_ResourceID = [], ds_Documents = []\<rparr> i"

definition document_QueryAll ::
    "nat \<Rightarrow> ('b, 'd, 'w) documentClient \<Rightarrow> string \<Rightarrow> Query \<Rightarrow> Options option \<Rightarrow> ('w, 'd Documents) go" where
  "document_QueryAll fuel c partitionkey query options =
     all_docs fuel (query_NextRaw c) (document_Query partitionkey query options)"

definition document_ListAll ::
    "nat \<Rightarrow> ('b, 'd, 'w) documentClient \<Rightarrow> Options option \<Rightarrow> ('w, 'd Documents) go" where
  "document_ListAll fuel c options = all_docs fuel (list_NextRaw c) (document_List options)"


section \<open>Trigger, collection and database clients\<close>

text \<open>
  The three generated clients for the containers of documents are one template: \<open>base\<close> is the path of
  the parent, \<open>kind\<close> the path element. A container's iterator has no options and no query. Databases
  have no parent: their path is just the kind.
\<close>

definition child :: "string \<Rightarrow> string \<Rightarrow> string" where
  "child base kind = (if base = [] then kind else base @ ''/'' @ kind)"

definition container_Create ::
    "('b, 'w) databaseClient \<Rightarrow> string \<Rightarrow> string \<Rightarrow> 'b result \<Rightarrow> ('b \<Rightarrow> 'o option result) \<Rightarrow> ('w, 'o option) go" where
  "container_Create c base kind inp dec =
     do_req c MethodPost (child base kind) kind base 201 (Some inp) (Some dec) None"

definition container_Get ::
    "('b, 'w) databaseClient \<Rightarrow> string \<Rightarrow> string \<Rightarrow> string \<Rightarrow> ('b \<Rightarrow> 'o option result) \<Rightarrow> ('w, 'o option) go" where
  "container_Get c base kind id' dec =
     (let link = child base kind @ ''/'' @ id' in do_req c MethodGet link kind link 200 None (Some dec) None)"

definition container_Delete ::
    "('b, 'w) databaseClient \<Rightarrow> string \<Rightarrow> string \<Rightarrow> string \<Rightarrow> string \<Rightarrow> ('w, unit) go" where
  "container_Delete c base kind id' etag w =
     (if etag = [] then (Err ETagRequiredErr, w)
      else
        let link = child base kind @ ''/'' @ id' in
        gbind (do_req c MethodDelete link kind link 204 None (None :: ('b \<Rightarrow> unit option result) option)
                 (Some (Header_Set ''If-Match'' etag []))) (\<lambda>_. greturn ()) w)"

definition container_Replace ::
    "('b, 'w) databaseClient \<Rightarrow> string \<Rightarrow> string \<Rightarrow> string \<Rightarrow> 'b result \<Rightarrow> ('b \<Rightarrow> 'o option result) \<Rightarrow>
     ('w, 'o option) go" where
  "container_Replace c base kind id' inp dec =
     (let link = child base kind @ ''/'' @ id' in do_req c MethodPost link kind link 201 (Some inp) (Some dec) None)"

record ContainerIterator =
  ci_continuation :: string
  ci_done :: bool

definition container_List :: ContainerIterator where
  "container_List = \<lparr>ci_continuation = [], ci_done = False\<rparr>"

definition container_Next ::
    "('b, 'w) databaseClient \<Rightarrow> string \<Rightarrow> string \<Rightarrow> ('b \<Rightarrow> 'd Documents option result) \<Rightarrow> ContainerIterator \<Rightarrow>
     ('w, 'd Documents option \<times> ContainerIterator) go" where
  "container_Next c base kind dec i w =
     (if ci_done i then (Ok (None, i), w)
      else
        let h = (if ci_continuation i \<noteq> [] then Header_Set ''X-Ms-Continuation'' (ci_continuation i) [] else []) in
        case do c MethodGet (child base kind) kind base 200 None (Some dec) (Some h) w of
          ((Ok xs, hs), w') \<Rightarrow>
            (let cont = Header_Get (case hs of None \<Rightarrow> [] | Some h \<Rightarrow> h) ''X-Ms-Continuation'' in
             (Ok (xs, i\<lparr>ci_continuation := cont, ci_done := (cont = [])\<rparr>), w'))
        | ((Err e, _), w') \<Rightarrow> (Err e, w')
        | ((Panic p, _), w') \<Rightarrow> (Panic p, w'))"

definition container_ListAll ::
    "nat \<Rightarrow> ('b, 'w) databaseClient \<Rightarrow> string \<Rightarrow> string \<Rightarrow> ('b \<Rightarrow> 'd Documents option result) \<Rightarrow> ('w, 'd Documents) go" where
  "container_ListAll fuel c base kind dec = all_docs fuel (container_Next c base kind dec) container_List"

record Trigger =
  tr_ID :: string
  tr_ResourceID :: string
  tr_Timestamp :: int
  tr_Self :: string
  tr_ETag :: string
  tr_Body :: string
  tr_TriggerOperation :: string
  tr_TriggerType :: string

definition TriggerOperationAll :: string where "TriggerOperationAll = ''All''"
definition TriggerTypePre :: string where "TriggerTypePre = ''Pre''"

definition zero_Trigger :: Trigger where
  "zero_Trigger = \<lparr>tr_ID = [], tr_ResourceID = [], tr_Timestamp = 0, tr_Self = [], tr_ETag = [], tr_Body = [],
     tr_TriggerOperation = [], tr_TriggerType = []\<rparr>"

record 'b trigger_codec =
  tc_Encode :: "Trigger \<Rightarrow> 'b result"
  tc_Decode :: "'b \<Rightarrow> Trigger option result"
  tc_DecodeAll :: "'b \<Rightarrow> Trigger Documents option result"

definition collection_path :: "string \<Rightarrow> string" where
  "collection_path dbid = ''dbs/'' @ dbid"

definition document_path :: "string \<Rightarrow> string \<Rightarrow> string" where
  "document_path collc_path collid = collc_path @ ''/colls/'' @ collid"

definition NewDocumentClient ::
    "('b, 'w) databaseClient \<Rightarrow> ('b, 'd) codec \<Rightarrow> string \<Rightarrow> string \<Rightarrow> ('b, 'd, 'w) documentClient" where
  "NewDocumentClient dbc cd collc_path collid =
     \<lparr>d_databaseClient = dbc, d_codec = cd, d_path = document_path collc_path collid\<rparr>"

definition trigger_Create ::
    "('b, 'w) databaseClient \<Rightarrow> 'b trigger_codec \<Rightarrow> string \<Rightarrow> Trigger \<Rightarrow> ('w, Trigger option) go" where
  "trigger_Create c tc path newtrigger = container_Create c path ''triggers'' (tc_Encode tc newtrigger) (tc_Decode tc)"

definition trigger_Get ::
    "('b, 'w) databaseClient \<Rightarrow> 'b trigger_codec \<Rightarrow> string \<Rightarrow> string \<Rightarrow> ('w, Trigger option) go" where
  "trigger_Get c tc path triggerid = container_Get c path ''triggers'' triggerid (tc_Decode tc)"

definition trigger_Delete :: "('b, 'w) databaseClient \<Rightarrow> string \<Rightarrow> Trigger \<Rightarrow> ('w, unit) go" where
  "trigger_Delete c path trigger = container_Delete c path ''triggers'' (tr_ID trigger) (tr_ETag trigger)"

definition trigger_Replace ::
    "('b, 'w) databaseClient \<Rightarrow> 'b trigger_codec \<Rightarrow> string \<Rightarrow> Trigger \<Rightarrow> ('w, Trigger option) go" where
  "trigger_Replace c tc path newtrigger =
     container_Replace c path ''triggers'' (tr_ID newtrigger) (tc_Encode tc newtrigger) (tc_Decode tc)"

definition trigger_ListAll ::
    "nat \<Rightarrow> ('b, 'w) databaseClient \<Rightarrow> 'b trigger_codec \<Rightarrow> string \<Rightarrow> ('w, Trigger Documents) go" where
  "trigger_ListAll fuel c tc path = container_ListAll fuel c path ''triggers'' (tc_DecodeAll tc)"

text \<open>Collections and databases, of which the clients use the identifier and the entity tag.\<close>

record 'b container_codec =
  cc_Decode :: "'b \<Rightarrow> (string \<times> string) option result"
  cc_DecodeAll :: "'b \<Rightarrow> (string \<times> string) Documents option result"
  cc_Encode :: "string \<times> string \<Rightarrow> 'b result"

definition collection_Create ::
    "('b, 'w) databaseClient \<Rightarrow> 'b container_codec \<Rightarrow> string \<Rightarrow> string \<times> string \<Rightarrow> ('w, (string \<times> string) option) go" where
  "collection_Create c cc path newcoll = container_Create c path ''colls'' (cc_Encode cc newcoll) (cc_Decode cc)"

definition collection_Get ::
    "('b, 'w) databaseClient \<Rightarrow> 'b container_codec \<Rightarrow> string \<Rightarrow> string \<Rightarrow> ('w, (string \<times> string) option) go" where
  "collection_Get c cc path collid = container_Get c path ''colls'' collid (cc_Decode cc)"

definition collection_Delete :: "('b, 'w) databaseClient \<Rightarrow> string \<Rightarrow> string \<times> string \<Rightarrow> ('w, unit) go" where
  "collection_Delete c path coll = container_Delete c path ''colls'' (fst coll) (snd coll)"

definition collection_Replace ::
    "('b, 'w) databaseClient \<Rightarrow> 'b container_codec \<Rightarrow> string \<Rightarrow> string \<times> string \<Rightarrow> ('w, (string \<times> string) option) go" where
  "collection_Replace c cc path newcoll =
     container_Replace c path ''colls'' (fst newcoll) (cc_Encode cc newcoll) (cc_Decode cc)"

definition collection_PartitionKeyRanges ::
    "('b, 'w) databaseClient \<Rightarrow> ('b \<Rightarrow> 'r option result) \<Rightarrow> string \<Rightarrow> string \<Rightarrow> ('w, 'r option) go" where
  "collection_PartitionKeyRanges c dec path collid =
     do_req c MethodGet (path @ ''/colls/'' @ collid @ ''/pkranges'') ''pkranges'' (path @ ''/colls/'' @ collid) 200
       None (Some dec) None"

definition collection_ListAll ::
    "nat \<Rightarrow> ('b, 'w) databaseClient \<Rightarrow> 'b container_codec \<Rightarrow> string \<Rightarrow> ('w, (string \<times> string) Documents) go" where
  "collection_ListAll fuel c cc path = container_ListAll fuel c path ''colls'' (cc_DecodeAll cc)"

definition database_Create ::
    "('b, 'w) databaseClient \<Rightarrow> 'b container_codec \<Rightarrow> string \<times> string \<Rightarrow> ('w, (string \<times> string) option) go" where
  "database_Create c cc newdb = container_Create c [] ''dbs'' (cc_Encode cc newdb) (cc_Decode cc)"

definition database_Get ::
    "('b, 'w) databaseClient \<Rightarrow> 'b container_codec \<Rightarrow> string \<Rightarrow> ('w, (string \<times> string) option) go" where
  "database_Get c cc dbid = container_Get c [] ''dbs'' dbid (cc_Decode cc)"

definition database_Delete :: "('b, 'w) databaseClient \<Rightarrow> string \<times> string \<Rightarrow> ('w, unit) go" where
  "database_Delete c db = container_Delete c [] ''dbs'' (fst db) (snd db)"

definition database_ListAll ::
    "nat \<Rightarrow> ('b, 'w) databaseClient \<Rightarrow> 'b container_codec \<Rightarrow> ('w, (string \<times> string) Documents) go" where
  "database_ListAll fuel c cc = container_ListAll fuel c [] ''dbs'' (cc_DecodeAll cc)"


section \<open>How often a call is tried\<close>

text \<open>The results of up to \<open>n\<close> successive attempts, each run on the state the one before left.\<close>

primrec attempts :: "('s, 'a) go \<Rightarrow> nat \<Rightarrow> 's \<Rightarrow> ('a result \<times> 's) list" where
  "attempts f 0 s = []"
| "attempts f (Suc n) s = f s # attempts f n (snd (f s))"

lemma length_attempts [simp]: "length (attempts f n s) = n"
  by (induction n arbitrary: s) simp_all

lemma retry_loop_attempts:
  "\<exists>k \<le> n. retry_loop f n s = attempts f (Suc n) s ! k
     \<and> (\<forall>i < k. is_status (fst (attempts f (Suc n) s ! i)) 412)
     \<and> (k < n \<longrightarrow> \<not> is_status (fst (attempts f (Suc n) s ! k)) 412)"
proof (induction n arbitrary: s)
  case 0
  then show ?case by simp
next
  case (Suc n)
  show ?case
  proof (cases "is_status (fst (f s)) 412")
    case True
    from Suc.IH [of "snd (f s)"] obtain k where k: "k \<le> n"
        "retry_loop f n (snd (f s)) = attempts f (Suc n) (snd (f s)) ! k"
        "\<forall>i < k. is_status (fst (attempts f (Suc n) (snd (f s)) ! i)) 412"
        "k < n \<longrightarrow> \<not> is_status (fst (attempts f (Suc n) (snd (f s)) ! k)) 412"
      by blast
    have tr: "attempts f (Suc (Suc n)) s = f s # attempts f (Suc n) (snd (f s))" by (simp only: attempts.simps)
    have "retry_loop f (Suc n) s = attempts f (Suc (Suc n)) s ! Suc k"
      using True k(2) unfolding tr by (simp add: split_def del: attempts.simps)
    moreover have "is_status (fst (attempts f (Suc (Suc n)) s ! i)) 412" if "i < Suc k" for i
      using True k(3) that unfolding tr by (cases i) (simp_all del: attempts.simps)
    moreover have "Suc k < Suc n \<longrightarrow> \<not> is_status (fst (attempts f (Suc (Suc n)) s ! Suc k)) 412"
      using k(4) unfolding tr by (simp del: attempts.simps)
    ultimately show ?thesis using k(1) by (intro exI [of _ "Suc k"]) (simp del: attempts.simps)
  next
    case False
    then show ?thesis by (intro exI [of _ 0]) (auto simp: split_def)
  qed
qed

text \<open>
  C19. Optimistic retries are bounded and honest: a retried function is attempted at most five times,
  the result is that of the last attempt made, all earlier attempts failed with status 412,
  and the loop stops before the fifth attempt only on a result that is not a 412.
\<close>
theorem retry_five_attempts:
  "\<exists>k \<le> 4. RetryOnPreconditionFailed f s = attempts f 5 s ! k
     \<and> (\<forall>i < k. is_status (fst (attempts f 5 s ! i)) 412)
     \<and> (k < 4 \<longrightarrow> \<not> is_status (fst (attempts f 5 s ! k)) 412)"
  using retry_loop_attempts [of 4 f s] by (simp add: RetryOnPreconditionFailed_def eval_nat_numeral)

theorem retry_five_attempts_witness:
  "\<exists>k \<le> 4. RetryOnPreconditionFailed (\<lambda>n::nat. (if n < 3 then Err (CosmosErr 412 [] []) else Ok n, n + 1)) 0 =
       attempts (\<lambda>n::nat. (if n < 3 then Err (CosmosErr 412 [] []) else Ok n, n + 1)) 5 0 ! k
     \<and> (\<forall>i < k. is_status (fst (attempts (\<lambda>n::nat. (if n < 3 then Err (CosmosErr 412 [] []) else Ok n, n + 1)) 5 0 ! i)) 412)
     \<and> (k < 4 \<longrightarrow> \<not> is_status (fst (attempts (\<lambda>n::nat. (if n < 3 then Err (CosmosErr 412 [] []) else Ok n, n + 1)) 5 0 ! k)) 412)"
  by (rule retry_five_attempts)

lemma retry_not_412:
  "f s = (r, s') \<Longrightarrow> \<not> is_status r 412 \<Longrightarrow> RetryOnPreconditionFailed f s = (r, s')"
  by (simp add: RetryOnPreconditionFailed_def eval_nat_numeral)

text \<open>The request loop counts its attempts in the second component of the state.\<close>

definition counted :: "('w \<Rightarrow> 'r \<times> 'w) \<Rightarrow> 'w \<times> nat \<Rightarrow> 'r \<times> 'w \<times> nat" where
  "counted f = (\<lambda>(w, k). case f w of (r, w') \<Rightarrow> (r, (w', k + 1)))"



section \<open>Reading all pages\<close>

text \<open>\<open>pages next i w ps w'\<close>: from \<open>i\<close> the iterator yields exactly the pages \<open>ps\<close>, then no more.\<close>

inductive pages ::
    "('i \<Rightarrow> ('w, 'd Documents option \<times> 'i) go) \<Rightarrow> 'i \<Rightarrow> 'w \<Rightarrow> 'd Documents list \<Rightarrow> 'w \<Rightarrow> bool"
  for "next" where
  pages_done: "next i w = (Ok (None, i'), w') \<Longrightarrow> pages next i w [] w'"
| pages_more: "next i w = (Ok (Some p, i'), w') \<Longrightarrow> pages next i' w' ps w'' \<Longrightarrow> pages next i w (p # ps) w''"

inductive_cases pages_ConsE: "pages next i w (p # ps) w'"

lemma all_loop_pages:
  "pages next i w ps w' \<Longrightarrow> length ps < n \<Longrightarrow> all_loop next n acc i w = (Ok (foldl append_page acc ps), w')"
proof (induction arbitrary: n acc rule: pages.induct)
  case (pages_done i w i' w')
  then show ?case by (cases n) simp_all
next
  case (pages_more i w p i' w' ps w'')
  then show ?case by (cases n) simp_all
qed

lemma all_loop_OkD:
  "all_loop next n acc i w = (Ok res, w') \<Longrightarrow>
   \<exists>ps. pages next i w ps w' \<and> length ps < n \<and> res = foldl append_page acc ps"
proof (induction n arbitrary: acc i w)
  case 0
  then show ?case by (simp add: still_running_def)
next
  case (Suc n)
  show ?case
  proof (cases "\<exists>i1 w1. next i w = (Ok (None, i1), w1)")
    case True
    with Suc.prems show ?thesis
      by (intro exI [of _ "[]"]) (auto intro: pages_done)
  next
    case False
    with Suc.prems obtain p i1 w1 where nx: "next i w = (Ok (Some p, i1), w1)"
        and rest: "all_loop next n (append_page acc p) i1 w1 = (Ok res, w')"
      by (auto split: prod.splits result.splits option.splits)
    from Suc.IH [OF rest] obtain ps where "pages next i1 w1 ps w'" "length ps < n"
        "res = foldl append_page (append_page acc p) ps" by blast
    with nx show ?thesis by (intro exI [of _ "p # ps"]) (auto intro: pages_more)
  qed
qed

lemma foldl_append_page: "ds_Documents (foldl append_page acc ps) = ds_Documents acc @ concat (map ds_Documents ps)"
  by (induction ps arbitrary: acc) (simp_all add: append_page_def)

text \<open>
  Listing is complete: with fuel for one more call than there are pages, the loop returns, its
  result holds the documents of all the pages in order, and nothing else is ever returned.
\<close>
lemma all_docs_complete:
  "(\<exists>res. all_docs fuel next i w = (Ok res, w') \<and> ds_Documents res = xs) \<longleftrightarrow>
   (\<exists>ps. pages next i w ps w' \<and> length ps < fuel \<and> xs = concat (map ds_Documents ps))"
  unfolding all_docs_def by (auto dest!: all_loop_OkD simp: foldl_append_page all_loop_pages)

end
