(* ===== verification/Regex.thy ===== *)
theory Regex
  imports Prelude
begin

text \<open>
  Anchored regular expressions of Go's \<^verbatim>\<open>regexp\<close> package, as the sources use them with
  \<^verbatim>\<open>MatchString\<close>: characters and character classes, concatenation, alternation, the Kleene star
  and bounded repetition of a class. A pattern is matched by rewriting it one character at a
  time (\<open>rx_step\<close>), so that it can be evaluated on a concrete string; \<open>rx_match_iff\<close> shows that
  this decides membership in the language the pattern denotes. All the patterns here are written
  between \<^verbatim>\<open>^\<close> and \<^verbatim>\<open>$\<close>, so a match is a match of the whole text.
\<close>

section \<open>Patterns\<close>

datatype rx =
    RFail
  | REps
  | RCls "char \<Rightarrow> bool"
  | RCat rx rx
  | RAlt rx rx
  | RStar rx
  | RRep "char \<Rightarrow> bool" nat nat

definition lang_cat :: "string set \<Rightarrow> string set \<Rightarrow> string set" where
  "lang_cat A B = {u @ v | u v. u \<in> A \<and> v \<in> B}"

inductive_set lang_star :: "string set \<Rightarrow> string set" for A where
  star_Nil: "[] \<in> lang_star A"
| star_append: "u \<in> A \<Longrightarrow> v \<in> lang_star A \<Longrightarrow> u @ v \<in> lang_star A"

primrec rx_lang :: "rx \<Rightarrow> string set" where
  "rx_lang RFail = {}"
| "rx_lang REps = {[]}"
| "rx_lang (RCls p) = {[c] | c. p c}"
| "rx_lang (RCat r s) = lang_cat (rx_lang r) (rx_lang s)"
| "rx_lang (RAlt r s) = rx_lang r \<union> rx_lang s"
| "rx_lang (RStar r) = lang_star (rx_lang r)"
| "rx_lang (RRep p m n) = {u. m \<le> length u \<and> length u \<le> n \<and> list_all p u}"

primrec rx_null :: "rx \<Rightarrow> bool" where
  "rx_null RFail = False"
| "rx_null REps = True"
| "rx_null (RCls p) = False"
| "rx_null (RCat r s) = (rx_null r \<and> rx_null s)"
| "rx_null (RAlt r s) = (rx_null r \<or> rx_null s)"
| "rx_null (RStar r) = True"
| "rx_null (RRep p m n) = (m = 0)"

text \<open>Concatenation and alternation that drop a failed branch, which keeps a pattern small.\<close>

fun mk_cat :: "rx \<Rightarrow> rx \<Rightarrow> rx" where
  "mk_cat RFail s = RFail"
| "mk_cat REps s = s"
| "mk_cat r s = RCat r s"

fun mk_alt :: "rx \<Rightarrow> rx \<Rightarrow> rx" where
  "mk_alt RFail s = s"
| "mk_alt r RFail = r"
| "mk_alt r s = RAlt r s"

primrec rx_step :: "char \<Rightarrow> rx \<Rightarrow> rx" where
  "rx_step c RFail = RFail"
| "rx_step c REps = RFail"
| "rx_step c (RCls p) = (if p c then REps else RFail)"
| "rx_step c (RCat r s) =
     (if rx_null r then mk_alt (mk_cat (rx_step c r) s) (rx_step c s) else mk_cat (rx_step c r) s)"
| "rx_step c (RAlt r s) = mk_alt (rx_step c r) (rx_step c s)"
| "rx_step c (RStar r) = mk_cat (rx_step c r) (RStar r)"
| "rx_step c (RRep p m n) = (if p c \<and> 0 < n then RRep p (m - 1) (n - 1) else RFail)"

definition rx_match :: "rx \<Rightarrow> string \<Rightarrow> bool" where
  "rx_match r s = rx_null (foldl (\<lambda>q c. rx_step c q) r s)"

section \<open>The matcher decides the language\<close>

lemma lang_catI: "u \<in> A \<Longrightarrow> v \<in> B \<Longrightarrow> u @ v \<in> lang_cat A B"
  by (auto simp: lang_cat_def)

lemma lang_catE:
  assumes "s \<in> lang_cat A B"
  obtains u v where "s = u @ v" "u \<in> A" "v \<in> B"
  using assms by (auto simp: lang_cat_def)

lemma rx_null_iff: "rx_null r \<longleftrightarrow> [] \<in> rx_lang r"
  by (induction r) (auto simp: lang_cat_def intro: star_Nil)

lemma lang_mk_cat [simp]: "rx_lang (mk_cat r s) = lang_cat (rx_lang r) (rx_lang s)"
  by (cases r) (auto simp: lang_cat_def)

lemma lang_mk_alt [simp]: "rx_lang (mk_alt r s) = rx_lang r \<union> rx_lang s"
  by (induction r s rule: mk_alt.induct) auto

lemma lang_cat_Cons:
  "c # w \<in> lang_cat A B \<longleftrightarrow> ([] \<in> A \<and> c # w \<in> B) \<or> (\<exists>u v. w = u @ v \<and> c # u \<in> A \<and> v \<in> B)"
proof -
  have "c # w \<in> lang_cat A B \<longleftrightarrow> (\<exists>u v. c # w = u @ v \<and> u \<in> A \<and> v \<in> B)"
    by (auto simp: lang_cat_def)
  also have "\<dots> \<longleftrightarrow> ([] \<in> A \<and> c # w \<in> B) \<or> (\<exists>u v. w = u @ v \<and> c # u \<in> A \<and> v \<in> B)"
    unfolding Cons_eq_append_conv by blast
  finally show ?thesis .
qed

lemma lang_cls_cat:
  "t \<in> lang_cat {[c] | c. p c} B \<longleftrightarrow> (case t of [] \<Rightarrow> False | c # u \<Rightarrow> p c \<and> u \<in> B)"
  by (cases t) (auto simp: lang_cat_Cons, auto simp: lang_cat_def)

lemma lang_star_Cons:
  "c # w \<in> lang_star A \<longleftrightarrow> (\<exists>u v. w = u @ v \<and> c # u \<in> A \<and> v \<in> lang_star A)"
proof
  assume "c # w \<in> lang_star A"
  then show "\<exists>u v. w = u @ v \<and> c # u \<in> A \<and> v \<in> lang_star A"
  proof (induction "c # w" arbitrary: c w rule: lang_star.induct)
    case (star_append u v)
    then show ?case by (cases u) (auto simp: append_eq_Cons_conv)
  qed
next
  assume "\<exists>u v. w = u @ v \<and> c # u \<in> A \<and> v \<in> lang_star A"
  then show "c # w \<in> lang_star A"
    using lang_star.star_append by fastforce
qed

lemma lang_rep_Cons:
  "c # w \<in> rx_lang (RRep p m n) \<longleftrightarrow> p c \<and> 0 < n \<and> w \<in> rx_lang (RRep p (m - 1) (n - 1))"
  by (cases m; cases n) auto

lemma rx_step_lang: "w \<in> rx_lang (rx_step c r) \<longleftrightarrow> c # w \<in> rx_lang r"
proof (induction r arbitrary: w)
  case (RCat r s)
  have "w \<in> lang_cat (rx_lang (rx_step c r)) (rx_lang s) \<longleftrightarrow>
      (\<exists>u v. w = u @ v \<and> c # u \<in> rx_lang r \<and> v \<in> rx_lang s)"
    by (auto simp: lang_cat_def RCat)
  with RCat show ?case by (auto simp: lang_cat_Cons rx_null_iff)
next
  case (RStar r)
  then show ?case by (auto simp: lang_star_Cons lang_cat_def)
next
  case (RRep p m n)
  then show ?case unfolding lang_rep_Cons by simp
qed auto

lemma rx_match_Nil [simp]: "rx_match r [] = rx_null r"
  by (simp add: rx_match_def)

lemma rx_match_Cons [simp]: "rx_match r (c # s) = rx_match (rx_step c r) s"
  by (simp add: rx_match_def)

theorem rx_match_iff: "rx_match r s \<longleftrightarrow> s \<in> rx_lang r"
  by (induction s arbitrary: r) (simp_all add: rx_null_iff rx_step_lang)

section \<open>Character classes and literals\<close>

definition in_range :: "char \<Rightarrow> char \<Rightarrow> char \<Rightarrow> bool" where
  "in_range a b c = ((of_char a :: int) \<le> of_char c \<and> (of_char c :: int) \<le> of_char b)"

definition is_digit :: "char \<Rightarrow> bool" where
  "is_digit c = in_range CHR ''0'' CHR ''9'' c"

definition is_lower_alnum :: "char \<Rightarrow> bool" where
  "is_lower_alnum c = (in_range CHR ''a'' CHR ''z'' c \<or> is_digit c)"

text \<open>Under \<^verbatim>\<open>(?i)\<close> a class is matched on the lower case of the character.\<close>

definition fold_case :: "(char \<Rightarrow> bool) \<Rightarrow> char \<Rightarrow> bool" where
  "fold_case p c = (p c \<or> p (to_lower_char c))"

primrec RLit :: "string \<Rightarrow> rx" where
  "RLit [] = REps"
| "RLit (x # xs) = RCat (RCls (\<lambda>c. c = x)) (RLit xs)"

primrec RLit_i :: "string \<Rightarrow> rx" where
  "RLit_i [] = REps"
| "RLit_i (x # xs) = RCat (RCls (\<lambda>c. to_lower_char c = to_lower_char x)) (RLit_i xs)"

lemma RLit_lang [simp]: "rx_lang (RLit s) = {s}"
  by (induction s) (auto simp: lang_cat_def)

lemma RLit_i_lang [simp]: "rx_lang (RLit_i s) = {t. EqualFold t s}"
proof (induction s)
  case Nil
  then show ?case by (auto simp: EqualFold_def ToLower_def)
next
  case (Cons x xs)
  show ?case
  proof (rule set_eqI)
    fix t
    show "t \<in> rx_lang (RLit_i (x # xs)) \<longleftrightarrow> t \<in> {t. EqualFold t (x # xs)}"
      by (cases t) (auto simp: lang_cls_cat Cons EqualFold_def ToLower_def)
  qed
qed

section \<open>Paths\<close>

text \<open>A pattern of the form \<^verbatim>\<open>/seg/seg/...\<close>, from the patterns of its segments.\<close>

fun RPath :: "rx list \<Rightarrow> rx" where
  "RPath [] = REps"
| "RPath (r # rs) = RCat (RLit ''/'') (RCat r (RPath rs))"

definition no_slash :: "rx \<Rightarrow> bool" where
  "no_slash r \<longleftrightarrow> (\<forall>s \<in> rx_lang r. CHR ''/'' \<notin> set s)"

lemma Split_slash_append:
  "CHR ''/'' \<notin> set u \<Longrightarrow> Split CHR ''/'' (CHR ''/'' # u @ v) = [] # Split CHR ''/'' (u @ v)"
  by simp

lemma RPath_lang_Split:
  assumes "list_all no_slash rs" and "rs \<noteq> []"
  shows "s \<in> rx_lang (RPath rs) \<longleftrightarrow>
    (\<exists>ps. Split CHR ''/'' s = [] # ps \<and> list_all2 (\<lambda>p r. p \<in> rx_lang r) ps rs)"
    (is "_ \<longleftrightarrow> (\<exists>ps. ?R s rs ps)")
  using assms
proof (induction rs arbitrary: s)
  case (Cons r rs)
  note slash = Split_append_sep [of "CHR ''/''", simplified]
  show ?case
  proof (cases "rs = []")
    case True
    show ?thesis
    proof
      assume "s \<in> rx_lang (RPath (r # rs))"
      with True obtain u where u: "s = CHR ''/'' # u" "u \<in> rx_lang r"
        by (auto simp: lang_cat_def)
      with Cons.prems have "Split CHR ''/'' u = [u]"
        by (auto simp: no_slash_def intro: Split_no_sep)
      with u True show "\<exists>ps. ?R s (r # rs) ps" by simp
    next
      assume "\<exists>ps. ?R s (r # rs) ps"
      with True obtain p where p: "Split CHR ''/'' s = [[], p]" "p \<in> rx_lang r"
        by (auto simp: list_all2_Cons2)
      have "s = Join CHR ''/'' (Split CHR ''/'' s)" by simp
      with p have "s = CHR ''/'' # p" by simp
      with p True show "s \<in> rx_lang (RPath (r # rs))"
        by (simp add: lang_cat_def)
    qed
  next
    case False
    with Cons have IH: "\<And>t. t \<in> rx_lang (RPath rs) \<longleftrightarrow> (\<exists>ps. ?R t rs ps)"
      by simp
    show ?thesis
    proof
      assume "s \<in> rx_lang (RPath (r # rs))"
      then obtain u t where s: "s = CHR ''/'' # u @ t" and u: "u \<in> rx_lang r"
          and t: "t \<in> rx_lang (RPath rs)"
        by (auto simp: lang_cat_def)
      from t IH obtain ps where ps: "?R t rs ps" by auto
      from t False obtain t' where t': "t = CHR ''/'' # t'"
        by (cases rs) (auto simp: lang_cat_def)
      from u Cons.prems have "CHR ''/'' \<notin> set u"
        by (auto simp: no_slash_def)
      then have "Split CHR ''/'' s = [] # u # Split CHR ''/'' t'"
        by (simp add: s t' Split_append_sep Split_no_sep)
      with ps t' u show "\<exists>ps. ?R s (r # rs) ps" by auto
    next
      assume "\<exists>ps. ?R s (r # rs) ps"
      then obtain p ps where s: "Split CHR ''/'' s = [] # p # ps" and p: "p \<in> rx_lang r"
          and ps: "list_all2 (\<lambda>p r. p \<in> rx_lang r) ps rs"
        by (auto simp: list_all2_Cons2)
      from ps False have ne: "ps \<noteq> []" by auto
      define t where "t = Join CHR ''/'' ([] # ps)"
      from s have noslash: "\<forall>q \<in> set ps. CHR ''/'' \<notin> set q"
        by (metis Split_parts list.set_intros(2))
      then have "Split CHR ''/'' t = [] # ps"
        unfolding t_def by (intro Split_Join) auto
      with ps IH have t: "t \<in> rx_lang (RPath rs)" by auto
      have "s = Join CHR ''/'' (Split CHR ''/'' s)" by simp
      also have "\<dots> = CHR ''/'' # p @ t"
        using ne s by (cases ps) (simp_all add: t_def)
      finally show "s \<in> rx_lang (RPath (r # rs))"
        using p t by (auto simp: lang_cat_def)
    qed
  qed
qed simp

end
