(* ===== verification/ResourceID.thy ===== *)
theory ResourceID
  imports Regex Api
begin

text \<open>
  Azure resource identifiers: \<^verbatim>\<open>azure.ParseResourceID\<close> of the vendored go-autorest, which every
  part of the provider uses to take an identifier apart, and the subnet helpers of
  \<^verbatim>\<open>src/pkg/util/subnet\<close>.

  \<^verbatim>\<open>ParseResourceID\<close> searches for the pattern
  \<^verbatim>\<open>(?i)subscriptions/(.+)/resourceGroups/(.+)/providers/(.+?)/(.+?)/(.+)\<close>. Its groups are
  modelled by the backtracking search that defines Go's leftmost-first match: \<open>plus_greedy\<close>
  offers the longest run first, \<open>plus_lazy\<close> the shortest, and the first choice whose
  continuation succeeds wins.
\<close>

section \<open>Submatches by backtracking\<close>

type_synonym 'r cont = "string \<Rightarrow> string \<Rightarrow> 'r option"

fun dots_greedy :: "'r cont \<Rightarrow> string \<Rightarrow> string \<Rightarrow> 'r option" where
  "dots_greedy k acc [] = k acc []"
| "dots_greedy k acc (c # s) =
     (if c = CHR 0x0A then k acc (c # s)
      else case dots_greedy k (acc @ [c]) s of Some r \<Rightarrow> Some r | None \<Rightarrow> k acc (c # s))"

fun dots_lazy :: "'r cont \<Rightarrow> string \<Rightarrow> string \<Rightarrow> 'r option" where
  "dots_lazy k acc [] = k acc []"
| "dots_lazy k acc (c # s) =
     (case k acc (c # s) of
        Some r \<Rightarrow> Some r
      | None \<Rightarrow> if c = CHR 0x0A then None else dots_lazy k (acc @ [c]) s)"

definition plus_greedy :: "'r cont \<Rightarrow> string \<Rightarrow> 'r option" where
  "plus_greedy k s = (case s of [] \<Rightarrow> None | c # t \<Rightarrow> if c = CHR 0x0A then None else dots_greedy k [c] t)"

definition plus_lazy :: "'r cont \<Rightarrow> string \<Rightarrow> 'r option" where
  "plus_lazy k s = (case s of [] \<Rightarrow> None | c # t \<Rightarrow> if c = CHR 0x0A then None else dots_lazy k [c] t)"

fun lit_i :: "string \<Rightarrow> (string \<Rightarrow> 'r option) \<Rightarrow> string \<Rightarrow> 'r option" where
  "lit_i [] k s = k s"
| "lit_i (p # ps) k [] = None"
| "lit_i (p # ps) k (c # s) = (if to_lower_char c = to_lower_char p then lit_i ps k s else None)"

fun search :: "(string \<Rightarrow> 'r option) \<Rightarrow> string \<Rightarrow> 'r option" where
  "search m [] = m []"
| "search m (c # s) = (case m (c # s) of Some r \<Rightarrow> Some r | None \<Rightarrow> search m s)"

section \<open>ParseResourceID\<close>

record Resource =
  r_SubscriptionID :: string
  r_ResourceGroup :: string
  r_Provider :: string
  r_ResourceType :: string
  r_ResourceName :: string

definition match_type :: "(string \<Rightarrow> string \<Rightarrow> 'r option) \<Rightarrow> string \<Rightarrow> 'r option" where
  "match_type k = plus_lazy (\<lambda>t. lit_i ''/'' (plus_greedy (\<lambda>n _. k t n)))"

definition match_provider :: "(string \<Rightarrow> string \<Rightarrow> string \<Rightarrow> 'r option) \<Rightarrow> string \<Rightarrow> 'r option" where
  "match_provider k = plus_lazy (\<lambda>p. lit_i ''/'' (match_type (k p)))"

definition match_group :: "(string \<Rightarrow> string \<Rightarrow> string \<Rightarrow> string \<Rightarrow> 'r option) \<Rightarrow> string \<Rightarrow> 'r option" where
  "match_group k = plus_greedy (\<lambda>g. lit_i ''/providers/'' (match_provider (k g)))"

definition match_resourceID :: "string \<Rightarrow> (string \<times> string \<times> string \<times> string \<times> string) option" where
  "match_resourceID = lit_i ''subscriptions/'' (plus_greedy (\<lambda>s. lit_i ''/resourceGroups/''
     (match_group (\<lambda>g p t n. Some (s, g, p, t, n)))))"

definition ParseResourceID :: "string \<Rightarrow> Resource result" where
  "ParseResourceID resourceID =
     (case search match_resourceID resourceID of
        None \<Rightarrow> Err (ErrorfErr (Fmt ''parsing failed for %s. Invalid resource Id format'' [AStr resourceID]))
      | Some (s, g, p, t, n) \<Rightarrow>
          Ok \<lparr>r_SubscriptionID = s, r_ResourceGroup = g, r_Provider = p, r_ResourceType = t,
              r_ResourceName = last (Split CHR ''/'' n)\<rparr>)"

section \<open>Subnets\<close>

definition subnet_Split :: "string \<Rightarrow> (string \<times> string) result" where
  "subnet_Split subnetID =
     (let parts = Split CHR ''/'' subnetID in
      if length parts \<noteq> 11
      then Err (ErrorfErr (Fmt ''subnet ID %q has incorrect length'' [AStr subnetID]))
      else Ok (Join CHR ''/'' (take (length parts - 2) parts), parts ! (length parts - 1)))"

definition NetworkSecurityGroupID :: "OpenShiftCluster \<Rightarrow> string \<Rightarrow> string result" where
  "NetworkSecurityGroupID oc subnetID =
     (if EqualFold subnetID (mp_SubnetID (p_MasterProfile (oc_Properties oc)))
      then Ok (cp_ResourceGroupID (p_ClusterProfile (oc_Properties oc))
             @ ''/providers/Microsoft.Network/networkSecurityGroups/aro-controlplane-nsg'')
      else case p_WorkerProfiles (oc_Properties oc) of
             Some (w # _) \<Rightarrow>
               (if EqualFold subnetID (wp_SubnetID w)
                then Ok (cp_ResourceGroupID (p_ClusterProfile (oc_Properties oc))
                       @ ''/providers/Microsoft.Network/networkSecurityGroups/aro-node-nsg'')
                else Err (ErrorfErr (Fmt ''unknown subnetID %q'' [AStr subnetID])))
           | _ \<Rightarrow> Panic ''index out of range'')"

section \<open>How the search resolves\<close>

abbreviation slashes :: "string \<Rightarrow> nat" where
  "slashes s \<equiv> count_list s CHR ''/''"

definition seg :: "string \<Rightarrow> bool" where
  "seg s \<longleftrightarrow> s \<noteq> [] \<and> CHR ''/'' \<notin> set s \<and> CHR 0x0A \<notin> set s"

lemma slashes_seg [simp]: "seg s \<Longrightarrow> slashes s = 0"
  by (auto simp: seg_def count_list_0_iff)

lemma lit_i_EqualFold: "EqualFold u p \<Longrightarrow> lit_i p k (u @ v) = k v"
proof (induction p arbitrary: u)
  case Nil
  then show ?case by (simp add: EqualFold_def ToLower_def)
next
  case (Cons a p)
  then show ?case by (cases u) (auto simp: EqualFold_def ToLower_def)
qed

lemma lit_i_slashes: "lit_i p k s = Some r \<Longrightarrow> \<exists>t. k t = Some r \<and> slashes s = slashes p + slashes t"
proof (induction p arbitrary: s)
  case (Cons a p)
  then obtain c s' where s: "s = c # s'" and eq: "to_lower_char c = to_lower_char a"
    and "lit_i p k s' = Some r"
    by (cases s) (auto split: if_splits)
  with Cons.IH obtain t where "k t = Some r" "slashes s' = slashes p + slashes t" by blast
  moreover have "c = CHR ''/'' \<longleftrightarrow> a = CHR ''/''"
    using eq to_lower_char_slash by metis
  ultimately show ?case using s by auto
qed auto

lemma dots_greedy_slashes:
  "dots_greedy k acc s = Some r \<Longrightarrow> \<exists>a t. k a t = Some r \<and> slashes t \<le> slashes s"
proof (induction s arbitrary: acc)
  case Nil
  then show ?case by (intro exI [of _ acc] exI [of _ "[]"]) simp
next
  case (Cons c s)
  then consider "k acc (c # s) = Some r" | "dots_greedy k (acc @ [c]) s = Some r"
    by (auto split: if_splits option.splits)
  then show ?case
  proof cases
    case 1
    then show ?thesis by blast
  next
    case 2
    with Cons.IH obtain a t where "k a t = Some r" "slashes t \<le> slashes s" by blast
    then show ?thesis by (intro exI [of _ a] exI [of _ t]) simp
  qed
qed

lemma dots_lazy_slashes:
  "dots_lazy k acc s = Some r \<Longrightarrow> \<exists>a t. k a t = Some r \<and> slashes t \<le> slashes s"
proof (induction s arbitrary: acc)
  case Nil
  then show ?case by (intro exI [of _ acc] exI [of _ "[]"]) simp
next
  case (Cons c s)
  then consider "k acc (c # s) = Some r" | "dots_lazy k (acc @ [c]) s = Some r"
    by (auto split: if_splits option.splits)
  then show ?case
  proof cases
    case 1
    then show ?thesis by blast
  next
    case 2
    with Cons.IH obtain a t where "k a t = Some r" "slashes t \<le> slashes s" by blast
    then show ?thesis by (intro exI [of _ a] exI [of _ t]) simp
  qed
qed

lemma slashes_tl: "slashes t \<le> slashes s \<Longrightarrow> slashes t \<le> slashes (c # s)"
  by simp

lemma plus_greedy_slashes:
  assumes "plus_greedy k s = Some r"
  shows "\<exists>a t. k a t = Some r \<and> slashes t \<le> slashes s"
proof -
  from assms obtain c s' where "s = c # s'" "dots_greedy k [c] s' = Some r"
    by (auto simp: plus_greedy_def split: list.splits if_splits)
  then show ?thesis using dots_greedy_slashes slashes_tl by metis
qed

lemma plus_lazy_slashes:
  assumes "plus_lazy k s = Some r"
  shows "\<exists>a t. k a t = Some r \<and> slashes t \<le> slashes s"
proof -
  from assms obtain c s' where "s = c # s'" "dots_lazy k [c] s' = Some r"
    by (auto simp: plus_lazy_def split: list.splits if_splits)
  then show ?thesis using dots_lazy_slashes slashes_tl by metis
qed

lemmas plus_slashes = plus_greedy_slashes plus_lazy_slashes

lemma match_type_slashes: "match_type k s = Some r \<Longrightarrow> 1 \<le> slashes s"
  unfolding match_type_def by (fastforce dest!: plus_slashes lit_i_slashes)

lemma match_provider_slashes: "match_provider k s = Some r \<Longrightarrow> 2 \<le> slashes s"
  unfolding match_provider_def by (fastforce dest!: plus_slashes lit_i_slashes match_type_slashes)

lemma lit_providers_slashes:
  "lit_i ''/providers/'' (match_provider k) s = Some r \<Longrightarrow> 4 \<le> slashes s"
  by (fastforce dest!: lit_i_slashes match_provider_slashes)

lemma match_group_slashes: "match_group k s = Some r \<Longrightarrow> 4 \<le> slashes s"
  unfolding match_group_def by (fastforce dest!: plus_slashes lit_providers_slashes)

lemma lit_groups_slashes:
  "lit_i ''/resourceGroups/'' (match_group k) s = Some r \<Longrightarrow> 6 \<le> slashes s"
  by (fastforce dest!: lit_i_slashes match_group_slashes)

text \<open>
  A greedy run stops where the continuation succeeds, provided the continuation needs more
  slashes than any later position has.
\<close>

lemma dots_greedy_stop:
  assumes "CHR 0x0A \<notin> set u" and "CHR 0x0A \<notin> set v"
    and stop: "k (acc @ u) v = Some r"
    and later: "\<And>a t. k a t \<noteq> None \<Longrightarrow> n \<le> slashes t"
    and few: "v = CHR ''/'' # v'" "slashes v' < n"
  shows "dots_greedy k acc (u @ v) = Some r"
  using assms(1,3)
proof (induction u arbitrary: acc)
  case Nil
  have "dots_greedy k a w = None" if "slashes w < n" for a w
    using that dots_greedy_slashes [of k a w] later
    by (metis leD le_trans option.distinct(1) option.exhaust)
  with few Nil show ?case by simp
next
  case (Cons c u)
  then show ?case by auto
qed

lemma plus_greedy_stop:
  assumes "seg u" and "CHR 0x0A \<notin> set v"
    and "k u v = Some r"
    and "\<And>a t. k a t \<noteq> None \<Longrightarrow> n \<le> slashes t"
    and "v = CHR ''/'' # v'" "slashes v' < n"
  shows "plus_greedy k (u @ v) = Some r"
proof -
  obtain c u' where u: "u = c # u'" "c \<noteq> CHR 0x0A" "CHR 0x0A \<notin> set u'"
    using assms(1) by (cases u) (auto simp: seg_def)
  then have "dots_greedy k [c] (u' @ v) = Some r"
    using assms by (intro dots_greedy_stop [where n = n]) auto
  with u show ?thesis by (simp add: plus_greedy_def)
qed

lemma dots_greedy_all: "CHR 0x0A \<notin> set s \<Longrightarrow> k (acc @ s) [] = Some r \<Longrightarrow> dots_greedy k acc s = Some r"
  by (induction s arbitrary: acc) auto

lemma plus_greedy_all: "s \<noteq> [] \<Longrightarrow> CHR 0x0A \<notin> set s \<Longrightarrow> k s [] = Some r \<Longrightarrow> plus_greedy k s = Some r"
  by (cases s) (auto simp: plus_greedy_def dots_greedy_all)

lemma dots_lazy_stop:
  "CHR ''/'' \<notin> set u \<Longrightarrow> CHR 0x0A \<notin> set u \<Longrightarrow> f (acc @ u) v = Some r \<Longrightarrow>
   dots_lazy (\<lambda>a. lit_i ''/'' (f a)) acc (u @ CHR ''/'' # v) = Some r"
proof (induction u arbitrary: acc)
  case Nil
  then show ?case by simp
next
  case (Cons c u)
  moreover from Cons.prems(1) have "to_lower_char c \<noteq> to_lower_char CHR ''/''"
    using to_lower_char_slash by (metis list.set_intros(1))
  ultimately show ?case by auto
qed

lemma plus_lazy_stop:
  "seg u \<Longrightarrow> f u v = Some r \<Longrightarrow>
   plus_lazy (\<lambda>a. lit_i ''/'' (f a)) (u @ CHR ''/'' # v) = Some r"
  by (cases u) (auto simp: seg_def plus_lazy_def dots_lazy_stop)

lemma match_type_seg: "seg t \<Longrightarrow> seg n \<Longrightarrow> k t n = Some r \<Longrightarrow> match_type k (t @ CHR ''/'' # n) = Some r"
  unfolding match_type_def by (rule plus_lazy_stop) (auto simp: seg_def intro: plus_greedy_all)

lemma match_provider_seg:
  "seg p \<Longrightarrow> seg t \<Longrightarrow> seg n \<Longrightarrow> k p t n = Some r \<Longrightarrow>
   match_provider k (p @ CHR ''/'' # t @ CHR ''/'' # n) = Some r"
  unfolding match_provider_def by (rule plus_lazy_stop) (auto intro: match_type_seg)

lemma match_group_seg:
  assumes "seg g" "seg p" "seg t" "seg n" and pr: "EqualFold pr ''providers''" and "CHR 0x0A \<notin> set pr"
    and r: "k g p t n = Some r"
  shows "match_group k (g @ ''/'' @ pr @ ''/'' @ p @ ''/'' @ t @ ''/'' @ n) = Some r"
proof -
  let ?v = "''/'' @ pr @ ''/'' @ p @ ''/'' @ t @ ''/'' @ n"
  have lit: "EqualFold (''/'' @ pr @ ''/'') ''/providers/''"
    using pr by (simp add: EqualFold_def ToLower_def)
  have "lit_i ''/providers/'' (match_provider (k g)) ((''/'' @ pr @ ''/'') @ p @ ''/'' @ t @ ''/'' @ n) = Some r"
    using assms by (simp only: lit_i_EqualFold [OF lit]) (simp add: match_provider_seg)
  moreover have "CHR ''/'' \<notin> set pr"
    using EqualFold_slash [OF pr] by simp
  ultimately show ?thesis
    unfolding match_group_def
    by (intro plus_greedy_stop [where n = 4 and v' = "tl ?v"])
      (use assms in \<open>auto simp: seg_def count_list_0_iff dest: lit_providers_slashes\<close>)
qed

text \<open>An identifier from its segments, in any letter case of the fixed words.\<close>

definition resource_id ::
    "string \<Rightarrow> string \<Rightarrow> string \<Rightarrow> string \<Rightarrow> string \<Rightarrow> string \<Rightarrow> string \<Rightarrow> string \<Rightarrow> string" where
  "resource_id su s rg g pr p t n =
     ''/'' @ su @ ''/'' @ s @ ''/'' @ rg @ ''/'' @ g @ ''/'' @ pr @ ''/'' @ p @ ''/'' @ t @ ''/'' @ n"

lemma match_resourceID_seg:
  assumes "seg s" "seg g" "seg p" "seg t" "seg n"
    and su: "EqualFold su ''subscriptions''" and rg: "EqualFold rg ''resourceGroups''" "seg rg"
    and pr: "EqualFold pr ''providers''" "seg pr"
  shows "match_resourceID (tl (resource_id su s rg g pr p t n)) = Some (s, g, p, t, n)"
proof -
  let ?k = "\<lambda>s. lit_i ''/resourceGroups/'' (match_group (\<lambda>g p t n. Some (s, g, p, t, n)))"
  let ?rest = "g @ ''/'' @ pr @ ''/'' @ p @ ''/'' @ t @ ''/'' @ n"
  let ?v = "''/'' @ rg @ ''/'' @ ?rest"
  have lit: "EqualFold (''/'' @ rg @ ''/'') ''/resourceGroups/''"
    using rg by (simp add: EqualFold_def ToLower_def)
  have "?k s ((''/'' @ rg @ ''/'') @ ?rest) = Some (s, g, p, t, n)"
    unfolding lit_i_EqualFold [OF lit]
    by (rule match_group_seg) (use assms in \<open>auto simp: seg_def\<close>)
  then have "plus_greedy ?k (s @ ?v) = Some (s, g, p, t, n)"
    by (intro plus_greedy_stop [where n = 6 and v' = "tl ?v"])
      (use assms in \<open>auto simp: seg_def count_list_0_iff dest: lit_groups_slashes\<close>)
  moreover have "EqualFold (su @ ''/'') ''subscriptions/''"
    using su by (simp add: EqualFold_def ToLower_def)
  ultimately show ?thesis
    using lit_i_EqualFold [of "su @ ''/''" "''subscriptions/''" "plus_greedy ?k" "s @ ?v"]
    by (simp add: match_resourceID_def resource_id_def)
qed

lemma ParseResourceID_seg:
  assumes "seg s" "seg g" "seg p" "seg t" "seg n"
    and "EqualFold su ''subscriptions''" and "EqualFold rg ''resourceGroups''" "seg rg"
    and "EqualFold pr ''providers''" "seg pr"
  shows "ParseResourceID (resource_id su s rg g pr p t n) =
    Ok \<lparr>r_SubscriptionID = s, r_ResourceGroup = g, r_Provider = p, r_ResourceType = t,
        r_ResourceName = n\<rparr>"
proof -
  have "match_resourceID (resource_id su s rg g pr p t n) = None"
    by (simp add: match_resourceID_def resource_id_def to_lower_char_def)
  then have "search match_resourceID (resource_id su s rg g pr p t n) =
      search match_resourceID (tl (resource_id su s rg g pr p t n))"
    by (simp add: resource_id_def)
  also have "\<dots> = Some (s, g, p, t, n)"
    using match_resourceID_seg [OF assms] by (cases "tl (resource_id su s rg g pr p t n)") auto
  finally show ?thesis
    using assms(5) by (simp add: ParseResourceID_def seg_def Split_no_sep)
qed

text \<open>
  A resource identifier made of slash-free, non-empty segments, with the fixed words in any
  letter case, is parsed into exactly its segments.
\<close>
theorem parse_resource_id:
  assumes "seg s" "seg g" "seg p" "seg t" "seg n"
    and "EqualFold su ''subscriptions''" and "EqualFold rg ''resourceGroups''" "seg rg"
    and "EqualFold pr ''providers''" "seg pr"
  shows "ParseResourceID (resource_id su s rg g pr p t n) =
    Ok \<lparr>r_SubscriptionID = s, r_ResourceGroup = g, r_Provider = p, r_ResourceType = t,
        r_ResourceName = n\<rparr>"
  using assms by (rule ParseResourceID_seg)

theorem parse_resource_id_witness:
  "ParseResourceID (resource_id ''subscriptions'' ''sub'' ''resourcegroups'' ''rg'' ''providers''
      ''microsoft.redhatopenshift'' ''openshiftclusters'' ''c'') =
    Ok \<lparr>r_SubscriptionID = ''sub'', r_ResourceGroup = ''rg'', r_Provider = ''microsoft.redhatopenshift'',
        r_ResourceType = ''openshiftclusters'', r_ResourceName = ''c''\<rparr>"
  by (rule parse_resource_id) (code_simp | simp add: seg_def)+

text \<open>
  Splitting a subnet identifier loses nothing: the virtual network's identifier, the path
  element between the two and the subnet's name join back to the identifier.
\<close>
theorem subnet_split_join:
  assumes "subnet_Split subnetID = Ok (vnetID, name)"
  shows "\<exists>kind. subnetID = vnetID @ ''/'' @ kind @ ''/'' @ name \<and> CHR ''/'' \<notin> set name"
proof -
  let ?ps = "Split CHR ''/'' subnetID"
  from assms have len: "length ?ps = 11" and v: "vnetID = Join CHR ''/'' (take 9 ?ps)"
    and n: "name = ?ps ! 10"
    by (auto simp: subnet_Split_def Let_def split: if_splits)
  have "take 11 ?ps = take 10 ?ps @ [?ps ! 10]" "take 10 ?ps = take 9 ?ps @ [?ps ! 9]"
    using len take_Suc_conv_app_nth [of 10 ?ps] take_Suc_conv_app_nth [of 9 ?ps] by simp_all
  then have split: "?ps = take 9 ?ps @ [?ps ! 9, ?ps ! 10]"
    using len by simp
  have "subnetID = Join CHR ''/'' ?ps" by simp
  also have "\<dots> = Join CHR ''/'' (take 9 ?ps) @ ''/'' @ ?ps ! 9 @ ''/'' @ ?ps ! 10"
    using len by (subst split) (subst Join_append2, auto)
  finally have "subnetID = vnetID @ ''/'' @ ?ps ! 9 @ ''/'' @ name"
    using v n by simp
  moreover have "CHR ''/'' \<notin> set name"
    using n len nth_mem [of 10 ?ps] Split_parts [of "?ps ! 10" "CHR ''/''" subnetID] by simp
  ultimately show ?thesis by blast
qed

theorem subnet_split_join_witness:
  "\<exists>kind. ''/subscriptions/s/resourceGroups/g/providers/Microsoft.Network/virtualNetworks/v/subnets/m'' =
     ''/subscriptions/s/resourceGroups/g/providers/Microsoft.Network/virtualNetworks/v'' @ ''/'' @ kind
       @ ''/'' @ ''m'' \<and> CHR ''/'' \<notin> set ''m''"
  by (rule subnet_split_join) code_simp

end
