(* ===== verification/Database.thy ===== *)
theory Database
  imports Cosmos ResourceID
begin

text \<open>
  The database layer, \<^verbatim>\<open>src/pkg/database\<close>: the three collections of the provider over their
  document clients, with reads and read-modify-write patches, leases, and the queue of work the
  back end takes documents from.

  A document client is the record of its operations (the Go interface); \<open>client_docs\<close> is the one
  that talks to Cosmos DB. A function that is passed to a patch may write variables of its
  caller, which are the component \<open>'x\<close> of the state a patch runs on.
\<close>

section \<open>The interface of a document client\<close>

record ('w, 'd) docs =
  c_Create :: "string \<Rightarrow> 'd \<Rightarrow> Options option \<Rightarrow> ('w, 'd option) go"
  c_Get :: "string \<Rightarrow> string \<Rightarrow> Options option \<Rightarrow> ('w, 'd option) go"
  c_Replace :: "string \<Rightarrow> 'd \<Rightarrow> Options option \<Rightarrow> ('w, 'd option) go"
  c_Delete :: "string \<Rightarrow> 'd \<Rightarrow> Options option \<Rightarrow> ('w, unit) go"
  c_Query :: "string \<Rightarrow> Query \<Rightarrow> Options option \<Rightarrow> DocumentIterator"
  c_QueryAll :: "string \<Rightarrow> Query \<Rightarrow> Options option \<Rightarrow> ('w, 'd Documents) go"
  c_Next :: "DocumentIterator \<Rightarrow> ('w, 'd Documents option \<times> DocumentIterator) go"

definition client_docs :: "nat \<Rightarrow> ('b, 'd, 'w) documentClient \<Rightarrow> ('w, 'd) docs" where
  "client_docs fuel c = \<lparr>
     c_Create = document_Create c, c_Get = document_Get c, c_Replace = document_Replace c,
     c_Delete = document_Delete c, c_Query = document_Query, c_QueryAll = document_QueryAll fuel c,
     c_Next = query_NextRaw c\<rparr>"

text \<open>A collection: its client, the identity of this process, and the fuel of its loops over pages.\<close>

record ('w, 'd) collection =
  cl_c :: "('w, 'd) docs"
  cl_uuid :: string
  cl_fuel :: nat

definition on_world :: "('w, 'a) go \<Rightarrow> ('x \<times> 'w, 'a) go" where
  "on_world m s = (case m (snd s) of (r, w) \<Rightarrow> (r, (fst s, w)))"

lemma on_world_simp [simp]: "on_world m (x, w) = (fst (m w), (x, snd (m w)))"
  by (simp add: on_world_def split: prod.splits)

text \<open>A dereference of a document pointer.\<close>

definition deref :: "'d option \<Rightarrow> ('s, 'd) go" where
  "deref d = glift (case d of None \<Rightarrow> Panic ''nil pointer dereference'' | Some x \<Rightarrow> Ok x)"

lemma deref_simps [simp]:
  "deref (Some d) s = (Ok d, s)" "deref None s = (Panic ''nil pointer dereference'', s)"
  by (simp_all add: deref_def)

text \<open>A conflict on creation is reported as a failed precondition, so that the caller retries.\<close>

fun conflict_to_precondition :: "'a result \<Rightarrow> 'a result" where
  "conflict_to_precondition (Err (CosmosErr s code msg)) = Err (CosmosErr (if s = 409 then 412 else s) code msg)"
| "conflict_to_precondition r = r"

definition not_lower :: "string \<Rightarrow> string \<Rightarrow> error" where
  "not_lower what s = ErrorfErr (Fmt (what @ '' %q is not lower case'') [AStr s])"

definition lost_lease :: error where
  "lost_lease = ErrorfErr (Fmt ''lost lease'' [])"

definition renewLease :: Options where
  "renewLease = zero_Options\<lparr>opt_PreTriggers := [''renewLease'']\<rparr>"

definition retryLater_options :: Options where
  "retryLater_options = zero_Options\<lparr>opt_PreTriggers := [''retryLater'']\<rparr>"

section \<open>The loop of a dequeue\<close>

text \<open>
  \<open>dequeue_page\<close> offers the documents of a page in turn: the first whose update does not fail
  with 412 ends the dequeue (\<open>Some\<close> of the update's value, or its error).
\<close>

fun dequeue_page :: "('d \<Rightarrow> ('w, 'd option) go) \<Rightarrow> 'd list \<Rightarrow> ('w, 'd option option) go" where
  "dequeue_page upd [] w = (Ok None, w)"
| "dequeue_page upd (d # ds) w =
     (case upd d w of (r, w') \<Rightarrow>
        if is_status r 412 then dequeue_page upd ds w'
        else (rbind r (\<lambda>d'. Ok (Some d')), w'))"

fun dequeue_loop ::
    "(DocumentIterator \<Rightarrow> ('w, 'd Documents option \<times> DocumentIterator) go) \<Rightarrow> ('d \<Rightarrow> ('w, 'd option) go) \<Rightarrow>
     nat \<Rightarrow> DocumentIterator \<Rightarrow> ('w, 'd option) go" where
  "dequeue_loop next upd 0 i w = (still_running, w)"
| "dequeue_loop next upd (Suc n) i w =
     (case next i w of
        (Err e, w') \<Rightarrow> (Err e, w')
      | (Panic p, w') \<Rightarrow> (Panic p, w')
      | (Ok (None, _), w') \<Rightarrow> (Ok None, w')
      | (Ok (Some page, i'), w') \<Rightarrow>
          (case dequeue_page upd (ds_Documents page) w' of
             (Err e, w'') \<Rightarrow> (Err e, w'')
           | (Panic p, w'') \<Rightarrow> (Panic p, w'')
           | (Ok (Some d), w'') \<Rightarrow> (Ok d, w'')
           | (Ok None, w'') \<Rightarrow> dequeue_loop next upd n i' w''))"

section \<open>Asynchronous operations\<close>

type_synonym 'w asyncOperations = "('w, AsyncOperationDocument) collection"

definition async_Create :: "'w asyncOperations \<Rightarrow> AsyncOperationDocument \<Rightarrow> ('w, AsyncOperationDocument option) go" where
  "async_Create c doc w =
     (if ad_ID doc \<noteq> ToLower (ad_ID doc) then (Err (not_lower ''id'' (ad_ID doc)), w)
      else case c_Create (cl_c c) (ad_ID doc) doc None w of (r, w') \<Rightarrow> (conflict_to_precondition r, w'))"

definition async_Get :: "'w asyncOperations \<Rightarrow> string \<Rightarrow> ('w, AsyncOperationDocument option) go" where
  "async_Get c id' w =
     (if id' \<noteq> ToLower id' then (Err (not_lower ''id'' id'), w) else c_Get (cl_c c) id' id' None w)"

definition async_Patch ::
    "'w asyncOperations \<Rightarrow> string \<Rightarrow> (AsyncOperationDocument \<Rightarrow> ('x \<times> 'w, AsyncOperationDocument) go) \<Rightarrow>
     ('x \<times> 'w, AsyncOperationDocument option) go" where
  "async_Patch c id' f =
     RetryOnPreconditionFailed
       (gbind (on_world (async_Get c id')) (\<lambda>d.
        gbind (deref d) (\<lambda>doc.
        gbind (f doc) (\<lambda>doc'.
        on_world (c_Replace (cl_c c) (ad_ID doc') doc' None)))))"

section \<open>Clusters\<close>

type_synonym 'w openShiftClusters = "('w, OpenShiftClusterDocument) collection"

definition clusters_partitionKey :: "string \<Rightarrow> string result" where
  "clusters_partitionKey key = rbind (ParseResourceID key) (\<lambda>r. Ok (r_SubscriptionID r))"

definition clusters_Create ::
    "'w openShiftClusters \<Rightarrow> OpenShiftClusterDocument \<Rightarrow> ('w, OpenShiftClusterDocument option) go" where
  "clusters_Create c doc w =
     (if doc_Key doc \<noteq> ToLower (doc_Key doc) then (Err (not_lower ''key'' (doc_Key doc)), w)
      else gbind (glift (clusters_partitionKey (doc_Key doc))) (\<lambda>pk w.
        case c_Create (cl_c c) pk (doc\<lparr>doc_PartitionKey := pk\<rparr>) None w of
          (r, w') \<Rightarrow> (conflict_to_precondition r, w')) w)"

definition key_query :: "string \<Rightarrow> Query" where
  "key_query key = \<lparr>q_Query = ''SELECT * FROM OpenShiftClusters doc WHERE doc.key = @key'',
     q_Parameters = [\<lparr>par_Name = ''@key'', par_Value = key\<rparr>]\<rparr>"

definition clusters_Get :: "'w openShiftClusters \<Rightarrow> string \<Rightarrow> ('w, OpenShiftClusterDocument) go" where
  "clusters_Get c key w =
     (if key \<noteq> ToLower key then (Err (not_lower ''key'' key), w)
      else gbind (glift (clusters_partitionKey key)) (\<lambda>pk.
        gbind (c_QueryAll (cl_c c) pk (key_query key) None) (\<lambda>docs.
        glift (case ds_Documents docs of
           [] \<Rightarrow> Err (CosmosErr 404 [] [])
         | [d] \<Rightarrow> Ok d
         | _ \<Rightarrow> Err (ErrorfErr (Fmt ''read %d documents, expected <= 1'' [AInt (int (length (ds_Documents docs)))]))))) w)"

definition clusters_update ::
    "'w openShiftClusters \<Rightarrow> OpenShiftClusterDocument \<Rightarrow> Options option \<Rightarrow> ('w, OpenShiftClusterDocument option) go" where
  "clusters_update c doc options w =
     (if doc_Key doc \<noteq> ToLower (doc_Key doc) then (Err (not_lower ''key'' (doc_Key doc)), w)
      else c_Replace (cl_c c) (doc_PartitionKey doc) doc options w)"

definition clusters_Update ::
    "'w openShiftClusters \<Rightarrow> OpenShiftClusterDocument \<Rightarrow> ('w, OpenShiftClusterDocument option) go" where
  "clusters_Update c doc = clusters_update c doc None"

type_synonym ('x, 'w, 'd) patcher = "'d \<Rightarrow> ('x \<times> 'w, 'd) go"

definition clusters_patch ::
    "'w openShiftClusters \<Rightarrow> string \<Rightarrow> ('x, 'w, OpenShiftClusterDocument) patcher \<Rightarrow> Options option \<Rightarrow>
     ('x \<times> 'w, OpenShiftClusterDocument option) go" where
  "clusters_patch c key f options =
     RetryOnPreconditionFailed
       (gbind (on_world (clusters_Get c key)) (\<lambda>doc.
        gbind (f doc) (\<lambda>doc'.
        on_world (clusters_update c doc' options))))"

definition clusters_Patch ::
    "'w openShiftClusters \<Rightarrow> string \<Rightarrow> ('x, 'w, OpenShiftClusterDocument) patcher \<Rightarrow>
     ('x \<times> 'w, OpenShiftClusterDocument option) go" where
  "clusters_Patch c key f = clusters_patch c key f None"

definition clusters_patchWithLease ::
    "'w openShiftClusters \<Rightarrow> string \<Rightarrow> ('x, 'w, OpenShiftClusterDocument) patcher \<Rightarrow> Options option \<Rightarrow>
     ('x \<times> 'w, OpenShiftClusterDocument option) go" where
  "clusters_patchWithLease c key f options =
     clusters_patch c key (\<lambda>doc s. if doc_LeaseOwner doc \<noteq> cl_uuid c then (Err lost_lease, s) else f doc s) options"

definition clusters_PatchWithLease ::
    "'w openShiftClusters \<Rightarrow> string \<Rightarrow> ('x, 'w, OpenShiftClusterDocument) patcher \<Rightarrow>
     ('x \<times> 'w, OpenShiftClusterDocument option) go" where
  "clusters_PatchWithLease c key f = clusters_patchWithLease c key f None"

definition clusters_Delete :: "'w openShiftClusters \<Rightarrow> OpenShiftClusterDocument \<Rightarrow> ('w, unit) go" where
  "clusters_Delete c doc w =
     (if doc_Key doc \<noteq> ToLower (doc_Key doc) then (Err (not_lower ''key'' (doc_Key doc)), w)
      else c_Delete (cl_c c) (doc_PartitionKey doc) doc (Some (zero_Options\<lparr>opt_NoETag := True\<rparr>)) w)"

definition prefix_query :: "string \<Rightarrow> Query" where
  "prefix_query prefix = \<lparr>q_Query = ''SELECT * FROM OpenShiftClusters doc WHERE STARTSWITH(doc.key, @prefix)'',
     q_Parameters = [\<lparr>par_Name = ''@prefix'', par_Value = prefix\<rparr>]\<rparr>"

definition clusters_ListByPrefix :: "'w openShiftClusters \<Rightarrow> string \<Rightarrow> string \<Rightarrow> DocumentIterator result" where
  "clusters_ListByPrefix c subscriptionID prefix =
     (if prefix \<noteq> ToLower prefix then Err (not_lower ''prefix'' prefix)
      else Ok (c_Query (cl_c c) subscriptionID (prefix_query prefix) None))"

definition cluster_queue_query :: Query where
  "cluster_queue_query = \<lparr>q_Query =
     ''SELECT * FROM OpenShiftClusters doc WHERE NOT (doc.openShiftCluster.properties.provisioningState IN (\"Succeeded\", \"Failed\")) AND (doc.leaseExpires ?? 0) < GetCurrentTimestamp() / 1000'',
     q_Parameters = []\<rparr>"

definition take_cluster :: "string \<Rightarrow> OpenShiftClusterDocument \<Rightarrow> OpenShiftClusterDocument" where
  "take_cluster uuid doc = doc\<lparr>doc_LeaseOwner := uuid, doc_Dequeues := doc_Dequeues doc + 1\<rparr>"

definition clusters_Dequeue :: "'w openShiftClusters \<Rightarrow> ('w, OpenShiftClusterDocument option) go" where
  "clusters_Dequeue c =
     dequeue_loop (c_Next (cl_c c))
       (\<lambda>doc. clusters_update c (take_cluster (cl_uuid c) doc) (Some renewLease))
       (cl_fuel c) (c_Query (cl_c c) [] cluster_queue_query None)"

definition clusters_Lease :: "'w openShiftClusters \<Rightarrow> string \<Rightarrow> ('x \<times> 'w, OpenShiftClusterDocument option) go" where
  "clusters_Lease c key = clusters_patchWithLease c key greturn (Some renewLease)"

definition end_cluster_lease ::
    "ProvisioningState \<Rightarrow> ProvisioningState \<Rightarrow> OpenShiftClusterDocument \<Rightarrow> OpenShiftClusterDocument" where
  "end_cluster_lease provisioningState failedProvisioningState doc =
     (let doc = doc\<lparr>doc_OpenShiftCluster :=
            set_FailedProvisioningState failedProvisioningState
              (set_ProvisioningState provisioningState (doc_OpenShiftCluster doc))\<rparr>;
          doc = doc\<lparr>doc_LeaseOwner := [], doc_LeaseExpires := 0\<rparr>;
          doc = (if provisioningState = ProvisioningStateSucceeded then doc\<lparr>doc_Dequeues := 0\<rparr> else doc) in
      doc\<lparr>doc_AsyncOperationID := []\<rparr>)"

definition clusters_EndLease ::
    "'w openShiftClusters \<Rightarrow> string \<Rightarrow> ProvisioningState \<Rightarrow> ProvisioningState \<Rightarrow>
     ('x \<times> 'w, OpenShiftClusterDocument option) go" where
  "clusters_EndLease c key provisioningState failedProvisioningState =
     clusters_patchWithLease c key
       (\<lambda>doc. greturn (end_cluster_lease provisioningState failedProvisioningState doc)) None"

section \<open>Subscriptions\<close>

type_synonym 'w subscriptions = "('w, SubscriptionDocument) collection"

definition subs_Create :: "'w subscriptions \<Rightarrow> SubscriptionDocument \<Rightarrow> ('w, SubscriptionDocument option) go" where
  "subs_Create c doc w =
     (if sd_ID doc \<noteq> ToLower (sd_ID doc) then (Err (not_lower ''id'' (sd_ID doc)), w)
      else case c_Create (cl_c c) (sd_ID doc) doc None w of (r, w') \<Rightarrow> (conflict_to_precondition r, w'))"

definition subs_Get :: "'w subscriptions \<Rightarrow> string \<Rightarrow> ('w, SubscriptionDocument option) go" where
  "subs_Get c id' w =
     (if id' \<noteq> ToLower id' then (Err (not_lower ''id'' id'), w) else c_Get (cl_c c) id' id' None w)"

definition subs_update ::
    "'w subscriptions \<Rightarrow> SubscriptionDocument \<Rightarrow> Options option \<Rightarrow> ('w, SubscriptionDocument option) go" where
  "subs_update c doc options w =
     (if sd_ID doc \<noteq> ToLower (sd_ID doc) then (Err (not_lower ''id'' (sd_ID doc)), w)
      else c_Replace (cl_c c) (sd_ID doc) doc options w)"

definition subs_Update :: "'w subscriptions \<Rightarrow> SubscriptionDocument \<Rightarrow> ('w, SubscriptionDocument option) go" where
  "subs_Update c doc = subs_update c doc None"

definition subs_patch ::
    "'w subscriptions \<Rightarrow> string \<Rightarrow> ('x, 'w, SubscriptionDocument) patcher \<Rightarrow> Options option \<Rightarrow>
     ('x \<times> 'w, SubscriptionDocument option) go" where
  "subs_patch c id' f options =
     RetryOnPreconditionFailed
       (gbind (on_world (subs_Get c id')) (\<lambda>d.
        gbind (deref d) (\<lambda>doc.
        gbind (f doc) (\<lambda>doc'.
        on_world (subs_update c doc' options)))))"

text \<open>The source passes nil here, not its argument \<open>options\<close>.\<close>

definition subs_patchWithLease ::
    "'w subscriptions \<Rightarrow> string \<Rightarrow> ('x, 'w, SubscriptionDocument) patcher \<Rightarrow> Options option \<Rightarrow>
     ('x \<times> 'w, SubscriptionDocument option) go" where
  "subs_patchWithLease c key f options =
     subs_patch c key (\<lambda>doc s. if sd_LeaseOwner doc \<noteq> cl_uuid c then (Err lost_lease, s) else f doc s) None"

definition subs_queue_query :: Query where
  "subs_queue_query = \<lparr>q_Query =
     ''SELECT * FROM Subscriptions doc WHERE (doc.deleting ?? false) AND (doc.leaseExpires ?? 0) < GetCurrentTimestamp() / 1000'',
     q_Parameters = []\<rparr>"

definition take_subscription :: "string \<Rightarrow> SubscriptionDocument \<Rightarrow> SubscriptionDocument" where
  "take_subscription uuid doc = doc\<lparr>sd_LeaseOwner := uuid, sd_Dequeues := sd_Dequeues doc + 1\<rparr>"

definition subs_Dequeue :: "'w subscriptions \<Rightarrow> ('w, SubscriptionDocument option) go" where
  "subs_Dequeue c =
     dequeue_loop (c_Next (cl_c c))
       (\<lambda>doc. subs_update c (take_subscription (cl_uuid c) doc) (Some renewLease))
       (cl_fuel c) (c_Query (cl_c c) [] subs_queue_query None)"

definition subs_Lease :: "'w subscriptions \<Rightarrow> string \<Rightarrow> ('x \<times> 'w, SubscriptionDocument option) go" where
  "subs_Lease c id' = subs_patchWithLease c id' greturn (Some renewLease)"

definition end_subscription_lease :: "bool \<Rightarrow> bool \<Rightarrow> SubscriptionDocument \<Rightarrow> SubscriptionDocument" where
  "end_subscription_lease done retryLater doc =
     (let doc = (if done then doc\<lparr>sd_Deleting := False\<rparr> else doc);
          doc = doc\<lparr>sd_LeaseOwner := [], sd_LeaseExpires := 0\<rparr> in
      if done \<or> retryLater then doc\<lparr>sd_Dequeues := 0\<rparr> else doc)"

definition subs_EndLease ::
    "'w subscriptions \<Rightarrow> string \<Rightarrow> bool \<Rightarrow> bool \<Rightarrow> ('x \<times> 'w, SubscriptionDocument option) go" where
  "subs_EndLease c id' done retryLater =
     (let options = (if retryLater then Some retryLater_options else None) in
      subs_patchWithLease c id' (\<lambda>doc. greturn (end_subscription_lease done retryLater doc)) options)"

end
