(* ===== verification/Backend.thy ===== *)
theory Backend
  imports Database
begin

text \<open>
  The back end, \<^verbatim>\<open>src/pkg/backend\<close>: the loop that dequeues work, the two kinds of worker with their
  leases, and the asynchronous operations they complete.

  A worker's heartbeat is a goroutine; whether it is running is a component of the state a handler
  runs on, so that the order of the calls is visible: \<^verbatim>\<open>stop\<close> ends it, and the deferred \<^verbatim>\<open>stop\<close> ends it
  on every way out of the handler. The number of workers is the state of the loop (section on \<^verbatim>\<open>Run\<close>).
  Logging and metrics are not modelled. The manager of a cluster is what \<^verbatim>\<open>NewManager\<close> returns: its three
  operations.
\<close>

definition maxWorkers :: int where "maxWorkers = 100"
definition maxDequeueCount :: int where "maxDequeueCount = 5"

section \<open>Clusters\<close>

record 'w manager =
  m_Create :: "('w, unit) go"
  m_Update :: "('w, unit) go"
  m_Delete :: "('w, unit) go"

record 'w database =
  db_AsyncOperations :: "'w asyncOperations"
  db_OpenShiftClusters :: "'w openShiftClusters"
  db_Subscriptions :: "'w subscriptions"

record 'w backend =
  b_db :: "'w database"
  b_NewManager :: "OpenShiftClusterDocument \<Rightarrow> ('w, 'w manager) go"
  b_now :: "'w \<Rightarrow> int"

text \<open>The state of a handler: whether its heartbeat is running, and the world.\<close>

type_synonym 'w worker = "bool \<times> 'w"

definition stop_heartbeat :: "('w worker, unit) go" where
  "stop_heartbeat s = (Ok (), (False, snd s))"

definition internal_error_body :: cloud_error_body where
  "internal_error_body =
     CloudErrorBody CloudErrorCodeInternalServerError (Fmt ''Internal server error.'' []) [] []"

definition finish_operation ::
    "int \<Rightarrow> OpenShiftCluster option \<Rightarrow> ProvisioningState \<Rightarrow> ProvisioningState \<Rightarrow>
     AsyncOperationDocument \<Rightarrow> AsyncOperationDocument" where
  "finish_operation now oc provisioningState failedProvisioningState asyncdoc =
     (let ao = (ad_AsyncOperation asyncdoc)\<lparr>ao_ProvisioningState := provisioningState, ao_EndTime := Some now\<rparr>;
          ao = (if provisioningState = ProvisioningStateFailed then ao\<lparr>ao_Error := Some internal_error_body\<rparr> else ao);
          asyncdoc = asyncdoc\<lparr>ad_AsyncOperation := ao\<rparr> in
      case oc of
        None \<Rightarrow> asyncdoc
      | Some c \<Rightarrow> asyncdoc\<lparr>ad_OpenShiftCluster :=
          Some (set_FailedProvisioningState failedProvisioningState (set_ProvisioningState provisioningState c))\<rparr>)"

definition updateAsyncOperation ::
    "'w backend \<Rightarrow> string \<Rightarrow> OpenShiftCluster option \<Rightarrow> ProvisioningState \<Rightarrow> ProvisioningState \<Rightarrow>
     ('w worker, unit) go" where
  "updateAsyncOperation b id' oc provisioningState failedProvisioningState =
     (if id' \<noteq> []
      then gbind (async_Patch (db_AsyncOperations (b_db b)) id'
             (\<lambda>asyncdoc s. (Ok (finish_operation (b_now b (snd s)) oc provisioningState failedProvisioningState asyncdoc), s)))
             (\<lambda>_. greturn ())
      else greturn ())"

text \<open>\<^verbatim>\<open>endLease\<close>; \<open>stop\<close> tells whether a stop function is passed.\<close>

definition endLease ::
    "'w backend \<Rightarrow> bool \<Rightarrow> OpenShiftClusterDocument \<Rightarrow> ProvisioningState \<Rightarrow> ('w worker, unit) go" where
  "endLease b stop doc provisioningState =
     (let failedProvisioningState =
            (if provisioningState = ProvisioningStateFailed then oc_ProvisioningState (doc_OpenShiftCluster doc) else []) in
      gbind (updateAsyncOperation b (doc_AsyncOperationID doc) (Some (doc_OpenShiftCluster doc))
               provisioningState failedProvisioningState) (\<lambda>_.
      gbind (if stop then stop_heartbeat else greturn ()) (\<lambda>_.
      gbind (clusters_EndLease (db_OpenShiftClusters (b_db b)) (doc_Key doc) provisioningState failedProvisioningState)
        (\<lambda>_. greturn ()))))"

text \<open>Run an operation of the manager; an error ends the lease with Failed.\<close>

definition or_fail ::
    "'w backend \<Rightarrow> OpenShiftClusterDocument \<Rightarrow> ('w worker, unit) go \<Rightarrow> ('w worker, unit) go \<Rightarrow> ('w worker, unit) go" where
  "or_fail b doc m k s =
     (case m s of
        (Ok _, s') \<Rightarrow> k s'
      | (Err e, s') \<Rightarrow> endLease b True doc ProvisioningStateFailed s'
      | (Panic p, s') \<Rightarrow> (Panic p, s'))"

definition handle_body :: "'w backend \<Rightarrow> OpenShiftClusterDocument \<Rightarrow> ('w worker, unit) go" where
  "handle_body b doc s =
     (case on_world (b_NewManager b doc) s of
        (Err e, s') \<Rightarrow> endLease b True doc ProvisioningStateFailed s'
      | (Panic p, s') \<Rightarrow> (Panic p, s')
      | (Ok m, s') \<Rightarrow>
          (let st = oc_ProvisioningState (doc_OpenShiftCluster doc) in
           if st = ProvisioningStateCreating then
             or_fail b doc (on_world (m_Create m)) (endLease b True doc ProvisioningStateSucceeded) s'
           else if st = ProvisioningStateUpdating then
             or_fail b doc (on_world (m_Update m)) (endLease b True doc ProvisioningStateSucceeded) s'
           else if st = ProvisioningStateDeleting then
             or_fail b doc (on_world (m_Delete m))
               (or_fail b doc
                  (updateAsyncOperation b (doc_AsyncOperationID doc) None ProvisioningStateSucceeded [])
                  (gbind stop_heartbeat (\<lambda>_.
                   on_world (clusters_Delete (db_OpenShiftClusters (b_db b)) doc)))) s'
           else (Err (ErrorfErr (Fmt ''unexpected provisioningState %q'' [AStr st])), s')))"

text \<open>\<^verbatim>\<open>handle\<close>: the heartbeat is started, and stopped on every way out.\<close>

definition handle :: "'w backend \<Rightarrow> OpenShiftClusterDocument \<Rightarrow> ('w worker, unit) go" where
  "handle b doc s =
     (case handle_body b doc (True, snd s) of (r, s') \<Rightarrow> (r, snd (stop_heartbeat s')))"

text \<open>
  The heartbeat for \<open>n\<close> ticks of its timer: it renews the lease until it is stopped, and cancels the
  handler's context (an error here) at the first renewal that fails.
\<close>

fun heartbeat :: "('w, 'd option) go \<Rightarrow> nat \<Rightarrow> ('w, unit) go" where
  "heartbeat renew 0 w = gbind renew (\<lambda>_. greturn ()) w"
| "heartbeat renew (Suc n) w = gbind renew (\<lambda>_. heartbeat renew n) w"

text \<open>
  \<^verbatim>\<open>try\<close>: whether something was dequeued, with the error of the call, and the document a new worker is
  started on, if any.
\<close>

record 'd tried =
  tr_did :: bool
  tr_err :: "error option"
  tr_spawn :: "'d option"

definition tried_nothing :: "error option \<Rightarrow> 'd tried" where
  "tried_nothing e = \<lparr>tr_did = False, tr_err = e, tr_spawn = None\<rparr>"

definition err_of :: "'a result \<Rightarrow> error option" where
  "err_of r = (case r of Err e \<Rightarrow> Some e | _ \<Rightarrow> None)"

definition cluster_try :: "'w backend \<Rightarrow> ('w, OpenShiftClusterDocument tried) go" where
  "cluster_try b w =
     (case clusters_Dequeue (db_OpenShiftClusters (b_db b)) w of
        (Err e, w') \<Rightarrow> (Ok (tried_nothing (Some e)), w')
      | (Panic p, w') \<Rightarrow> (Panic p, w')
      | (Ok None, w') \<Rightarrow> (Ok (tried_nothing None), w')
      | (Ok (Some doc), w') \<Rightarrow>
          if doc_Dequeues doc > maxDequeueCount then
            (case endLease b False doc ProvisioningStateFailed (False, w') of
               (Panic p, s) \<Rightarrow> (Panic p, snd s)
             | (r, s) \<Rightarrow> (Ok \<lparr>tr_did = True, tr_err = err_of r, tr_spawn = None\<rparr>, snd s))
          else (Ok \<lparr>tr_did = True, tr_err = None, tr_spawn = Some doc\<rparr>, w'))"

section \<open>Subscriptions\<close>

text \<open>
  \<open>enqueue_delete\<close> is the function that \<^verbatim>\<open>handleDelete\<close> passes to \<^verbatim>\<open>Patch\<close>; it clears the flag
  \<^verbatim>\<open>done\<close> of its caller when a cluster is still being created or updated.
\<close>

definition enqueue_delete :: "OpenShiftClusterDocument \<Rightarrow> (bool \<times> 'w, OpenShiftClusterDocument) go" where
  "enqueue_delete doc s =
     (let st = oc_ProvisioningState (doc_OpenShiftCluster doc) in
      if st = ProvisioningStateCreating \<or> st = ProvisioningStateUpdating then (Ok doc, (False, snd s))
      else if st = ProvisioningStateDeleting then (Ok doc, s)
      else if st = ProvisioningStateSucceeded \<or> st = ProvisioningStateFailed then
        (Ok (doc\<lparr>doc_OpenShiftCluster := set_ProvisioningState ProvisioningStateDeleting (doc_OpenShiftCluster doc)\<rparr>), s)
      else (Err (ErrorfErr (Fmt ''unexpected provisioningState %q'' [AStr st])), s))"

fun delete_page :: "'w openShiftClusters \<Rightarrow> OpenShiftClusterDocument list \<Rightarrow> (bool \<times> 'w, unit) go" where
  "delete_page c [] s = (Ok (), s)"
| "delete_page c (doc # docs) s =
     gbind (clusters_Patch c (doc_Key doc) enqueue_delete) (\<lambda>_. delete_page c docs) s"

fun delete_loop :: "'w openShiftClusters \<Rightarrow> nat \<Rightarrow> DocumentIterator \<Rightarrow> (bool \<times> 'w, unit) go" where
  "delete_loop c 0 i s = (still_running, s)"
| "delete_loop c (Suc n) i s =
     (case on_world (c_Next (cl_c c) i) s of
        (Err e, s') \<Rightarrow> (Err e, s')
      | (Panic p, s') \<Rightarrow> (Panic p, s')
      | (Ok (None, _), s') \<Rightarrow> (Ok (), s')
      | (Ok (Some page, i'), s') \<Rightarrow>
          gbind (delete_page c (ds_Documents page)) (\<lambda>_. delete_loop c n i') s')"

definition handleDelete :: "'w openShiftClusters \<Rightarrow> SubscriptionDocument \<Rightarrow> ('w, bool) go" where
  "handleDelete c subdoc w =
     (case clusters_ListByPrefix c (sd_ID subdoc) (''/subscriptions/'' @ sd_ID subdoc @ ''/'') of
        Err e \<Rightarrow> (Err e, w)
      | Panic p \<Rightarrow> (Panic p, w)
      | Ok i \<Rightarrow>
          (case delete_loop c (cl_fuel c) i (True, w) of
             (Ok _, (done, w')) \<Rightarrow> (Ok done, w')
           | (Err e, (_, w')) \<Rightarrow> (Err e, w')
           | (Panic p, (_, w')) \<Rightarrow> (Panic p, w')))"

definition sub_endLease ::
    "'w backend \<Rightarrow> bool \<Rightarrow> SubscriptionDocument \<Rightarrow> bool \<Rightarrow> bool \<Rightarrow> ('w worker, unit) go" where
  "sub_endLease b stop doc done retryLater =
     gbind (if stop then stop_heartbeat else greturn ()) (\<lambda>_.
     gbind (subs_EndLease (db_Subscriptions (b_db b)) (sd_ID doc) done retryLater) (\<lambda>_. greturn ()))"

definition sub_handle :: "'w backend \<Rightarrow> SubscriptionDocument \<Rightarrow> ('w worker, unit) go" where
  "sub_handle b doc s =
     (case (case on_world (handleDelete (db_OpenShiftClusters (b_db b)) doc) (True, snd s) of
              (Err e, s') \<Rightarrow> sub_endLease b True doc False False s'
            | (Panic p, s') \<Rightarrow> (Panic p, s')
            | (Ok done, s') \<Rightarrow> sub_endLease b True doc done (\<not> done) s') of
        (r, s') \<Rightarrow> (r, snd (stop_heartbeat s')))"

definition subscription_try :: "'w backend \<Rightarrow> ('w, SubscriptionDocument tried) go" where
  "subscription_try b w =
     (case subs_Dequeue (db_Subscriptions (b_db b)) w of
        (Err e, w') \<Rightarrow> (Ok (tried_nothing (Some e)), w')
      | (Panic p, w') \<Rightarrow> (Panic p, w')
      | (Ok None, w') \<Rightarrow> (Ok (tried_nothing None), w')
      | (Ok (Some doc), w') \<Rightarrow>
          if sd_Dequeues doc > maxDequeueCount then
            (case sub_endLease b False doc False True (False, w') of
               (Panic p, s) \<Rightarrow> (Panic p, snd s)
             | (r, s) \<Rightarrow> (Ok \<lparr>tr_did = True, tr_err = err_of r, tr_spawn = None\<rparr>, snd s))
          else (Ok \<lparr>tr_did = True, tr_err = None, tr_spawn = Some doc\<rparr>, w'))"

section \<open>Run\<close>

text \<open>
  The loop of \<^verbatim>\<open>Run\<close> as a transition system. \<open>lp_at\<close> is where the loop is: at its check of the number of workers
  (where it also waits), before the two calls of \<^verbatim>\<open>try\<close>, waiting for the ticker, or ended. A call of
  \<^verbatim>\<open>try\<close> either starts one worker or none; workers end at any time (their deferred function counts down and
  wakes the loop, also after a panic); the stop channel may be closed at any time.
\<close>

datatype at = AtCheck | AtClusters | AtSubscriptions bool | AtTicker | AtEnd

record loop =
  lp_at :: at
  lp_workers :: int
  lp_running :: nat
  lp_stopping :: bool

definition loop_init :: loop where
  "loop_init = \<lparr>lp_at = AtCheck, lp_workers = 0, lp_running = 0, lp_stopping = False\<rparr>"

definition spawn :: "bool \<Rightarrow> loop \<Rightarrow> loop" where
  "spawn started l = (if started then l\<lparr>lp_workers := lp_workers l + 1, lp_running := lp_running l + 1\<rparr> else l)"

inductive run_step :: "loop \<Rightarrow> loop \<Rightarrow> bool" where
  check_go: "lp_at l = AtCheck \<Longrightarrow> lp_workers l < maxWorkers \<Longrightarrow> \<not> lp_stopping l \<Longrightarrow>
     run_step l (l\<lparr>lp_at := AtClusters\<rparr>)"
| check_stop: "lp_at l = AtCheck \<Longrightarrow> lp_stopping l \<Longrightarrow> run_step l (l\<lparr>lp_at := AtEnd\<rparr>)"
| try_clusters: "lp_at l = AtClusters \<Longrightarrow> started \<longrightarrow> did \<Longrightarrow>
     run_step l (spawn started (l\<lparr>lp_at := AtSubscriptions did\<rparr>))"
| try_subscriptions: "lp_at l = AtSubscriptions did \<Longrightarrow> started \<longrightarrow> did' \<Longrightarrow>
     run_step l (spawn started (l\<lparr>lp_at := (if did \<or> did' then AtCheck else AtTicker)\<rparr>))"
| tick: "lp_at l = AtTicker \<Longrightarrow> run_step l (l\<lparr>lp_at := AtCheck\<rparr>)"
| worker_end: "lp_running l > 0 \<Longrightarrow>
     run_step l (l\<lparr>lp_workers := lp_workers l - 1, lp_running := lp_running l - 1\<rparr>)"
| stop_signal: "run_step l (l\<lparr>lp_stopping := True\<rparr>)"

inductive run_reachable :: "loop \<Rightarrow> bool" where
  reach_init: "run_reachable loop_init"
| reach_step: "run_reachable l \<Longrightarrow> run_step l l' \<Longrightarrow> run_reachable l'"

inductive_cases run_stepE: "run_step l l'"

text \<open>How many more workers the loop may start before its next check.\<close>

fun headroom :: "at \<Rightarrow> int" where
  "headroom AtCheck = 0"
| "headroom AtClusters = 2"
| "headroom (AtSubscriptions did) = 1"
| "headroom AtTicker = 0"
| "headroom AtEnd = 0"

lemma run_invariant:
  "run_reachable l \<Longrightarrow> lp_workers l = int (lp_running l) \<and> lp_workers l + headroom (lp_at l) \<le> maxWorkers + 1"
proof (induction rule: run_reachable.induct)
  case (reach_step l l')
  from reach_step.hyps(2) reach_step.IH show ?case
    by (cases rule: run_step.cases) (auto simp: spawn_def maxWorkers_def)
qed (simp add: loop_init_def maxWorkers_def)

text \<open>
  C13. The number of workers is bounded: in every state the loop can reach, the counter is the number of workers
  that are running, and it never exceeds the configured maximum by more than one (both queues may start a worker
  after one check).
\<close>
theorem workers_bounded:
  assumes "run_reachable l"
  shows "lp_workers l = int (lp_running l) \<and> 0 \<le> lp_workers l \<and> lp_workers l \<le> maxWorkers + 1"
proof -
  have "0 \<le> headroom (lp_at l)" by (cases "lp_at l") simp_all
  with run_invariant [OF assms] show ?thesis by linarith
qed

theorem workers_bounded_witness:
  "\<exists>l :: loop. lp_workers l = 2 \<and> lp_workers l = int (lp_running l) \<and> 0 \<le> lp_workers l \<and> lp_workers l \<le> maxWorkers + 1"
proof -
  let ?l1 = "loop_init\<lparr>lp_at := AtClusters\<rparr>"
  let ?l2 = "spawn True (?l1\<lparr>lp_at := AtSubscriptions True\<rparr>)"
  let ?l3 = "spawn True (?l2\<lparr>lp_at := AtCheck\<rparr>)"
  have "run_step loop_init ?l1" by (rule check_go) (simp_all add: loop_init_def maxWorkers_def)
  moreover have "run_step ?l1 ?l2" by (rule try_clusters) simp_all
  moreover have "run_step ?l2 (spawn True (?l2\<lparr>lp_at := (if True \<or> True then AtCheck else AtTicker)\<rparr>))"
    by (rule try_subscriptions [where did' = True]) (simp_all add: spawn_def)
  ultimately have "run_reachable ?l3" using reach_init reach_step by (metis (full_types))
  from workers_bounded [OF this] show ?thesis
    by - (rule exI [of _ ?l3], simp add: spawn_def loop_init_def maxWorkers_def)
qed

end
