(* ===== verification/Frontend.thy ===== *)
theory Frontend
  imports Backend Http
begin

text \<open>
  The front end, \<^verbatim>\<open>src/pkg/frontend\<close>: the handlers of the resource provider's API and the reply they
  write. A handler's Go result \<^verbatim>\<open>([]byte, error)\<close> is \<open>Ok (body, code)\<close>, where \<open>code\<close> is the status of a
  \<^verbatim>\<open>statusCodeError\<close> returned beside the body, or \<open>Err e\<close> for \<^verbatim>\<open>(nil, e)\<close>. The header variable a handler fills
  in for its caller is the first component of the state it runs on.

  Parameters: an API version is the record of its converter and validator (the Go interface
  \<^verbatim>\<open>api.Version\<close>), \<open>f_Unmarshal\<close> decodes a body onto an external object (nil for a JSON null), \<open>f_urlWithPath\<close>
  is \<^verbatim>\<open>url.Parse\<close> with a new path, and the clock and the source of identifiers read the world.
\<close>

section \<open>Requests, bodies and replies\<close>

record 'b request =
  r_Method :: string
  r_Path :: string
  r_OriginalPath :: string
  r_Vars :: "(string \<times> string) list"
  r_Header :: header
  r_Body :: 'b

definition var :: "'b request \<Rightarrow> string \<Rightarrow> string" where
  "var r v = (case map_of (r_Vars r) v of Some x \<Rightarrow> x | None \<Rightarrow> [])"

datatype ('e, 'l, 'c) body =
    BCluster 'e
  | BClusters 'l
  | BCredentials 'c
  | BOperation AsyncOperation
  | BSubscription Subscription
  | BOperations OperationList

record ('e, 'l, 'c, 'w) version =
  v_ToExternal :: "OpenShiftCluster \<Rightarrow> 'e"
  v_ToExternalList :: "OpenShiftCluster list \<Rightarrow> 'l"
  v_ToInternal :: "'e \<Rightarrow> OpenShiftCluster \<Rightarrow> OpenShiftCluster"
  v_Credentials :: "OpenShiftCluster \<Rightarrow> 'c"
  v_Static :: "string \<Rightarrow> 'e \<Rightarrow> OpenShiftCluster option \<Rightarrow> unit result"
  v_Dynamic :: "OpenShiftCluster \<Rightarrow> ('w, unit) go"

record ('b, 'e, 'w) frontend =
  f_db :: "'w database"
  f_location :: string
  f_Unmarshal :: "'b \<Rightarrow> 'e \<Rightarrow> 'e option result"
  f_DecodeSubscription :: "'b \<Rightarrow> Subscription option result"
  f_ValidJSON :: "'b \<Rightarrow> bool"
  f_emptyBody :: "'b \<Rightarrow> bool"
  f_urlWithPath :: "string \<Rightarrow> string \<Rightarrow> string result"
  f_FEATURE_OPERATIONS :: bool
  f_newUUID :: "'w \<Rightarrow> string \<times> 'w"
  f_now :: "'w \<Rightarrow> int"
  f_ready :: bool
  f_env_IsReady :: bool

type_synonym ('e, 'l, 'c) answer = "('e, 'l, 'c) body option \<times> int option"

definition reply :: "header \<Rightarrow> 'y option \<Rightarrow> error option \<Rightarrow> 'y response_writer \<Rightarrow> 'y response_writer" where
  "reply hs b err w =
     (let w = w\<lparr>rw_Header := fold (\<lambda>(k, v) h. AList.update k v h) hs (rw_Header w)\<rparr>;
          send = (\<lambda>w. case b of None \<Rightarrow> w | Some x \<Rightarrow> Write PNewline (Write (PBody x) w)) in
      case err of
        None \<Rightarrow> send w
      | Some (CloudErr statusCode body) \<Rightarrow> WriteCloudError statusCode (Some body) w
      | Some (StatusCodeErr statusCode) \<Rightarrow> send (WriteHeader statusCode w)
      | Some e \<Rightarrow> WriteError 500 CloudErrorCodeInternalServerError [] ''Internal server error.'' [] w)"

text \<open>Reply with the result of a handler; a panic is left to the middleware.\<close>

definition reply_result ::
    "header \<Rightarrow> ('y option \<times> int option) result \<Rightarrow> 'y response_writer \<Rightarrow> 'y response_writer result" where
  "reply_result hs r w =
     (case r of
        Ok (b, None) \<Rightarrow> Ok (reply hs b None w)
      | Ok (b, Some code) \<Rightarrow> Ok (reply hs b (Some (StatusCodeErr code)) w)
      | Err e \<Rightarrow> Ok (reply hs None (Some e) w)
      | Panic p \<Rightarrow> Panic p)"

section \<open>Validation helpers\<close>

definition validateTerminalProvisioningState :: "ProvisioningState \<Rightarrow> unit result" where
  "validateTerminalProvisioningState state =
     rguard (state \<in> {ProvisioningStateSucceeded, ProvisioningStateFailed})
       (NewCloudError 400 CloudErrorCodeRequestNotAllowed [] ''Request is not allowed in provisioningState '%s'.'' [AStr state])"

definition validateSubscriptionState ::
    "('b, 'e, 'w) frontend \<Rightarrow> string \<Rightarrow> SubscriptionState list \<Rightarrow> ('w, SubscriptionDocument) go" where
  "validateSubscriptionState f key allowedStates =
     gbind (glift (ParseResourceID key)) (\<lambda>r w.
       case subs_Get (db_Subscriptions (f_db f)) (r_SubscriptionID r) w of
         (Panic p, w') \<Rightarrow> (Panic p, w')
       | (Err e, w') \<Rightarrow>
           if IsErrorStatusCode e 404
           then (Err (NewCloudError 400 CloudErrorCodeInvalidSubscriptionState []
                   ''Request is not allowed in unregistered subscription '%s'.'' [AStr (r_SubscriptionID r)]), w')
           else (Err e, w')
       | (Ok d, w') \<Rightarrow>
           gbind (deref d) (\<lambda>doc.
             if s_State (sd_Subscription doc) \<in> set allowedStates then greturn doc
             else glift (Err (NewCloudError 400 CloudErrorCodeInvalidSubscriptionState []
                   ''Request is not allowed in subscription in state '%s'.'' [AStr (s_State (sd_Subscription doc))]))) w')"

section \<open>Asynchronous operations\<close>

definition operationsPath :: "('b, 'e, 'w) frontend \<Rightarrow> 'b request \<Rightarrow> string \<Rightarrow> string" where
  "operationsPath f r id' =
     ''/subscriptions/'' @ var r ''subscriptionId'' @ ''/providers/'' @ var r ''resourceProviderNamespace'' @
     ''/locations/'' @ ToLower (f_location f) @ ''/operationsstatus/'' @ id'"

definition operationResultsPath :: "('b, 'e, 'w) frontend \<Rightarrow> 'b request \<Rightarrow> string \<Rightarrow> string" where
  "operationResultsPath f r id' =
     ''/subscriptions/'' @ var r ''subscriptionId'' @ ''/providers/'' @ var r ''resourceProviderNamespace'' @
     ''/locations/'' @ ToLower (f_location f) @ ''/operationresults/'' @ id'"

definition new_operation_doc ::
    "('b, 'e, 'w) frontend \<Rightarrow> 'b request \<Rightarrow> string \<Rightarrow> int \<Rightarrow> OpenShiftClusterDocument \<Rightarrow> AsyncOperationDocument" where
  "new_operation_doc f r id' now doc = \<lparr>
     ad_MissingFields = None, ad_ID = id', ad_ResourceID = [], ad_Timestamp = 0, ad_Self = [], ad_ETag = [],
     ad_Attachments = [],
     ad_AsyncOperation = \<lparr>ao_MissingFields = None, ao_ID = operationsPath f r id', ao_Name = id',
       ao_InitialProvisioningState = oc_ProvisioningState (doc_OpenShiftCluster doc),
       ao_ProvisioningState = oc_ProvisioningState (doc_OpenShiftCluster doc),
       ao_StartTime = now, ao_EndTime = None, ao_Error = None\<rparr>,
     ad_OpenShiftClusterKey = doc_Key doc, ad_OpenShiftCluster = None\<rparr>"

definition newAsyncOperation ::
    "('b, 'e, 'w) frontend \<Rightarrow> 'b request \<Rightarrow> OpenShiftClusterDocument \<Rightarrow> ('w, string) go" where
  "newAsyncOperation f r doc w =
     (case f_newUUID f w of (id', w1) \<Rightarrow>
        gbind (async_Create (db_AsyncOperations (f_db f)) (new_operation_doc f r id' (f_now f w1) doc))
          (\<lambda>_. greturn id') w1)"

section \<open>Reading\<close>

definition not_found_error :: "'b request \<Rightarrow> error" where
  "not_found_error r = NewCloudError 404 CloudErrorCodeResourceNotFound []
     ''The Resource '%s/%s' under resource group '%s' was not found.''
     [AStr (var r ''resourceType''), AStr (var r ''resourceName''), AStr (var r ''resourceGroupName'')]"

text \<open>\<^verbatim>\<open>switch\<close> on the error of a read: a 404 of the database becomes the given error.\<close>

definition on_404 :: "error \<Rightarrow> ('w, 'a) go \<Rightarrow> ('w, 'a) go" where
  "on_404 e m w =
     (case m w of (Err e', w') \<Rightarrow> (Err (if IsErrorStatusCode e' 404 then e else e'), w') | x \<Rightarrow> x)"

definition get_OpenShiftCluster ::
    "('b, 'e, 'w) frontend \<Rightarrow> ('e, 'l, 'c, 'w) version \<Rightarrow> 'b request \<Rightarrow> ('w, ('e, 'l, 'c) answer) go" where
  "get_OpenShiftCluster f v r =
     gbind (on_404 (not_found_error r) (clusters_Get (db_OpenShiftClusters (f_db f)) (r_Path r))) (\<lambda>doc.
     greturn (Some (BCluster (v_ToExternal v (clear_ClientSecret (doc_OpenShiftCluster doc)))), None))"

fun list_loop ::
    "'w openShiftClusters \<Rightarrow> nat \<Rightarrow> OpenShiftCluster list \<Rightarrow> DocumentIterator \<Rightarrow> ('w, OpenShiftCluster list) go" where
  "list_loop c 0 ocs i w = (still_running, w)"
| "list_loop c (Suc n) ocs i w =
     (case c_Next (cl_c c) i w of
        (Err e, w') \<Rightarrow> (Err e, w')
      | (Panic p, w') \<Rightarrow> (Panic p, w')
      | (Ok (None, _), w') \<Rightarrow> (Ok ocs, w')
      | (Ok (Some docs, i'), w') \<Rightarrow>
          list_loop c n (ocs @ map (\<lambda>d. clear_ClientSecret (doc_OpenShiftCluster d)) (ds_Documents docs)) i' w')"

definition get_OpenShiftClusters ::
    "('b, 'e, 'w) frontend \<Rightarrow> ('e, 'l, 'c, 'w) version \<Rightarrow> 'b request \<Rightarrow> ('w, ('e, 'l, 'c) answer) go" where
  "get_OpenShiftClusters f v r =
     (let c = db_OpenShiftClusters (f_db f);
          prefix = ''/subscriptions/'' @ var r ''subscriptionId'' @ ''/'';
          prefix = (if var r ''resourceGroupName'' \<noteq> []
                    then prefix @ ''resourcegroups/'' @ var r ''resourceGroupName'' @ ''/'' else prefix) in
      gbind (glift (clusters_ListByPrefix c (var r ''subscriptionId'') prefix)) (\<lambda>i.
      gbind (list_loop c (cl_fuel c) [] i) (\<lambda>ocs.
      greturn (Some (BClusters (v_ToExternalList v ocs)), None))))"

definition dir_of :: "string \<Rightarrow> string" where
  "dir_of s = Join CHR ''/'' (butlast (Split CHR ''/'' s))"

definition post_OpenShiftClusterCredentials ::
    "('b, 'e, 'w) frontend \<Rightarrow> ('e, 'l, 'c, 'w) version \<Rightarrow> 'b request \<Rightarrow> ('w, ('e, 'l, 'c) answer) go" where
  "post_OpenShiftClusterCredentials f v r =
     gbind (validateSubscriptionState f (r_Path r) [SubscriptionStateRegistered]) (\<lambda>_.
     gbind (on_404 (not_found_error r) (clusters_Get (db_OpenShiftClusters (f_db f)) (r_Path r))) (\<lambda>doc.
     if oc_ProvisioningState (doc_OpenShiftCluster doc) = ProvisioningStateCreating
     then glift (Err (NewCloudError 400 CloudErrorCodeRequestNotAllowed []
            ''Request is not allowed in provisioningState '%s'.'' [AStr (oc_ProvisioningState (doc_OpenShiftCluster doc))]))
     else greturn (Some (BCredentials (v_Credentials v (clear_ClientSecret (doc_OpenShiftCluster doc)))), None)))"

definition postOpenShiftClusterCredentials ::
    "('b, 'e, 'w) frontend \<Rightarrow> ('e, 'l, 'c, 'w) version \<Rightarrow> 'b request \<Rightarrow> ('w, ('e, 'l, 'c) answer) go" where
  "postOpenShiftClusterCredentials f v r =
     (if \<not> f_emptyBody f (r_Body r) \<and> \<not> f_ValidJSON f (r_Body r)
      then glift (Err (NewCloudError 400 CloudErrorCodeInvalidRequestContent []
             ''The request content was invalid and could not be deserialized.'' []))
      else post_OpenShiftClusterCredentials f v (r\<lparr>r_Path := dir_of (r_Path r)\<rparr>))"

text \<open>The operation and the cluster it belongs to, if that still exists.\<close>

definition read_operation ::
    "('b, 'e, 'w) frontend \<Rightarrow> 'b request \<Rightarrow> ('w, AsyncOperationDocument \<times> OpenShiftClusterDocument option) go" where
  "read_operation f r =
     gbind (on_404 (NewCloudError 404 CloudErrorCodeNotFound [] ''The entity was not found.'' [])
              (async_Get (db_AsyncOperations (f_db f)) (var r ''operationId''))) (\<lambda>d.
     gbind (deref d) (\<lambda>asyncdoc w.
       case clusters_Get (db_OpenShiftClusters (f_db f)) (ad_OpenShiftClusterKey asyncdoc) w of
         (Panic p, w') \<Rightarrow> (Panic p, w')
       | (Err e, w') \<Rightarrow> if IsErrorStatusCode e 404 then (Ok (asyncdoc, None), w') else (Err e, w')
       | (Ok doc, w') \<Rightarrow> (Ok (asyncdoc, Some doc), w')))"

definition in_progress :: "string \<Rightarrow> OpenShiftClusterDocument option \<Rightarrow> bool" where
  "in_progress operationId doc = (case doc of None \<Rightarrow> False | Some d \<Rightarrow> doc_AsyncOperationID d = operationId)"

definition get_AsyncOperationResult ::
    "('b, 'e, 'w) frontend \<Rightarrow> ('e, 'l, 'c, 'w) version \<Rightarrow> 'b request \<Rightarrow> (header \<times> 'w, ('e, 'l, 'c) answer) go" where
  "get_AsyncOperationResult f v r =
     gbind (on_world (read_operation f r)) (\<lambda>(asyncdoc, doc) s.
       if in_progress (var r ''operationId'') doc
       then (Ok (None, Some 202),
             (AList.update ''Location'' (case map_of (r_Header r) ''Referer'' of Some x \<Rightarrow> x | None \<Rightarrow> []) (fst s), snd s))
       else case ad_OpenShiftCluster asyncdoc of
              None \<Rightarrow> (Ok (None, Some 204), s)
            | Some oc \<Rightarrow> (Ok (Some (BCluster (v_ToExternal v (clear_ClientSecret oc))), None), s))"

definition get_AsyncOperationsStatus ::
    "('b, 'e, 'w) frontend \<Rightarrow> 'b request \<Rightarrow> ('w, ('e, 'l, 'c) answer) go" where
  "get_AsyncOperationsStatus f r =
     gbind (read_operation f r) (\<lambda>(asyncdoc, doc).
       let ao = ad_AsyncOperation asyncdoc;
           ao = (if in_progress (var r ''operationId'') doc
                 then ao\<lparr>ao_ProvisioningState := ao_InitialProvisioningState ao, ao_EndTime := None, ao_Error := None\<rparr>
                 else ao) in
       greturn (Some (BOperation (ao\<lparr>ao_MissingFields := None, ao_InitialProvisioningState := []\<rparr>)), None))"

section \<open>Writing\<close>

definition delete_OpenShiftCluster ::
    "('b, 'e, 'w) frontend \<Rightarrow> 'b request \<Rightarrow> OpenShiftClusterDocument \<Rightarrow>
     (header \<times> 'w, OpenShiftClusterDocument) go" where
  "delete_OpenShiftCluster f r doc =
     gbind (on_world (validateSubscriptionState f (doc_Key doc)
              [SubscriptionStateRegistered, SubscriptionStateWarned, SubscriptionStateSuspended])) (\<lambda>_.
     gbind (glift (validateTerminalProvisioningState (oc_ProvisioningState (doc_OpenShiftCluster doc)))) (\<lambda>_.
     let doc = doc\<lparr>doc_OpenShiftCluster := set_ProvisioningState ProvisioningStateDeleting (doc_OpenShiftCluster doc),
                   doc_Dequeues := 0\<rparr> in
     gbind (on_world (newAsyncOperation f r doc)) (\<lambda>id'.
     let doc = doc\<lparr>doc_AsyncOperationID := id'\<rparr> in
     gbind (glift (f_urlWithPath f (Header_Get (r_Header r) ''Referer'') (operationResultsPath f r id'))) (\<lambda>loc.
     gbind (if f_FEATURE_OPERATIONS f
            then gbind (glift (f_urlWithPath f (Header_Get (r_Header r) ''Referer'') (operationsPath f r id')))
                   (\<lambda>u. greturn [(''Location'', [loc]), (''Azure-AsyncOperation'', [u])])
            else greturn [(''Location'', [loc])]) (\<lambda>hs s.
     (Ok doc, (hs, snd s)))))))"

definition deleteOpenShiftCluster ::
    "('b, 'e, 'w) frontend \<Rightarrow> 'b request \<Rightarrow> (header \<times> 'w, ('e, 'l, 'c) answer) go" where
  "deleteOpenShiftCluster f r s =
     (case clusters_Patch (db_OpenShiftClusters (f_db f)) (r_Path r) (delete_OpenShiftCluster f r) s of
        (Ok _, s') \<Rightarrow> (Ok (None, Some 202), s')
      | (Err e, s') \<Rightarrow> if IsErrorStatusCode e 404 then (Ok (None, Some 204), s') else (Err e, s')
      | (Panic p, s') \<Rightarrow> (Panic p, s'))"

text \<open>The document of a cluster that does not exist yet.\<close>

definition new_cluster_doc ::
    "string \<Rightarrow> 'b request \<Rightarrow> Resource \<Rightarrow> string \<Rightarrow> OpenShiftClusterDocument" where
  "new_cluster_doc id' r originalR tenantID =
     zero_OpenShiftClusterDocument\<lparr>doc_ID := id', doc_Key := r_Path r,
       doc_OpenShiftCluster := zero_OpenShiftCluster\<lparr>
         oc_ID := r_OriginalPath r, oc_Name := r_ResourceName originalR,
         oc_Type := r_Provider originalR @ ''/'' @ r_ResourceType originalR,
         oc_Properties := zero_Properties\<lparr>
           p_ProvisioningState := ProvisioningStateSucceeded,
           p_ServicePrincipalProfile := (p_ServicePrincipalProfile zero_Properties)\<lparr>spp_TenantID := tenantID\<rparr>\<rparr>\<rparr>\<rparr>"

definition create_doc ::
    "('b, 'e, 'w) frontend \<Rightarrow> 'b request \<Rightarrow> SubscriptionDocument \<Rightarrow> ('w, OpenShiftClusterDocument) go" where
  "create_doc f r subdoc =
     gbind (glift (ParseResourceID (r_OriginalPath r))) (\<lambda>originalR w.
       case f_newUUID f w of (id', w1) \<Rightarrow>
         gbind (deref (s_Properties (sd_Subscription subdoc)))
           (\<lambda>p. greturn (new_cluster_doc id' r originalR (sp_TenantID p))) w1)"

text \<open>The gate of a PUT or PATCH on the state of the cluster; a failed update may be retried.\<close>

definition gate_update :: "OpenShiftClusterDocument \<Rightarrow> OpenShiftClusterDocument result" where
  "gate_update doc =
     (let oc = doc_OpenShiftCluster doc in
      rbind (validateTerminalProvisioningState (oc_ProvisioningState oc)) (\<lambda>_.
      if oc_ProvisioningState oc = ProvisioningStateFailed then
        (if oc_FailedProvisioningState oc = ProvisioningStateCreating
         then Err (NewCloudError 400 CloudErrorCodeRequestNotAllowed []
                ''Request is not allowed on cluster whose creation failed. Delete the cluster.'' [])
         else if oc_FailedProvisioningState oc = ProvisioningStateUpdating
         then Ok (doc\<lparr>doc_OpenShiftCluster := set_FailedProvisioningState [] oc\<rparr>)
         else if oc_FailedProvisioningState oc = ProvisioningStateDeleting
         then Err (NewCloudError 400 CloudErrorCodeRequestNotAllowed []
                ''Request is not allowed on cluster whose deletion failed. Delete the cluster.'' [])
         else Err (ErrorfErr (Fmt ''unexpected failedProvisioningState %q'' [AStr (oc_FailedProvisioningState oc)])))
      else Ok doc))"

text \<open>
  The external object a body is decoded onto: for PUT only the identity and the state of the cluster, for PATCH all
  of it. Other methods leave the interface nil.
\<close>

definition decode_target :: "('e, 'l, 'c, 'w) version \<Rightarrow> string \<Rightarrow> OpenShiftCluster \<Rightarrow> 'e result" where
  "decode_target v method oc =
     (if method = MethodPut then
        Ok (v_ToExternal v (zero_OpenShiftCluster\<lparr>oc_ID := oc_ID oc, oc_Name := oc_Name oc, oc_Type := oc_Type oc,
              oc_Properties := zero_Properties\<lparr>p_ProvisioningState := oc_ProvisioningState oc\<rparr>\<rparr>))
      else if method = MethodPatch then Ok (v_ToExternal v oc)
      else Panic ''interface conversion'')"

definition installVersion :: string where
  "installVersion = ''4.3.0-0.nightly-2019-12-05-001549''"

text \<open>The document after the external object has been merged into it.\<close>

definition merge_doc ::
    "('e, 'l, 'c, 'w) version \<Rightarrow> bool \<Rightarrow> 'e \<Rightarrow> OpenShiftClusterDocument \<Rightarrow> OpenShiftClusterDocument" where
  "merge_doc v isCreate ext doc =
     (let old = doc_OpenShiftCluster doc;
          oc = (v_ToInternal v ext old)\<lparr>oc_ID := oc_ID old, oc_Name := oc_Name old, oc_Type := oc_Type old\<rparr> in
      if isCreate then
        doc\<lparr>doc_ClusterResourceGroupIDKey := ToLower (cp_ResourceGroupID (p_ClusterProfile (oc_Properties oc))),
            doc_OpenShiftCluster := (set_ProvisioningState ProvisioningStateCreating oc)\<lparr>oc_Properties :=
              (oc_Properties (set_ProvisioningState ProvisioningStateCreating oc))\<lparr>p_ClusterProfile :=
                (p_ClusterProfile (oc_Properties oc))\<lparr>cp_Version := installVersion\<rparr>\<rparr>\<rparr>\<rparr>
      else
        doc\<lparr>doc_OpenShiftCluster := set_ProvisioningState ProvisioningStateUpdating oc, doc_Dequeues := 0\<rparr>)"

definition bad_content :: "error \<Rightarrow> error" where
  "bad_content e = NewCloudError 400 CloudErrorCodeInvalidRequestContent []
     ''The request content was invalid and could not be deserialized: %q.'' [AErr e]"

definition unmarshal_body ::
    "('b, 'e, 'w) frontend \<Rightarrow> 'b \<Rightarrow> 'e \<Rightarrow> 'e result" where
  "unmarshal_body f body target =
     (case f_Unmarshal f body target of
        Err e \<Rightarrow> Err (bad_content e)
      | Panic p \<Rightarrow> Panic p
      | Ok None \<Rightarrow> Panic ''interface conversion''
      | Ok (Some ext) \<Rightarrow> Ok ext)"

text \<open>
  The last write. On creation the error variable of the source is shadowed: an error other than 412 is lost and the nil
  document is dereferenced.
\<close>

definition save_doc ::
    "'w openShiftClusters \<Rightarrow> bool \<Rightarrow> OpenShiftClusterDocument \<Rightarrow> ('w, OpenShiftClusterDocument) go" where
  "save_doc c isCreate doc w =
     (if isCreate then
        (case clusters_Create c doc w of
           (Err e, w') \<Rightarrow>
             if IsErrorStatusCode e 412
             then (Err (NewCloudError 400 CloudErrorCodeInvalidResourceGroup []
                     ''The provided resource group '%s' already contains a cluster.''
                     [AStr (cp_ResourceGroupID (p_ClusterProfile (oc_Properties (doc_OpenShiftCluster doc))))]), w')
             else (Panic ''nil pointer dereference'', w')
         | (Panic p, w') \<Rightarrow> (Panic p, w')
         | (Ok d, w') \<Rightarrow> deref d w')
      else gbind (clusters_Update c doc) deref w)"

text \<open>
  The handler in three parts, as the source has them: the document that is stored, if any; the work from the gate on, for
  a stored or a new document; and the two put together.
\<close>

definition find_cluster :: "('b, 'e, 'w) frontend \<Rightarrow> 'b request \<Rightarrow> ('w, OpenShiftClusterDocument option) go" where
  "find_cluster f r w =
     (case clusters_Get (db_OpenShiftClusters (f_db f)) (r_Path r) w of
        (Panic p, w') \<Rightarrow> (Panic p, w')
      | (Err e, w') \<Rightarrow> if IsErrorStatusCode e 404 then (Ok None, w') else (Err e, w')
      | (Ok d, w') \<Rightarrow> (Ok (Some d), w'))"

definition put_document ::
    "('b, 'e, 'w) frontend \<Rightarrow> ('e, 'l, 'c, 'w) version \<Rightarrow> 'b request \<Rightarrow> bool \<Rightarrow> OpenShiftClusterDocument \<Rightarrow>
     (header \<times> 'w, ('e, 'l, 'c) answer) go" where
  "put_document f v r isCreate doc =
     gbind (glift (gate_update doc)) (\<lambda>doc.
     gbind (glift (decode_target v (r_Method r) (doc_OpenShiftCluster doc))) (\<lambda>target.
     gbind (glift (unmarshal_body f (r_Body r) target)) (\<lambda>ext.
     gbind (glift (v_Static v (r_Path r) ext (if isCreate then None else Some (doc_OpenShiftCluster doc)))) (\<lambda>_.
     let doc = merge_doc v isCreate ext doc in
     gbind (on_world (v_Dynamic v (doc_OpenShiftCluster doc))) (\<lambda>_.
     gbind (on_world (newAsyncOperation f r doc)) (\<lambda>id'.
     let doc = doc\<lparr>doc_AsyncOperationID := id'\<rparr> in
     gbind (if f_FEATURE_OPERATIONS f
            then gbind (glift (f_urlWithPath f (Header_Get (r_Header r) ''Referer'') (operationsPath f r id')))
                   (\<lambda>u s. (Ok (), ([(''Azure-AsyncOperation'', [u])], snd s)))
            else greturn ()) (\<lambda>_.
     gbind (on_world (save_doc (db_OpenShiftClusters (f_db f)) isCreate doc)) (\<lambda>doc.
     greturn (Some (BCluster (v_ToExternal v (clear_ClientSecret (doc_OpenShiftCluster doc)))),
              if isCreate then Some 201 else None)))))))))"

definition put_or_patch_OpenShiftCluster ::
    "('b, 'e, 'w) frontend \<Rightarrow> ('e, 'l, 'c, 'w) version \<Rightarrow> 'b request \<Rightarrow> (header \<times> 'w, ('e, 'l, 'c) answer) go" where
  "put_or_patch_OpenShiftCluster f v r =
     gbind (on_world (validateSubscriptionState f (r_Path r) [SubscriptionStateRegistered])) (\<lambda>subdoc.
     gbind (on_world (find_cluster f r)) (\<lambda>found.
     gbind (case found of None \<Rightarrow> on_world (create_doc f r subdoc) | Some d \<Rightarrow> greturn d) (\<lambda>doc.
     put_document f v r (found = None) doc)))"

definition putOrPatchOpenShiftCluster ::
    "('b, 'e, 'w) frontend \<Rightarrow> ('e, 'l, 'c, 'w) version \<Rightarrow> 'b request \<Rightarrow> (header \<times> 'w, ('e, 'l, 'c) answer) go" where
  "putOrPatchOpenShiftCluster f v r = RetryOnPreconditionFailed (put_or_patch_OpenShiftCluster f v r)"

definition decode_subscription :: "('b, 'e, 'w) frontend \<Rightarrow> 'b \<Rightarrow> Subscription result" where
  "decode_subscription f body =
     (case f_DecodeSubscription f body of
        Err e \<Rightarrow> Err (bad_content e)
      | Panic p \<Rightarrow> Panic p
      | Ok None \<Rightarrow> Panic ''nil pointer dereference''
      | Ok (Some s) \<Rightarrow> Ok s)"

text \<open>The new subscription document: the states a subscription may be in, and no way back from Deleted.\<close>

definition update_subscription :: "Subscription \<Rightarrow> SubscriptionDocument \<Rightarrow> SubscriptionDocument result" where
  "update_subscription sub doc =
     (let oldState = s_State (sd_Subscription doc);
          doc = doc\<lparr>sd_Subscription := sub\<rparr> in
      rbind (if s_State sub \<in> {SubscriptionStateRegistered, SubscriptionStateUnregistered,
                 SubscriptionStateWarned, SubscriptionStateSuspended} then Ok doc
             else if s_State sub = SubscriptionStateDeleted then Ok (doc\<lparr>sd_Deleting := True\<rparr>)
             else Err (NewCloudError 400 CloudErrorCodeInvalidParameter ''state''
                    ''The provided state '%s' is invalid.'' [AStr (s_State sub)])) (\<lambda>doc.
      if oldState = SubscriptionStateDeleted \<and> s_State sub \<noteq> SubscriptionStateDeleted
      then Err (NewCloudError 400 CloudErrorCodeInvalidSubscriptionState []
             ''Request is not allowed in subscription in state '%s'.'' [AStr oldState])
      else Ok doc))"

definition put_Subscription ::
    "('b, 'e, 'w) frontend \<Rightarrow> 'b request \<Rightarrow> ('w, ('e, 'l, 'c) answer) go" where
  "put_Subscription f r =
     (let c = db_Subscriptions (f_db f); i = var r ''subscriptionId'' in
      gbind (\<lambda>w. case subs_Get c i w of
              (Panic p, w') \<Rightarrow> (Panic p, w')
            | (Err e, w') \<Rightarrow> if IsErrorStatusCode e 404 then (Ok None, w') else (Err e, w')
            | (Ok d, w') \<Rightarrow> (Ok d, w')) (\<lambda>found.
      let isCreate = (found = None);
          doc = (case found of None \<Rightarrow> zero_SubscriptionDocument\<lparr>sd_ID := i\<rparr> | Some d \<Rightarrow> d) in
      gbind (glift (decode_subscription f (r_Body r))) (\<lambda>sub.
      gbind (glift (update_subscription sub doc)) (\<lambda>doc.
      gbind (if isCreate then subs_Create c doc else subs_Update c doc) (\<lambda>d.
      gbind (deref d) (\<lambda>doc.
      greturn (Some (BSubscription (sd_Subscription doc)), if isCreate then Some 201 else None)))))))"

definition putSubscription :: "('b, 'e, 'w) frontend \<Rightarrow> 'b request \<Rightarrow> ('w, ('e, 'l, 'c) answer) go" where
  "putSubscription f r = RetryOnPreconditionFailed (put_Subscription f r)"

section \<open>Operations and readiness\<close>

definition operation :: "string \<Rightarrow> string \<Rightarrow> string \<Rightarrow> Operation" where
  "operation name resource what =
     \<lparr>op_Name = name, op_Display = \<lparr>d_Provider = ''Azure Red Hat OpenShift'', d_Resource = resource,
        d_Operation = what, d_Description = []\<rparr>\<rparr>"

definition getOperations :: OperationList where
  "getOperations = \<lparr>ol_Operations = [
     operation ''Microsoft.RedHatOpenShift/locations/operationresults/read'' ''locations/operationresults'' ''Read operation results'',
     operation ''Microsoft.RedHatOpenShift/locations/operationsstatus/read'' ''locations/operationsstatus'' ''Read operations status'',
     operation ''Microsoft.RedHatOpenShift/openShiftClusters/read'' ''openShiftClusters'' ''Read OpenShift cluster'',
     operation ''Microsoft.RedHatOpenShift/openShiftClusters/write'' ''openShiftClusters'' ''Write OpenShift cluster'',
     operation ''Microsoft.RedHatOpenShift/openShiftClusters/delete'' ''openShiftClusters'' ''Delete OpenShift cluster'',
     operation ''Microsoft.RedHatOpenShift/openShiftClusters/listCredentials/action'' ''openShiftClusters'' ''Lists credentials of an OpenShift cluster'',
     operation ''Microsoft.RedHatOpenShift/operations/read'' ''operations'' ''Read operations'']\<rparr>"

definition getReady :: "('b, 'e, 'w) frontend \<Rightarrow> 'y response_writer \<Rightarrow> 'y response_writer" where
  "getReady f w =
     (if f_ready f \<and> f_env_IsReady f then WriteCloudError 200 None w
      else WriteError 500 CloudErrorCodeInternalServerError [] ''Internal server error.'' [] w)"

end
