(* ===== verification/V20191231preview.thy ===== *)
theory V20191231preview
  imports Api
begin

text \<open>
  The external API version 2019-12-31-preview, \<^verbatim>\<open>src/pkg/api/v20191231preview\<close>: its cluster
  types, the converters between the external and the internal model, the credentials view and
  the example objects the Swagger generator publishes.
\<close>

section \<open>External types\<close>

record xClusterProfile =
  xcp_Domain :: string
  xcp_Version :: string
  xcp_ResourceGroupID :: string

record xConsoleProfile =
  xcon_URL :: string

record xServicePrincipalProfile =
  xspp_ClientID :: string
  xspp_ClientSecret :: string

record xNetworkProfile =
  xnp_PodCIDR :: string
  xnp_ServiceCIDR :: string

record xMasterProfile =
  xmp_VMSize :: VMSize
  xmp_SubnetID :: string

record xWorkerProfile =
  xwp_Name :: string
  xwp_VMSize :: VMSize
  xwp_DiskSizeGB :: int
  xwp_SubnetID :: string
  xwp_Count :: int

record xAPIServerProfile =
  xap_Visibility :: Visibility
  xap_URL :: string
  xap_IP :: string

record xIngressProfile =
  xip_Name :: string
  xip_Visibility :: Visibility
  xip_IP :: string

record xProperties =
  xp_ProvisioningState :: ProvisioningState
  xp_ClusterProfile :: xClusterProfile
  xp_ConsoleProfile :: xConsoleProfile
  xp_ServicePrincipalProfile :: xServicePrincipalProfile
  xp_NetworkProfile :: xNetworkProfile
  xp_MasterProfile :: xMasterProfile
  xp_WorkerProfiles :: "xWorkerProfile list option"
  xp_APIServerProfile :: xAPIServerProfile
  xp_IngressProfiles :: "xIngressProfile list option"

record xOpenShiftCluster =
  x_ID :: string
  x_Name :: string
  x_Type :: string
  x_Location :: string
  x_Tags :: "(string \<rightharpoonup> string) option"
  x_Properties :: xProperties

record xOpenShiftClusterList =
  xl_OpenShiftClusters :: "xOpenShiftCluster list"

record xOpenShiftClusterCredentials =
  xc_KubeadminUsername :: string
  xc_KubeadminPassword :: string

section \<open>Internal to external\<close>

definition ToExternal_WorkerProfile :: "WorkerProfile \<Rightarrow> xWorkerProfile" where
  "ToExternal_WorkerProfile p =
     \<lparr>xwp_Name = wp_Name p, xwp_VMSize = wp_VMSize p, xwp_DiskSizeGB = wp_DiskSizeGB p,
      xwp_SubnetID = wp_SubnetID p, xwp_Count = wp_Count p\<rparr>"

definition ToExternal_IngressProfile :: "IngressProfile \<Rightarrow> xIngressProfile" where
  "ToExternal_IngressProfile p =
     \<lparr>xip_Name = ip_Name p, xip_Visibility = ip_Visibility p, xip_IP = ip_IP p\<rparr>"

definition ToExternal :: "OpenShiftCluster \<Rightarrow> xOpenShiftCluster" where
  "ToExternal oc =
     (let p = oc_Properties oc in
      \<lparr>x_ID = oc_ID oc, x_Name = oc_Name oc, x_Type = oc_Type oc, x_Location = oc_Location oc,
       x_Tags = oc_Tags oc,
       x_Properties = \<lparr>
         xp_ProvisioningState = p_ProvisioningState p,
         xp_ClusterProfile = \<lparr>
           xcp_Domain = cp_Domain (p_ClusterProfile p),
           xcp_Version = cp_Version (p_ClusterProfile p),
           xcp_ResourceGroupID = cp_ResourceGroupID (p_ClusterProfile p)\<rparr>,
         xp_ConsoleProfile = \<lparr>xcon_URL = con_URL (p_ConsoleProfile p)\<rparr>,
         xp_ServicePrincipalProfile = \<lparr>
           xspp_ClientID = spp_ClientID (p_ServicePrincipalProfile p),
           xspp_ClientSecret = spp_ClientSecret (p_ServicePrincipalProfile p)\<rparr>,
         xp_NetworkProfile = \<lparr>
           xnp_PodCIDR = np_PodCIDR (p_NetworkProfile p),
           xnp_ServiceCIDR = np_ServiceCIDR (p_NetworkProfile p)\<rparr>,
         xp_MasterProfile = \<lparr>
           xmp_VMSize = mp_VMSize (p_MasterProfile p),
           xmp_SubnetID = mp_SubnetID (p_MasterProfile p)\<rparr>,
         xp_WorkerProfiles = map_option (map ToExternal_WorkerProfile) (p_WorkerProfiles p),
         xp_APIServerProfile = \<lparr>
           xap_Visibility = ap_Visibility (p_APIServerProfile p),
           xap_URL = ap_URL (p_APIServerProfile p),
           xap_IP = ap_IP (p_APIServerProfile p)\<rparr>,
         xp_IngressProfiles = map_option (map ToExternal_IngressProfile) (p_IngressProfiles p)\<rparr>\<rparr>)"

definition ToExternalList :: "OpenShiftCluster list \<Rightarrow> xOpenShiftClusterList" where
  "ToExternalList ocs = \<lparr>xl_OpenShiftClusters = map ToExternal ocs\<rparr>"

definition Credentials_ToExternal :: "OpenShiftCluster \<Rightarrow> xOpenShiftClusterCredentials" where
  "Credentials_ToExternal oc =
     \<lparr>xc_KubeadminUsername = ''kubeadmin'',
      xc_KubeadminPassword = p_KubeadminPassword (oc_Properties oc)\<rparr>"

section \<open>External to internal\<close>

text \<open>
  \<^verbatim>\<open>ToInternal\<close> overwrites the mapped fields of its argument in place; the worker and ingress
  profiles are made afresh (\<^verbatim>\<open>make([]api.WorkerProfile, n)\<close>), so their unmapped fields are zero.
\<close>

definition ToInternal_WorkerProfile :: "xWorkerProfile \<Rightarrow> WorkerProfile" where
  "ToInternal_WorkerProfile p =
     \<lparr>wp_MissingFields = None, wp_Name = xwp_Name p, wp_VMSize = xwp_VMSize p,
      wp_DiskSizeGB = xwp_DiskSizeGB p, wp_SubnetID = xwp_SubnetID p, wp_Count = xwp_Count p\<rparr>"

definition ToInternal_IngressProfile :: "xIngressProfile \<Rightarrow> IngressProfile" where
  "ToInternal_IngressProfile p =
     \<lparr>ip_MissingFields = None, ip_Name = xip_Name p, ip_Visibility = xip_Visibility p,
      ip_IP = xip_IP p\<rparr>"

definition ToInternal :: "xOpenShiftCluster \<Rightarrow> OpenShiftCluster \<Rightarrow> OpenShiftCluster" where
  "ToInternal oc out =
     (let x = x_Properties oc; p = oc_Properties out in
      out\<lparr>oc_ID := x_ID oc, oc_Name := x_Name oc, oc_Type := x_Type oc, oc_Location := x_Location oc,
       oc_Tags := x_Tags oc,
       oc_Properties := p\<lparr>
         p_ProvisioningState := xp_ProvisioningState x,
         p_ClusterProfile := (p_ClusterProfile p)\<lparr>
           cp_Domain := xcp_Domain (xp_ClusterProfile x),
           cp_Version := xcp_Version (xp_ClusterProfile x),
           cp_ResourceGroupID := xcp_ResourceGroupID (xp_ClusterProfile x)\<rparr>,
         p_ConsoleProfile := (p_ConsoleProfile p)\<lparr>con_URL := xcon_URL (xp_ConsoleProfile x)\<rparr>,
         p_ServicePrincipalProfile := (p_ServicePrincipalProfile p)\<lparr>
           spp_ClientID := xspp_ClientID (xp_ServicePrincipalProfile x),
           spp_ClientSecret := xspp_ClientSecret (xp_ServicePrincipalProfile x)\<rparr>,
         p_NetworkProfile := (p_NetworkProfile p)\<lparr>
           np_PodCIDR := xnp_PodCIDR (xp_NetworkProfile x),
           np_ServiceCIDR := xnp_ServiceCIDR (xp_NetworkProfile x)\<rparr>,
         p_MasterProfile := (p_MasterProfile p)\<lparr>
           mp_VMSize := xmp_VMSize (xp_MasterProfile x),
           mp_SubnetID := xmp_SubnetID (xp_MasterProfile x)\<rparr>,
         p_WorkerProfiles := map_option (map ToInternal_WorkerProfile) (xp_WorkerProfiles x),
         p_APIServerProfile := (p_APIServerProfile p)\<lparr>
           ap_Visibility := xap_Visibility (xp_APIServerProfile x),
           ap_URL := xap_URL (xp_APIServerProfile x),
           ap_IP := xap_IP (xp_APIServerProfile x)\<rparr>,
         p_IngressProfiles := map_option (map ToInternal_IngressProfile) (xp_IngressProfiles x)\<rparr>\<rparr>)"

section \<open>Examples\<close>

definition exampleOpenShiftCluster :: xOpenShiftCluster where
  "exampleOpenShiftCluster = \<lparr>
     x_ID = ''/subscriptions/subscriptionId/resourceGroups/resourceGroup/providers/Microsoft.RedHatOpenShift/OpenShiftClusters/resourceName'',
     x_Name = ''resourceName'',
     x_Type = ''Microsoft.RedHatOpenShift/OpenShiftClusters'',
     x_Location = ''location'',
     x_Tags = Some [''key'' \<mapsto> ''value''],
     x_Properties = \<lparr>
       xp_ProvisioningState = ProvisioningStateSucceeded,
       xp_ClusterProfile = \<lparr>
         xcp_Domain = ''cluster.location.aroapp.io'', xcp_Version = ''4.3.0'',
         xcp_ResourceGroupID = ''/subscriptions/subscriptionId/resourceGroups/clusterResourceGroup''\<rparr>,
       xp_ConsoleProfile = \<lparr>xcon_URL = ''https://console-openshift-console.apps.cluster.location.aroapp.io/''\<rparr>,
       xp_ServicePrincipalProfile = \<lparr>xspp_ClientID = ''clientId'', xspp_ClientSecret = ''clientSecret''\<rparr>,
       xp_NetworkProfile = \<lparr>xnp_PodCIDR = ''10.128.0.0/14'', xnp_ServiceCIDR = ''172.30.0.0/16''\<rparr>,
       xp_MasterProfile = \<lparr>
         xmp_VMSize = VMSizeStandardD8sV3,
         xmp_SubnetID = ''/subscriptions/subscriptionId/resourceGroups/vnetResourceGroup/providers/Microsoft.Network/virtualNetworks/vnet/subnets/master''\<rparr>,
       xp_WorkerProfiles = Some [\<lparr>
         xwp_Name = ''worker'', xwp_VMSize = VMSizeStandardD2sV3, xwp_DiskSizeGB = 128,
         xwp_SubnetID = ''/subscriptions/subscriptionId/resourceGroups/vnetResourceGroup/providers/Microsoft.Network/virtualNetworks/vnet/subnets/worker'',
         xwp_Count = 3\<rparr>],
       xp_APIServerProfile = \<lparr>
         xap_Visibility = VisibilityPublic, xap_URL = ''https://api.cluster.location.aroapp.io:6443/'',
         xap_IP = ''1.2.3.4''\<rparr>,
       xp_IngressProfiles = Some [\<lparr>
         xip_Name = ''default'', xip_Visibility = VisibilityPublic, xip_IP = ''1.2.3.4''\<rparr>]\<rparr>\<rparr>"

definition ExampleOpenShiftClusterParameter :: xOpenShiftCluster where
  "ExampleOpenShiftClusterParameter =
     (let oc = exampleOpenShiftCluster; p = x_Properties oc in
      oc\<lparr>x_ID := [], x_Name := [], x_Type := [],
         x_Properties := p\<lparr>
           xp_ProvisioningState := [],
           xp_ClusterProfile := (xp_ClusterProfile p)\<lparr>xcp_Version := []\<rparr>,
           xp_ConsoleProfile := (xp_ConsoleProfile p)\<lparr>xcon_URL := []\<rparr>,
           xp_APIServerProfile := (xp_APIServerProfile p)\<lparr>xap_URL := [], xap_IP := []\<rparr>,
           xp_IngressProfiles := map_option (\<lambda>is. (hd is)\<lparr>xip_IP := []\<rparr> # tl is) (xp_IngressProfiles p)\<rparr>\<rparr>)"

definition ExampleOpenShiftClusterResponse :: xOpenShiftCluster where
  "ExampleOpenShiftClusterResponse =
     (let oc = exampleOpenShiftCluster; p = x_Properties oc in
      oc\<lparr>x_Properties := p\<lparr>
        xp_ServicePrincipalProfile := (xp_ServicePrincipalProfile p)\<lparr>xspp_ClientSecret := []\<rparr>\<rparr>\<rparr>)"

definition ExampleOpenShiftClusterListResponse :: xOpenShiftClusterList where
  "ExampleOpenShiftClusterListResponse = \<lparr>xl_OpenShiftClusters = [ExampleOpenShiftClusterResponse]\<rparr>"

definition ExampleOpenShiftClusterCredentialsResponse :: xOpenShiftClusterCredentials where
  "ExampleOpenShiftClusterCredentialsResponse =
     \<lparr>xc_KubeadminUsername = ''kubeadmin'', xc_KubeadminPassword = ''password''\<rparr>"

section \<open>Conversion is faithful\<close>

lemma ToExternal_ToInternal_profiles [simp]:
  "ToExternal_WorkerProfile (ToInternal_WorkerProfile w) = w"
  "ToExternal_IngressProfile (ToInternal_IngressProfile i) = i"
  by (simp_all add: ToExternal_WorkerProfile_def ToInternal_WorkerProfile_def
    ToExternal_IngressProfile_def ToInternal_IngressProfile_def)

lemma map_ToExternal_ToInternal [simp]:
  "map_option (map ToExternal_WorkerProfile) (map_option (map ToInternal_WorkerProfile) ws) = ws"
  "map_option (map ToExternal_IngressProfile) (map_option (map ToInternal_IngressProfile) is) = is"
  by (simp_all add: option.map_comp o_def option.map_ident)

text \<open>What \<^verbatim>\<open>ToInternal\<close> does to a profile that was read from the database.\<close>

lemma ToInternal_ToExternal_profiles:
  "ToInternal_WorkerProfile (ToExternal_WorkerProfile w) = w\<lparr>wp_MissingFields := None\<rparr>"
  "ToInternal_IngressProfile (ToExternal_IngressProfile i) = i\<lparr>ip_MissingFields := None\<rparr>"
  by (simp_all add: ToExternal_WorkerProfile_def ToInternal_WorkerProfile_def
    ToExternal_IngressProfile_def ToInternal_IngressProfile_def)

text \<open>
  C17. Round trip of the external model: whatever internal object \<^verbatim>\<open>ToInternal\<close> overwrites,
  converting it back yields exactly the external object it was given.
\<close>
theorem ToExternal_ToInternal: "ToExternal (ToInternal x out) = x"
  by (simp add: ToExternal_def ToInternal_def Let_def)

text \<open>
  C18. Round trip of the internal model: writing a cluster's own external view back over it
  changes nothing but the unknown JSON fields retained inside its worker and ingress profiles,
  which are dropped.
\<close>
theorem ToInternal_ToExternal:
  "ToInternal (ToExternal oc) oc =
     oc\<lparr>oc_Properties := (oc_Properties oc)\<lparr>
       p_WorkerProfiles :=
         map_option (map (\<lambda>w. w\<lparr>wp_MissingFields := None\<rparr>)) (p_WorkerProfiles (oc_Properties oc)),
       p_IngressProfiles :=
         map_option (map (\<lambda>i. i\<lparr>ip_MissingFields := None\<rparr>)) (p_IngressProfiles (oc_Properties oc))\<rparr>\<rparr>"
  by (simp add: ToExternal_def ToInternal_def Let_def option.map_comp o_def
    ToInternal_ToExternal_profiles)

text \<open>
  Frame of \<^verbatim>\<open>ToInternal\<close>: the fields of the internal model that have no external
  counterpart (tenant, private endpoint, install progress, secrets, failed state and the
  retained unknown fields) are untouched, whatever the external object holds.
\<close>
theorem ToInternal_frame:
  "oc_MissingFields (ToInternal x out) = oc_MissingFields out \<and>
   spp_TenantID (p_ServicePrincipalProfile (oc_Properties (ToInternal x out))) =
     spp_TenantID (p_ServicePrincipalProfile (oc_Properties out)) \<and>
   np_PrivateEndpointIP (p_NetworkProfile (oc_Properties (ToInternal x out))) =
     np_PrivateEndpointIP (p_NetworkProfile (oc_Properties out)) \<and>
   p_MissingFields (oc_Properties (ToInternal x out)) = p_MissingFields (oc_Properties out) \<and>
   oc_FailedProvisioningState (ToInternal x out) = oc_FailedProvisioningState out \<and>
   p_Install (oc_Properties (ToInternal x out)) = p_Install (oc_Properties out) \<and>
   p_StorageSuffix (oc_Properties (ToInternal x out)) = p_StorageSuffix (oc_Properties out) \<and>
   p_SSHKey (oc_Properties (ToInternal x out)) = p_SSHKey (oc_Properties out) \<and>
   p_AdminKubeconfig (oc_Properties (ToInternal x out)) = p_AdminKubeconfig (oc_Properties out) \<and>
   p_KubeadminPassword (oc_Properties (ToInternal x out)) = p_KubeadminPassword (oc_Properties out)"
  by (simp add: ToInternal_def Let_def)

end
