(* ===== verification/Immutable.thy ===== *)
theory Immutable
  imports V20191231preview
begin

text \<open>
  \<^verbatim>\<open>src/pkg/util/immutable\<close>: the comparison by reflection that rejects a change of an immutable
  property. A reflected value carries its type's name; the kinds that \<^verbatim>\<open>validate\<close> treats alike
  share a constructor. The second half reflects the external cluster type, with the struct tags
  of the source, and shows which changes the comparison lets through.
\<close>

section \<open>Reflected values\<close>

record struct_field =
  sf_Name :: string
  sf_json :: string
  sf_mutable :: string

datatype gval =
    GScalar string int
  | GString string string
  | GSlice string "gval list option"
  | GArray string "gval list"
  | GPtr string "gval option"
  | GMap string "(string \<times> gval) list option"
  | GStruct string "(struct_field \<times> gval) list"
  | GOther string string

fun gtype :: "gval \<Rightarrow> string" where
  "gtype (GScalar t i) = t"
| "gtype (GString t s) = t"
| "gtype (GSlice t vs) = t"
| "gtype (GArray t vs) = t"
| "gtype (GPtr t v) = t"
| "gtype (GMap t kvs) = t"
| "gtype (GStruct t fs) = t"
| "gtype (GOther t k) = t"

section \<open>Paths\<close>

definition validationError :: "string \<Rightarrow> error" where
  "validationError path =
     NewCloudError 400 CloudErrorCodePropertyChangeNotAllowed path
       (''Changing property '' @ sq @ path @ sq @ '' is not allowed.'') []"

text \<open>\<^verbatim>\<open>%q\<close> on printable ASCII.\<close>

definition quote :: "string \<Rightarrow> string" where
  "quote s = CHR 0x22 # concat (map (\<lambda>c. if c = CHR 0x22 \<or> c = CHR 0x5C then [CHR 0x5C, c] else [c]) s) @ [CHR 0x22]"

text \<open>\<^verbatim>\<open>v.Index(i).FieldByName("Name")\<close>, when it is a string.\<close>

fun name_field :: "(struct_field \<times> gval) list \<Rightarrow> string option" where
  "name_field [] = None"
| "name_field ((f, v) # fs) =
     (if sf_Name f = ''Name'' then (case v of GString t s \<Rightarrow> Some s | _ \<Rightarrow> None) else name_field fs)"

definition index_of :: "nat \<Rightarrow> gval \<Rightarrow> string" where
  "index_of i v =
     (let d = ''['' @ Itoa (int i) @ '']'' in
      case v of
        GStruct t fs \<Rightarrow> (case name_field fs of Some s \<Rightarrow> ''['' @ sq @ s @ sq @ '']'' | None \<Rightarrow> d)
      | _ \<Rightarrow> d)"

definition field_path :: "string \<Rightarrow> struct_field \<Rightarrow> string" where
  "field_path path f =
     (let n = hd (Split CHR '','' (sf_json f)); n = (if n = [] then sf_Name f else n)
      in (if path = [] then path else path @ ''.'') @ n)"

section \<open>validate\<close>

function (sequential) validate :: "string \<Rightarrow> gval \<Rightarrow> gval \<Rightarrow> bool \<Rightarrow> unit result"
and validate_seq :: "string \<Rightarrow> nat \<Rightarrow> gval list \<Rightarrow> gval list \<Rightarrow> bool \<Rightarrow> unit result"
and validate_map :: "string \<Rightarrow> (string \<times> gval) list \<Rightarrow> (string \<times> gval) list \<Rightarrow> bool \<Rightarrow> unit result"
and validate_fields :: "string \<Rightarrow> (struct_field \<times> gval) list \<Rightarrow> (struct_field \<times> gval) list \<Rightarrow> bool \<Rightarrow> unit result"
where
  "validate path v w ignoreCase =
     (if gtype v \<noteq> gtype w then Err (validationError path)
      else case v of
        GScalar t i \<Rightarrow>
          (case w of GScalar t' j \<Rightarrow> rguard (i = j) (validationError path) | _ \<Rightarrow> Panic ''reflect'')
      | GString t s \<Rightarrow>
          (case w of
             GString t' u \<Rightarrow>
               rguard (if ignoreCase then EqualFold s u else s = u) (validationError path)
           | _ \<Rightarrow> Panic ''reflect'')
      | GSlice t vs \<Rightarrow>
          (case w of
             GSlice t' ws \<Rightarrow>
               (if (vs = None) \<noteq> (ws = None) then Err (validationError path)
                else case vs of
                  None \<Rightarrow> Ok ()
                | Some xs \<Rightarrow>
                    (case ws of
                       None \<Rightarrow> Panic ''reflect''
                     | Some ys \<Rightarrow>
                         (if length xs \<noteq> length ys then Err (validationError path)
                          else validate_seq path 0 xs ys ignoreCase)))
           | _ \<Rightarrow> Panic ''reflect'')
      | GArray t xs \<Rightarrow>
          (case w of
             GArray t' ys \<Rightarrow>
               (if length xs \<noteq> length ys then Err (validationError path)
                else validate_seq path 0 xs ys ignoreCase)
           | _ \<Rightarrow> Panic ''reflect'')
      | GPtr t x \<Rightarrow>
          (case w of
             GPtr t' y \<Rightarrow>
               (if (x = None) \<noteq> (y = None) then Err (validationError path)
                else case x of
                  None \<Rightarrow> Ok ()
                | Some a \<Rightarrow>
                    (case y of None \<Rightarrow> Panic ''reflect'' | Some b \<Rightarrow> validate path a b ignoreCase))
           | _ \<Rightarrow> Panic ''reflect'')
      | GMap t kvs \<Rightarrow>
          (case w of
             GMap t' lws \<Rightarrow>
               (if (kvs = None) \<noteq> (lws = None) then Err (validationError path)
                else case kvs of
                  None \<Rightarrow> Ok ()
                | Some xs \<Rightarrow>
                    (case lws of
                       None \<Rightarrow> Panic ''reflect''
                     | Some ys \<Rightarrow>
                         (if length xs \<noteq> length ys then Err (validationError path)
                          else validate_map path xs ys ignoreCase)))
           | _ \<Rightarrow> Panic ''reflect'')
      | GStruct t fs \<Rightarrow>
          (case w of GStruct t' gs \<Rightarrow> validate_fields path fs gs ignoreCase | _ \<Rightarrow> Panic ''reflect'')
      | GOther t k \<Rightarrow> Err (ErrorfErr (Fmt ''unimplemented kind %s'' [AStr k])))"
| "validate_seq path i [] ws ignoreCase = Ok ()"
| "validate_seq path i (v # vs) [] ignoreCase = Panic ''index out of range''"
| "validate_seq path i (v # vs) (w # ws) ignoreCase =
     rbind (validate (path @ index_of i v) v w ignoreCase) (\<lambda>_. validate_seq path (Suc i) vs ws ignoreCase)"
| "validate_map path [] ws ignoreCase = Ok ()"
| "validate_map path ((k, v) # kvs) ws ignoreCase =
     (case map_of ws k of
        None \<Rightarrow> Panic ''reflect: call of reflect.Value.Type on zero Value''
      | Some w \<Rightarrow>
          rbind (validate (path @ ''['' @ quote k @ '']'') v w ignoreCase)
            (\<lambda>_. validate_map path kvs ws ignoreCase))"
| "validate_fields path [] gs ignoreCase = Ok ()"
| "validate_fields path ((f, v) # fs) [] ignoreCase = Panic ''reflect: Field index out of range''"
| "validate_fields path ((f, v) # fs) ((g, w) # gs) ignoreCase =
     (if EqualFold (sf_mutable f) ''true'' then validate_fields path fs gs ignoreCase
      else rbind (validate (field_path path f) v w (ignoreCase \<or> EqualFold (sf_mutable f) ''case''))
             (\<lambda>_. validate_fields path fs gs ignoreCase))"
  by pat_completeness auto
termination
  by (relation "measure (\<lambda>x. case x of
        Inl (Inl (p, v, w, ic)) \<Rightarrow> size v
      | Inl (Inr (p, i, vs, ws, ic)) \<Rightarrow> size_list size vs
      | Inr (Inl (p, kvs, ws, ic)) \<Rightarrow> size_list (size_prod (\<lambda>_. 0) size) kvs
      | Inr (Inr (p, fs, gs, ic)) \<Rightarrow> size_list (size_prod (\<lambda>_. 0) size) fs)") auto

definition Validate :: "string \<Rightarrow> gval \<Rightarrow> gval \<Rightarrow> unit result" where
  "Validate path v w = validate path v w False"

section \<open>The external cluster, reflected\<close>

definition fld :: "string \<Rightarrow> string \<Rightarrow> struct_field" where
  "fld n j = \<lparr>sf_Name = n, sf_json = j, sf_mutable = []\<rparr>"

definition fld_mut :: "string \<Rightarrow> string \<Rightarrow> string \<Rightarrow> struct_field" where
  "fld_mut n j m = \<lparr>sf_Name = n, sf_json = j, sf_mutable = m\<rparr>"

definition str :: "string \<Rightarrow> gval" where
  "str s = GString ''string'' s"

definition reflect_ClusterProfile :: "xClusterProfile \<Rightarrow> gval" where
  "reflect_ClusterProfile c = GStruct ''ClusterProfile''
     [(fld ''Domain'' ''domain,omitempty'', str (xcp_Domain c)),
      (fld ''Version'' ''version,omitempty'', str (xcp_Version c)),
      (fld ''ResourceGroupID'' ''resourceGroupId,omitempty'', str (xcp_ResourceGroupID c))]"

definition reflect_ConsoleProfile :: "xConsoleProfile \<Rightarrow> gval" where
  "reflect_ConsoleProfile c = GStruct ''ConsoleProfile'' [(fld ''URL'' ''url,omitempty'', str (xcon_URL c))]"

definition reflect_ServicePrincipalProfile :: "xServicePrincipalProfile \<Rightarrow> gval" where
  "reflect_ServicePrincipalProfile c = GStruct ''ServicePrincipalProfile''
     [(fld ''ClientID'' ''clientId,omitempty'', str (xspp_ClientID c)),
      (fld ''ClientSecret'' ''clientSecret,omitempty'', str (xspp_ClientSecret c))]"

definition reflect_NetworkProfile :: "xNetworkProfile \<Rightarrow> gval" where
  "reflect_NetworkProfile c = GStruct ''NetworkProfile''
     [(fld ''PodCIDR'' ''podCidr,omitempty'', str (xnp_PodCIDR c)),
      (fld ''ServiceCIDR'' ''serviceCidr,omitempty'', str (xnp_ServiceCIDR c))]"

definition reflect_MasterProfile :: "xMasterProfile \<Rightarrow> gval" where
  "reflect_MasterProfile c = GStruct ''MasterProfile''
     [(fld ''VMSize'' ''vmSize,omitempty'', GString ''VMSize'' (xmp_VMSize c)),
      (fld ''SubnetID'' ''subnetId,omitempty'', str (xmp_SubnetID c))]"

definition reflect_WorkerProfile :: "xWorkerProfile \<Rightarrow> gval" where
  "reflect_WorkerProfile c = GStruct ''WorkerProfile''
     [(fld ''Name'' ''name,omitempty'', str (xwp_Name c)),
      (fld ''VMSize'' ''vmSize,omitempty'', GString ''VMSize'' (xwp_VMSize c)),
      (fld ''DiskSizeGB'' ''diskSizeGB,omitempty'', GScalar ''int'' (xwp_DiskSizeGB c)),
      (fld ''SubnetID'' ''subnetId,omitempty'', str (xwp_SubnetID c)),
      (fld_mut ''Count'' ''count,omitempty'' ''true'', GScalar ''int'' (xwp_Count c))]"

definition reflect_APIServerProfile :: "xAPIServerProfile \<Rightarrow> gval" where
  "reflect_APIServerProfile c = GStruct ''APIServerProfile''
     [(fld ''Visibility'' ''visibility,omitempty'', GString ''Visibility'' (xap_Visibility c)),
      (fld ''URL'' ''url,omitempty'', str (xap_URL c)),
      (fld ''IP'' ''ip,omitempty'', str (xap_IP c))]"

definition reflect_IngressProfile :: "xIngressProfile \<Rightarrow> gval" where
  "reflect_IngressProfile c = GStruct ''IngressProfile''
     [(fld ''Name'' ''name,omitempty'', str (xip_Name c)),
      (fld ''Visibility'' ''visibility,omitempty'', GString ''Visibility'' (xip_Visibility c)),
      (fld ''IP'' ''ip,omitempty'', str (xip_IP c))]"

definition reflect_Properties :: "xProperties \<Rightarrow> gval" where
  "reflect_Properties p = GStruct ''Properties''
     [(fld ''ProvisioningState'' ''provisioningState,omitempty'',
         GString ''ProvisioningState'' (xp_ProvisioningState p)),
      (fld ''ClusterProfile'' ''clusterProfile,omitempty'', reflect_ClusterProfile (xp_ClusterProfile p)),
      (fld ''ConsoleProfile'' ''consoleProfile,omitempty'', reflect_ConsoleProfile (xp_ConsoleProfile p)),
      (fld ''ServicePrincipalProfile'' ''servicePrincipalProfile,omitempty'',
         reflect_ServicePrincipalProfile (xp_ServicePrincipalProfile p)),
      (fld ''NetworkProfile'' ''networkProfile,omitempty'', reflect_NetworkProfile (xp_NetworkProfile p)),
      (fld ''MasterProfile'' ''masterProfile,omitempty'', reflect_MasterProfile (xp_MasterProfile p)),
      (fld ''WorkerProfiles'' ''workerProfiles,omitempty'',
         GSlice ''[]WorkerProfile'' (map_option (map reflect_WorkerProfile) (xp_WorkerProfiles p))),
      (fld ''APIServerProfile'' ''apiserverProfile,omitempty'',
         reflect_APIServerProfile (xp_APIServerProfile p)),
      (fld ''IngressProfiles'' ''ingressProfiles,omitempty'',
         GSlice ''[]IngressProfile'' (map_option (map reflect_IngressProfile) (xp_IngressProfiles p)))]"

text \<open>The tags are mutable, so \<^verbatim>\<open>validate\<close> never looks at them; their reflection is opaque.\<close>

definition reflect_OpenShiftCluster :: "xOpenShiftCluster \<Rightarrow> gval" where
  "reflect_OpenShiftCluster oc = GPtr ''*OpenShiftCluster'' (Some (GStruct ''OpenShiftCluster''
     [(fld_mut ''ID'' ''id,omitempty'' ''case'', str (x_ID oc)),
      (fld_mut ''Name'' ''name,omitempty'' ''case'', str (x_Name oc)),
      (fld_mut ''Type'' ''type,omitempty'' ''case'', str (x_Type oc)),
      (fld ''Location'' ''location,omitempty'', str (x_Location oc)),
      (fld_mut ''Tags'' ''tags,omitempty'' ''true'', GOther ''Tags'' ''map''),
      (fld ''Properties'' ''properties,omitempty'', reflect_Properties (x_Properties oc))]))"

section \<open>Which changes pass\<close>

text \<open>The properties with every worker count forgotten.\<close>

definition forget_counts :: "xProperties \<Rightarrow> xProperties" where
  "forget_counts p =
     p\<lparr>xp_WorkerProfiles := map_option (map (\<lambda>w. w\<lparr>xwp_Count := 0\<rparr>)) (xp_WorkerProfiles p)\<rparr>"

definition only_mutable_changes :: "xOpenShiftCluster \<Rightarrow> xOpenShiftCluster \<Rightarrow> bool" where
  "only_mutable_changes v w \<longleftrightarrow>
     EqualFold (x_ID v) (x_ID w) \<and> EqualFold (x_Name v) (x_Name w) \<and> EqualFold (x_Type v) (x_Type w) \<and>
     x_Location v = x_Location w \<and> forget_counts (x_Properties v) = forget_counts (x_Properties w)"

definition rejects :: "unit result \<Rightarrow> bool" where
  "rejects r \<longleftrightarrow> (\<exists>path. r = Err (validationError path))"

lemma rejects_simps [simp]:
  "rejects (Err (validationError p))" "\<not> rejects (Ok u)"
  "rejects (rguard b (validationError p)) \<longleftrightarrow> \<not> b"
  by (auto simp: rejects_def rguard_def)

text \<open>A check either passes, and then exactly when its condition holds, or rejects.\<close>

definition checks :: "unit result \<Rightarrow> bool \<Rightarrow> bool" where
  "checks r P \<longleftrightarrow> (if P then r = Ok () else rejects r)"

lemma checks_Ok [simp]: "checks (Ok u) P \<longleftrightarrow> P"
  by (simp add: checks_def)

lemma checks_bind: "checks r P \<Longrightarrow> checks (f ()) Q \<Longrightarrow> checks (rbind r f) (P \<and> Q)"
  by (auto simp: checks_def rejects_def split: if_splits)

lemma mutable_tags [simp]:
  "EqualFold [] ''true'' = False" "EqualFold [] ''case'' = False"
  "EqualFold ''case'' ''true'' = False" "EqualFold ''true'' ''true'' = True"
  "EqualFold ''case'' ''case'' = True"
  by (simp_all add: EqualFold_def ToLower_def to_lower_char_def)

lemma fld_sels [simp]:
  "sf_mutable (fld n j) = []" "sf_mutable (fld_mut n j m) = m"
  by (simp_all add: fld_def fld_mut_def)

declare validate.simps [simp del]

lemma checks_guard_iff [simp]: "checks (rguard b (validationError p)) P \<longleftrightarrow> P = b"
  by (auto simp: checks_def)

lemma checks_guard_bind [simp]:
  "checks (rbind (rguard b (validationError p)) f) P \<longleftrightarrow> (if b then checks (f ()) P else \<not> P)"
  by (auto simp: checks_def rejects_def rguard_def)

lemma validate_leaf [simp]:
  "validate path (str s) (str t) ic =
     rguard (if ic then EqualFold s t else s = t) (validationError path)"
  "validate path (GString ty s) (GString ty t) ic =
     rguard (if ic then EqualFold s t else s = t) (validationError path)"
  "validate path (GScalar ty i) (GScalar ty j) ic = rguard (i = j) (validationError path)"
  "validate path (GStruct ty fs) (GStruct ty gs) ic = validate_fields path fs gs ic"
  by (simp_all add: validate.simps str_def)

text \<open>The profiles are compared field by field, the worker profile but for its count.\<close>

lemma validate_ClusterProfile:
  "checks (validate path (reflect_ClusterProfile c) (reflect_ClusterProfile d) False) (c = d)"
  by (simp add: reflect_ClusterProfile_def) (cases c; cases d; simp)

lemma validate_ConsoleProfile:
  "checks (validate path (reflect_ConsoleProfile c) (reflect_ConsoleProfile d) False) (c = d)"
  by (simp add: reflect_ConsoleProfile_def) (cases c; cases d; simp)

lemma validate_ServicePrincipalProfile:
  "checks (validate path (reflect_ServicePrincipalProfile c) (reflect_ServicePrincipalProfile d) False)
     (c = d)"
  by (simp add: reflect_ServicePrincipalProfile_def) (cases c; cases d; simp)

lemma validate_NetworkProfile:
  "checks (validate path (reflect_NetworkProfile c) (reflect_NetworkProfile d) False) (c = d)"
  by (simp add: reflect_NetworkProfile_def) (cases c; cases d; simp)

lemma validate_MasterProfile:
  "checks (validate path (reflect_MasterProfile c) (reflect_MasterProfile d) False) (c = d)"
  by (simp add: reflect_MasterProfile_def) (cases c; cases d; simp)

lemma validate_WorkerProfile:
  "checks (validate path (reflect_WorkerProfile c) (reflect_WorkerProfile d) False)
     (c\<lparr>xwp_Count := 0\<rparr> = d\<lparr>xwp_Count := 0\<rparr>)"
  by (simp add: reflect_WorkerProfile_def) (cases c; cases d; simp)

lemma validate_APIServerProfile:
  "checks (validate path (reflect_APIServerProfile c) (reflect_APIServerProfile d) False) (c = d)"
  by (simp add: reflect_APIServerProfile_def) (cases c; cases d; simp)

lemma validate_IngressProfile:
  "checks (validate path (reflect_IngressProfile c) (reflect_IngressProfile d) False) (c = d)"
  by (simp add: reflect_IngressProfile_def) (cases c; cases d; simp)

lemma validate_seq_checks:
  assumes "\<And>path x y. checks (validate path (f x) (f y) ic) (g x = g y)"
  shows "length xs = length ys \<Longrightarrow>
    checks (validate_seq path i (map f xs) (map f ys) ic) (map g xs = map g ys)"
proof (induction xs arbitrary: ys i)
  case (Cons x xs)
  then obtain y zs where "ys = y # zs" by (cases ys) auto
  with Cons show ?case
    using checks_bind [OF assms] by simp
qed simp

lemma validate_slice_checks:
  assumes "\<And>path x y. checks (validate path (f x) (f y) ic) (g x = g y)"
  shows "checks (validate path (GSlice ty (map_option (map f) xs)) (GSlice ty (map_option (map f) ys)) ic)
    (map_option (map g) xs = map_option (map g) ys)"
proof (cases "xs = None \<or> ys = None")
  case True
  then show ?thesis
    by (cases xs; cases ys) (auto simp: validate.simps checks_def)
next
  case False
  then obtain us vs where "xs = Some us" "ys = Some vs" by auto
  then show ?thesis
    using validate_seq_checks [OF assms, where xs = us and ys = vs]
    by (auto simp: validate.simps checks_def dest: map_eq_imp_length_eq)
qed

lemma checks_field:
  assumes "\<not> EqualFold (sf_mutable f) ''true''"
    and "checks (validate (field_path path f) v w (ic \<or> EqualFold (sf_mutable f) ''case'')) P"
    and "checks (validate_fields path fs gs ic) Q"
  shows "checks (validate_fields path ((f, v) # fs) ((g, w) # gs) ic) (P \<and> Q)"
  using assms by (simp add: checks_bind)

lemma checks_no_fields: "checks (validate_fields path [] gs ic) True"
  by simp

lemma validate_ingress_slice:
  "checks (validate path (GSlice ty (map_option (map reflect_IngressProfile) xs))
     (GSlice ty (map_option (map reflect_IngressProfile) ys)) False) (xs = ys)"
  using validate_slice_checks [where g = "\<lambda>i. i", OF validate_IngressProfile]
  by (simp add: option.map_ident)

lemmas properties_checks =
  validate_ClusterProfile validate_ConsoleProfile
  validate_ServicePrincipalProfile validate_NetworkProfile validate_MasterProfile
  validate_slice_checks [OF validate_WorkerProfile] validate_APIServerProfile validate_ingress_slice

lemma forget_counts_eq:
  "forget_counts p = forget_counts q \<longleftrightarrow>
     xp_ProvisioningState p = xp_ProvisioningState q \<and> xp_ClusterProfile p = xp_ClusterProfile q \<and>
     xp_ConsoleProfile p = xp_ConsoleProfile q \<and>
     xp_ServicePrincipalProfile p = xp_ServicePrincipalProfile q \<and>
     xp_NetworkProfile p = xp_NetworkProfile q \<and> xp_MasterProfile p = xp_MasterProfile q \<and>
     map_option (map (\<lambda>w. w\<lparr>xwp_Count := 0\<rparr>)) (xp_WorkerProfiles p) =
       map_option (map (\<lambda>w. w\<lparr>xwp_Count := 0\<rparr>)) (xp_WorkerProfiles q) \<and>
     xp_APIServerProfile p = xp_APIServerProfile q \<and> xp_IngressProfiles p = xp_IngressProfiles q"
  by (cases p; cases q) (auto simp: forget_counts_def)

lemma validate_Properties:
  "checks (validate path (reflect_Properties p) (reflect_Properties q) False)
     (forget_counts p = forget_counts q)"
proof -
  have "checks (validate path (reflect_Properties p) (reflect_Properties q) False)
     (xp_ProvisioningState p = xp_ProvisioningState q \<and> xp_ClusterProfile p = xp_ClusterProfile q \<and>
      xp_ConsoleProfile p = xp_ConsoleProfile q \<and>
      xp_ServicePrincipalProfile p = xp_ServicePrincipalProfile q \<and>
      xp_NetworkProfile p = xp_NetworkProfile q \<and> xp_MasterProfile p = xp_MasterProfile q \<and>
      map_option (map (\<lambda>w. w\<lparr>xwp_Count := 0\<rparr>)) (xp_WorkerProfiles p) =
        map_option (map (\<lambda>w. w\<lparr>xwp_Count := 0\<rparr>)) (xp_WorkerProfiles q) \<and>
      xp_APIServerProfile p = xp_APIServerProfile q \<and> xp_IngressProfiles p = xp_IngressProfiles q \<and> True)"
    unfolding reflect_Properties_def validate_leaf
    by (intro checks_field checks_no_fields) (simp_all add: properties_checks)
  then show ?thesis by (simp add: forget_counts_eq)
qed

lemma validate_cluster_checks:
  "checks (Validate [] (reflect_OpenShiftCluster oc) (reflect_OpenShiftCluster current))
     (only_mutable_changes oc current)"
proof -
  let ?v = "Validate [] (reflect_OpenShiftCluster oc) (reflect_OpenShiftCluster current)"
  have "checks ?v (EqualFold (x_ID oc) (x_ID current) \<and> EqualFold (x_Name oc) (x_Name current) \<and>
      EqualFold (x_Type oc) (x_Type current) \<and> x_Location oc = x_Location current \<and>
      forget_counts (x_Properties oc) = forget_counts (x_Properties current) \<and> True)"
    unfolding Validate_def reflect_OpenShiftCluster_def validate.simps [of _ "GPtr _ _"]
    by (simp del: validate_fields.simps, intro checks_field)
      (simp_all add: validate_Properties)
  then show ?thesis
    by (simp add: only_mutable_changes_def)
qed

text \<open>
  C16. What an update may change: the comparison accepts a new cluster against the current one
  exactly when they agree on everything but the tags and the worker counts, with the identifier,
  name and type compared up to letter case; any other difference is rejected with the 400 error
  of the first differing property, and the comparison never panics.
\<close>
theorem immutable_validate_cluster:
  "if only_mutable_changes oc current
   then Validate [] (reflect_OpenShiftCluster oc) (reflect_OpenShiftCluster current) = Ok ()
   else \<exists>path. Validate [] (reflect_OpenShiftCluster oc) (reflect_OpenShiftCluster current) =
          Err (CloudErr 400 (CloudErrorBody ''PropertyChangeNotAllowed''
            (Fmt (''Changing property '' @ sq @ path @ sq @ '' is not allowed.'') []) path []))"
  using validate_cluster_checks [of oc current]
  by (auto simp: checks_def rejects_def validationError_def NewCloudError_def
    CloudErrorCodePropertyChangeNotAllowed_def)

end
