(* ===== verification/GoNet.thy ===== *)
theory GoNet
  imports Prelude "HOL-Library.Word"
begin

text \<open>
  The parts of Go's \<^verbatim>\<open>net\<close> package and of the vendored UUID package that the validators call:
  \<^verbatim>\<open>ParseIP\<close>, \<^verbatim>\<open>ParseCIDR\<close>, \<^verbatim>\<open>To4\<close>, \<^verbatim>\<open>Mask.Size\<close> and \<^verbatim>\<open>uuid.FromString\<close>. The text form of an IPv6
  address is left to a parameter \<open>parse6\<close>.
\<close>

unbundle bit_operations_syntax

section \<open>UUIDs\<close>

definition is_hex :: "char \<Rightarrow> bool" where
  "is_hex c =
     (let n = (of_char c :: int) in
      48 \<le> n \<and> n \<le> 57 \<or> 97 \<le> n \<and> n \<le> 102 \<or> 65 \<le> n \<and> n \<le> 70)"

definition uuid_error :: "string \<Rightarrow> error" where
  "uuid_error s = ErrorfErr (Fmt ''uuid: incorrect UUID: %s'' [AStr s])"

definition uuid_decodeHashLike :: "string \<Rightarrow> unit result" where
  "uuid_decodeHashLike t = rguard (list_all is_hex t) (uuid_error t)"

definition uuid_decodeCanonical :: "string \<Rightarrow> unit result" where
  "uuid_decodeCanonical t =
     rguard (t ! 8 = CHR ''-'' \<and> t ! 13 = CHR ''-'' \<and> t ! 18 = CHR ''-'' \<and> t ! 23 = CHR ''-'' \<and>
             list_all is_hex (take 8 t) \<and> list_all is_hex (take 4 (drop 9 t)) \<and>
             list_all is_hex (take 4 (drop 14 t)) \<and> list_all is_hex (take 4 (drop 19 t)) \<and>
             list_all is_hex (take 12 (drop 24 t))) (uuid_error t)"

definition uuid_decodePlain :: "string \<Rightarrow> unit result" where
  "uuid_decodePlain t =
     (if length t = 32 then uuid_decodeHashLike t
      else if length t = 36 then uuid_decodeCanonical t
      else Err (uuid_error t))"

definition uuid_FromString :: "string \<Rightarrow> unit result" where
  "uuid_FromString t =
     (if length t = 32 \<or> length t = 36 then uuid_decodePlain t
      else if length t = 38
        then (if hd t \<noteq> CHR ''{'' \<or> last t \<noteq> CHR ''}'' then Err (uuid_error t)
              else uuid_decodePlain (butlast (tl t)))
      else if length t = 41 \<or> length t = 45
        then (if take 9 t \<noteq> ''urn:uuid:'' then Err (uuid_error t) else uuid_decodePlain (drop 9 t))
      else Err (uuid_error t))"

lemma uuid_FromString_not_Panic [simp]: "uuid_FromString s \<noteq> Panic p"
  by (simp add: uuid_FromString_def uuid_decodePlain_def uuid_decodeHashLike_def uuid_decodeCanonical_def)

section \<open>IP addresses and networks\<close>

text \<open>\<^verbatim>\<open>dtoi\<close>: the number at the head of the text, and what follows it.\<close>

fun dtoi_from :: "int \<Rightarrow> string \<Rightarrow> (int \<times> string) option" where
  "dtoi_from n [] = Some (n, [])"
| "dtoi_from n (c # s) =
     (let d = (of_char c :: int) in
      if 48 \<le> d \<and> d \<le> 57
      then (if 10 * n + (d - 48) \<ge> 0xFFFFFF then None else dtoi_from (10 * n + (d - 48)) s)
      else Some (n, c # s))"

definition dtoi :: "string \<Rightarrow> (int \<times> string) option" where
  "dtoi s =
     (case dtoi_from 0 s of
        None \<Rightarrow> None
      | Some (n, t) \<Rightarrow> if length t = length s then None else Some (n, t))"

fun parse_octets :: "nat \<Rightarrow> bool \<Rightarrow> int \<Rightarrow> string \<Rightarrow> int option" where
  "parse_octets 0 first acc s = (if s = [] then Some acc else None)"
| "parse_octets (Suc k) first acc s =
     (if s = [] then None
      else if \<not> first \<and> hd s \<noteq> CHR ''.'' then None
      else case dtoi (if first then s else tl s) of
             None \<Rightarrow> None
           | Some (n, t) \<Rightarrow> if n > 0xFF then None else parse_octets k False (256 * acc + n) t)"

definition parseIPv4 :: "string \<Rightarrow> 32 word option" where
  "parseIPv4 s = map_option of_int (parse_octets 4 True 0 s)"

datatype ip = IP4 "32 word" | IP6 "128 word"

fun ParseIP_scan :: "(string \<Rightarrow> 128 word option) \<Rightarrow> string \<Rightarrow> string \<Rightarrow> ip option" where
  "ParseIP_scan parse6 s [] = None"
| "ParseIP_scan parse6 s (c # t) =
     (if c = CHR ''.'' then map_option IP4 (parseIPv4 s)
      else if c = CHR '':'' then map_option IP6 (parse6 s)
      else ParseIP_scan parse6 s t)"

definition ParseIP :: "(string \<Rightarrow> 128 word option) \<Rightarrow> string \<Rightarrow> ip option" where
  "ParseIP parse6 s = ParseIP_scan parse6 s s"

text \<open>\<^verbatim>\<open>ip.To4() != nil\<close>: an IPv4 address, or an IPv4 address mapped into IPv6.\<close>

definition v4in6 :: "128 word \<Rightarrow> bool" where
  "v4in6 a = (drop_bit 32 a = 0xFFFF)"

fun To4 :: "ip \<Rightarrow> bool" where
  "To4 (IP4 a) = True"
| "To4 (IP6 a) = v4in6 a"

text \<open>A network: its masked address and the number of leading ones of its mask.\<close>

datatype ipnet = Net4 "32 word" nat | Net6 "128 word" nat

fun net_To4 :: "ipnet \<Rightarrow> bool" where
  "net_To4 (Net4 a n) = True"
| "net_To4 (Net6 a n) = v4in6 a"

fun mask_ones :: "ipnet \<Rightarrow> nat" where
  "mask_ones (Net4 a n) = n"
| "mask_ones (Net6 a n) = n"

definition mask_to :: "nat \<Rightarrow> 'a::len word \<Rightarrow> 'a word" where
  "mask_to n a = push_bit (LENGTH('a) - n) (drop_bit (LENGTH('a) - n) a)"

definition cidr_error :: "string \<Rightarrow> error" where
  "cidr_error s = ErrorfErr (Fmt ''invalid CIDR address: %s'' [AStr s])"

definition ParseCIDR :: "(string \<Rightarrow> 128 word option) \<Rightarrow> string \<Rightarrow> ipnet result" where
  "ParseCIDR parse6 s =
     (let addr = takeWhile (\<lambda>c. c \<noteq> CHR ''/'') s; rest = dropWhile (\<lambda>c. c \<noteq> CHR ''/'') s in
      if rest = [] then Err (cidr_error s)
      else case dtoi (tl rest) of
             None \<Rightarrow> Err (cidr_error s)
           | Some (n, t) \<Rightarrow>
               if t \<noteq> [] then Err (cidr_error s)
               else case parseIPv4 addr of
                      Some a \<Rightarrow> if n > 32 then Err (cidr_error s) else Ok (Net4 (mask_to (nat n) a) (nat n))
                    | None \<Rightarrow>
                        (case parse6 addr of
                           None \<Rightarrow> Err (cidr_error s)
                         | Some a \<Rightarrow> if n > 128 then Err (cidr_error s) else Ok (Net6 (mask_to (nat n) a) (nat n))))"

lemma ParseCIDR_not_Panic [simp]: "ParseCIDR parse6 s \<noteq> Panic p"
  by (auto simp: ParseCIDR_def Let_def split: option.splits)

text \<open>The addresses of an IPv4 network.\<close>

definition in_net4 :: "32 word \<Rightarrow> 32 word \<Rightarrow> nat \<Rightarrow> bool" where
  "in_net4 x a n \<longleftrightarrow> mask_to n x = a"

end
