(* ===== verification/StaticValidation.thy ===== *)
theory StaticValidation
  imports Immutable ResourceID GoNet
begin

text \<open>
  \<^verbatim>\<open>src/pkg/api/v20191231preview/openshiftcluster_validatestatic.go\<close>: the checks of a PUT or
  PATCH body that need no call to Azure, in the source's order, each with the cloud error it
  returns. The parameters are the text form of IPv6 addresses (\<open>parse6\<close>) and \<^verbatim>\<open>url.Parse\<close>
  (\<open>url_Parse\<close>), of which only the error is used.
\<close>

record statlib =
  parse6 :: "string \<Rightarrow> 128 word option"
  url_Parse :: "string \<Rightarrow> unit result"

section \<open>The patterns\<close>

definition hex_class :: "char \<Rightarrow> bool" where
  "hex_class = fold_case (\<lambda>c. is_digit c \<or> in_range CHR ''a'' CHR ''f'' c)"

definition rx_uuid :: rx where
  "rx_uuid = RCat (RRep hex_class 8 8) (RCat (RLit ''-'') (RCat (RRep hex_class 4 4) (RCat (RLit ''-'')
     (RCat (RRep hex_class 4 4) (RCat (RLit ''-'') (RCat (RRep hex_class 4 4) (RCat (RLit ''-'')
     (RRep hex_class 12 12))))))))"

definition rg_class :: "char \<Rightarrow> bool" where
  "rg_class c = (is_lower_alnum c \<or> c \<in> set ''-_()'')"

definition rg_dot_class :: "char \<Rightarrow> bool" where
  "rg_dot_class c = (is_lower_alnum c \<or> c \<in> set ''-_().'')"

definition vnet_class :: "char \<Rightarrow> bool" where
  "vnet_class c = (is_lower_alnum c \<or> c \<in> set ''-_.'')"

definition rx_group_name_i :: rx where
  "rx_group_name_i = RCat (RRep (fold_case rg_dot_class) 0 89) (RCls (fold_case rg_class))"

definition rxResourceGroupID :: rx where
  "rxResourceGroupID =
     RPath [RLit_i ''subscriptions'', rx_uuid, RLit_i ''resourceGroups'', rx_group_name_i]"

definition rxSubnetID :: rx where
  "rxSubnetID =
     RPath [RLit_i ''subscriptions'', rx_uuid, RLit_i ''resourceGroups'', rx_group_name_i,
       RLit_i ''providers'', RLit_i ''Microsoft.Network'', RLit_i ''virtualNetworks'',
       RRep (fold_case vnet_class) 2 64, RLit_i ''subnets'', RRep (fold_case vnet_class) 2 80]"

definition label_class :: "char \<Rightarrow> bool" where
  "label_class c = (is_lower_alnum c \<or> c = CHR ''-'')"

definition rx_label :: rx where
  "rx_label = RAlt (RCls is_lower_alnum)
     (RCat (RCls is_lower_alnum) (RCat (RRep label_class 0 61) (RCls is_lower_alnum)))"

definition rxDomainName :: rx where
  "rxDomainName = RCat rx_label (RStar (RCat (RLit ''.'') rx_label))"

section \<open>The validator\<close>

definition resourceProviderNamespace :: string where
  "resourceProviderNamespace = ''Microsoft.RedHatOpenShift''"

definition resourceType :: string where
  "resourceType = ''openShiftClusters''"

record openShiftClusterStaticValidator =
  sv_location :: string
  sv_resourceID :: string
  sv_r :: Resource

abbreviation invalid :: "string \<Rightarrow> string \<Rightarrow> fmt_arg list \<Rightarrow> error" where
  "invalid path msg args \<equiv> NewCloudError 400 CloudErrorCodeInvalidParameter path msg args"

definition validateClusterProfile ::
    "openShiftClusterStaticValidator \<Rightarrow> string \<Rightarrow> xClusterProfile \<Rightarrow> unit result" where
  "validateClusterProfile sv path cp =
     (if \<not> rx_match rxDomainName (xcp_Domain cp)
      then Err (invalid (path @ ''.domain'') ''The provided domain '%s' is invalid.'' [AStr (xcp_Domain cp)])
      else if xcp_Version cp \<noteq> [] \<and> xcp_Version cp \<noteq> ''4.3.0-0.nightly-2019-12-05-001549''
      then Err (invalid (path @ ''.version'') ''The provided version '%s' is invalid.'' [AStr (xcp_Version cp)])
      else if \<not> rx_match rxResourceGroupID (xcp_ResourceGroupID cp)
      then Err (invalid (path @ ''.resourceGroupId'') ''The provided resource group '%s' is invalid.''
             [AStr (xcp_ResourceGroupID cp)])
      else let parts = Split CHR ''/'' (xcp_ResourceGroupID cp) in
        if length parts \<le> 2 then Panic ''index out of range''
        else if parts ! 2 \<noteq> r_SubscriptionID (sv_r sv)
        then Err (invalid (path @ ''.resourceGroupId'')
               ''The provided resource group '%s' is invalid: must be in same subscription as cluster.''
               [AStr (xcp_ResourceGroupID cp)])
        else Ok ())"

definition validateConsoleProfile :: "statlib \<Rightarrow> string \<Rightarrow> xConsoleProfile \<Rightarrow> unit result" where
  "validateConsoleProfile L path cp =
     (if xcon_URL cp \<noteq> [] then
        (case url_Parse L (xcon_URL cp) of
           Err e \<Rightarrow> Err (invalid (path @ ''.url'') ''The provided console URL '%s' is invalid.'' [AStr (xcon_URL cp)])
         | Panic p \<Rightarrow> Panic p
         | Ok _ \<Rightarrow> Ok ())
      else Ok ())"

definition validateServicePrincipalProfile :: "string \<Rightarrow> xServicePrincipalProfile \<Rightarrow> unit result" where
  "validateServicePrincipalProfile path spp =
     (case uuid_FromString (xspp_ClientID spp) of
        Err e \<Rightarrow> Err (invalid (path @ ''.clientId'') ''The provided client ID '%s' is invalid.'' [AStr (xspp_ClientID spp)])
      | Panic p \<Rightarrow> Panic p
      | Ok _ \<Rightarrow> rguard (xspp_ClientSecret spp \<noteq> [])
                 (invalid (path @ ''.clientSecret'') ''The provided client secret is invalid.'' []))"

text \<open>One CIDR of the network profile: it must parse, be IPv4 and have at most \<open>limit\<close> mask bits.\<close>

definition validateCIDR ::
    "statlib \<Rightarrow> string \<Rightarrow> string \<Rightarrow> string \<Rightarrow> nat \<Rightarrow> string \<Rightarrow> unit result" where
  "validateCIDR L path what sz limit cidr =
     (case ParseCIDR (parse6 L) cidr of
        Err e \<Rightarrow> Err (invalid path (''The provided '' @ what @ '' CIDR '%s' is invalid: '%s'.'') [AStr cidr, AErr e])
      | Panic p \<Rightarrow> Panic p
      | Ok net \<Rightarrow>
          (if \<not> net_To4 net
           then Err (invalid path (''The provided '' @ what @ '' CIDR '%s' is invalid: must be IPv4.'') [AStr cidr])
           else rguard (mask_ones net \<le> limit)
             (invalid path (''The provided vnet CIDR '%s' is invalid: must be '' @ sz @ '' or larger.'') [AStr cidr])))"

definition validateNetworkProfile :: "statlib \<Rightarrow> string \<Rightarrow> xNetworkProfile \<Rightarrow> unit result" where
  "validateNetworkProfile L path np =
     rbind (validateCIDR L (path @ ''.podCidr'') ''pod'' ''/18'' 18 (xnp_PodCIDR np)) (\<lambda>_.
     validateCIDR L (path @ ''.serviceCidr'') ''service'' ''/22'' 22 (xnp_ServiceCIDR np))"

definition validateMasterProfile ::
    "openShiftClusterStaticValidator \<Rightarrow> string \<Rightarrow> xMasterProfile \<Rightarrow> unit result" where
  "validateMasterProfile sv path mp =
     (if xmp_VMSize mp \<noteq> VMSizeStandardD8sV3
      then Err (invalid (path @ ''.vmSize'') ''The provided master VM size '%s' is invalid.'' [AStr (xmp_VMSize mp)])
      else if \<not> rx_match rxSubnetID (xmp_SubnetID mp)
      then Err (invalid (path @ ''.subnetId'') ''The provided master VM subnet '%s' is invalid.'' [AStr (xmp_SubnetID mp)])
      else rbind (ParseResourceID (xmp_SubnetID mp)) (\<lambda>sr.
        rguard (r_SubscriptionID sr = r_SubscriptionID (sv_r sv))
          (invalid (path @ ''.subnetId'')
             ''The provided master VM subnet '%s' is invalid: must be in same subscription as cluster.''
             [AStr (xmp_SubnetID mp)])))"

definition validateWorkerProfile :: "string \<Rightarrow> xWorkerProfile \<Rightarrow> xMasterProfile \<Rightarrow> unit result" where
  "validateWorkerProfile path wp mp =
     (if xwp_Name wp \<noteq> ''worker''
      then Err (invalid (path @ ''.name'') ''The provided worker name '%s' is invalid.'' [AStr (xwp_Name wp)])
      else if xwp_VMSize wp \<notin> {VMSizeStandardD2sV3, VMSizeStandardD4sV3, VMSizeStandardD8sV3}
      then Err (invalid (path @ ''.vmSize'') ''The provided worker VM size '%s' is invalid.'' [AStr (xwp_VMSize wp)])
      else if xwp_DiskSizeGB wp < 128
      then Err (invalid (path @ ''.diskSizeGB'') ''The provided worker disk size '%d' is invalid.'' [AInt (xwp_DiskSizeGB wp)])
      else if \<not> rx_match rxSubnetID (xwp_SubnetID wp)
      then Err (invalid (path @ ''.subnetId'') ''The provided worker VM subnet '%s' is invalid.'' [AStr (xwp_SubnetID wp)])
      else rbind (subnet_Split (xwp_SubnetID wp)) (\<lambda>(workerVnetID, _).
        rbind (subnet_Split (xmp_SubnetID mp)) (\<lambda>(masterVnetID, _).
          if \<not> EqualFold masterVnetID workerVnetID
          then Err (invalid (path @ ''.subnetId'')
                 ''The provided worker VM subnet '%s' is invalid: must be in the same vnet as master VM subnet '%s'.''
                 [AStr (xwp_SubnetID wp), AStr (xmp_SubnetID mp)])
          else if EqualFold (xmp_SubnetID mp) (xwp_SubnetID wp)
          then Err (invalid (path @ ''.subnetId'')
                 ''The provided worker VM subnet '%s' is invalid: must be different to master VM subnet '%s'.''
                 [AStr (xwp_SubnetID wp), AStr (xmp_SubnetID mp)])
          else rguard (\<not> (xwp_Count wp < 3 \<or> xwp_Count wp > 20))
                 (invalid (path @ ''.count'') ''The provided worker count '%d' is invalid.'' [AInt (xwp_Count wp)]))))"

definition validateVisibility :: "string \<Rightarrow> Visibility \<Rightarrow> unit result" where
  "validateVisibility path v =
     rguard (v \<in> {VisibilityPublic, VisibilityPrivate})
       (invalid (path @ ''.visibility'') ''The provided visibility '%s' is invalid.'' [AStr v])"

definition validateIP :: "statlib \<Rightarrow> string \<Rightarrow> string \<Rightarrow> unit result" where
  "validateIP L path s =
     (if s \<noteq> [] then
        (case ParseIP (parse6 L) s of
           None \<Rightarrow> Err (invalid (path @ ''.ip'') ''The provided IP '%s' is invalid.'' [AStr s])
         | Some ip \<Rightarrow> rguard (To4 ip) (invalid (path @ ''.ip'') ''The provided IP '%s' is invalid: must be IPv4.'' [AStr s]))
      else Ok ())"

definition validateAPIServerProfile :: "statlib \<Rightarrow> string \<Rightarrow> xAPIServerProfile \<Rightarrow> unit result" where
  "validateAPIServerProfile L path ap =
     rbind (validateVisibility path (xap_Visibility ap)) (\<lambda>_.
     rbind (if xap_URL ap \<noteq> [] then
              (case url_Parse L (xap_URL ap) of
                 Err e \<Rightarrow> Err (invalid (path @ ''.url'') ''The provided URL '%s' is invalid.'' [AStr (xap_URL ap)])
               | Panic p \<Rightarrow> Panic p
               | Ok _ \<Rightarrow> Ok ())
            else Ok ()) (\<lambda>_.
     validateIP L path (xap_IP ap)))"

definition validateIngressProfile :: "statlib \<Rightarrow> string \<Rightarrow> xIngressProfile \<Rightarrow> unit result" where
  "validateIngressProfile L path p =
     (if xip_Name p \<noteq> ''default''
      then Err (invalid (path @ ''.name'') ''The provided ingress name '%s' is invalid.'' [AStr (xip_Name p)])
      else rbind (validateVisibility path (xip_Visibility p)) (\<lambda>_. validateIP L path (xip_IP p)))"

text \<open>\<^verbatim>\<open>len\<close> of a slice; nil has length 0.\<close>

definition slice_list :: "'a list option \<Rightarrow> 'a list" where
  "slice_list xs = (case xs of None \<Rightarrow> [] | Some ys \<Rightarrow> ys)"

definition validateProperties ::
    "statlib \<Rightarrow> openShiftClusterStaticValidator \<Rightarrow> string \<Rightarrow> xProperties \<Rightarrow> unit result" where
  "validateProperties L sv path p =
     (if xp_ProvisioningState p \<notin> {ProvisioningStateCreating, ProvisioningStateUpdating,
           ProvisioningStateDeleting, ProvisioningStateSucceeded, ProvisioningStateFailed}
      then Err (invalid (path @ ''.provisioningState'')
             ''The provided provisioning state '%s' is invalid.'' [AStr (xp_ProvisioningState p)])
      else
        rbind (validateClusterProfile sv (path @ ''.clusterProfile'') (xp_ClusterProfile p)) (\<lambda>_.
        rbind (validateConsoleProfile L (path @ ''.consoleProfile'') (xp_ConsoleProfile p)) (\<lambda>_.
        rbind (validateServicePrincipalProfile (path @ ''.servicePrincipalProfile'') (xp_ServicePrincipalProfile p)) (\<lambda>_.
        rbind (validateNetworkProfile L (path @ ''.networkProfile'') (xp_NetworkProfile p)) (\<lambda>_.
        rbind (validateMasterProfile sv (path @ ''.masterProfile'') (xp_MasterProfile p)) (\<lambda>_.
        case slice_list (xp_WorkerProfiles p) of
          [w] \<Rightarrow>
            rbind (validateWorkerProfile (path @ ''.workerProfiles['' @ sq @ xwp_Name w @ sq @ '']'') w (xp_MasterProfile p)) (\<lambda>_.
            rbind (validateAPIServerProfile L (path @ ''.apiserverProfile'') (xp_APIServerProfile p)) (\<lambda>_.
            case slice_list (xp_IngressProfiles p) of
              [i] \<Rightarrow> validateIngressProfile L (path @ ''.ingressProfiles['' @ sq @ xip_Name i @ sq @ '']'') i
            | _ \<Rightarrow> Err (invalid (path @ ''.ingressProfiles'') ''There should be exactly one ingress profile.'' [])))
        | _ \<Rightarrow> Err (invalid (path @ ''.workerProfiles'') ''There should be exactly one worker profile.'' [])))))))"

definition validate_static ::
    "statlib \<Rightarrow> openShiftClusterStaticValidator \<Rightarrow> xOpenShiftCluster \<Rightarrow> unit result" where
  "validate_static L sv oc =
     (if \<not> EqualFold (x_ID oc) (sv_resourceID sv)
      then Err (NewCloudError 400 CloudErrorCodeMismatchingResourceID ''id''
             ''The provided resource ID '%s' did not match the name in the Url '%s'.''
             [AStr (x_ID oc), AStr (sv_resourceID sv)])
      else if \<not> EqualFold (x_Name oc) (r_ResourceName (sv_r sv))
      then Err (NewCloudError 400 CloudErrorCodeMismatchingResourceName ''name''
             ''The provided resource name '%s' did not match the name in the Url '%s'.''
             [AStr (x_Name oc), AStr (r_ResourceName (sv_r sv))])
      else if \<not> EqualFold (x_Type oc) (resourceProviderNamespace @ ''/'' @ resourceType)
      then Err (NewCloudError 400 CloudErrorCodeMismatchingResourceType ''type''
             ''The provided resource type '%s' did not match the name in the Url '%s'.''
             [AStr (x_Type oc), AStr (resourceProviderNamespace @ ''/'' @ resourceType)])
      else if \<not> EqualFold (x_Location oc) (sv_location sv)
      then Err (NewCloudError 400 CloudErrorCodeInvalidParameter ''location''
             ''The provided location '%s' is invalid.'' [AStr (x_Location oc)])
      else validateProperties L sv ''properties'' (x_Properties oc))"

definition validateDelta :: "xOpenShiftCluster \<Rightarrow> xOpenShiftCluster \<Rightarrow> unit result" where
  "validateDelta oc current =
     Validate [] (reflect_OpenShiftCluster oc) (reflect_OpenShiftCluster current)"

text \<open>\<^verbatim>\<open>Static\<close>: the validator is made for a location and the request's resource identifier.\<close>

definition Static ::
    "statlib \<Rightarrow> string \<Rightarrow> string \<Rightarrow> xOpenShiftCluster \<Rightarrow> OpenShiftCluster option \<Rightarrow> unit result" where
  "Static L location resourceID oc current =
     rbind (ParseResourceID resourceID) (\<lambda>r.
     rbind (validate_static L \<lparr>sv_location = location, sv_resourceID = resourceID, sv_r = r\<rparr> oc) (\<lambda>_.
     case current of
       None \<Rightarrow> Ok ()
     | Some c \<Rightarrow> validateDelta oc (ToExternal c)))"


section \<open>The patterns exclude the separators\<close>

definition seg_class :: "(char \<Rightarrow> bool) \<Rightarrow> bool" where
  "seg_class p \<longleftrightarrow> \<not> p CHR ''/'' \<and> \<not> p CHR 0x0A"

lemma seg_classes [simp]:
  "seg_class hex_class" "seg_class (fold_case rg_dot_class)" "seg_class (fold_case rg_class)"
  "seg_class (fold_case vnet_class)"
  by code_simp+

lemma seg_class_list_all: "seg_class p \<Longrightarrow> list_all p s \<Longrightarrow> CHR ''/'' \<notin> set s \<and> CHR 0x0A \<notin> set s"
  by (auto simp: seg_class_def list_all_iff)

text \<open>The texts of a pattern are non-empty path segments.\<close>

definition seg_rx :: "rx \<Rightarrow> bool" where
  "seg_rx r \<longleftrightarrow> (\<forall>s \<in> rx_lang r. seg s)"

lemma seg_rx_rep: "seg_class p \<Longrightarrow> 0 < m \<Longrightarrow> seg_rx (RRep p m n)"
  by (auto simp: seg_rx_def seg_def dest: seg_class_list_all)

lemma to_lower_char_newline [simp]: "to_lower_char CHR 0x0A = CHR 0x0A"
  by code_simp

lemma seg_EqualFold:
  assumes "EqualFold s t" and "seg (ToLower t)"
  shows "seg s"
proof -
  have eq: "ToLower s = ToLower t" using assms(1) by (simp add: EqualFold_def)
  have "CHR 0x0A \<notin> set s"
  proof
    assume "CHR 0x0A \<in> set s"
    then have "to_lower_char CHR 0x0A \<in> set (ToLower s)" by (simp only: ToLower_def set_map imageI)
    with eq assms(2) show False by (simp add: seg_def)
  qed
  moreover have "CHR ''/'' \<notin> set s" "s \<noteq> []"
    using eq assms(2) slash_in_ToLower [of s] ToLower_eq_Nil [of s] by (auto simp: seg_def)
  ultimately show ?thesis by (simp add: seg_def)
qed

lemma seg_rx_lit_i: "seg (ToLower t) \<Longrightarrow> seg_rx (RLit_i t)"
  by (auto simp: seg_rx_def intro: seg_EqualFold)

lemma seg_rx_uuid: "seg_rx rx_uuid"
  unfolding seg_rx_def rx_uuid_def
  by (auto simp: seg_def lang_cat_def dest!: seg_class_list_all [rotated])

lemma seg_rx_group: "seg_rx rx_group_name_i"
  unfolding seg_rx_def rx_group_name_i_def using seg_classes
  by (auto simp: seg_def lang_cat_def seg_class_def dest: seg_class_list_all [rotated])

lemma seg_words [simp]:
  "seg (ToLower ''subscriptions'')" "seg (ToLower ''resourceGroups'')" "seg (ToLower ''providers'')"
  "seg (ToLower ''Microsoft.Network'')" "seg (ToLower ''virtualNetworks'')" "seg (ToLower ''subnets'')"
  by code_simp+

lemmas seg_rx_rules = seg_rx_uuid seg_rx_group seg_rx_lit_i seg_rx_rep

lemma seg_rx_no_slash: "seg_rx r \<Longrightarrow> no_slash r"
  by (auto simp: seg_rx_def no_slash_def seg_def)

lemma rxSubnetID_parts:
  assumes "rx_match rxSubnetID s"
  obtains su sub rg g pr p t v k n where
    "Split CHR ''/'' s = [[], su, sub, rg, g, pr, p, t, v, k, n]"
    and "EqualFold su ''subscriptions''" "EqualFold rg ''resourceGroups''" "EqualFold pr ''providers''"
    and "seg su" "seg sub" "seg rg" "seg g" "seg pr" "seg p" "seg t" "seg v" "seg k" "seg n"
proof -
  let ?rs = "[RLit_i ''subscriptions'', rx_uuid, RLit_i ''resourceGroups'', rx_group_name_i,
       RLit_i ''providers'', RLit_i ''Microsoft.Network'', RLit_i ''virtualNetworks'',
       RRep (fold_case vnet_class) 2 64, RLit_i ''subnets'', RRep (fold_case vnet_class) 2 80]"
  have seg: "list_all seg_rx ?rs"
    by (simp add: seg_rx_rules del: RLit_i.simps)
  then have "list_all no_slash ?rs"
    by (auto simp: list_all_iff seg_rx_no_slash)
  with assms obtain ps where ps: "Split CHR ''/'' s = [] # ps" "list_all2 (\<lambda>p r. p \<in> rx_lang r) ps ?rs"
    unfolding rx_match_iff rxSubnetID_def using RPath_lang_Split [of ?rs s] by blast
  with seg that show ?thesis
    by (auto simp: list_all2_Cons2 seg_rx_def simp del: RLit_i.simps rx_lang.simps)
qed


section \<open>A subnet identifier is always taken apart\<close>

lemma dots_greedy_complete:
  "CHR 0x0A \<notin> set u \<Longrightarrow> k (acc @ u) v \<noteq> None \<Longrightarrow> dots_greedy k acc (u @ v) \<noteq> None"
proof (induction u arbitrary: acc)
  case Nil
  then show ?case by (cases v) (auto split: option.splits)
next
  case (Cons c u)
  then have "dots_greedy k (acc @ [c]) (u @ v) \<noteq> None" by (intro Cons.IH) auto
  with Cons.prems show ?case by (auto split: option.splits)
qed

lemma dots_lazy_complete:
  "CHR 0x0A \<notin> set u \<Longrightarrow> k (acc @ u) v \<noteq> None \<Longrightarrow> dots_lazy k acc (u @ v) \<noteq> None"
proof (induction u arbitrary: acc)
  case Nil
  then show ?case by (cases v) (auto split: option.splits)
next
  case (Cons c u)
  then have "dots_lazy k (acc @ [c]) (u @ v) \<noteq> None" by (intro Cons.IH) auto
  with Cons.prems show ?case by (auto split: option.splits)
qed

lemma plus_complete:
  assumes "seg u" "k u v \<noteq> None"
  shows "plus_greedy k (u @ v) \<noteq> None" and "plus_lazy k (u @ v) \<noteq> None"
proof -
  obtain c u' where u: "u = c # u'" "c \<noteq> CHR 0x0A" "CHR 0x0A \<notin> set u'"
    using assms(1) by (cases u) (auto simp: seg_def)
  with assms(2) show "plus_greedy k (u @ v) \<noteq> None" and "plus_lazy k (u @ v) \<noteq> None"
    using dots_greedy_complete [of u' k "[c]" v] dots_lazy_complete [of u' k "[c]" v]
    by (simp_all add: plus_greedy_def plus_lazy_def)
qed

lemma search_complete: "m v \<noteq> None \<Longrightarrow> search m (u @ v) \<noteq> None"
proof (induction u)
  case Nil
  then show ?case by (cases v) (auto split: option.splits)
qed (auto split: option.splits)

lemma lit_i_complete: "EqualFold u p \<Longrightarrow> k v \<noteq> None \<Longrightarrow> lit_i p k (u @ v) \<noteq> None"
  by (simp add: lit_i_EqualFold)

lemma EqualFold_slashes: "EqualFold u p \<Longrightarrow> EqualFold (''/'' @ u @ ''/'') (''/'' @ p @ ''/'')"
  by (simp add: EqualFold_def ToLower_def)

lemma match_type_complete:
  assumes "seg t" "seg n" and "\<And>a. k t a \<noteq> None"
  shows "match_type k (t @ ''/'' @ n @ v) \<noteq> None"
  unfolding match_type_def using assms
  by (intro plus_complete(2) lit_i_complete plus_complete(1)) auto

lemma match_provider_complete:
  assumes "seg p" "seg t" "seg n" and "\<And>a b. k p a b \<noteq> None"
  shows "match_provider k (p @ ''/'' @ t @ ''/'' @ n @ v) \<noteq> None"
  unfolding match_provider_def using assms
  by (intro plus_complete(2) lit_i_complete match_type_complete) auto

lemma match_group_complete:
  assumes "seg g" "seg p" "seg t" "seg n" "EqualFold pr ''providers''" and "\<And>a b c. k g a b c \<noteq> None"
  shows "match_group k (g @ (''/'' @ pr @ ''/'') @ p @ ''/'' @ t @ ''/'' @ n @ v) \<noteq> None"
  unfolding match_group_def using assms EqualFold_slashes [OF assms(5)]
  by (intro plus_complete(1) lit_i_complete match_provider_complete) auto

lemma parse_resource_complete:
  assumes "seg s" "seg g" "seg p" "seg t" "seg n"
    and "EqualFold su ''subscriptions''" "EqualFold rg ''resourceGroups''" "EqualFold pr ''providers''"
  shows "\<exists>r. ParseResourceID (resource_id su s rg g pr p t n @ v) = Ok r"
proof -
  let ?k = "\<lambda>s. lit_i ''/resourceGroups/'' (match_group (\<lambda>g p t n. Some (s, g, p, t, n)))"
  have "EqualFold (su @ ''/'') ''subscriptions/''"
    using assms(6) by (simp add: EqualFold_def ToLower_def)
  then have "match_resourceID ((su @ ''/'') @ s @ (''/'' @ rg @ ''/'') @ g @ (''/'' @ pr @ ''/'') @
      p @ ''/'' @ t @ ''/'' @ n @ v) \<noteq> None"
    unfolding match_resourceID_def using assms EqualFold_slashes [OF assms(7)]
    by (intro lit_i_complete plus_complete(1) match_group_complete) auto
  from search_complete [of match_resourceID, OF this, of "''/''"] show ?thesis
    by (auto simp: ParseResourceID_def resource_id_def)
qed

lemma rxSubnetID_split:
  assumes "rx_match rxSubnetID s"
  shows "\<exists>vnet name. subnet_Split s = Ok (vnet, name)" and "\<exists>r. ParseResourceID s = Ok r"
proof -
  from assms obtain su sub rg g pr p t v k n where
    sp: "Split CHR ''/'' s = [[], su, sub, rg, g, pr, p, t, v, k, n]"
    and seg: "EqualFold su ''subscriptions''" "EqualFold rg ''resourceGroups''" "EqualFold pr ''providers''"
    "seg sub" "seg g" "seg p" "seg t" "seg v"
    by (rule rxSubnetID_parts)
  then show "\<exists>vnet name. subnet_Split s = Ok (vnet, name)"
    by (simp add: subnet_Split_def)
  have "s = Join CHR ''/'' (Split CHR ''/'' s)" by simp
  also have "\<dots> = resource_id su sub rg g pr p t v @ ''/'' @ k @ ''/'' @ n"
    by (simp add: sp resource_id_def)
  finally show "\<exists>r. ParseResourceID s = Ok r"
    using parse_resource_complete seg by metis
qed

lemma rxResourceGroupID_parts:
  assumes "rx_match rxResourceGroupID s"
  shows "length (Split CHR ''/'' s) = 5"
proof -
  let ?rs = "[RLit_i ''subscriptions'', rx_uuid, RLit_i ''resourceGroups'', rx_group_name_i]"
  have "list_all no_slash ?rs"
    by (simp add: seg_rx_rules seg_rx_no_slash del: RLit_i.simps)
  with assms obtain ps where "Split CHR ''/'' s = [] # ps" "list_all2 (\<lambda>p r. p \<in> rx_lang r) ps ?rs"
    unfolding rx_match_iff rxResourceGroupID_def using RPath_lang_Split [of ?rs s] by blast
  then show ?thesis by (auto dest: list_all2_lengthD)
qed


section \<open>Every rejection is a bad request\<close>

fun bad_request :: "'a result \<Rightarrow> bool" where
  "bad_request (Ok a) = True"
| "bad_request (Err (CloudErr s b)) = (s = 400)"
| "bad_request r = False"

lemma bad_request_NewCloudError [simp]: "bad_request (Err (NewCloudError s c t m a)) \<longleftrightarrow> s = 400"
  by (simp add: NewCloudError_def)

lemma bad_request_guard [simp]: "bad_request (rguard b (NewCloudError 400 c t m a))"
  by (simp add: rguard_def)

lemma bad_request_bind:
  "bad_request r \<Longrightarrow> (\<And>a. r = Ok a \<Longrightarrow> bad_request (f a)) \<Longrightarrow> bad_request (rbind r f)"
  by (cases r) (auto elim: bad_request.elims)

definition total_url :: "statlib \<Rightarrow> bool" where
  "total_url L \<longleftrightarrow> (\<forall>s p. url_Parse L s \<noteq> Panic p)"

lemma bad_request_cluster: "bad_request (validateClusterProfile sv path cp)"
  using rxResourceGroupID_parts [of "xcp_ResourceGroupID cp"]
  by (simp add: validateClusterProfile_def Let_def)

lemma bad_request_spp: "bad_request (validateServicePrincipalProfile path spp)"
  by (simp add: validateServicePrincipalProfile_def split: result.splits)

lemma bad_request_CIDR: "bad_request (validateCIDR L path what sz limit cidr)"
  by (simp add: validateCIDR_def split: result.splits)

lemma bad_request_network: "bad_request (validateNetworkProfile L path np)"
  by (simp add: validateNetworkProfile_def bad_request_bind bad_request_CIDR)

lemma bad_request_console: "total_url L \<Longrightarrow> bad_request (validateConsoleProfile L path cp)"
  by (simp add: validateConsoleProfile_def total_url_def split: result.splits)

lemma bad_request_master: "bad_request (validateMasterProfile sv path mp)"
  using rxSubnetID_split(2) [of "xmp_SubnetID mp"]
  by (auto simp: validateMasterProfile_def)

lemma bad_request_worker:
  "rx_match rxSubnetID (xmp_SubnetID mp) \<Longrightarrow> bad_request (validateWorkerProfile path wp mp)"
  using rxSubnetID_split(1) [of "xmp_SubnetID mp"] rxSubnetID_split(1) [of "xwp_SubnetID wp"]
  by (auto simp: validateWorkerProfile_def)

lemma bad_request_IP: "bad_request (validateIP L path ip)"
  by (simp add: validateIP_def split: option.splits)

lemma bad_request_apiserver: "total_url L \<Longrightarrow> bad_request (validateAPIServerProfile L path ap)"
  unfolding validateAPIServerProfile_def validateVisibility_def
  by (intro bad_request_bind bad_request_IP) (auto simp: total_url_def split: result.splits)

lemma bad_request_ingress: "bad_request (validateIngressProfile L path ip)"
  by (simp add: validateIngressProfile_def validateVisibility_def bad_request_bind bad_request_IP)

lemma validateMasterProfile_OkD:
  assumes "validateMasterProfile sv path mp = Ok ()"
  shows "xmp_VMSize mp = VMSizeStandardD8sV3" and "rx_match rxSubnetID (xmp_SubnetID mp)"
    and "\<exists>r. ParseResourceID (xmp_SubnetID mp) = Ok r \<and> r_SubscriptionID r = r_SubscriptionID (sv_r sv)"
  using assms by (auto simp: validateMasterProfile_def split: if_splits)

lemma bad_request_properties:
  assumes "total_url L"
  shows "bad_request (validateProperties L sv path p)"
  unfolding validateProperties_def using assms
  by (auto intro!: bad_request_bind bad_request_cluster bad_request_console bad_request_spp
    bad_request_network bad_request_master bad_request_worker bad_request_apiserver bad_request_ingress
    dest: validateMasterProfile_OkD(2) split: list.splits)




section \<open>What an accepted cluster satisfies\<close>

text \<open>A network given by masking fewer than 80 bits is not an IPv4 network in IPv6 clothes.\<close>

lemma mask_to_not_v4in6:
  assumes "n \<le> 80"
  shows "\<not> v4in6 (mask_to n (a :: 128 word))"
proof
  assume "v4in6 (mask_to n a)"
  then have "bit (drop_bit 32 (mask_to n a)) 0" by (simp add: v4in6_def)
  then have "bit (mask_to n a) 32" by (simp add: bit_drop_bit_eq)
  with assms show False by (auto simp: mask_to_def bit_push_bit_iff)
qed

lemma ParseCIDR_net6: "ParseCIDR p6 s = Ok (Net6 a n) \<Longrightarrow> \<exists>b. a = mask_to n b"
  by (auto simp: ParseCIDR_def Let_def split: option.splits if_splits)

lemma validateCIDR_OkD:
  assumes "validateCIDR L path what sz limit cidr = Ok ()" and "limit \<le> 80"
  shows "\<exists>a n. ParseCIDR (parse6 L) cidr = Ok (Net4 a n) \<and> n \<le> limit"
proof -
  from assms(1) obtain net where net: "ParseCIDR (parse6 L) cidr = Ok net" "net_To4 net" "mask_ones net \<le> limit"
    by (auto simp: validateCIDR_def split: result.splits if_splits)
  then show ?thesis
    using assms(2) ParseCIDR_net6 mask_to_not_v4in6 by (cases net) fastforce+
qed

definition resource_subscription :: "string \<Rightarrow> string option" where
  "resource_subscription s = (case ParseResourceID s of Ok r \<Rightarrow> Some (r_SubscriptionID r) | _ \<Rightarrow> None)"

text \<open>The size of the worker pool and where its machines and the masters' are placed.\<close>

definition sound_pool :: "xMasterProfile \<Rightarrow> xWorkerProfile \<Rightarrow> bool" where
  "sound_pool m w \<longleftrightarrow>
     xwp_Name w = ''worker'' \<and> 3 \<le> xwp_Count w \<and> xwp_Count w \<le> 20 \<and> 128 \<le> xwp_DiskSizeGB w \<and>
     xmp_VMSize m = VMSizeStandardD8sV3 \<and> \<not> EqualFold (xmp_SubnetID m) (xwp_SubnetID w) \<and>
     (case (subnet_Split (xmp_SubnetID m), subnet_Split (xwp_SubnetID w)) of
        (Ok (mv, mn), Ok (wv, wn)) \<Rightarrow> EqualFold mv wv
      | _ \<Rightarrow> False)"

definition ipv4_network :: "statlib \<Rightarrow> nat \<Rightarrow> string \<Rightarrow> bool" where
  "ipv4_network L n s =
     (case ParseCIDR (parse6 L) s of Ok (Net4 a ones) \<Rightarrow> ones \<le> n | _ \<Rightarrow> False)"

lemma validateWorkerProfile_OkD:
  assumes "validateWorkerProfile path w m = Ok ()" and "xmp_VMSize m = VMSizeStandardD8sV3"
  shows "sound_pool m w"
  using assms by (auto simp: validateWorkerProfile_def sound_pool_def split: if_splits)

lemma validateNetworkProfile_OkD:
  assumes "validateNetworkProfile L path np = Ok ()"
  shows "ipv4_network L 18 (xnp_PodCIDR np)" and "ipv4_network L 22 (xnp_ServiceCIDR np)"
proof -
  from assms have v: "validateCIDR L (path @ ''.podCidr'') ''pod'' ''/18'' 18 (xnp_PodCIDR np) = Ok ()"
      "validateCIDR L (path @ ''.serviceCidr'') ''service'' ''/22'' 22 (xnp_ServiceCIDR np) = Ok ()"
    by (auto simp: validateNetworkProfile_def)
  from validateCIDR_OkD [OF v(1)] validateCIDR_OkD [OF v(2)]
  show "ipv4_network L 18 (xnp_PodCIDR np)" and "ipv4_network L 22 (xnp_ServiceCIDR np)"
    by (auto simp: ipv4_network_def)
qed

lemma validateClusterProfile_OkD:
  "validateClusterProfile sv path cp = Ok () \<Longrightarrow>
   Split CHR ''/'' (xcp_ResourceGroupID cp) ! 2 = r_SubscriptionID (sv_r sv)"
  by (auto simp: validateClusterProfile_def Let_def split: if_splits)

lemma validateProperties_OkE:
  assumes "validateProperties L sv path p = Ok ()"
  obtains w i path' where "xp_WorkerProfiles p = Some [w]" and "xp_IngressProfiles p = Some [i]"
    and "validateClusterProfile sv (path @ ''.clusterProfile'') (xp_ClusterProfile p) = Ok ()"
    and "validateNetworkProfile L (path @ ''.networkProfile'') (xp_NetworkProfile p) = Ok ()"
    and "validateMasterProfile sv (path @ ''.masterProfile'') (xp_MasterProfile p) = Ok ()"
    and "validateWorkerProfile path' w (xp_MasterProfile p) = Ok ()"
  using assms unfolding validateProperties_def
  by (clarsimp simp: slice_list_def rbind_eq_Ok split: if_splits list.splits option.splits)

lemma validateProperties_OkD:
  assumes "validateProperties L sv path p = Ok ()"
  shows "\<exists>w. xp_WorkerProfiles p = Some [w] \<and> sound_pool (xp_MasterProfile p) w"
    and "\<exists>i. xp_IngressProfiles p = Some [i]"
    and "ipv4_network L 18 (xnp_PodCIDR (xp_NetworkProfile p))"
    and "ipv4_network L 22 (xnp_ServiceCIDR (xp_NetworkProfile p))"
    and "resource_subscription (xmp_SubnetID (xp_MasterProfile p)) = Some (r_SubscriptionID (sv_r sv))"
    and "Split CHR ''/'' (xcp_ResourceGroupID (xp_ClusterProfile p)) ! 2 = r_SubscriptionID (sv_r sv)"
proof -
  obtain w i path' where p: "xp_WorkerProfiles p = Some [w]" "xp_IngressProfiles p = Some [i]"
      "validateWorkerProfile path' w (xp_MasterProfile p) = Ok ()"
    and c: "validateClusterProfile sv (path @ ''.clusterProfile'') (xp_ClusterProfile p) = Ok ()"
    and n: "validateNetworkProfile L (path @ ''.networkProfile'') (xp_NetworkProfile p) = Ok ()"
    and m: "validateMasterProfile sv (path @ ''.masterProfile'') (xp_MasterProfile p) = Ok ()"
    using assms by (rule validateProperties_OkE)
  show "\<exists>w. xp_WorkerProfiles p = Some [w] \<and> sound_pool (xp_MasterProfile p) w"
      "\<exists>i. xp_IngressProfiles p = Some [i]"
    using p validateMasterProfile_OkD(1) [OF m] validateWorkerProfile_OkD by blast+
  show "resource_subscription (xmp_SubnetID (xp_MasterProfile p)) = Some (r_SubscriptionID (sv_r sv))"
    using validateMasterProfile_OkD(3) [OF m] by (auto simp: resource_subscription_def)
qed (use validateNetworkProfile_OkD validateClusterProfile_OkD assms in \<open>blast elim: validateProperties_OkE\<close>)+

text \<open>
  C14. What a cluster that passes static validation is: exactly one worker pool named worker
  of 3 to 20 machines with disks of at least 128 GB, masters of the one supported size, workers and
  masters in different subnets of the same virtual network, exactly one ingress profile, a pod
  network that is an IPv4 network of at least /18 and a service network of at least /22, the
  master subnet and the cluster resource group in the cluster's own subscription, and, for an update,
  nothing changed but what may change.
\<close>
theorem static_validation_sound:
  assumes "Static L location resourceID oc current = Ok ()"
  shows "\<exists>r w i. ParseResourceID resourceID = Ok r
    \<and> xp_WorkerProfiles (x_Properties oc) = Some [w] \<and> sound_pool (xp_MasterProfile (x_Properties oc)) w
    \<and> xp_IngressProfiles (x_Properties oc) = Some [i]
    \<and> ipv4_network L 18 (xnp_PodCIDR (xp_NetworkProfile (x_Properties oc)))
    \<and> ipv4_network L 22 (xnp_ServiceCIDR (xp_NetworkProfile (x_Properties oc)))
    \<and> resource_subscription (xmp_SubnetID (xp_MasterProfile (x_Properties oc))) = Some (r_SubscriptionID r)
    \<and> Split CHR ''/'' (xcp_ResourceGroupID (xp_ClusterProfile (x_Properties oc))) ! 2 = r_SubscriptionID r
    \<and> EqualFold (x_ID oc) resourceID \<and> EqualFold (x_Name oc) (r_ResourceName r)
    \<and> (case current of None \<Rightarrow> True | Some c \<Rightarrow> only_mutable_changes oc (ToExternal c))"
proof -
  from assms obtain r where r: "ParseResourceID resourceID = Ok r"
    and v: "validate_static L \<lparr>sv_location = location, sv_resourceID = resourceID, sv_r = r\<rparr> oc = Ok ()"
    and d: "case current of None \<Rightarrow> True | Some c \<Rightarrow> validateDelta oc (ToExternal c) = Ok ()"
    by (auto simp: Static_def split: option.splits)
  from v have p: "validateProperties L \<lparr>sv_location = location, sv_resourceID = resourceID, sv_r = r\<rparr>
      ''properties'' (x_Properties oc) = Ok ()"
    and ids: "EqualFold (x_ID oc) resourceID" "EqualFold (x_Name oc) (r_ResourceName r)"
    by (auto simp: validate_static_def split: if_splits)
  have "case current of None \<Rightarrow> True | Some c \<Rightarrow> only_mutable_changes oc (ToExternal c)"
    using d validate_cluster_checks [of oc "ToExternal (the current)"]
    by (auto simp: validateDelta_def split: option.splits)
  with validateProperties_OkD [OF p] r ids show ?thesis by auto
qed


text \<open>A cluster that static validation accepts, and the library functions to run it with.\<close>

definition sample_lib :: statlib where
  "sample_lib = \<lparr>parse6 = (\<lambda>_. None), url_Parse = (\<lambda>_. Ok ())\<rparr>"

definition sample_vnet :: string where
  "sample_vnet = ''/subscriptions/01234567-89ab-cdef-0123-456789abcdef/resourceGroups/rg/providers/Microsoft.Network/virtualNetworks/vnet''"

definition sample_resourceID :: string where
  "sample_resourceID = ''/subscriptions/01234567-89ab-cdef-0123-456789abcdef/resourcegroups/rg/providers/microsoft.redhatopenshift/openshiftclusters/c''"

definition sample_cluster :: xOpenShiftCluster where
  "sample_cluster = exampleOpenShiftCluster\<lparr>
     x_ID := sample_resourceID, x_Name := ''C'', x_Tags := None,
     x_Properties := (x_Properties exampleOpenShiftCluster)\<lparr>
       xp_ClusterProfile := \<lparr>xcp_Domain = ''cluster.location.aroapp.io'', xcp_Version = [],
         xcp_ResourceGroupID = ''/subscriptions/01234567-89ab-cdef-0123-456789abcdef/resourceGroups/crg''\<rparr>,
       xp_ServicePrincipalProfile := \<lparr>xspp_ClientID = ''01234567-89ab-cdef-0123-456789abcdef'',
         xspp_ClientSecret = ''s''\<rparr>,
       xp_MasterProfile := \<lparr>xmp_VMSize = VMSizeStandardD8sV3, xmp_SubnetID = sample_vnet @ ''/subnets/master''\<rparr>,
       xp_WorkerProfiles := Some [\<lparr>xwp_Name = ''worker'', xwp_VMSize = VMSizeStandardD4sV3,
         xwp_DiskSizeGB = 128, xwp_SubnetID = sample_vnet @ ''/subnets/worker'', xwp_Count = 5\<rparr>]\<rparr>\<rparr>"

theorem static_validation_sound_witness:
  "\<exists>r w i. ParseResourceID sample_resourceID = Ok r
    \<and> xp_WorkerProfiles (x_Properties sample_cluster) = Some [w]
    \<and> sound_pool (xp_MasterProfile (x_Properties sample_cluster)) w
    \<and> xp_IngressProfiles (x_Properties sample_cluster) = Some [i]
    \<and> ipv4_network sample_lib 18 (xnp_PodCIDR (xp_NetworkProfile (x_Properties sample_cluster)))
    \<and> ipv4_network sample_lib 22 (xnp_ServiceCIDR (xp_NetworkProfile (x_Properties sample_cluster)))
    \<and> resource_subscription (xmp_SubnetID (xp_MasterProfile (x_Properties sample_cluster))) = Some (r_SubscriptionID r)
    \<and> Split CHR ''/'' (xcp_ResourceGroupID (xp_ClusterProfile (x_Properties sample_cluster))) ! 2 = r_SubscriptionID r
    \<and> EqualFold (x_ID sample_cluster) sample_resourceID \<and> EqualFold (x_Name sample_cluster) (r_ResourceName r)
    \<and> (case Some (ToInternal sample_cluster zero_OpenShiftCluster) of
         None \<Rightarrow> True | Some c \<Rightarrow> only_mutable_changes sample_cluster (ToExternal c))"
proof -
  have "Static sample_lib ''location'' sample_resourceID sample_cluster
      (Some (ToInternal sample_cluster zero_OpenShiftCluster)) = Ok ()"
    by code_simp
  then show ?thesis by (rule static_validation_sound)
qed

section \<open>Domain names\<close>

definition dns_label :: "string \<Rightarrow> bool" where
  "dns_label s \<longleftrightarrow> s \<noteq> [] \<and> length s \<le> 63 \<and> list_all label_class s \<and>
     is_lower_alnum (hd s) \<and> is_lower_alnum (last s)"

lemma alnum_label: "is_lower_alnum c \<Longrightarrow> label_class c"
  by (simp add: label_class_def)

lemma rx_label_iff: "s \<in> rx_lang rx_label \<longleftrightarrow> dns_label s"
proof
  assume "s \<in> rx_lang rx_label"
  then show "dns_label s"
    by (auto simp: rx_label_def dns_label_def lang_cat_def alnum_label)
next
  assume s: "dns_label s"
  then obtain c t where c: "s = c # t" by (cases s) (auto simp: dns_label_def)
  show "s \<in> rx_lang rx_label"
  proof (cases t rule: rev_cases)
    case Nil
    with s c show ?thesis by (simp add: rx_label_def dns_label_def)
  next
    case (snoc m d)
    with s c have "m \<in> rx_lang (RRep label_class 0 61)" "is_lower_alnum c" "is_lower_alnum d"
      by (auto simp: dns_label_def)
    then have "[c] @ m @ [d] \<in> rx_lang rx_label"
      unfolding rx_label_def rx_lang.simps(4) rx_lang.simps(5) by (intro UnI2 lang_catI) auto
    then show ?thesis using c snoc by simp
  qed
qed

lemma label_no_dot: "dns_label s \<Longrightarrow> CHR ''.'' \<notin> set s"
proof -
  have "\<not> label_class CHR ''.''" by code_simp
  then show "dns_label s \<Longrightarrow> CHR ''.'' \<notin> set s" by (auto simp: dns_label_def list_all_iff)
qed

lemma dot_labels_iff:
  "s \<in> lang_star (lang_cat {''.''} {l. dns_label l}) \<longleftrightarrow>
   s = [] \<or> (\<exists>t. s = CHR ''.'' # t \<and> list_all dns_label (Split CHR ''.'' t))" (is "?L s \<longleftrightarrow> ?R s")
proof
  assume "?L s"
  then show "?R s"
  proof (induction rule: lang_star.induct)
    case (star_append u v)
    then obtain l where l: "u = CHR ''.'' # l" "dns_label l" by (auto simp: lang_cat_def)
    with star_append.IH label_no_dot [OF l(2)] show ?case
      by (auto simp: Split_no_sep Split_append_sep)
  qed simp
next
  have "list_all dns_label ls \<Longrightarrow> ls \<noteq> [] \<Longrightarrow>
      CHR ''.'' # Join CHR ''.'' ls \<in> lang_star (lang_cat {''.''} {l. dns_label l})" for ls
  proof (induction "CHR ''.''" ls rule: Join.induct)
    case (2 x)
    then show ?case
      using lang_star.star_append [OF _ lang_star.star_Nil, of "CHR ''.'' # x"] by (auto simp: lang_cat_def)
  next
    case (3 x y xs)
    then show ?case
      using lang_star.star_append [of "CHR ''.'' # x" _ "CHR ''.'' # Join CHR ''.'' (y # xs)"]
      by (auto simp: lang_cat_def)
  qed simp
  then show "?R s \<Longrightarrow> ?L s"
    using Join_Split Split_not_Nil lang_star.star_Nil by metis
qed

text \<open>
  The domain pattern accepts exactly the dot-separated sequences of DNS labels: each of 1 to
  63 lower-case letters, digits and hyphens, neither starting nor ending with a hyphen.
\<close>

lemma domain_name_labels:
  "rx_match rxDomainName s \<longleftrightarrow> list_all dns_label (Split CHR ''.'' s)"
proof -
  have lang: "rx_lang rx_label = {l. dns_label l}" by (auto simp: rx_label_iff)
  show ?thesis
  proof
    assume "rx_match rxDomainName s"
    then obtain l v where "s = l @ v" "dns_label l" "v \<in> lang_star (lang_cat {''.''} {l. dns_label l})"
      by (auto simp: rx_match_iff rxDomainName_def lang simp del: RLit.simps elim: lang_catE)
    then show "list_all dns_label (Split CHR ''.'' s)"
      using label_no_dot by (auto simp: dot_labels_iff Split_no_sep Split_append_sep)
  next
    assume *: "list_all dns_label (Split CHR ''.'' s)"
    obtain l ls where sp: "Split CHR ''.'' s = l # ls" by (cases "Split CHR ''.'' s") simp_all
    define v where "v = (if ls = [] then [] else CHR ''.'' # Join CHR ''.'' ls)"
    have "s = Join CHR ''.'' (l # ls)" by (simp flip: sp)
    then have s: "s = l @ v" by (cases ls) (simp_all add: v_def)
    have "ls \<noteq> [] \<Longrightarrow> Split CHR ''.'' (Join CHR ''.'' ls) = ls"
      using * sp label_no_dot by (intro Split_Join) (auto simp: list_all_iff)
    then have "v \<in> lang_star (lang_cat {''.''} {l. dns_label l})"
      using * sp unfolding dot_labels_iff by (auto simp: v_def)
    with s * sp show "rx_match rxDomainName s"
      by (auto simp: rx_match_iff rxDomainName_def lang simp del: RLit.simps intro: lang_catI)
  qed
qed

end
