(* ===== verification/Account.thy ===== *)
theory Account
  imports Database
begin

text \<open>
  What the database layer relies on of the service, as the contract of a document store
  (locale \<open>document_store\<close>): a conditional replace succeeds only against the entity tag it names, a
  successful one gives the document an entity tag never used before, and an unconditional replace
  always succeeds. The contract is discharged for the client of \<^verbatim>\<open>src/pkg/database/cosmosdb\<close> running
  against a reference account, an executable in-memory stand-in for the documented behaviour of the service.
\<close>

section \<open>The contract\<close>

text \<open>Whether the service accepts a replace: no condition is sent, or the entity tag matches.\<close>

definition accepts :: "('d \<Rightarrow> string) \<Rightarrow> Options option \<Rightarrow> 'd \<Rightarrow> 'd \<Rightarrow> bool" where
  "accepts etag o' d old = (case o' of None \<Rightarrow> True | Some p \<Rightarrow> opt_NoETag p \<or> etag d = etag old)"

definition triggers_of :: "Options option \<Rightarrow> string list" where
  "triggers_of o' = (case o' of None \<Rightarrow> [] | Some p \<Rightarrow> opt_PreTriggers p)"

text \<open>The options the sources pass to a replace.\<close>

definition plain_options :: "Options option \<Rightarrow> bool" where
  "plain_options o' =
     (case o' of
        None \<Rightarrow> True
      | Some p \<Rightarrow> (case opt_PreTriggers p of
           [t] \<Rightarrow> t \<noteq> [] \<and> CHR '','' \<notin> set t \<and> p = zero_Options\<lparr>opt_PreTriggers := [t]\<rparr>
         | _ \<Rightarrow> False))"

lemma plain_options_cases:
  assumes "plain_options o'"
  obtains "o' = None"
    | t where "o' = Some (zero_Options\<lparr>opt_PreTriggers := [t]\<rparr>)" "t \<noteq> []" "CHR '','' \<notin> set t"
  using assms by (auto simp: plain_options_def split: option.splits list.splits)

lemma plain_options_sources [simp]: "plain_options None" "plain_options (Some renewLease)"
  by (simp_all add: plain_options_def renewLease_def)

definition good_id :: "string \<Rightarrow> bool" where
  "good_id i \<longleftrightarrow> CHR ''/'' \<notin> set i"

lemma accepts_tagged: "plain_options o' \<Longrightarrow> accepts etag o' d old \<Longrightarrow> o' = None \<or> etag d = etag old"
  by (auto simp: plain_options_def accepts_def zero_Options_def split: option.splits list.splits)

locale document_store =
  fixes c :: "('w, 'd) docs"
    and ident :: "'d \<Rightarrow> string" and etag :: "'d \<Rightarrow> string"
    and stored :: "'w \<Rightarrow> string \<times> string \<Rightarrow> 'd option"
    and commit :: "'w \<Rightarrow> string list \<Rightarrow> 'd \<Rightarrow> 'd"
    and seen :: "'w \<Rightarrow> string set"
    and good :: "'w \<Rightarrow> bool"
  assumes stored_seen: "good w \<Longrightarrow> stored w (pk, i) = Some d \<Longrightarrow> etag d \<in> seen w \<and> etag d \<noteq> [] \<and> ident d = i"
    and commit_fresh: "good w \<Longrightarrow> etag (commit w ts d) \<notin> seen w \<and> ident (commit w ts d) = ident d"
    and replace_ok: "good w \<Longrightarrow> good_id (ident d) \<Longrightarrow> plain_options o' \<Longrightarrow> stored w (pk, ident d) = Some old \<Longrightarrow>
        accepts etag o' d old \<Longrightarrow>
        \<exists>w'. c_Replace c pk d o' w = (Ok (Some (commit w (triggers_of o') d)), w') \<and> good w'
          \<and> stored w' = (stored w)((pk, ident d) \<mapsto> commit w (triggers_of o') d)
          \<and> seen w' = insert (etag (commit w (triggers_of o') d)) (seen w)"
    and replace_refused: "good w \<Longrightarrow> good_id (ident d) \<Longrightarrow> plain_options o' \<Longrightarrow> stored w (pk, ident d) = Some old \<Longrightarrow>
        \<not> accepts etag o' d old \<Longrightarrow> etag d \<noteq> [] \<Longrightarrow>
        \<exists>code msg. c_Replace c pk d o' w = (Err (CosmosErr 412 code msg), w)"
    and replace_missing: "good w \<Longrightarrow> good_id (ident d) \<Longrightarrow> plain_options o' \<Longrightarrow> stored w (pk, ident d) = None \<Longrightarrow>
        \<exists>e. c_Replace c pk d o' w = (Err e, w)"
    and replace_untagged: "etag d = [] \<Longrightarrow> plain_options (Some p) \<Longrightarrow> c_Replace c pk d (Some p) w = (Err ETagRequiredErr, w)"
    and get_stored: "good w \<Longrightarrow> good_id i \<Longrightarrow> stored w (pk, i) = Some d \<Longrightarrow> c_Get c pk i None w = (Ok (Some d), w)"
    and get_missing: "good w \<Longrightarrow> good_id i \<Longrightarrow> stored w (pk, i) = None \<Longrightarrow>
        \<exists>code msg. c_Get c pk i None w = (Err (CosmosErr 404 code msg), w)"
    and create_ok: "good w \<Longrightarrow> stored w (pk, ident d) = None \<Longrightarrow>
        \<exists>w'. c_Create c pk d None w = (Ok (Some (commit w [] d)), w') \<and> good w'
          \<and> stored w' = (stored w)((pk, ident d) \<mapsto> commit w [] d)"
    and create_conflict: "good w \<Longrightarrow> stored w (pk, ident d) = Some old \<Longrightarrow>
        \<exists>code msg. c_Create c pk d None w = (Err (CosmosErr 409 code msg), w)"
    and delete_ok: "good w \<Longrightarrow> good_id (ident d) \<Longrightarrow> stored w (pk, ident d) = Some old \<Longrightarrow>
        \<exists>w'. c_Delete c pk d (Some (zero_Options\<lparr>opt_NoETag := True\<rparr>)) w = (Ok (), w') \<and> good w'
          \<and> stored w' = (stored w)((pk, ident d) := None)"

text \<open>A sequence of replaces, by any processes in any order, each of a partition, a document and options.\<close>

primrec run_replaces ::
    "('w, 'd) docs \<Rightarrow> (string \<times> 'd \<times> Options option) list \<Rightarrow> 'w \<Rightarrow> 'd option result list" where
  "run_replaces c [] w = []"
| "run_replaces c (r # rs) w =
     (case r of (pk, d, o') \<Rightarrow> case c_Replace c pk d o' w of (x, w') \<Rightarrow> x # run_replaces c rs w')"

definition legal_replace :: "('d \<Rightarrow> string) \<Rightarrow> string \<times> 'd \<times> Options option \<Rightarrow> bool" where
  "legal_replace ident r = (case r of (pk, d, o') \<Rightarrow> good_id (ident d) \<and> plain_options o')"

context document_store
begin

lemma replace_cases:
  assumes "good w" "good_id (ident d)" "plain_options o'"
  obtains (refused) e where "c_Replace c pk d o' w = (Err e, w)"
    | (replaced) old w' where "stored w (pk, ident d) = Some old" "accepts etag o' d old"
        "c_Replace c pk d o' w = (Ok (Some (commit w (triggers_of o') d)), w')" "good w'"
        "stored w' = (stored w)((pk, ident d) \<mapsto> commit w (triggers_of o') d)"
        "seen w' = insert (etag (commit w (triggers_of o') d)) (seen w)"
proof (cases "stored w (pk, ident d)")
  case None
  with assms that replace_missing show ?thesis by metis
next
  case (Some old)
  show ?thesis
  proof (cases "accepts etag o' d old")
    case True
    with assms that Some replace_ok show ?thesis by metis
  next
    case False
    then obtain p where p: "o' = Some p" by (cases o') (simp_all add: accepts_def)
    show ?thesis
    proof (cases "etag d = []")
      case True
      with assms(3) p that(1) replace_untagged show ?thesis by metis
    next
      case False': False
      with assms that(1) Some False replace_refused show ?thesis by metis
    qed
  qed
qed

text \<open>A version of a document that is no longer stored: its entity tag has been used up.\<close>

definition superseded :: "string \<times> string \<Rightarrow> string \<Rightarrow> 'w \<Rightarrow> bool" where
  "superseded key tag w \<longleftrightarrow> tag \<in> seen w \<and> (\<forall>d. stored w key = Some d \<longrightarrow> etag d \<noteq> tag)"

lemma superseded_replace:
  assumes "good w" "good_id (ident d)" "plain_options o'" "superseded key tag w"
    "c_Replace c pk d o' w = (r, w')"
  shows "good w' \<and> superseded key tag w'"
  using assms(1-3)
proof (cases rule: replace_cases [where pk = pk])
  case (refused e)
  with assms show ?thesis by simp
next
  case (replaced old w1)
  with assms commit_fresh [OF assms(1)] show ?thesis by (auto simp: superseded_def)
qed

lemma superseded_refused:
  assumes "good w" "good_id (ident d)" "plain_options (Some p)" "superseded (pk, ident d) (etag d) w"
    "c_Replace c pk d (Some p) w = (Ok x, w')"
  shows False
  using assms(1-3)
proof (cases rule: replace_cases [where pk = pk])
  case (replaced old w1)
  moreover have "\<not> opt_NoETag p" using assms(3)
    by (auto simp: plain_options_def zero_Options_def split: list.splits)
  ultimately show False using assms by (simp add: accepts_def superseded_def)
qed (use assms in simp)

lemma replaced_superseded:
  assumes "good w" "good_id (ident d)" "plain_options (Some p)" "c_Replace c pk d (Some p) w = (Ok x, w')"
  shows "good w' \<and> superseded (pk, ident d) (etag d) w'"
  using assms(1-3)
proof (cases rule: replace_cases [where pk = pk])
  case (replaced old w1)
  moreover have "\<not> opt_NoETag p" using assms(3)
    by (auto simp: plain_options_def zero_Options_def split: list.splits)
  ultimately have "etag d = etag old" by (simp add: accepts_def)
  then have "etag d \<in> seen w" using replaced stored_seen [OF assms(1)] by simp
  moreover from this have "etag (commit w (triggers_of (Some p)) d) \<noteq> etag d"
    using commit_fresh [OF assms(1), of "triggers_of (Some p)" d] by metis
  ultimately show ?thesis using replaced assms(4) by (auto simp: superseded_def)
qed (use assms in simp)

lemma superseded_run:
  "good w \<Longrightarrow> superseded (pk, ident d) (etag d) w \<Longrightarrow> list_all (legal_replace ident) rs \<Longrightarrow> j < length rs \<Longrightarrow>
   rs ! j = (pk, d', Some p) \<Longrightarrow> ident d' = ident d \<Longrightarrow> etag d' = etag d \<Longrightarrow> run_replaces c rs w ! j \<noteq> Ok x"
proof (induction rs arbitrary: w j)
  case (Cons r rs)
  obtain pk1 d1 o1 where r: "r = (pk1, d1, o1)" by (cases r) auto
  obtain y w1 where run: "c_Replace c pk1 d1 o1 w = (y, w1)" by (cases "c_Replace c pk1 d1 o1 w")
  from Cons.prems r have l: "good_id (ident d1)" "plain_options o1" by (simp_all add: legal_replace_def)
  show ?case
  proof (cases j)
    case 0
    with Cons.prems r run l show ?thesis
      using superseded_refused [of w d1 p pk x w1] by auto
  next
    case (Suc j')
    from superseded_replace [OF Cons.prems(1) l Cons.prems(2) run] Cons r run Suc show ?thesis by simp
  qed
qed simp

lemma conditional_replace_once:
  "good w \<Longrightarrow> list_all (legal_replace ident) rs \<Longrightarrow> i < j \<Longrightarrow> j < length rs \<Longrightarrow>
   rs ! i = (pk, d, Some p) \<Longrightarrow> rs ! j = (pk, d', Some p') \<Longrightarrow> ident d' = ident d \<Longrightarrow> etag d' = etag d \<Longrightarrow>
   run_replaces c rs w ! i = Ok x \<Longrightarrow> run_replaces c rs w ! j \<noteq> Ok y"
proof (induction rs arbitrary: w i j)
  case (Cons r rs)
  obtain pk1 d1 o1 where r: "r = (pk1, d1, o1)" by (cases r) auto
  obtain z w1 where run: "c_Replace c pk1 d1 o1 w = (z, w1)" by (cases "c_Replace c pk1 d1 o1 w")
  from Cons.prems r have l: "good_id (ident d1)" "plain_options o1" by (simp_all add: legal_replace_def)
  obtain j' where j: "j = Suc j'" using Cons.prems(3) by (cases j) auto
  show ?case
  proof (cases i)
    case 0
    with Cons.prems r run have z: "z = Ok x" "pk1 = pk" "d1 = d" "o1 = Some p" by simp_all
    from replaced_superseded [OF Cons.prems(1) l [unfolded z] run [unfolded z]]
    have "good w1" "superseded (pk, ident d) (etag d) w1" by auto
    from superseded_run [OF this, of rs j' d' p' y] Cons.prems r run j z show ?thesis by simp
  next
    case (Suc i')
    have "good w1"
      using Cons.prems(1) l by (cases rule: replace_cases [where pk = pk1]) (use Cons.prems run in auto)
    with Cons.IH [of w1 i' j'] Cons.prems r run Suc j show ?thesis by simp
  qed
qed simp

end

section \<open>The reference account\<close>

datatype 'd payload = PDoc 'd | PQuery Query | PDocs "'d Documents" | PFailure string string

record 'd account =
  ac_docs :: "((string \<times> string) \<times> 'd) list"
  ac_next :: nat
  ac_now :: int

text \<open>What an account knows of the documents it stores.\<close>

record 'd schema =
  sc_ID :: "'d \<Rightarrow> string"
  sc_ETag :: "'d \<Rightarrow> string"
  sc_stamp :: "string \<Rightarrow> 'd \<Rightarrow> 'd"
  sc_trigger :: "int \<Rightarrow> string \<Rightarrow> 'd \<Rightarrow> 'd"
  sc_where :: "int \<Rightarrow> Query \<Rightarrow> 'd \<Rightarrow> bool"

definition nth_tag :: "nat \<Rightarrow> string" where
  "nth_tag n = replicate (Suc n) CHR ''t''"

definition json_header :: header where
  "json_header = [(''Content-Type'', [''application/json''])]"

definition respond :: "int \<Rightarrow> 'b \<Rightarrow> 'b http_response" where
  "respond code b = \<lparr>rs_StatusCode = code, rs_Header = json_header, rs_Body = b\<rparr>"

definition failure :: "int \<Rightarrow> string \<Rightarrow> 'd payload http_response" where
  "failure code what = respond code (PFailure what [])"

definition request_partition :: "'b http_request \<Rightarrow> string" where
  "request_partition req =
     (let s = Header_Get (rq_Header req) ''X-Ms-Documentdb-Partitionkey'' in take (length s - 4) (drop 2 s))"

definition request_triggers :: "'b http_request \<Rightarrow> string list" where
  "request_triggers req =
     (let s = Header_Get (rq_Header req) ''X-Ms-Documentdb-Pre-Trigger-Include'' in
      if s = [] then [] else Split CHR '','' s)"

definition tag_refused :: "'b http_request \<Rightarrow> string \<Rightarrow> bool" where
  "tag_refused req tag =
     (let m = Header_Get (rq_Header req) ''If-Match'' in m \<noteq> [] \<and> m \<noteq> tag)"

definition account_commit :: "'d schema \<Rightarrow> 'd account \<Rightarrow> string list \<Rightarrow> 'd \<Rightarrow> 'd" where
  "account_commit k s ts d = sc_stamp k (nth_tag (ac_next s)) (fold (sc_trigger k (ac_now s)) ts d)"

definition account_write ::
    "'d schema \<Rightarrow> int \<Rightarrow> string \<times> string \<Rightarrow> string list \<Rightarrow> 'd \<Rightarrow> ('d account, 'd payload http_response) go" where
  "account_write k code key ts d s =
     (let d' = account_commit k s ts d in
      (Ok (respond code (PDoc d')), s\<lparr>ac_docs := AList.update key d' (ac_docs s), ac_next := ac_next s + 1\<rparr>))"

definition account_select :: "'d schema \<Rightarrow> 'd account \<Rightarrow> string \<Rightarrow> Query \<Rightarrow> 'd list" where
  "account_select k s pk q =
     [d. ((p, i), d) \<leftarrow> ac_docs s, pk = [] \<or> p = pk, sc_where k (ac_now s) q d]"

definition account_Do :: "'d schema \<Rightarrow> 'd payload http_request \<Rightarrow> ('d account, 'd payload http_response) go" where
  "account_Do k req s =
     (let pk = request_partition req; i = after_last CHR ''/'' (rq_URL req); m = rq_Method req in
      if m = MethodGet then
        (case map_of (ac_docs s) (pk, i) of
           Some d \<Rightarrow> (Ok (respond 200 (PDoc d)), s)
         | None \<Rightarrow> (Ok (failure 404 ''NotFound''), s))
      else if m = MethodPut then
        (case (map_of (ac_docs s) (pk, i), rq_Body req) of
           (Some old, Some (PDoc d)) \<Rightarrow>
             if tag_refused req (sc_ETag k old) then (Ok (failure 412 ''PreconditionFailed''), s)
             else account_write k 200 (pk, i) (request_triggers req) d s
         | (None, _) \<Rightarrow> (Ok (failure 404 ''NotFound''), s)
         | _ \<Rightarrow> (Ok (failure 400 ''BadRequest''), s))
      else if m = MethodDelete then
        (case map_of (ac_docs s) (pk, i) of
           Some old \<Rightarrow>
             if tag_refused req (sc_ETag k old) then (Ok (failure 412 ''PreconditionFailed''), s)
             else (Ok (respond 204 (PFailure [] [])), s\<lparr>ac_docs := AList.delete (pk, i) (ac_docs s)\<rparr>)
         | None \<Rightarrow> (Ok (failure 404 ''NotFound''), s))
      else
        (case rq_Body req of
           Some (PQuery q) \<Rightarrow>
             (let ds = account_select k s pk q in
              (Ok (respond 200 (PDocs \<lparr>ds_Count = int (length ds), ds_ResourceID = [], ds_Documents = ds\<rparr>)), s))
         | Some (PDoc d) \<Rightarrow>
             (case map_of (ac_docs s) (pk, sc_ID k d) of
                Some _ \<Rightarrow> (Ok (failure 409 ''Conflict''), s)
              | None \<Rightarrow> account_write k 201 (pk, sc_ID k d) (request_triggers req) d s)
         | _ \<Rightarrow> (Ok (failure 400 ''BadRequest''), s)))"

text \<open>The client of the repository, connected to the reference account.\<close>

definition account_client :: "'d schema \<Rightarrow> ('d payload, 'd account) databaseClient" where
  "account_client k = \<lparr>dc_NewRequest = (\<lambda>_. Ok ()), dc_Do = account_Do k, dc_date = (\<lambda>_. []), dc_sign = (\<lambda>_ _. []),
     dc_decodeError = (\<lambda>b. case b of PFailure code msg \<Rightarrow> (code, msg) | _ \<Rightarrow> ([], [])),
     dc_databaseAccount = ''account'', dc_masterKey = [], dc_maxRetries = default_maxRetries\<rparr>"

definition account_codec :: "'d schema \<Rightarrow> ('d payload, 'd) codec" where
  "account_codec k = \<lparr>cd_ID = sc_ID k, cd_ETag = sc_ETag k, cd_Encode = (\<lambda>d. Ok (PDoc d)),
     cd_EncodeQuery = (\<lambda>q. Ok (PQuery q)),
     cd_Decode = (\<lambda>b. case b of PDoc d \<Rightarrow> Ok (Some d) | _ \<Rightarrow> Err (ExternalErr ''decode'')),
     cd_DecodeAll = (\<lambda>b. case b of PDocs ds \<Rightarrow> Ok (Some ds) | _ \<Rightarrow> Err (ExternalErr ''decode''))\<rparr>"

definition account_docs :: "'d schema \<Rightarrow> ('d account, 'd) docs" where
  "account_docs k =
     client_docs 2 (NewDocumentClient (account_client k) (account_codec k) (collection_path ''aro'') ''Docs'')"

section \<open>Headers of the requests\<close>

lemma canonical_keys [simp]:
  "CanonicalMIMEHeaderKey ''If-Match'' = ''If-Match''"
  "CanonicalMIMEHeaderKey ''X-Ms-Documentdb-Partitionkey'' = ''X-Ms-Documentdb-Partitionkey''"
  "CanonicalMIMEHeaderKey ''X-Ms-Documentdb-Pre-Trigger-Include'' = ''X-Ms-Documentdb-Pre-Trigger-Include''"
  "CanonicalMIMEHeaderKey ''x-ms-version'' = ''X-Ms-Version''"
  "CanonicalMIMEHeaderKey ''x-ms-date'' = ''X-Ms-Date''"
  "CanonicalMIMEHeaderKey ''Authorization'' = ''Authorization''"
  "CanonicalMIMEHeaderKey ''Content-Type'' = ''Content-Type''"
  "CanonicalMIMEHeaderKey ''X-Ms-Continuation'' = ''X-Ms-Continuation''"
  "CanonicalMIMEHeaderKey ''X-Ms-Max-Item-Count'' = ''X-Ms-Max-Item-Count''"
  "CanonicalMIMEHeaderKey ''X-Ms-Documentdb-Isquery'' = ''X-Ms-Documentdb-Isquery''"
  "CanonicalMIMEHeaderKey ''X-Ms-Documentdb-Query-Enablecrosspartition'' = ''X-Ms-Documentdb-Query-Enablecrosspartition''"
  by code_simp+


section \<open>One request of the client\<close>

lemma do_single:
  assumes "dc_NewRequest c (''https://'' @ dc_databaseAccount c @ ''.documents.azure.com/'' @ path) = Ok ()"
    and "dc_maxRetries c = Suc n"
    and "(case inp of None \<Rightarrow> Ok None | Some r \<Rightarrow> rbind r (\<lambda>b. Ok (Some b))) = Ok body"
    and "dc_Do c (build_request c w method path rt rl body headers) w = (Ok resp, w')"
    and "\<not> is_status (receive c code out resp) 429"
  shows "do c method path rt rl code inp out headers w =
    ((receive c code out resp, map_option (\<lambda>_. rs_Header resp) headers), w')"
  using assms by (cases headers) (simp_all add: do_def do_once_def)

lemma do_req_single:
  assumes "dc_NewRequest c (''https://'' @ dc_databaseAccount c @ ''.documents.azure.com/'' @ path) = Ok ()"
    and "dc_maxRetries c = Suc n"
    and "(case inp of None \<Rightarrow> Ok None | Some r \<Rightarrow> rbind r (\<lambda>b. Ok (Some b))) = Ok body"
    and "dc_Do c (build_request c w method path rt rl body headers) w = (Ok resp, w')"
    and "\<not> is_status (receive c code out resp) 429"
  shows "do_req c method path rt rl code inp out headers w = (receive c code out resp, w')"
  unfolding do_req_def do_single [OF assms] by simp

lemma account_client_sels [simp]:
  "dc_NewRequest (account_client k) = (\<lambda>_. Ok ())" "dc_Do (account_client k) = account_Do k"
  "dc_maxRetries (account_client k) = Suc 9" "dc_databaseAccount (account_client k) = ''account''"
  "dc_date (account_client k) = (\<lambda>_. [])" "dc_sign (account_client k) = (\<lambda>_ _. [])"
  by (simp_all add: account_client_def default_maxRetries_def)

lemma account_codec_sels [simp]:
  "cd_ID (account_codec k) = sc_ID k" "cd_ETag (account_codec k) = sc_ETag k"
  "cd_Encode (account_codec k) d = Ok (PDoc d)" "cd_EncodeQuery (account_codec k) q = Ok (PQuery q)"
  "cd_Decode (account_codec k) (PDoc d) = Ok (Some d)" "cd_DecodeAll (account_codec k) (PDocs ds) = Ok (Some ds)"
  by (simp_all add: account_codec_def)

lemma build_request_sels [simp]:
  "rq_Method (build_request c w m p rt rl b h) = m" "rq_Body (build_request c w m p rt rl b h) = b"
  "rq_URL (build_request c w m p rt rl b h) = ''https://'' @ dc_databaseAccount c @ ''.documents.azure.com/'' @ p"
  by (simp_all add: build_request_def authorizeRequest_def Let_def)

lemma rq_Header_build [simp]:
  "Header_Get (rq_Header (build_request (account_client k) w m p rt rl b h)) ''If-Match'' =
     Header_Get (new_headers b h) ''If-Match''"
  "Header_Get (rq_Header (build_request (account_client k) w m p rt rl b h)) ''X-Ms-Documentdb-Partitionkey'' =
     Header_Get (new_headers b h) ''X-Ms-Documentdb-Partitionkey''"
  "Header_Get (rq_Header (build_request (account_client k) w m p rt rl b h)) ''X-Ms-Documentdb-Pre-Trigger-Include'' =
     Header_Get (new_headers b h) ''X-Ms-Documentdb-Pre-Trigger-Include''"
  by (simp_all add: build_request_def authorizeRequest_def Let_def Header_Get_Set)

lemma receive_respond:
  "receive (account_client k) code out (respond code b) = (case out of None \<Rightarrow> Ok None | Some dec \<Rightarrow> dec b)"
  "code' \<noteq> code \<Longrightarrow> receive (account_client k) code out (failure code' what) = Err (CosmosErr code' what [])"
  by (auto simp: receive_def respond_def failure_def json_header_def Header_Get_def account_client_def split: option.splits)

text \<open>The headers of the three kinds of request the laws are about.\<close>

abbreviation "pk_header pk \<equiv> Header_Set ''X-Ms-Documentdb-Partitionkey'' (partition_header pk) []"

lemma take_partition: "take (length (partition_header pk) - 4) (drop 2 (partition_header pk)) = pk"
  by (simp add: partition_header_def)

lemma headers_plain:
  "Header_Get (new_headers b (Some (pk_header pk))) ''X-Ms-Documentdb-Partitionkey'' = partition_header pk"
  "Header_Get (new_headers b (Some (pk_header pk))) ''If-Match'' = []"
  "Header_Get (new_headers b (Some (pk_header pk))) ''X-Ms-Documentdb-Pre-Trigger-Include'' = []"
  by (cases b; simp add: new_headers_def Header_Set_def Header_Get_def)+

lemma headers_conditional:
  fixes pk tag trig
  defines "h \<equiv> Header_Set ''X-Ms-Documentdb-Pre-Trigger-Include'' trig (Header_Set ''If-Match'' tag (pk_header pk))"
  shows "Header_Get (new_headers b (Some h)) ''X-Ms-Documentdb-Partitionkey'' = partition_header pk"
    and "Header_Get (new_headers b (Some h)) ''If-Match'' = tag"
    and "Header_Get (new_headers b (Some h)) ''X-Ms-Documentdb-Pre-Trigger-Include'' = trig"
  unfolding h_def by (cases b; simp add: new_headers_def Header_Set_def Header_Get_def)+


section \<open>The client and the account meet the contract\<close>

definition account_stored :: "'d account \<Rightarrow> string \<times> string \<Rightarrow> 'd option" where
  "account_stored s = map_of (ac_docs s)"

definition account_seen :: "'d account \<Rightarrow> string set" where
  "account_seen s = nth_tag ` {n. n < ac_next s}"

definition account_good :: "'d schema \<Rightarrow> 'd account \<Rightarrow> bool" where
  "account_good k s \<longleftrightarrow> distinct (map fst (ac_docs s)) \<and>
     list_all (\<lambda>((pk, i), d). sc_ID k d = i \<and> list_ex (\<lambda>n. sc_ETag k d = nth_tag n) [0..<ac_next s]) (ac_docs s)"

lemma nth_tag_inj [simp]: "nth_tag m = nth_tag n \<longleftrightarrow> m = n"
proof
  assume "nth_tag m = nth_tag n"
  then have "length (nth_tag m) = length (nth_tag n)" by simp
  then show "m = n" by (simp add: nth_tag_def)
qed simp

lemma nth_tag_not_Nil [simp]: "nth_tag n \<noteq> []" "[] \<noteq> nth_tag n"
  by (simp_all add: nth_tag_def)

lemma account_goodD:
  assumes "account_good k s" "account_stored s (pk, i) = Some d"
  shows "sc_ID k d = i" and "\<exists>n < ac_next s. sc_ETag k d = nth_tag n"
proof -
  from assms(2) have "((pk, i), d) \<in> set (ac_docs s)"
    unfolding account_stored_def by (rule map_of_SomeD)
  with assms(1) show "sc_ID k d = i" and "\<exists>n < ac_next s. sc_ETag k d = nth_tag n"
    by (auto simp: account_good_def list_all_iff list_ex_iff)
qed

lemma after_last_link: "good_id i \<Longrightarrow> after_last CHR ''/'' (u @ ''/docs/'' @ i) = i"
  using after_last_append [of "CHR ''/''" i "u @ ''/docs''"] by (simp add: good_id_def)

lemma account_docs_sels:
  "c_Replace (account_docs k) = document_Replace (NewDocumentClient (account_client k) (account_codec k) ''dbs/aro'' ''Docs'')"
  "c_Get (account_docs k) = document_Get (NewDocumentClient (account_client k) (account_codec k) ''dbs/aro'' ''Docs'')"
  "c_Create (account_docs k) = document_Create (NewDocumentClient (account_client k) (account_codec k) ''dbs/aro'' ''Docs'')"
  "c_Delete (account_docs k) = document_Delete (NewDocumentClient (account_client k) (account_codec k) ''dbs/aro'' ''Docs'')"
  by (simp_all add: account_docs_def client_docs_def collection_path_def)

text \<open>The headers a replace sends: with options of the sources, the entity tag and the trigger.\<close>

definition put_headers :: "('d \<Rightarrow> string) \<Rightarrow> string \<Rightarrow> 'd \<Rightarrow> Options option \<Rightarrow> header" where
  "put_headers etag pk d o' =
     (case o' of
        None \<Rightarrow> pk_header pk
      | Some p \<Rightarrow> Header_Set ''X-Ms-Documentdb-Pre-Trigger-Include'' (hd (opt_PreTriggers p))
          (Header_Set ''If-Match'' (etag d) (pk_header pk)))"

lemma setOptions_plain:
  assumes "plain_options o'" "o' = None \<or> etag d \<noteq> []"
  shows "setOptions etag o' (Some d) (pk_header pk) = Ok (put_headers etag pk d o')"
  using assms(1)
proof (cases rule: plain_options_cases)
  case 1
  then show ?thesis by (simp add: setOptions_def put_headers_def)
next
  case (2 t)
  with assms(2) show ?thesis by (simp add: setOptions_def put_headers_def zero_Options_def Join_comma_def)
qed

lemma put_request:
  assumes "plain_options o'" "o' = None \<or> etag d \<noteq> []"
    and req_def: "req = build_request (account_client k) w m p rt rl b (Some (put_headers etag pk d o'))"
  shows "request_partition req = pk \<and> request_triggers req = triggers_of o' \<and>
    (tag_refused req (etag old) \<longleftrightarrow> \<not> accepts etag o' d old)"
  using assms(1)
proof (cases rule: plain_options_cases)
  case 1
  then show ?thesis
    by (simp add: req_def request_partition_def request_triggers_def tag_refused_def put_headers_def
      headers_plain take_partition triggers_of_def accepts_def Let_def)
next
  case (2 t)
  with assms(2) show ?thesis
    by (simp add: req_def request_partition_def request_triggers_def tag_refused_def put_headers_def
      headers_conditional take_partition triggers_of_def accepts_def Let_def zero_Options_def Split_no_sep)
qed

lemma account_put:
  fixes k :: "'d schema" and s :: "'d account"
  assumes st: "account_stored s (pk, sc_ID k d) = Some old" and i: "good_id (sc_ID k d)"
    and o: "plain_options o'" "o' = None \<or> sc_ETag k d \<noteq> []"
  shows "c_Replace (account_docs k) pk d o' s =
    (if accepts (sc_ETag k) o' d old
     then (Ok (Some (account_commit k s (triggers_of o') d)),
           s\<lparr>ac_docs := AList.update (pk, sc_ID k d) (account_commit k s (triggers_of o') d) (ac_docs s),
             ac_next := ac_next s + 1\<rparr>)
     else (Err (CosmosErr 412 ''PreconditionFailed'' []), s))"
proof -
  let ?link = "''dbs/aro/colls/Docs/docs/'' @ sc_ID k d"
  let ?hs = "put_headers (sc_ETag k) pk d o'"
  let ?req = "build_request (account_client k) s MethodPut ?link ''docs'' ?link (Some (PDoc d)) (Some ?hs)"
  have url: "after_last CHR ''/'' (rq_URL ?req) = sc_ID k d"
    using after_last_link [OF i, of "''https://account.documents.azure.com/dbs/aro/colls/Docs''"] by simp
  have "account_Do k ?req s =
      (if accepts (sc_ETag k) o' d old then account_write k 200 (pk, sc_ID k d) (triggers_of o') d s
       else (Ok (failure 412 ''PreconditionFailed''), s))"
    using st put_request [where etag = "sc_ETag k" and d = d, OF o refl, of k s MethodPut ?link "''docs''" ?link "Some (PDoc d)" pk old]
    unfolding account_Do_def Let_def url by (simp add: Method_defs account_stored_def)
  moreover have "do_req (account_client k) MethodPut ?link ''docs'' ?link 200 (Some (Ok (PDoc d)))
      (Some (cd_Decode (account_codec k))) (Some ?hs) s =
      (receive (account_client k) 200 (Some (cd_Decode (account_codec k))) resp, s')"
    if "account_Do k ?req s = (Ok resp, s')"
      "\<not> is_status (receive (account_client k) 200 (Some (cd_Decode (account_codec k))) resp) 429" for resp s'
    by (rule do_req_single [where n = 9 and body = "Some (PDoc d)"]) (use that in simp_all)
  ultimately show ?thesis
    unfolding account_docs_sels document_Replace_def NewDocumentClient_def document_path_def
    using setOptions_plain [where etag = "sc_ETag k" and d = d and pk = pk, OF o]
    by (simp add: receive_respond account_write_def Let_def)
qed


text \<open>Reading one document.\<close>

lemma account_get:
  fixes k :: "'d schema" and s :: "'d account"
  assumes i: "good_id i"
  shows "c_Get (account_docs k) pk i None s =
    ((case account_stored s (pk, i) of Some d \<Rightarrow> Ok (Some d) | None \<Rightarrow> Err (CosmosErr 404 ''NotFound'' [])), s)"
proof -
  let ?link = "''dbs/aro/colls/Docs/docs/'' @ i"
  let ?req = "build_request (account_client k) s MethodGet ?link ''docs'' ?link None (Some (pk_header pk))"
  have url: "after_last CHR ''/'' (rq_URL ?req) = i"
    using after_last_link [OF i, of "''https://account.documents.azure.com/dbs/aro/colls/Docs''"] by simp
  have "request_partition ?req = pk"
    by (simp add: request_partition_def headers_plain take_partition Let_def)
  then have "account_Do k ?req s =
      (case account_stored s (pk, i) of Some d \<Rightarrow> (Ok (respond 200 (PDoc d)), s) | None \<Rightarrow> (Ok (failure 404 ''NotFound''), s))"
    unfolding account_Do_def Let_def url by (simp add: Method_defs account_stored_def)
  moreover have "do_req (account_client k) MethodGet ?link ''docs'' ?link 200 None
      (Some (cd_Decode (account_codec k))) (Some (pk_header pk)) s =
      (receive (account_client k) 200 (Some (cd_Decode (account_codec k))) resp, s')"
    if "account_Do k ?req s = (Ok resp, s')"
      "\<not> is_status (receive (account_client k) 200 (Some (cd_Decode (account_codec k))) resp) 429" for resp s'
    by (rule do_req_single [where n = 9 and body = None]) (use that in simp_all)
  ultimately show ?thesis
    unfolding account_docs_sels document_Get_def NewDocumentClient_def document_path_def
    by (simp add: setOptions_def receive_respond Let_def split: option.splits)
qed

lemma account_put_missing:
  fixes k :: "'d schema" and s :: "'d account"
  assumes st: "account_stored s (pk, sc_ID k d) = None" and i: "good_id (sc_ID k d)"
    and o: "plain_options o'" "o' = None \<or> sc_ETag k d \<noteq> []"
  shows "c_Replace (account_docs k) pk d o' s = (Err (CosmosErr 404 ''NotFound'' []), s)"
proof -
  let ?link = "''dbs/aro/colls/Docs/docs/'' @ sc_ID k d"
  let ?hs = "put_headers (sc_ETag k) pk d o'"
  let ?req = "build_request (account_client k) s MethodPut ?link ''docs'' ?link (Some (PDoc d)) (Some ?hs)"
  have url: "after_last CHR ''/'' (rq_URL ?req) = sc_ID k d"
    using after_last_link [OF i, of "''https://account.documents.azure.com/dbs/aro/colls/Docs''"] by simp
  have "account_Do k ?req s = (Ok (failure 404 ''NotFound''), s)"
    using st put_request [where etag = "sc_ETag k" and d = d, OF o refl, of k s MethodPut ?link "''docs''" ?link "Some (PDoc d)" pk]
    unfolding account_Do_def Let_def url by (simp add: Method_defs account_stored_def)
  then have "do_req (account_client k) MethodPut ?link ''docs'' ?link 200 (Some (Ok (PDoc d)))
      (Some (cd_Decode (account_codec k))) (Some ?hs) s =
      (receive (account_client k) 200 (Some (cd_Decode (account_codec k))) (failure 404 ''NotFound''), s)"
    by (intro do_req_single [where n = 9 and body = "Some (PDoc d)"]) (simp_all add: receive_respond)
  then show ?thesis
    unfolding account_docs_sels document_Replace_def NewDocumentClient_def document_path_def
    using setOptions_plain [where etag = "sc_ETag k" and d = d and pk = pk, OF o]
    by (simp add: receive_respond Let_def)
qed

lemma account_put_untagged:
  assumes "sc_ETag k d = []" "plain_options (Some p)"
  shows "c_Replace (account_docs k) pk d (Some p) s = (Err ETagRequiredErr, s)"
  using assms(2,1)
  by (cases rule: plain_options_cases)
    (auto simp: account_docs_sels document_Replace_def NewDocumentClient_def setOptions_def zero_Options_def)

text \<open>Creating and deleting, which send no condition.\<close>

lemma setOptions_untagged:
  "setOptions etag (Some (zero_Options\<lparr>opt_NoETag := True\<rparr>)) (Some d) h = Ok h"
  by (simp add: setOptions_def zero_Options_def)

lemma plain_request:
  assumes "req = build_request (account_client k) w m p rt rl b (Some (pk_header pk))"
  shows "request_partition req = pk" "request_triggers req = []" "\<not> tag_refused req t"
  by (simp_all add: assms request_partition_def request_triggers_def tag_refused_def headers_plain take_partition Let_def)

lemma account_create:
  fixes k :: "'d schema" and s :: "'d account"
  shows "c_Create (account_docs k) pk d None s =
    (case account_stored s (pk, sc_ID k d) of
       Some _ \<Rightarrow> (Err (CosmosErr 409 ''Conflict'' []), s)
     | None \<Rightarrow> (Ok (Some (account_commit k s [] d)),
         s\<lparr>ac_docs := AList.update (pk, sc_ID k d) (account_commit k s [] d) (ac_docs s), ac_next := ac_next s + 1\<rparr>))"
proof -
  let ?path = "''dbs/aro/colls/Docs''"
  let ?req = "build_request (account_client k) s MethodPost (?path @ ''/docs'') ''docs'' ?path (Some (PDoc d)) (Some (pk_header pk))"
  have "account_Do k ?req s =
      (case account_stored s (pk, sc_ID k d) of
         Some _ \<Rightarrow> (Ok (failure 409 ''Conflict''), s) | None \<Rightarrow> account_write k 201 (pk, sc_ID k d) [] d s)"
    unfolding account_Do_def Let_def plain_request [OF refl] by (simp add: Method_defs account_stored_def)
  moreover have "do_req (account_client k) MethodPost (?path @ ''/docs'') ''docs'' ?path 201 (Some (Ok (PDoc d)))
      (Some (cd_Decode (account_codec k))) (Some (pk_header pk)) s =
      (receive (account_client k) 201 (Some (cd_Decode (account_codec k))) resp, s')"
    if "account_Do k ?req s = (Ok resp, s')"
      "\<not> is_status (receive (account_client k) 201 (Some (cd_Decode (account_codec k))) resp) 429" for resp s'
    by (rule do_req_single [where n = 9 and body = "Some (PDoc d)"]) (use that in simp_all)
  ultimately show ?thesis
    unfolding account_docs_sels document_Create_def NewDocumentClient_def document_path_def
    by (simp add: setOptions_untagged receive_respond account_write_def Let_def split: option.splits)
qed

lemma account_delete:
  fixes k :: "'d schema" and s :: "'d account"
  assumes st: "account_stored s (pk, sc_ID k d) = Some old" and i: "good_id (sc_ID k d)"
  shows "c_Delete (account_docs k) pk d (Some (zero_Options\<lparr>opt_NoETag := True\<rparr>)) s =
    (Ok (), s\<lparr>ac_docs := AList.delete (pk, sc_ID k d) (ac_docs s)\<rparr>)"
proof -
  let ?link = "''dbs/aro/colls/Docs/docs/'' @ sc_ID k d"
  let ?req = "build_request (account_client k) s MethodDelete ?link ''docs'' ?link None (Some (pk_header pk))"
  let ?s = "s\<lparr>ac_docs := AList.delete (pk, sc_ID k d) (ac_docs s)\<rparr>"
  have url: "after_last CHR ''/'' (rq_URL ?req) = sc_ID k d"
    using after_last_link [OF i, of "''https://account.documents.azure.com/dbs/aro/colls/Docs''"] by simp
  have "account_Do k ?req s = (Ok (respond 204 (PFailure [] [])), ?s)"
    using st unfolding account_Do_def Let_def url plain_request [OF refl]
    by (simp add: Method_defs account_stored_def plain_request [OF refl])
  then have "do_req (account_client k) MethodDelete ?link ''docs'' ?link 204 None
      (None :: ('d payload \<Rightarrow> unit option result) option) (Some (pk_header pk)) s =
      (receive (account_client k) 204 (None :: ('d payload \<Rightarrow> unit option result) option) (respond 204 (PFailure [] [])), ?s)"
    by (intro do_req_single [where n = 9 and body = None]) (simp_all add: receive_respond)
  then show ?thesis
    unfolding account_docs_sels document_Delete_def NewDocumentClient_def document_path_def
    by (simp add: setOptions_untagged receive_respond Let_def)
qed

text \<open>A query in one partition is answered with one page.\<close>

lemma no_continuation [simp]:
  "rs_Header (respond code b) = json_header" "Header_Get json_header ''X-Ms-Continuation'' = []"
  by (simp_all add: respond_def json_header_def Header_Get_def)

lemma headers_query:
  "Header_Get (new_headers b (Some (Header_Set ''X-Ms-Documentdb-Partitionkey'' (partition_header pk)
      (Header_Set ''Content-Type'' ''application/query+json''
        (Header_Set ''X-Ms-Documentdb-Isquery'' ''True'' (Header_Set ''X-Ms-Max-Item-Count'' ''-1'' []))))))
     ''X-Ms-Documentdb-Partitionkey'' = partition_header pk"
  by (cases b; simp add: new_headers_def Header_Set_def Header_Get_def)

lemma account_query:
  fixes k :: "'d schema" and s :: "'d account"
  assumes pk: "pk \<noteq> []"
  shows "c_QueryAll (account_docs k) pk q None s =
    (Ok \<lparr>ds_Count = int (length (account_select k s pk q)), ds_ResourceID = [],
         ds_Documents = account_select k s pk q\<rparr>, s)"
proof -
  let ?c = "NewDocumentClient (account_client k) (account_codec k) ''dbs/aro'' ''Docs''"
  let ?it = "document_Query pk q None"
  let ?path = "''dbs/aro/colls/Docs''"
  let ?hs = "Header_Set ''X-Ms-Documentdb-Partitionkey'' (partition_header pk)
      (Header_Set ''Content-Type'' ''application/query+json''
        (Header_Set ''X-Ms-Documentdb-Isquery'' ''True'' (Header_Set ''X-Ms-Max-Item-Count'' ''-1'' [])))"
  let ?req = "build_request (account_client k) s MethodPost (?path @ ''/docs'') ''docs'' ?path (Some (PQuery q)) (Some ?hs)"
  let ?page = "\<lparr>ds_Count = int (length (account_select k s pk q)), ds_ResourceID = [],
         ds_Documents = account_select k s pk q\<rparr>"
  have "request_partition ?req = pk"
    unfolding request_partition_def rq_Header_build headers_query by (simp add: take_partition Let_def)
  then have "account_Do k ?req s = (Ok (respond 200 (PDocs ?page)), s)"
    unfolding account_Do_def Let_def by (simp add: Method_defs)
  then have "do (account_client k) MethodPost (?path @ ''/docs'') ''docs'' ?path 200 (Some (Ok (PQuery q)))
      (Some (cd_DecodeAll (account_codec k))) (Some ?hs) s =
      ((receive (account_client k) 200 (Some (cd_DecodeAll (account_codec k))) (respond 200 (PDocs ?page)),
        map_option (\<lambda>_. rs_Header (respond 200 (PDocs ?page) :: 'd payload http_response)) (Some ?hs)), s)"
    by (intro do_single [where n = 9 and body = "Some (PQuery q)"]) (simp_all add: receive_respond)
  then have "query_NextRaw ?c ?it s = (Ok (Some ?page, ?it\<lparr>it_done := True\<rparr>), s)"
    using pk by (simp add: query_NextRaw_def page_request_def document_Query_def setOptions_def NewDocumentClient_def
      document_path_def receive_respond no_continuation)
  then show ?thesis
    by (simp add: account_docs_def client_docs_def collection_path_def document_QueryAll_def all_docs_def
      eval_nat_numeral query_NextRaw_def append_page_def)
qed

section \<open>The contract for every document type of the provider\<close>

lemma list_all_update: "list_all P xs \<Longrightarrow> P (i, v) \<Longrightarrow> list_all P (AList.update i v xs)"
  by (induction xs) auto

locale schema =
  fixes k :: "'d schema"
  assumes tag_stamp: "sc_ETag k (sc_stamp k t d) = t"
    and id_stamp: "sc_ID k (sc_stamp k t d) = sc_ID k d"
    and id_trigger: "sc_ID k (sc_trigger k n t d) = sc_ID k d"
begin

lemma id_commit: "sc_ID k (account_commit k s ts d) = sc_ID k d"
proof -
  have "sc_ID k (fold (sc_trigger k n) ts d) = sc_ID k d" for n
    by (induction ts arbitrary: d) (simp_all add: id_trigger)
  then show ?thesis by (simp add: account_commit_def id_stamp)
qed

lemma tag_commit: "sc_ETag k (account_commit k s ts d) = nth_tag (ac_next s)"
  by (simp add: account_commit_def tag_stamp)

lemma good_update:
  assumes "account_good k s" "sc_ID k d = i"
  shows "account_good k (s\<lparr>ac_docs := AList.update (pk, i) (account_commit k s ts d) (ac_docs s), ac_next := ac_next s + 1\<rparr>)"
proof -
  let ?P = "\<lambda>n ((pk, i), d). sc_ID k d = i \<and> list_ex (\<lambda>n. sc_ETag k d = nth_tag n) [0..<n]"
  from assms(1) have "distinct (map fst (ac_docs s))" "list_all (?P (ac_next s)) (ac_docs s)"
    by (simp_all add: account_good_def)
  moreover from this(2) have "list_all (?P (ac_next s + 1)) (ac_docs s)"
    by (rule list.pred_mono_strong) auto
  then have "list_all (?P (ac_next s + 1)) (AList.update (pk, i) (account_commit k s ts d) (ac_docs s))"
    by (rule list_all_update) (simp add: tag_commit id_commit assms(2))
  ultimately show ?thesis by (simp add: account_good_def distinct_update del: upt_Suc)
qed

lemma good_delete: "account_good k s \<Longrightarrow> account_good k (s\<lparr>ac_docs := AList.delete key (ac_docs s)\<rparr>)"
  by (auto simp: account_good_def list_all_iff AList.delete_eq distinct_map_filter)

end

sublocale schema \<subseteq> document_store "account_docs k" "sc_ID k" "sc_ETag k" account_stored "account_commit k" account_seen "account_good k"
proof
  fix w :: "'d account" and d :: 'd and old o' pk
  assume g: "account_good k w" and i: "good_id (sc_ID k d)" and o: "plain_options o'"
    and st: "account_stored w (pk, sc_ID k d) = Some old"
  from account_goodD [OF g st] have old: "sc_ETag k old \<noteq> []" by auto
  {
    assume acc: "accepts (sc_ETag k) o' d old"
    with old have t: "o' = None \<or> sc_ETag k d \<noteq> []"
      using accepts_tagged [OF o, of "sc_ETag k" d old] by auto
    let ?d = "account_commit k w (triggers_of o') d"
    let ?w = "w\<lparr>ac_docs := AList.update (pk, sc_ID k d) ?d (ac_docs w), ac_next := ac_next w + 1\<rparr>"
    have "c_Replace (account_docs k) pk d o' w = (Ok (Some ?d), ?w)"
      using account_put [OF st i o t] acc by simp
    moreover have "account_stored ?w = (account_stored w)((pk, sc_ID k d) \<mapsto> ?d)"
      by (simp add: account_stored_def update_conv')
    moreover have "account_seen ?w = insert (sc_ETag k ?d) (account_seen w)"
      by (auto simp: account_seen_def tag_commit less_Suc_eq)
    ultimately show "\<exists>w'. c_Replace (account_docs k) pk d o' w = (Ok (Some ?d), w') \<and> account_good k w'
        \<and> account_stored w' = (account_stored w)((pk, sc_ID k d) \<mapsto> ?d)
        \<and> account_seen w' = insert (sc_ETag k ?d) (account_seen w)"
      using good_update [OF g refl] by blast
  }
  assume "\<not> accepts (sc_ETag k) o' d old" "sc_ETag k d \<noteq> []"
  then show "\<exists>code msg. c_Replace (account_docs k) pk d o' w = (Err (CosmosErr 412 code msg), w)"
    using account_put [OF st i o] by auto
next
  fix w :: "'d account" and d :: 'd and ts
  show "sc_ETag k (account_commit k w ts d) \<notin> account_seen w \<and> sc_ID k (account_commit k w ts d) = sc_ID k d"
    by (auto simp: account_seen_def tag_commit id_commit)
next
  fix w :: "'d account" and d :: 'd and pk
  assume "account_good k w" "account_stored w (pk, sc_ID k d) = None"
  then show "\<exists>w'. c_Create (account_docs k) pk d None w = (Ok (Some (account_commit k w [] d)), w') \<and> account_good k w'
      \<and> account_stored w' = (account_stored w)((pk, sc_ID k d) \<mapsto> account_commit k w [] d)"
    using good_update [OF _ refl] by (simp add: account_create account_stored_def update_conv')
next
  fix w :: "'d account" and d old :: 'd and pk
  assume "account_good k w" "good_id (sc_ID k d)" "account_stored w (pk, sc_ID k d) = Some old"
  then show "\<exists>w'. c_Delete (account_docs k) pk d (Some (zero_Options\<lparr>opt_NoETag := True\<rparr>)) w = (Ok (), w')
      \<and> account_good k w' \<and> account_stored w' = (account_stored w)((pk, sc_ID k d) := None)"
    using good_delete by (simp add: account_delete account_stored_def delete_conv')
next
  fix w :: "'d account" and d :: 'd and o' pk
  assume "good_id (sc_ID k d)" "plain_options o'" "account_stored w (pk, sc_ID k d) = None"
  then show "\<exists>e. c_Replace (account_docs k) pk d o' w = (Err e, w)"
    using account_put_missing account_put_untagged by (metis option.exhaust)
qed (auto simp: account_get account_put_untagged account_create account_seen_def dest: account_goodD)


subsection \<open>The three collections\<close>

text \<open>
  The pre-triggers are those the provider registers: \<^verbatim>\<open>renewLease\<close> and \<^verbatim>\<open>retryLater\<close> set the expiry of
  the lease to 60 and 600 seconds from now. A where-clause is recognised by its text.
\<close>

definition cluster_trigger :: "int \<Rightarrow> string \<Rightarrow> OpenShiftClusterDocument \<Rightarrow> OpenShiftClusterDocument" where
  "cluster_trigger now name d = (if name = ''renewLease'' then d\<lparr>doc_LeaseExpires := now + 60\<rparr> else d)"

definition cluster_where :: "int \<Rightarrow> Query \<Rightarrow> OpenShiftClusterDocument \<Rightarrow> bool" where
  "cluster_where now q d =
     (if q_Query q = q_Query (key_query []) then map par_Value (q_Parameters q) = [doc_Key d]
      else if q_Query q = q_Query (prefix_query []) then
        (case q_Parameters q of [p] \<Rightarrow> HasPrefix (doc_Key d) (par_Value p) | _ \<Rightarrow> False)
      else if q_Query q = q_Query cluster_queue_query then
        oc_ProvisioningState (doc_OpenShiftCluster d) \<notin> {ProvisioningStateSucceeded, ProvisioningStateFailed}
        \<and> doc_LeaseExpires d < now
      else False)"

definition cluster_schema :: "OpenShiftClusterDocument schema" where
  "cluster_schema = \<lparr>sc_ID = doc_ID, sc_ETag = doc_ETag, sc_stamp = (\<lambda>t d. d\<lparr>doc_ETag := t\<rparr>),
     sc_trigger = cluster_trigger, sc_where = cluster_where\<rparr>"

definition subscription_trigger :: "int \<Rightarrow> string \<Rightarrow> SubscriptionDocument \<Rightarrow> SubscriptionDocument" where
  "subscription_trigger now name d =
     (if name = ''renewLease'' then d\<lparr>sd_LeaseExpires := now + 60\<rparr>
      else if name = ''retryLater'' then d\<lparr>sd_LeaseExpires := now + 600\<rparr> else d)"

definition subscription_schema :: "SubscriptionDocument schema" where
  "subscription_schema = \<lparr>sc_ID = sd_ID, sc_ETag = sd_ETag, sc_stamp = (\<lambda>t d. d\<lparr>sd_ETag := t\<rparr>),
     sc_trigger = subscription_trigger,
     sc_where = (\<lambda>now q d. q = subs_queue_query \<and> sd_Deleting d \<and> sd_LeaseExpires d < now)\<rparr>"

definition async_schema :: "AsyncOperationDocument schema" where
  "async_schema = \<lparr>sc_ID = ad_ID, sc_ETag = ad_ETag, sc_stamp = (\<lambda>t d. d\<lparr>ad_ETag := t\<rparr>),
     sc_trigger = (\<lambda>now name d. d), sc_where = (\<lambda>now q d. False)\<rparr>"

interpretation cluster_store: schema cluster_schema
  by unfold_locales (simp_all add: cluster_schema_def cluster_trigger_def)

interpretation subscription_store: schema subscription_schema
  by unfold_locales (simp_all add: subscription_schema_def subscription_trigger_def)

interpretation async_store: schema async_schema
  by unfold_locales (simp_all add: async_schema_def)

lemma schema_sels [simp]:
  "sc_ID cluster_schema = doc_ID" "sc_ETag cluster_schema = doc_ETag"
  "sc_ID subscription_schema = sd_ID" "sc_ETag subscription_schema = sd_ETag"
  by (simp_all add: cluster_schema_def subscription_schema_def)

section \<open>Leases\<close>

lemma take_cluster_sels [simp]:
  "doc_ID (take_cluster u d) = doc_ID d" "doc_ETag (take_cluster u d) = doc_ETag d"
  "doc_Key (take_cluster u d) = doc_Key d" "doc_PartitionKey (take_cluster u d) = doc_PartitionKey d"
  "doc_LeaseOwner (take_cluster u d) = u" "doc_Dequeues (take_cluster u d) = doc_Dequeues d + 1"
  by (simp_all add: take_cluster_def)


definition sample_doc :: OpenShiftClusterDocument where
  "sample_doc = zero_OpenShiftClusterDocument\<lparr>doc_ID := ''id'', doc_Key := ''/subscriptions/s/resourcegroups/g/providers/p/t/n'',
     doc_PartitionKey := ''s'', doc_ETag := nth_tag 0,
     doc_OpenShiftCluster := set_ProvisioningState ProvisioningStateCreating zero_OpenShiftCluster\<rparr>"

definition sample_account :: "OpenShiftClusterDocument account" where
  "sample_account = \<lparr>ac_docs = [((''s'', ''id''), sample_doc)], ac_next = 1, ac_now = 1000\<rparr>"

definition sample_race :: "(string \<times> OpenShiftClusterDocument \<times> Options option) list" where
  "sample_race = [(''s'', take_cluster ''u'' sample_doc, Some renewLease), (''s'', take_cluster ''v'' sample_doc, Some renewLease)]"



section \<open>The clusters collection on an account\<close>

definition cluster_collection :: "string \<Rightarrow> OpenShiftClusterDocument account openShiftClusters" where
  "cluster_collection uuid = \<lparr>cl_c = account_docs cluster_schema, cl_uuid = uuid, cl_fuel = 2\<rparr>"

text \<open>The account holds exactly one document for a key, the document \<open>d\<close>, in its partition.\<close>

definition only_cluster :: "OpenShiftClusterDocument account \<Rightarrow> string \<Rightarrow> OpenShiftClusterDocument \<Rightarrow> bool" where
  "only_cluster s key d \<longleftrightarrow>
     account_good cluster_schema s \<and> key = ToLower key \<and> clusters_partitionKey key = Ok (doc_PartitionKey d) \<and>
     doc_PartitionKey d \<noteq> [] \<and> account_select cluster_schema s (doc_PartitionKey d) (key_query key) = [d] \<and>
     good_id (doc_ID d)"

lemma where_key: "cluster_where now (key_query key) d \<longleftrightarrow> doc_Key d = key"
  by (auto simp: cluster_where_def key_query_def)

lemma only_clusterD:
  assumes "only_cluster s key d"
  shows "account_stored s (doc_PartitionKey d, doc_ID d) = Some d" and "doc_Key d = key" and "doc_ETag d \<noteq> []"
proof -
  from assms have sel: "d \<in> set (account_select cluster_schema s (doc_PartitionKey d) (key_query key))"
    and g: "account_good cluster_schema s" by (simp_all add: only_cluster_def)
  from sel assms obtain i where i: "((doc_PartitionKey d, i), d) \<in> set (ac_docs s)" and k: "doc_Key d = key"
    by (auto simp: account_select_def only_cluster_def cluster_schema_def where_key)
  from g i have st: "account_stored s (doc_PartitionKey d, i) = Some d"
    unfolding account_stored_def account_good_def by (intro map_of_is_SomeI) auto
  from account_goodD [OF g st] have "i = doc_ID d" "doc_ETag d \<noteq> []" by auto
  with st k show "account_stored s (doc_PartitionKey d, doc_ID d) = Some d" and "doc_Key d = key" and "doc_ETag d \<noteq> []"
    by simp_all
qed

lemma clusters_Get_only:
  assumes "only_cluster s key d"
  shows "clusters_Get (cluster_collection u) key s = (Ok d, s)"
  using assms account_query [of "doc_PartitionKey d" cluster_schema "key_query key" s]
  by (simp add: clusters_Get_def only_cluster_def cluster_collection_def gbind_def)

lemma commit_cluster_sels [simp]:
  "doc_LeaseOwner (account_commit cluster_schema s ts d) = doc_LeaseOwner d"
  "doc_OpenShiftCluster (account_commit cluster_schema s ts d) = doc_OpenShiftCluster d"
  "doc_AsyncOperationID (account_commit cluster_schema s ts d) = doc_AsyncOperationID d"
  "doc_Dequeues (account_commit cluster_schema s ts d) = doc_Dequeues d"
  "doc_Key (account_commit cluster_schema s ts d) = doc_Key d"
  "doc_PartitionKey (account_commit cluster_schema s ts d) = doc_PartitionKey d"
proof -
  have "doc_LeaseOwner (fold (cluster_trigger n) ts d) = doc_LeaseOwner d \<and>
      doc_OpenShiftCluster (fold (cluster_trigger n) ts d) = doc_OpenShiftCluster d \<and>
      doc_AsyncOperationID (fold (cluster_trigger n) ts d) = doc_AsyncOperationID d \<and>
      doc_Dequeues (fold (cluster_trigger n) ts d) = doc_Dequeues d \<and>
      doc_Key (fold (cluster_trigger n) ts d) = doc_Key d \<and>
      doc_PartitionKey (fold (cluster_trigger n) ts d) = doc_PartitionKey d" for n
    by (induction ts arbitrary: d) (simp_all add: cluster_trigger_def)
  then show "doc_LeaseOwner (account_commit cluster_schema s ts d) = doc_LeaseOwner d"
    "doc_OpenShiftCluster (account_commit cluster_schema s ts d) = doc_OpenShiftCluster d"
    "doc_AsyncOperationID (account_commit cluster_schema s ts d) = doc_AsyncOperationID d"
    "doc_Dequeues (account_commit cluster_schema s ts d) = doc_Dequeues d"
    "doc_Key (account_commit cluster_schema s ts d) = doc_Key d"
    "doc_PartitionKey (account_commit cluster_schema s ts d) = doc_PartitionKey d"
    by (simp_all add: account_commit_def cluster_schema_def)
qed

text \<open>A change of a document that leaves its identity alone.\<close>

definition keeps_identity :: "OpenShiftClusterDocument \<Rightarrow> OpenShiftClusterDocument \<Rightarrow> bool" where
  "keeps_identity d d' \<longleftrightarrow> doc_ID d' = doc_ID d \<and> doc_Key d' = doc_Key d \<and> doc_PartitionKey d' = doc_PartitionKey d
     \<and> doc_ETag d' = doc_ETag d"

lemma update_only:
  assumes "only_cluster s key d" "keeps_identity d d'" "plain_options o'"
  shows "\<exists>s'. clusters_update (cluster_collection u) d' o' s =
      (Ok (Some (account_commit cluster_schema s (triggers_of o') d')), s')
    \<and> account_good cluster_schema s'
    \<and> account_stored s' = (account_stored s)((doc_PartitionKey d, doc_ID d) \<mapsto> account_commit cluster_schema s (triggers_of o') d')"
proof -
  note d = only_clusterD [OF assms(1)]
  from assms d have "accepts doc_ETag o' d' d"
    by (simp add: accepts_def keeps_identity_def split: option.splits)
  with cluster_store.replace_ok [of s d' o' "doc_PartitionKey d" d] assms d show ?thesis
    by (auto simp: clusters_update_def cluster_collection_def keeps_identity_def only_cluster_def)
qed

lemma patch_only:
  assumes "only_cluster s key d" "keeps_identity d (g d)" "plain_options o'"
  shows "\<exists>s'. clusters_patch (cluster_collection u) key (\<lambda>d. greturn (g d)) o' (x, s) =
      (Ok (Some (account_commit cluster_schema s (triggers_of o') (g d))), (x, s'))
    \<and> account_stored s' = (account_stored s)((doc_PartitionKey d, doc_ID d) \<mapsto> account_commit cluster_schema s (triggers_of o') (g d))"
  using update_only [OF assms, of u] clusters_Get_only [OF assms(1), of u]
  by (auto simp: clusters_patch_def gbind_def intro!: retry_not_412)

text \<open>
  The end of a lease: the process that holds the lease of a cluster document records the outcome in one
  write. The stored document has the given provisioning states, no owner and no operation in progress,
  its dequeue count is reset on success and kept otherwise, and nothing else of the cluster changes.
\<close>
theorem EndLease_stores:
  assumes "only_cluster s key d" "doc_LeaseOwner d = u"
  shows "\<exists>d' s'. clusters_EndLease (cluster_collection u) key st fst' ((), s) = (Ok (Some d'), ((), s'))
    \<and> account_stored s' = (account_stored s)((doc_PartitionKey d, doc_ID d) \<mapsto> d')
    \<and> doc_LeaseOwner d' = [] \<and> doc_AsyncOperationID d' = []
    \<and> doc_Dequeues d' = (if st = ProvisioningStateSucceeded then 0 else doc_Dequeues d)
    \<and> doc_OpenShiftCluster d' = set_FailedProvisioningState fst' (set_ProvisioningState st (doc_OpenShiftCluster d))"
proof -
  let ?g = "end_cluster_lease st fst'"
  have "keeps_identity d (?g d)" by (simp add: keeps_identity_def end_cluster_lease_def Let_def)
  from update_only [OF assms(1) this plain_options_sources(1), of u] obtain s' where
    "clusters_update (cluster_collection u) (?g d) None s = (Ok (Some (account_commit cluster_schema s (triggers_of None) (?g d))), s')"
    "account_stored s' = (account_stored s)((doc_PartitionKey d, doc_ID d) \<mapsto> account_commit cluster_schema s (triggers_of None) (?g d))"
    by blast
  then show ?thesis
    using assms(2) clusters_Get_only [OF assms(1), of u]
    by (intro exI [of _ "account_commit cluster_schema s (triggers_of None) (?g d)"] exI [of _ s'])
      (simp add: clusters_EndLease_def clusters_patchWithLease_def clusters_patch_def gbind_def retry_not_412
        cluster_collection_def end_cluster_lease_def Let_def)
qed


definition leased_account :: "OpenShiftClusterDocument account" where
  "leased_account = \<lparr>ac_docs = [((''s'', ''id''), sample_doc\<lparr>doc_LeaseOwner := ''u'', doc_Dequeues := 1\<rparr>)],
     ac_next = 1, ac_now = 1000\<rparr>"

lemma only_leased: "only_cluster leased_account (doc_Key sample_doc) (sample_doc\<lparr>doc_LeaseOwner := ''u'', doc_Dequeues := 1\<rparr>)"
proof -
  have "clusters_partitionKey (doc_Key sample_doc) = Ok ''s''" "doc_Key sample_doc = ToLower (doc_Key sample_doc)"
      "account_good cluster_schema leased_account" "good_id (doc_ID sample_doc)" "doc_PartitionKey sample_doc = ''s''"
    by code_simp+
  then show ?thesis
    by (simp add: only_cluster_def account_select_def leased_account_def cluster_schema_def where_key)
qed

theorem EndLease_stores_witness:
  "\<exists>d' s'. clusters_EndLease (cluster_collection ''u'') (doc_Key sample_doc) ProvisioningStateSucceeded [] ((), leased_account) =
       (Ok (Some d'), ((), s'))
    \<and> account_stored s' = (account_stored leased_account)((''s'', ''id'') \<mapsto> d')
    \<and> doc_LeaseOwner d' = [] \<and> doc_AsyncOperationID d' = [] \<and> doc_Dequeues d' = 0
    \<and> doc_OpenShiftCluster d' =
        set_FailedProvisioningState [] (set_ProvisioningState ProvisioningStateSucceeded (doc_OpenShiftCluster sample_doc))"
proof -
  have ids: "doc_PartitionKey sample_doc = ''s''" "doc_ID sample_doc = ''id''" by code_simp+
  show ?thesis
    using EndLease_stores [OF only_leased, where u = "''u''" and st = ProvisioningStateSucceeded and fst' = "[]"]
    by (simp add: ids)
qed

text \<open>
  The heartbeat of a cluster's worker extends its lease: the stored document keeps its owner and
  expires 60 seconds from now.
\<close>
theorem cluster_Lease_renews:
  assumes "only_cluster s key d" "doc_LeaseOwner d = u"
  shows "\<exists>d' s'. clusters_Lease (cluster_collection u) key ((), s) = (Ok (Some d'), ((), s'))
    \<and> account_stored s' = (account_stored s)((doc_PartitionKey d, doc_ID d) \<mapsto> d')
    \<and> doc_LeaseOwner d' = u \<and> doc_LeaseExpires d' = ac_now s + 60 \<and> doc_OpenShiftCluster d' = doc_OpenShiftCluster d"
proof -
  have "keeps_identity d d" by (simp add: keeps_identity_def)
  from update_only [OF assms(1) this plain_options_sources(2), of u] obtain s' where
    "clusters_update (cluster_collection u) d (Some renewLease) s =
       (Ok (Some (account_commit cluster_schema s (triggers_of (Some renewLease)) d)), s')"
    "account_stored s' = (account_stored s)((doc_PartitionKey d, doc_ID d) \<mapsto>
       account_commit cluster_schema s (triggers_of (Some renewLease)) d)"
    by blast
  moreover have "doc_LeaseExpires (account_commit cluster_schema s (triggers_of (Some renewLease)) d) = ac_now s + 60"
    by (simp add: account_commit_def cluster_schema_def triggers_of_def renewLease_def cluster_trigger_def)
  ultimately show ?thesis
    using assms(2) clusters_Get_only [OF assms(1), of u]
    by (intro exI [of _ "account_commit cluster_schema s (triggers_of (Some renewLease)) d"] exI [of _ s'])
      (simp add: clusters_Lease_def clusters_patchWithLease_def clusters_patch_def gbind_def retry_not_412
        cluster_collection_def)
qed

theorem cluster_Lease_renews_witness:
  "\<exists>d' s'. clusters_Lease (cluster_collection ''u'') (doc_Key sample_doc) ((), leased_account) = (Ok (Some d'), ((), s'))
    \<and> account_stored s' = (account_stored leased_account)((doc_PartitionKey sample_doc, doc_ID sample_doc) \<mapsto> d')
    \<and> doc_LeaseOwner d' = ''u'' \<and> doc_LeaseExpires d' = ac_now leased_account + 60
    \<and> doc_OpenShiftCluster d' = doc_OpenShiftCluster sample_doc"
  using cluster_Lease_renews [OF only_leased, where u = "''u''"] by simp

text \<open>
  C11. A patch is not protected against a concurrent dequeue. When a process reads a document, another
  process leases it, and the first then writes back its change of what it read, as
  \<^verbatim>\<open>Patch\<close> does without an entity tag, both writes succeed and the stored document has the lease owner
  the first process read: the lease just taken is lost.
\<close>
theorem blind_update_loses_lease:
  assumes "only_cluster s key d" "keeps_identity d (g d)" "doc_LeaseOwner (g d) = doc_LeaseOwner d"
  shows "\<exists>d1 s1 d2 s2.
      clusters_Get (cluster_collection u) key s = (Ok d, s)
    \<and> clusters_update (cluster_collection v) (take_cluster v d) (Some renewLease) s = (Ok (Some d1), s1)
    \<and> doc_LeaseOwner d1 = v
    \<and> clusters_Update (cluster_collection u) (g d) s1 = (Ok (Some d2), s2)
    \<and> account_stored s2 (doc_PartitionKey d, doc_ID d) = Some d2
    \<and> doc_LeaseOwner d2 = doc_LeaseOwner d"
proof -
  let ?c = "account_commit cluster_schema"
  have "keeps_identity d (take_cluster v d)" by (simp add: keeps_identity_def)
  from update_only [OF assms(1) this plain_options_sources(2), of v] obtain s1 where s1:
    "clusters_update (cluster_collection v) (take_cluster v d) (Some renewLease) s =
       (Ok (Some (?c s (triggers_of (Some renewLease)) (take_cluster v d))), s1)"
    "account_good cluster_schema s1"
    "account_stored s1 = (account_stored s)((doc_PartitionKey d, doc_ID d) \<mapsto>
       ?c s (triggers_of (Some renewLease)) (take_cluster v d))"
    by blast
  note d = only_clusterD [OF assms(1)]
  have gid: "good_id (doc_ID (g d))" "doc_ID (g d) = doc_ID d" "doc_Key (g d) = ToLower (doc_Key (g d))"
      "doc_PartitionKey (g d) = doc_PartitionKey d"
    using assms(1,2) d by (auto simp: keeps_identity_def only_cluster_def)
  from cluster_store.replace_ok [OF s1(2) _ plain_options_sources(1), of "g d" "doc_PartitionKey d"] gid s1(3)
  obtain s2 where s2: "c_Replace (account_docs cluster_schema) (doc_PartitionKey d) (g d) None s1 =
      (Ok (Some (?c s1 (triggers_of None) (g d))), s2)"
      "account_stored s2 = (account_stored s1)((doc_PartitionKey d, doc_ID (g d)) \<mapsto> ?c s1 (triggers_of None) (g d))"
    by (auto simp: accepts_def)
  have "clusters_Update (cluster_collection u) (g d) s1 = (Ok (Some (?c s1 (triggers_of None) (g d))), s2)"
    using gid s2(1) by (simp add: clusters_Update_def clusters_update_def cluster_collection_def)
  with s1 s2 gid assms(3) clusters_Get_only [OF assms(1), of u] show ?thesis by simp
qed

theorem blind_update_loses_lease_witness:
  "\<exists>d d1 s1 d2 s2.
      clusters_Get (cluster_collection ''w'') (doc_Key sample_doc) leased_account = (Ok d, leased_account)
    \<and> clusters_update (cluster_collection ''v'') (take_cluster ''v'' d) (Some renewLease) leased_account = (Ok (Some d1), s1)
    \<and> doc_LeaseOwner d1 = ''v''
    \<and> clusters_Update (cluster_collection ''w'') (d\<lparr>doc_Dequeues := 0\<rparr>) s1 = (Ok (Some d2), s2)
    \<and> account_stored s2 (doc_PartitionKey d, doc_ID d) = Some d2
    \<and> doc_LeaseOwner d2 = ''u''"
proof -
  let ?d = "sample_doc\<lparr>doc_LeaseOwner := ''u'', doc_Dequeues := 1\<rparr>"
  have "keeps_identity ?d (?d\<lparr>doc_Dequeues := 0\<rparr>)" by (simp add: keeps_identity_def)
  from blind_update_loses_lease [where g = "\<lambda>d. d\<lparr>doc_Dequeues := 0\<rparr>", OF only_leased this, of "''w''" "''v''"]
  show ?thesis by - (rule exI [of _ ?d], simp)
qed

section \<open>Losing a lease\<close>



section \<open>Subscriptions are never kept leased\<close>

definition subscription_collection :: "string \<Rightarrow> SubscriptionDocument account subscriptions" where
  "subscription_collection uuid = \<lparr>cl_c = account_docs subscription_schema, cl_uuid = uuid, cl_fuel = 2\<rparr>"

text \<open>
  C12. The heartbeat of a subscription's worker does not extend its lease: renewing writes the document
  back with the expiry it had, because the options that carry the trigger are dropped on the way.
\<close>
theorem subscription_Lease_not_renewed:
  assumes "account_good subscription_schema s" "account_stored s (i, i) = Some d" "i = ToLower i" "good_id i"
    and "sd_LeaseOwner d = u"
  shows "\<exists>d' s'. subs_Lease (subscription_collection u) i ((), s) = (Ok (Some d'), ((), s'))
    \<and> account_stored s' = (account_stored s)((i, i) \<mapsto> d') \<and> sd_LeaseExpires d' = sd_LeaseExpires d"
proof -
  let ?d = "account_commit subscription_schema s (triggers_of None) d"
  from account_goodD(1) [OF assms(1,2)] have i: "sd_ID d = i" by simp
  from subscription_store.replace_ok [OF assms(1) _ plain_options_sources(1), of d i d] i assms(2,4)
  obtain s' where "c_Replace (account_docs subscription_schema) i d None s = (Ok (Some ?d), s')"
      "account_stored s' = (account_stored s)((i, i) \<mapsto> ?d)"
    by (auto simp: accepts_def)
  moreover have "sd_LeaseExpires ?d = sd_LeaseExpires d"
    by (simp add: account_commit_def subscription_schema_def triggers_of_def)
  moreover have "subs_Get (subscription_collection u) i s = (Ok (Some d), s)"
    using assms subscription_store.get_stored [of s i i d] by (simp add: subs_Get_def subscription_collection_def)
  ultimately show ?thesis
    using assms(3,5) i
    by (intro exI [of _ ?d] exI [of _ s'])
      (simp add: subs_Lease_def subs_patchWithLease_def subs_patch_def gbind_def retry_not_412 subs_update_def
        subscription_collection_def)
qed

theorem subscription_Lease_not_renewed_witness:
  "\<exists>s d d' s'. account_stored s (''i'', ''i'') = Some d
    \<and> subs_Lease (subscription_collection ''u'') ''i'' ((), s) = (Ok (Some d'), ((), s'))
    \<and> account_stored s' = (account_stored s)((''i'', ''i'') \<mapsto> d') \<and> sd_LeaseExpires d' = sd_LeaseExpires d"
proof -
  let ?d = "zero_SubscriptionDocument\<lparr>sd_ID := ''i'', sd_ETag := nth_tag 0, sd_LeaseOwner := ''u''\<rparr>"
  let ?s = "\<lparr>ac_docs = [((''i'', ''i''), ?d)], ac_next = 1, ac_now = 1000\<rparr>"
  have g: "account_good subscription_schema ?s" by code_simp
  have st: "account_stored ?s (''i'', ''i'') = Some ?d" by (simp add: account_stored_def)
  have i: "''i'' = ToLower ''i''" "good_id ''i''" by code_simp+
  have o: "sd_LeaseOwner ?d = ''u''" by simp
  from subscription_Lease_not_renewed [OF g st i o] st show ?thesis by blast
qed

end
