(* ===== verification/World.thy ===== *)
theory World
  imports Account Backend
begin

text \<open>
  The provider's database as one state: the accounts of the three collections side by side (and the state of the source
  of random identifiers), the collections over it, and what the operations of \<^verbatim>\<open>src/pkg/database\<close> do to it. On it the back
  end's handler is followed from the lease of a document to the stored outcome.
\<close>

section \<open>Three accounts in one world\<close>

record rp_world =
  w_clusters :: "OpenShiftClusterDocument account"
  w_subs :: "SubscriptionDocument account"
  w_async :: "AsyncOperationDocument account"
  w_random :: nat

definition zoom :: "('w \<Rightarrow> 'v) \<Rightarrow> ('v \<Rightarrow> 'w \<Rightarrow> 'w) \<Rightarrow> ('v, 'a) go \<Rightarrow> ('w, 'a) go" where
  "zoom get put m w = (case m (get w) of (r, v) \<Rightarrow> (r, put v w))"

lemma zoom_eq: "m (get w) = (r, v) \<Longrightarrow> zoom get put m w = (r, put v w)"
  by (simp add: zoom_def)

definition zoom_docs :: "('w \<Rightarrow> 'v) \<Rightarrow> ('v \<Rightarrow> 'w \<Rightarrow> 'w) \<Rightarrow> ('v, 'd) docs \<Rightarrow> ('w, 'd) docs" where
  "zoom_docs get put c = \<lparr>
     c_Create = (\<lambda>pk d o'. zoom get put (c_Create c pk d o')),
     c_Get = (\<lambda>pk i o'. zoom get put (c_Get c pk i o')),
     c_Replace = (\<lambda>pk d o'. zoom get put (c_Replace c pk d o')),
     c_Delete = (\<lambda>pk d o'. zoom get put (c_Delete c pk d o')),
     c_Query = c_Query c,
     c_QueryAll = (\<lambda>pk q o'. zoom get put (c_QueryAll c pk q o')),
     c_Next = (\<lambda>i. zoom get put (c_Next c i))\<rparr>"

lemma zoom_docs_sels [simp]:
  "c_Create (zoom_docs get put c) pk d o' = zoom get put (c_Create c pk d o')"
  "c_Get (zoom_docs get put c) pk i o' = zoom get put (c_Get c pk i o')"
  "c_Replace (zoom_docs get put c) pk d o' = zoom get put (c_Replace c pk d o')"
  "c_Delete (zoom_docs get put c) pk d o' = zoom get put (c_Delete c pk d o')"
  "c_QueryAll (zoom_docs get put c) pk q o' = zoom get put (c_QueryAll c pk q o')"
  "c_Next (zoom_docs get put c) it = zoom get put (c_Next c it)"
  by (simp_all add: zoom_docs_def)

definition put_clusters :: "OpenShiftClusterDocument account \<Rightarrow> rp_world \<Rightarrow> rp_world" where
  "put_clusters v w = w\<lparr>w_clusters := v\<rparr>"
definition put_subs :: "SubscriptionDocument account \<Rightarrow> rp_world \<Rightarrow> rp_world" where
  "put_subs v w = w\<lparr>w_subs := v\<rparr>"
definition put_async :: "AsyncOperationDocument account \<Rightarrow> rp_world \<Rightarrow> rp_world" where
  "put_async v w = w\<lparr>w_async := v\<rparr>"

lemma put_sels [simp]:
  "w_clusters (put_clusters c w) = c" "w_subs (put_clusters c w) = w_subs w" "w_async (put_clusters c w) = w_async w"
  "w_clusters (put_subs s w) = w_clusters w" "w_subs (put_subs s w) = s" "w_async (put_subs s w) = w_async w"
  "w_clusters (put_async a w) = w_clusters w" "w_subs (put_async a w) = w_subs w" "w_async (put_async a w) = a"
  "w_random (put_clusters c w) = w_random w" "w_random (put_subs s w) = w_random w" "w_random (put_async a w) = w_random w"
  "put_clusters (w_clusters w) w = w" "put_subs (w_subs w) w = w" "put_async (w_async w) w = w"
  by (simp_all add: put_clusters_def put_subs_def put_async_def)

text \<open>The database of a process with identity \<open>uuid\<close>.\<close>

definition rp_database :: "string \<Rightarrow> rp_world database" where
  "rp_database uuid = \<lparr>
     db_AsyncOperations = \<lparr>cl_c = zoom_docs w_async put_async (account_docs async_schema), cl_uuid = uuid, cl_fuel = 2\<rparr>,
     db_OpenShiftClusters = \<lparr>cl_c = zoom_docs w_clusters put_clusters (account_docs cluster_schema), cl_uuid = uuid, cl_fuel = 2\<rparr>,
     db_Subscriptions = \<lparr>cl_c = zoom_docs w_subs put_subs (account_docs subscription_schema), cl_uuid = uuid, cl_fuel = 2\<rparr>\<rparr>"

abbreviation rp_clusters :: "string \<Rightarrow> rp_world openShiftClusters" where
  "rp_clusters u \<equiv> db_OpenShiftClusters (rp_database u)"

abbreviation rp_async :: "string \<Rightarrow> rp_world asyncOperations" where
  "rp_async u \<equiv> db_AsyncOperations (rp_database u)"

abbreviation rp_subs :: "string \<Rightarrow> rp_world subscriptions" where
  "rp_subs u \<equiv> db_Subscriptions (rp_database u)"

lemma rp_database_uuid [simp]:
  "cl_uuid (rp_clusters u) = u" "cl_uuid (rp_async u) = u" "cl_uuid (rp_subs u) = u"
  by (simp_all add: rp_database_def)

section \<open>Operations on the world\<close>

subsection \<open>Clusters\<close>

lemma rp_Get_cluster:
  assumes "only_cluster (w_clusters w) key d"
  shows "clusters_Get (rp_clusters u) key w = (Ok d, w)"
proof -
  from assms account_query [of "doc_PartitionKey d" cluster_schema "key_query key" "w_clusters w"]
  have "c_QueryAll (cl_c (rp_clusters u)) (doc_PartitionKey d) (key_query key) None w =
      (Ok \<lparr>ds_Count = 1, ds_ResourceID = [], ds_Documents = [d]\<rparr>, w)"
    by (simp add: rp_database_def only_cluster_def zoom_def)
  with assms show ?thesis
    by (simp add: clusters_Get_def only_cluster_def gbind_def)
qed

lemma rp_update_cluster:
  assumes "only_cluster (w_clusters w) key d" "keeps_identity d d'" "plain_options o'"
  shows "\<exists>s'. clusters_update (rp_clusters u) d' o' w =
      (Ok (Some (account_commit cluster_schema (w_clusters w) (triggers_of o') d')), put_clusters s' w)
    \<and> account_good cluster_schema s'
    \<and> account_stored s' = (account_stored (w_clusters w))((doc_PartitionKey d, doc_ID d) \<mapsto>
        account_commit cluster_schema (w_clusters w) (triggers_of o') d')"
  using update_only [OF assms, of u] assms(1,2)
  by (auto simp: clusters_update_def cluster_collection_def rp_database_def zoom_def split: if_splits)

text \<open>A patch whose function writes variables of its caller: read, change, write.\<close>

lemma patch_once:
  assumes "clusters_Get c key w = (Ok d, w1)" "f d (x, w1) = (Ok d', (x', w2))" "clusters_update c d' o' w2 = (Ok r, w3)"
  shows "clusters_patch c key f o' (x, w) = (Ok r, (x', w3))"
  using assms by (auto simp: clusters_patch_def gbind_def intro!: retry_not_412)

lemma rp_EndLease:
  assumes "only_cluster (w_clusters w) key d" "doc_LeaseOwner d = u"
  shows "\<exists>d' s'. clusters_EndLease (rp_clusters u) key st st' (x, w) = (Ok (Some d'), (x, put_clusters s' w))
    \<and> account_stored s' = (account_stored (w_clusters w))((doc_PartitionKey d, doc_ID d) \<mapsto> d')
    \<and> d' = account_commit cluster_schema (w_clusters w) [] (end_cluster_lease st st' d)"
proof -
  let ?g = "end_cluster_lease st st'"
  have "keeps_identity d (?g d)" by (simp add: keeps_identity_def end_cluster_lease_def Let_def)
  from rp_update_cluster [OF assms(1) this plain_options_sources(1), of u] obtain s' where
    upd: "clusters_update (rp_clusters u) (?g d) None w =
        (Ok (Some (account_commit cluster_schema (w_clusters w) [] (?g d))), put_clusters s' w)"
    and st: "account_stored s' = (account_stored (w_clusters w))((doc_PartitionKey d, doc_ID d) \<mapsto>
        account_commit cluster_schema (w_clusters w) [] (?g d))"
    by (auto simp: triggers_of_def)
  have "clusters_EndLease (rp_clusters u) key st st' (x, w) =
      (Ok (Some (account_commit cluster_schema (w_clusters w) [] (?g d))), (x, put_clusters s' w))"
    unfolding clusters_EndLease_def clusters_patchWithLease_def
    by (rule patch_once [OF rp_Get_cluster [OF assms(1)] _ upd]) (simp add: assms(2))
  with st show ?thesis by blast
qed

lemma rp_Get_missing_cluster:
  assumes "key = ToLower key" "clusters_partitionKey key = Ok pk" "pk \<noteq> []"
    "account_select cluster_schema (w_clusters w) pk (key_query key) = []"
  shows "clusters_Get (rp_clusters u) key w = (Err (CosmosErr 404 [] []), w)"
  using assms account_query [of pk cluster_schema "key_query key" "w_clusters w"]
  by (simp add: clusters_Get_def rp_database_def zoom_def gbind_def)

lemma rp_Create_cluster:
  assumes "account_good cluster_schema (w_clusters w)" "doc_Key d = ToLower (doc_Key d)"
    "clusters_partitionKey (doc_Key d) = Ok pk" "account_stored (w_clusters w) (pk, doc_ID d) = None"
  shows "\<exists>s'. clusters_Create (rp_clusters u) d w =
      (Ok (Some (account_commit cluster_schema (w_clusters w) [] (d\<lparr>doc_PartitionKey := pk\<rparr>))), put_clusters s' w)
    \<and> account_stored s' = (account_stored (w_clusters w))((pk, doc_ID d) \<mapsto>
        account_commit cluster_schema (w_clusters w) [] (d\<lparr>doc_PartitionKey := pk\<rparr>))"
proof -
  from cluster_store.create_ok [OF assms(1), of pk "d\<lparr>doc_PartitionKey := pk\<rparr>"] assms(4)
  obtain s' where "c_Create (account_docs cluster_schema) pk (d\<lparr>doc_PartitionKey := pk\<rparr>) None (w_clusters w) =
      (Ok (Some (account_commit cluster_schema (w_clusters w) [] (d\<lparr>doc_PartitionKey := pk\<rparr>))), s')"
    "account_stored s' = (account_stored (w_clusters w))((pk, doc_ID d) \<mapsto>
        account_commit cluster_schema (w_clusters w) [] (d\<lparr>doc_PartitionKey := pk\<rparr>))"
    by auto
  with assms(2,3) show ?thesis
    by (intro exI [of _ s']) (simp add: clusters_Create_def rp_database_def zoom_def)
qed

lemma rp_Delete_cluster:
  assumes "only_cluster (w_clusters w) key d" "keeps_identity d d'"
  shows "\<exists>s'. clusters_Delete (rp_clusters u) d' w = (Ok (), put_clusters s' w)
    \<and> account_stored s' = (account_stored (w_clusters w))((doc_PartitionKey d, doc_ID d) := None)"
proof -
  note d = only_clusterD [OF assms(1)]
  from cluster_store.delete_ok [of "w_clusters w" d' "doc_PartitionKey d" d] assms d
  obtain s' where "c_Delete (account_docs cluster_schema) (doc_PartitionKey d) d' (Some (zero_Options\<lparr>opt_NoETag := True\<rparr>)) (w_clusters w) = (Ok (), s')"
    "account_stored s' = (account_stored (w_clusters w))((doc_PartitionKey d, doc_ID d) := None)"
    by (auto simp: only_cluster_def keeps_identity_def)
  with assms d show ?thesis
    by (intro exI [of _ s']) (simp add: clusters_Delete_def rp_database_def zoom_def keeps_identity_def only_cluster_def)
qed

subsection \<open>Asynchronous operations\<close>

definition only_operation :: "AsyncOperationDocument account \<Rightarrow> string \<Rightarrow> AsyncOperationDocument \<Rightarrow> bool" where
  "only_operation s i d \<longleftrightarrow>
     account_good async_schema s \<and> i = ToLower i \<and> good_id i \<and> account_stored s (i, i) = Some d"

lemma async_sels [simp]: "sc_ID async_schema = ad_ID" "sc_ETag async_schema = ad_ETag"
  by (simp_all add: async_schema_def)

lemma only_operationD: "only_operation s i d \<Longrightarrow> ad_ID d = i"
  by (auto simp: only_operation_def dest: account_goodD(1))

lemma commit_async: "account_commit async_schema s [] d = d\<lparr>ad_ETag := nth_tag (ac_next s)\<rparr>"
  by (simp add: account_commit_def async_schema_def)

lemma rp_Get_operation:
  assumes "only_operation (w_async w) i d"
  shows "async_Get (rp_async u) i w = (Ok (Some d), w)"
  using assms async_store.get_stored [of "w_async w" i i d]
  by (simp add: async_Get_def rp_database_def only_operation_def zoom_def)

lemma rp_Patch_operation:
  assumes op: "only_operation (w_async w) i d" and f: "f d (x, w) = (Ok d', (x, w))" "ad_ID d' = i"
  shows "\<exists>s'. async_Patch (rp_async u) i f (x, w) = (Ok (Some (d'\<lparr>ad_ETag := nth_tag (ac_next (w_async w))\<rparr>)), (x, put_async s' w))
    \<and> account_stored s' = (account_stored (w_async w))((i, i) \<mapsto> d'\<lparr>ad_ETag := nth_tag (ac_next (w_async w))\<rparr>)"
proof -
  from op have s: "account_good async_schema (w_async w)" "good_id i" "account_stored (w_async w) (i, i) = Some d"
    by (simp_all add: only_operation_def)
  from async_store.replace_ok [OF s(1) _ plain_options_sources(1), of d' i d] s f(2)
  obtain s' where r: "c_Replace (account_docs async_schema) i d' None (w_async w) =
      (Ok (Some (account_commit async_schema (w_async w) (triggers_of None) d')), s')"
    "account_stored s' = (account_stored (w_async w))((i, i) \<mapsto> account_commit async_schema (w_async w) (triggers_of None) d')"
    by (auto simp: accepts_def)
  then have "c_Replace (cl_c (rp_async u)) i d' None w =
      (Ok (Some (d'\<lparr>ad_ETag := nth_tag (ac_next (w_async w))\<rparr>)), put_async s' w)"
    by (simp add: rp_database_def zoom_def triggers_of_def commit_async)
  with rp_Get_operation [OF op, of u] f r(2) show ?thesis
    by (intro exI [of _ s'])
      (auto simp: async_Patch_def gbind_def triggers_of_def commit_async intro!: retry_not_412)
qed

lemma rp_Create_operation:
  assumes "account_good async_schema (w_async w)" "ad_ID a = ToLower (ad_ID a)" "account_stored (w_async w) (ad_ID a, ad_ID a) = None"
  shows "\<exists>s'. async_Create (rp_async u) a w =
      (Ok (Some (a\<lparr>ad_ETag := nth_tag (ac_next (w_async w))\<rparr>)), put_async s' w)
    \<and> account_stored s' = (account_stored (w_async w))((ad_ID a, ad_ID a) \<mapsto> a\<lparr>ad_ETag := nth_tag (ac_next (w_async w))\<rparr>)"
proof -
  from async_store.create_ok [OF assms(1), of "ad_ID a" a] assms(3) obtain s' where
    "c_Create (account_docs async_schema) (ad_ID a) a None (w_async w) =
      (Ok (Some (account_commit async_schema (w_async w) [] a)), s')"
    "account_stored s' = (account_stored (w_async w))((ad_ID a, ad_ID a) \<mapsto> account_commit async_schema (w_async w) [] a)"
    by auto
  with assms(2) show ?thesis
    by (intro exI [of _ s']) (simp add: async_Create_def rp_database_def zoom_def commit_async)
qed

subsection \<open>Subscriptions\<close>

definition only_subscription :: "SubscriptionDocument account \<Rightarrow> string \<Rightarrow> SubscriptionDocument \<Rightarrow> bool" where
  "only_subscription s i d \<longleftrightarrow>
     account_good subscription_schema s \<and> i = ToLower i \<and> good_id i \<and> account_stored s (i, i) = Some d"

lemma rp_Get_subscription:
  assumes "only_subscription (w_subs w) i d"
  shows "subs_Get (rp_subs u) i w = (Ok (Some d), w)"
  using assms subscription_store.get_stored [of "w_subs w" i i d]
  by (simp add: subs_Get_def rp_database_def only_subscription_def zoom_def)

section \<open>A worker's outcome\<close>

definition rp_backend :: "string \<Rightarrow> (OpenShiftClusterDocument \<Rightarrow> (rp_world, rp_world manager) go) \<Rightarrow> (rp_world \<Rightarrow> int) \<Rightarrow> rp_world backend" where
  "rp_backend u new now = \<lparr>b_db = rp_database u, b_NewManager = new, b_now = now\<rparr>"

definition succeeded :: "'a result \<Rightarrow> bool" where
  "succeeded r = (case r of Ok _ \<Rightarrow> True | _ \<Rightarrow> False)"

text \<open>What the back end records of a run: the final state and the state that failed.\<close>

definition outcome :: "ProvisioningState \<Rightarrow> 'a result \<Rightarrow> ProvisioningState \<times> ProvisioningState" where
  "outcome st r = (if succeeded r then (ProvisioningStateSucceeded, []) else (ProvisioningStateFailed, st))"

lemma rp_endLease:
  assumes c: "only_cluster (w_clusters w) (doc_Key doc) d" "doc_LeaseOwner d = u"
    and a: "only_operation (w_async w) (doc_AsyncOperationID doc) a" "doc_AsyncOperationID doc \<noteq> []"
    and f: "fst' = (if st = ProvisioningStateFailed then oc_ProvisioningState (doc_OpenShiftCluster doc) else [])"
  shows "\<exists>w'. endLease (rp_backend u new now) True doc st (h, w) = (Ok (), (False, w'))
    \<and> account_stored (w_clusters w') = (account_stored (w_clusters w))((doc_PartitionKey d, doc_ID d) \<mapsto>
        account_commit cluster_schema (w_clusters w) [] (end_cluster_lease st fst' d))
    \<and> account_stored (w_async w') = (account_stored (w_async w))((doc_AsyncOperationID doc, doc_AsyncOperationID doc) \<mapsto>
        (finish_operation (now w) (Some (doc_OpenShiftCluster doc)) st fst' a)\<lparr>ad_ETag := nth_tag (ac_next (w_async w))\<rparr>)"
proof -
  let ?f = "finish_operation (now w) (Some (doc_OpenShiftCluster doc)) st fst'"
  have id': "ad_ID (?f a) = doc_AsyncOperationID doc"
    using only_operationD [OF a(1)] by (simp add: finish_operation_def Let_def)
  from rp_Patch_operation [OF a(1), where f = "\<lambda>ad s. (Ok (finish_operation (now (snd s)) (Some (doc_OpenShiftCluster doc)) st fst' ad), s)"
      and x = h and d' = "?f a" and u = u] id'
  obtain s1 where s1: "async_Patch (rp_async u) (doc_AsyncOperationID doc)
        (\<lambda>ad s. (Ok (finish_operation (now (snd s)) (Some (doc_OpenShiftCluster doc)) st fst' ad), s)) (h, w) =
      (Ok (Some ((?f a)\<lparr>ad_ETag := nth_tag (ac_next (w_async w))\<rparr>)), (h, put_async s1 w))"
    "account_stored s1 = (account_stored (w_async w))((doc_AsyncOperationID doc, doc_AsyncOperationID doc) \<mapsto>
       (?f a)\<lparr>ad_ETag := nth_tag (ac_next (w_async w))\<rparr>)"
    by auto
  have c1: "only_cluster (w_clusters (put_async s1 w)) (doc_Key doc) d" using c(1) by simp
  from rp_EndLease [OF c1 c(2), of st fst' False] obtain s2 where
    s2: "clusters_EndLease (rp_clusters u) (doc_Key doc) st fst' (False, put_async s1 w) =
      (Ok (Some (account_commit cluster_schema (w_clusters w) [] (end_cluster_lease st fst' d))),
       (False, put_clusters s2 (put_async s1 w)))"
    "account_stored s2 = (account_stored (w_clusters w))((doc_PartitionKey d, doc_ID d) \<mapsto>
        account_commit cluster_schema (w_clusters w) [] (end_cluster_lease st fst' d))"
    by auto
  have upd: "updateAsyncOperation (rp_backend u new now) (doc_AsyncOperationID doc) (Some (doc_OpenShiftCluster doc)) st fst' (h, w) =
      (Ok (), (h, put_async s1 w))"
    using a(2) s1(1) by (simp add: updateAsyncOperation_def rp_backend_def gbind_def)
  have "endLease (rp_backend u new now) True doc st (h, w) = (Ok (), (False, put_clusters s2 (put_async s1 w)))"
    unfolding endLease_def Let_def f [symmetric]
    using upd s2(1) by (simp add: gbind_def stop_heartbeat_def rp_backend_def)
  with s1(2) s2(2) show ?thesis by (intro exI [of _ "put_clusters s2 (put_async s1 w)"]) simp
qed


definition manager_run :: "ProvisioningState \<Rightarrow> 'w manager \<Rightarrow> ('w, unit) go" where
  "manager_run st m = (if st = ProvisioningStateCreating then m_Create m else m_Update m)"

lemma finish_operation_sels:
  "ao_ProvisioningState (ad_AsyncOperation (finish_operation now oc st fst' a)) = st"
  "ao_EndTime (ad_AsyncOperation (finish_operation now oc st fst' a)) = Some now"
  "ao_Error (ad_AsyncOperation (finish_operation now oc st fst' a)) =
     (if st = ProvisioningStateFailed then Some internal_error_body else ao_Error (ad_AsyncOperation a))"
  "ad_OpenShiftCluster (finish_operation now (Some c) st fst' a) =
     Some (set_FailedProvisioningState fst' (set_ProvisioningState st c))"
  by (simp_all add: finish_operation_def Let_def split: option.splits)

lemma end_cluster_lease_sels:
  "doc_OpenShiftCluster (end_cluster_lease st fst' d) =
     set_FailedProvisioningState fst' (set_ProvisioningState st (doc_OpenShiftCluster d))"
  "doc_LeaseOwner (end_cluster_lease st fst' d) = []"
  "doc_AsyncOperationID (end_cluster_lease st fst' d) = []"
  "doc_Dequeues (end_cluster_lease st fst' d) = (if st = ProvisioningStateSucceeded then 0 else doc_Dequeues d)"
  by (simp_all add: end_cluster_lease_def Let_def)

lemma handle_to_endLease:
  assumes st: "oc_ProvisioningState (doc_OpenShiftCluster doc) = st"
      "st \<in> {ProvisioningStateCreating, ProvisioningStateUpdating}"
    and m: "b_NewManager b doc w = (Ok m, w0)" "manager_run st m w0 = (r, w1)" "\<forall>p. r \<noteq> Panic p"
  shows "handle b doc (h, w) =
    (case endLease b True doc (if succeeded r then ProvisioningStateSucceeded else ProvisioningStateFailed) (True, w1) of
       (r', s') \<Rightarrow> (r', snd (stop_heartbeat s')))"
proof -
  have "ProvisioningStateUpdating \<noteq> ProvisioningStateCreating" by (simp add: ProvisioningState_defs)
  with assms show ?thesis
    by (cases r) (auto simp: handle_def handle_body_def or_fail_def manager_run_def succeeded_def Let_def)
qed

text \<open>
  C2. A worker records exactly one outcome, in both places. When the back end handles a cluster that is being created or
  updated and still owns its lease when the manager returns, then, whether the manager succeeded or failed, the
  handler returns without error and with its heartbeat stopped; the stored cluster and the
  asynchronous operation have the same final state (Succeeded, or Failed with the failed state recorded), the lease
  is released, the operation is detached from the cluster, carries its end time, an error body exactly when it
  failed, and a copy of the cluster in its final state.
\<close>
theorem handle_records_outcome:
  assumes st: "oc_ProvisioningState (doc_OpenShiftCluster doc) = st"
      "st \<in> {ProvisioningStateCreating, ProvisioningStateUpdating}"
    and m: "new doc w = (Ok m, w0)" "manager_run st m w0 = (r, w1)" "\<forall>p. r \<noteq> Panic p"
    and c: "only_cluster (w_clusters w1) (doc_Key doc) d" "doc_LeaseOwner d = u"
    and a: "only_operation (w_async w1) (doc_AsyncOperationID doc) a" "doc_AsyncOperationID doc \<noteq> []"
      "ao_Error (ad_AsyncOperation a) = None"
    and final: "outcome st r = (final, failed)"
  shows "\<exists>w' d' a'. handle (rp_backend u new now) doc (h, w) = (Ok (), (False, w'))
    \<and> account_stored (w_clusters w') (doc_PartitionKey d, doc_ID d) = Some d'
    \<and> account_stored (w_async w') (doc_AsyncOperationID doc, doc_AsyncOperationID doc) = Some a'
    \<and> oc_ProvisioningState (doc_OpenShiftCluster d') = final
    \<and> oc_FailedProvisioningState (doc_OpenShiftCluster d') = failed
    \<and> doc_LeaseOwner d' = [] \<and> doc_AsyncOperationID d' = []
    \<and> ao_ProvisioningState (ad_AsyncOperation a') = final
    \<and> ao_EndTime (ad_AsyncOperation a') = Some (now w1)
    \<and> (ao_Error (ad_AsyncOperation a') = None \<longleftrightarrow> succeeded r)
    \<and> ad_OpenShiftCluster a' =
        Some (set_FailedProvisioningState failed (set_ProvisioningState final (doc_OpenShiftCluster doc)))"
proof -
  have ne: "ProvisioningStateSucceeded \<noteq> ProvisioningStateFailed" by (simp add: ProvisioningState_defs)
  have fin: "final = (if succeeded r then ProvisioningStateSucceeded else ProvisioningStateFailed)"
    and fst': "failed = (if final = ProvisioningStateFailed then oc_ProvisioningState (doc_OpenShiftCluster doc) else [])"
    using final ne st by (auto simp: outcome_def split: if_splits)
  from rp_endLease [OF c a(1,2) fst', of new now True] obtain w' where w':
    "endLease (rp_backend u new now) True doc final (True, w1) = (Ok (), (False, w'))"
    "account_stored (w_clusters w') = (account_stored (w_clusters w1))((doc_PartitionKey d, doc_ID d) \<mapsto>
        account_commit cluster_schema (w_clusters w1) [] (end_cluster_lease final failed d))"
    "account_stored (w_async w') = (account_stored (w_async w1))((doc_AsyncOperationID doc, doc_AsyncOperationID doc) \<mapsto>
        (finish_operation (now w1) (Some (doc_OpenShiftCluster doc)) final failed a)\<lparr>ad_ETag := nth_tag (ac_next (w_async w1))\<rparr>)"
    by blast
  have "handle (rp_backend u new now) doc (h, w) = (Ok (), (False, w'))"
    using handle_to_endLease [OF st, of "rp_backend u new now" w m w0 r w1 h] m w'(1) fin
    by (simp add: rp_backend_def stop_heartbeat_def)
  with w' a(3) ne fin show ?thesis
    by (simp add: end_cluster_lease_sels finish_operation_sels)
qed


definition busy_doc :: OpenShiftClusterDocument where
  "busy_doc = sample_doc\<lparr>doc_LeaseOwner := ''u'', doc_Dequeues := 1, doc_AsyncOperationID := ''op''\<rparr>"

definition busy_operation :: AsyncOperationDocument where
  "busy_operation = \<lparr>ad_MissingFields = None, ad_ID = ''op'', ad_ResourceID = [], ad_Timestamp = 0, ad_Self = [],
     ad_ETag = nth_tag 0, ad_Attachments = [],
     ad_AsyncOperation = \<lparr>ao_MissingFields = None, ao_ID = ''op'', ao_Name = ''op'',
       ao_InitialProvisioningState = ProvisioningStateCreating, ao_ProvisioningState = ProvisioningStateCreating,
       ao_StartTime = 900, ao_EndTime = None, ao_Error = None\<rparr>,
     ad_OpenShiftClusterKey = doc_Key sample_doc, ad_OpenShiftCluster = None\<rparr>"

definition busy_world :: rp_world where
  "busy_world = \<lparr>
     w_clusters = \<lparr>ac_docs = [((''s'', ''id''), busy_doc)], ac_next = 1, ac_now = 1000\<rparr>,
     w_subs = \<lparr>ac_docs = [], ac_next = 0, ac_now = 1000\<rparr>,
     w_async = \<lparr>ac_docs = [((''op'', ''op''), busy_operation)], ac_next = 1, ac_now = 1000\<rparr>, w_random = 0\<rparr>"

lemma busy_cluster: "only_cluster (w_clusters busy_world) (doc_Key busy_doc) busy_doc"
proof -
  have "clusters_partitionKey (doc_Key busy_doc) = Ok ''s''" "doc_Key busy_doc = ToLower (doc_Key busy_doc)"
      "account_good cluster_schema (w_clusters busy_world)" "good_id (doc_ID busy_doc)" "doc_PartitionKey busy_doc = ''s''"
    by code_simp+
  then show ?thesis
    by (simp add: only_cluster_def account_select_def busy_world_def cluster_schema_def where_key)
qed

lemma busy_op: "only_operation (w_async busy_world) ''op'' busy_operation"
proof -
  have "account_good async_schema (w_async busy_world)" "''op'' = ToLower ''op''" "good_id ''op''" by code_simp+
  then show ?thesis by (simp add: only_operation_def busy_world_def account_stored_def)
qed

definition failing_manager :: "OpenShiftClusterDocument \<Rightarrow> (rp_world, rp_world manager) go" where
  "failing_manager doc w =
     (let bad = (\<lambda>w. (Err (ExternalErr ''quota exceeded''), w)) in
      (Ok \<lparr>m_Create = bad, m_Update = bad, m_Delete = bad\<rparr>, w))"

theorem handle_records_outcome_witness:
  "\<exists>w' d' a'. handle (rp_backend ''u'' failing_manager (\<lambda>w. 1000)) busy_doc (False, busy_world) = (Ok (), (False, w'))
    \<and> account_stored (w_clusters w') (''s'', ''id'') = Some d'
    \<and> account_stored (w_async w') (''op'', ''op'') = Some a'
    \<and> oc_ProvisioningState (doc_OpenShiftCluster d') = ProvisioningStateFailed
    \<and> oc_FailedProvisioningState (doc_OpenShiftCluster d') = ProvisioningStateCreating
    \<and> ao_ProvisioningState (ad_AsyncOperation a') = ProvisioningStateFailed
    \<and> ao_Error (ad_AsyncOperation a') \<noteq> None"
proof -
  let ?r = "Err (ExternalErr ''quota exceeded'') :: unit result"
  let ?m = "\<lparr>m_Create = (\<lambda>w. (?r, w)), m_Update = (\<lambda>w. (?r, w)), m_Delete = (\<lambda>w. (?r, w))\<rparr> :: rp_world manager"
  have st: "oc_ProvisioningState (doc_OpenShiftCluster busy_doc) = ProvisioningStateCreating"
    by (simp add: busy_doc_def sample_doc_def)
  have m: "failing_manager busy_doc busy_world = (Ok ?m, busy_world)" by (simp add: failing_manager_def Let_def)
  have run: "manager_run ProvisioningStateCreating ?m busy_world = (?r, busy_world)" by (simp add: manager_run_def)
  have ids: "doc_LeaseOwner busy_doc = ''u''" "doc_AsyncOperationID busy_doc = ''op''"
      "doc_PartitionKey busy_doc = ''s''" "doc_ID busy_doc = ''id''" "ao_Error (ad_AsyncOperation busy_operation) = None"
    by (simp_all add: busy_doc_def sample_doc_def busy_operation_def)
  have "outcome ProvisioningStateCreating ?r = (ProvisioningStateFailed, ProvisioningStateCreating)"
    by (simp add: outcome_def succeeded_def)
  from handle_records_outcome [where new = failing_manager and now = "\<lambda>w. 1000" and h = False,
      OF st _ m run _ busy_cluster ids(1) busy_op [folded ids(2)] _ ids(5) this]
  show ?thesis by (auto simp: ids succeeded_def)
qed

text \<open>
  C7. The end of a deletion: when the back end handles a cluster that is being deleted and the manager has removed its
  resources, the cluster document is gone from the database, the operation is Succeeded with its end time and no copy
  of the cluster is attached to it (so its result is answered with No Content), and the heartbeat is stopped.
\<close>
theorem handle_deletes:
  assumes st: "oc_ProvisioningState (doc_OpenShiftCluster doc) = ProvisioningStateDeleting"
    and m: "new doc w = (Ok m, w0)" "m_Delete m w0 = (Ok (), w1)"
    and c: "only_cluster (w_clusters w1) (doc_Key doc) d" "keeps_identity d doc"
    and a: "only_operation (w_async w1) (doc_AsyncOperationID doc) a" "doc_AsyncOperationID doc \<noteq> []"
  shows "\<exists>w' a'. handle (rp_backend u new now) doc (h, w) = (Ok (), (False, w'))
    \<and> account_stored (w_clusters w') (doc_PartitionKey doc, doc_ID doc) = None
    \<and> account_stored (w_async w') (doc_AsyncOperationID doc, doc_AsyncOperationID doc) = Some a'
    \<and> ao_ProvisioningState (ad_AsyncOperation a') = ProvisioningStateSucceeded
    \<and> ao_EndTime (ad_AsyncOperation a') = Some (now w1)
    \<and> ad_OpenShiftCluster a' = ad_OpenShiftCluster a"
proof -
  let ?i = "doc_AsyncOperationID doc"
  let ?f = "finish_operation (now w1) None ProvisioningStateSucceeded []"
  have ne: "ProvisioningStateDeleting \<noteq> ProvisioningStateCreating" "ProvisioningStateDeleting \<noteq> ProvisioningStateUpdating"
    by (simp_all add: ProvisioningState_defs)
  have id': "ad_ID (?f a) = ?i" using only_operationD [OF a(1)] by (simp add: finish_operation_def Let_def)
  from rp_Patch_operation [OF a(1), where f = "\<lambda>ad s. (Ok (finish_operation (now (snd s)) None ProvisioningStateSucceeded [] ad), s)"
      and d' = "?f a" and x = True and u = u, OF _ id'] obtain s1 where
    s1: "async_Patch (rp_async u) ?i (\<lambda>ad s. (Ok (finish_operation (now (snd s)) None ProvisioningStateSucceeded [] ad), s)) (True, w1) =
      (Ok (Some ((?f a)\<lparr>ad_ETag := nth_tag (ac_next (w_async w1))\<rparr>)), (True, put_async s1 w1))"
    "account_stored s1 = (account_stored (w_async w1))((?i, ?i) \<mapsto> (?f a)\<lparr>ad_ETag := nth_tag (ac_next (w_async w1))\<rparr>)"
    by auto
  have "only_cluster (w_clusters (put_async s1 w1)) (doc_Key doc) d" using c(1) by simp
  from rp_Delete_cluster [OF this c(2), of u] obtain s2 where
    s2: "clusters_Delete (rp_clusters u) doc (put_async s1 w1) = (Ok (), put_clusters s2 (put_async s1 w1))"
    "account_stored s2 = (account_stored (w_clusters w1))((doc_PartitionKey d, doc_ID d) := None)"
    by auto
  have upd: "updateAsyncOperation (rp_backend u new now) ?i None ProvisioningStateSucceeded [] (True, w1) =
      (Ok (), (True, put_async s1 w1))"
    using a(2) s1(1) by (simp add: updateAsyncOperation_def rp_backend_def gbind_def)
  have "handle (rp_backend u new now) doc (h, w) = (Ok (), (False, put_clusters s2 (put_async s1 w1)))"
    using st m ne s2(1) upd
    by (simp add: handle_def handle_body_def or_fail_def rp_backend_def gbind_def stop_heartbeat_def Let_def)
  with s1(2) s2(2) c(2) show ?thesis
    by (intro exI [of _ "put_clusters s2 (put_async s1 w1)"])
      (simp add: finish_operation_sels keeps_identity_def finish_operation_def Let_def)
qed

definition deleting_world :: rp_world where
  "deleting_world = busy_world\<lparr>w_clusters := (w_clusters busy_world)\<lparr>ac_docs :=
     [((''s'', ''id''), busy_doc\<lparr>doc_OpenShiftCluster := set_ProvisioningState ProvisioningStateDeleting (doc_OpenShiftCluster busy_doc)\<rparr>)]\<rparr>\<rparr>"

definition idle_manager :: "OpenShiftClusterDocument \<Rightarrow> (rp_world, rp_world manager) go" where
  "idle_manager doc w = (Ok \<lparr>m_Create = greturn (), m_Update = greturn (), m_Delete = greturn ()\<rparr>, w)"

theorem handle_deletes_witness:
  "\<exists>w' a'. handle (rp_backend ''u'' idle_manager (\<lambda>w. 1000))
      (busy_doc\<lparr>doc_OpenShiftCluster := set_ProvisioningState ProvisioningStateDeleting (doc_OpenShiftCluster busy_doc)\<rparr>) (False, deleting_world) =
      (Ok (), (False, w'))
    \<and> account_stored (w_clusters w') (''s'', ''id'') = None
    \<and> account_stored (w_async w') (''op'', ''op'') = Some a'
    \<and> ao_ProvisioningState (ad_AsyncOperation a') = ProvisioningStateSucceeded"
proof -
  let ?d = "busy_doc\<lparr>doc_OpenShiftCluster := set_ProvisioningState ProvisioningStateDeleting (doc_OpenShiftCluster busy_doc)\<rparr>"
  have ids: "doc_AsyncOperationID ?d = ''op''" "doc_PartitionKey ?d = ''s''" "doc_ID ?d = ''id''" "doc_Key ?d = doc_Key busy_doc"
    by (simp_all add: busy_doc_def sample_doc_def)
  have "clusters_partitionKey (doc_Key busy_doc) = Ok ''s''" "doc_Key busy_doc = ToLower (doc_Key busy_doc)"
      "account_good cluster_schema (w_clusters deleting_world)" "good_id (doc_ID busy_doc)"
    by code_simp+
  then have c: "only_cluster (w_clusters deleting_world) (doc_Key ?d) ?d"
    using ids by (simp add: only_cluster_def account_select_def deleting_world_def cluster_schema_def where_key)
  have a: "only_operation (w_async deleting_world) (doc_AsyncOperationID ?d) busy_operation"
    using busy_op ids by (simp add: deleting_world_def)
  show ?thesis
    using handle_deletes [where new = idle_manager and now = "\<lambda>w. 1000" and h = False and u = "''u''" and w = deleting_world
        and m = "\<lparr>m_Create = greturn (), m_Update = greturn (), m_Delete = greturn ()\<rparr>", OF _ _ _ c _ a]
    by (auto simp: ids idle_manager_def keeps_identity_def greturn_def)
qed

end
