(* ===== verification/FrontendSpec.thy ===== *)
theory FrontendSpec
  imports Frontend StaticValidation World
begin

text \<open>
  What the front end promises: the contract of an API version (locale \<open>api_version\<close>, discharged for
  2019-12-31-preview), which requests the state of a cluster admits, what a request may change of a stored cluster,
  that no answer carries a secret, and what is written and answered on the provider's database.
\<close>

section \<open>The contract of an API version\<close>

text \<open>The fields of a cluster that no request can set.\<close>

definition hidden :: "OpenShiftCluster \<Rightarrow> string \<times> string \<times> Install option \<times> string \<times> string option \<times> string option \<times> string \<times> ProvisioningState" where
  "hidden oc =
     (let p = oc_Properties oc in
      (spp_TenantID (p_ServicePrincipalProfile p), np_PrivateEndpointIP (p_NetworkProfile p), p_Install p,
       p_StorageSuffix p, p_SSHKey p, p_AdminKubeconfig p, p_KubeadminPassword p, p_FailedProvisioningState p))"

definition secretless :: "OpenShiftCluster \<Rightarrow> bool" where
  "secretless oc \<longleftrightarrow> spp_ClientSecret (p_ServicePrincipalProfile (oc_Properties oc)) = []"

text \<open>Whether no client secret is in the body of an answer.\<close>

definition clean_answer :: "('e \<Rightarrow> string) \<Rightarrow> ('l \<Rightarrow> 'e list) \<Rightarrow> ('e, 'l, 'c) answer \<Rightarrow> bool" where
  "clean_answer secret listed a =
     (case fst a of
        Some (BCluster x) \<Rightarrow> secret x = []
      | Some (BClusters l) \<Rightarrow> list_all (\<lambda>x. secret x = []) (listed l)
      | _ \<Rightarrow> True)"

definition always :: "('a \<Rightarrow> bool) \<Rightarrow> ('w, 'a) go \<Rightarrow> bool" where
  "always P m \<longleftrightarrow> (\<forall>w a w'. m w = (Ok a, w') \<longrightarrow> P a)"

lemma always_retry: "always P m \<Longrightarrow> always P (retry_loop m n)"
  unfolding always_def by (induction n) (auto split: prod.splits if_splits, blast)

locale api_version =
  fixes v :: "('e, 'l, 'c, 'w) version"
    and secret :: "'e \<Rightarrow> string"
    and listed :: "'l \<Rightarrow> 'e list"
  assumes external_internal: "v_ToExternal v (v_ToInternal v x oc) = x"
    and internal_hidden: "hidden (v_ToInternal v x oc) = hidden oc"
    and secret_external: "secret (v_ToExternal v oc) = spp_ClientSecret (p_ServicePrincipalProfile (oc_Properties oc))"
    and external_list: "listed (v_ToExternalList v ocs) = map (v_ToExternal v) ocs"
begin

lemma merge_hidden: "hidden (doc_OpenShiftCluster (merge_doc v isCreate x doc)) = hidden (doc_OpenShiftCluster doc)"
proof -
  have "hidden (set_ProvisioningState s oc) = hidden oc" for s oc
    by (simp add: hidden_def set_ProvisioningState_def Let_def)
  moreover have "hidden (oc\<lparr>oc_ID := i, oc_Name := n, oc_Type := t\<rparr>) = hidden oc" for oc i n t
    by (simp add: hidden_def Let_def)
  moreover have "hidden (oc\<lparr>oc_Properties := (oc_Properties oc)\<lparr>p_ClusterProfile := c\<rparr>\<rparr>) = hidden oc" for oc c
    by (simp add: hidden_def Let_def)
  ultimately show ?thesis
    by (simp add: merge_doc_def Let_def internal_hidden)
qed

lemma merge_identity:
  "oc_ID (doc_OpenShiftCluster (merge_doc v isCreate x doc)) = oc_ID (doc_OpenShiftCluster doc)"
  "oc_Name (doc_OpenShiftCluster (merge_doc v isCreate x doc)) = oc_Name (doc_OpenShiftCluster doc)"
  "oc_Type (doc_OpenShiftCluster (merge_doc v isCreate x doc)) = oc_Type (doc_OpenShiftCluster doc)"
  "doc_ID (merge_doc v isCreate x doc) = doc_ID doc" "doc_Key (merge_doc v isCreate x doc) = doc_Key doc"
  "doc_PartitionKey (merge_doc v isCreate x doc) = doc_PartitionKey doc"
  "doc_ETag (merge_doc v isCreate x doc) = doc_ETag doc"
  by (simp_all add: merge_doc_def Let_def)

lemma merge_state:
  "oc_ProvisioningState (doc_OpenShiftCluster (merge_doc v isCreate x doc)) =
     (if isCreate then ProvisioningStateCreating else ProvisioningStateUpdating)"
  by (simp add: merge_doc_def Let_def)

lemma secret_cleared: "secret (v_ToExternal v (clear_ClientSecret oc)) = []"
  by (simp add: secret_external)

lemma clean_put: "always (clean_answer secret listed) (put_or_patch_OpenShiftCluster f v r)"
  unfolding always_def put_or_patch_OpenShiftCluster_def put_document_def Let_def
  by (auto simp: gbind_eq_Ok clean_answer_def secret_cleared)

lemma clean_get: "always (clean_answer secret listed) (get_OpenShiftCluster f v r)"
  by (auto simp: always_def get_OpenShiftCluster_def gbind_eq_Ok clean_answer_def secret_cleared)

lemma list_loop_cleared:
  "list_loop c n ocs i w = (Ok xs, w') \<Longrightarrow> list_all secretless ocs \<Longrightarrow> list_all secretless xs"
proof (induction n arbitrary: ocs i w)
  case 0
  then show ?case by (simp add: still_running_def)
next
  case (Suc n)
  let ?more = "\<lambda>docs :: OpenShiftClusterDocument Documents. ocs @ map (\<lambda>d. clear_ClientSecret (doc_OpenShiftCluster d)) (ds_Documents docs)"
  from Suc.prems(1) consider (finish) "xs = ocs"
    | (more) docs i1 w1 where "list_loop c n (?more docs) i1 w1 = (Ok xs, w')"
    by (auto split: prod.splits result.splits option.splits)
  then show ?case
  proof cases
    case more
    have "list_all secretless (?more docs)"
      using Suc.prems(2) by (auto simp: list_all_iff secretless_def)
    with more Suc.IH show ?thesis by blast
  qed (use Suc.prems in simp)
qed

lemma clean_list: "always (clean_answer secret listed) (get_OpenShiftClusters f v r)"
  by (auto simp: always_def get_OpenShiftClusters_def gbind_eq_Ok Let_def clean_answer_def external_list list_all_iff
    secret_external secretless_def dest!: list_loop_cleared)

lemma clean_result: "always (clean_answer secret listed) (get_AsyncOperationResult f v r)"
  by (auto simp: always_def get_AsyncOperationResult_def gbind_eq_Ok clean_answer_def secret_cleared
    split: if_splits option.splits prod.splits)

end

section \<open>The version 2019-12-31-preview\<close>

definition preview_version ::
    "statlib \<Rightarrow> string \<Rightarrow> (OpenShiftCluster \<Rightarrow> ('w, unit) go) \<Rightarrow>
     (xOpenShiftCluster, xOpenShiftClusterList, xOpenShiftClusterCredentials, 'w) version" where
  "preview_version L location dynamic = \<lparr>
     v_ToExternal = ToExternal, v_ToExternalList = ToExternalList, v_ToInternal = ToInternal,
     v_Credentials = Credentials_ToExternal, v_Static = Static L location, v_Dynamic = dynamic\<rparr>"

definition x_ClientSecret :: "xOpenShiftCluster \<Rightarrow> string" where
  "x_ClientSecret x = xspp_ClientSecret (xp_ServicePrincipalProfile (x_Properties x))"

interpretation preview: api_version "preview_version L location dynamic" x_ClientSecret xl_OpenShiftClusters
proof
  fix x and oc :: OpenShiftCluster
  show "v_ToExternal (preview_version L location dynamic) (v_ToInternal (preview_version L location dynamic) x oc) = x"
    by (simp add: preview_version_def ToExternal_def ToInternal_def Let_def)
  show "hidden (v_ToInternal (preview_version L location dynamic) x oc) = hidden oc"
    by (simp add: preview_version_def hidden_def ToInternal_def Let_def)
qed (simp_all add: preview_version_def x_ClientSecret_def ToExternal_def ToExternalList_def Let_def)

section \<open>What a request may not see or change\<close>

text \<open>
  C8. No answer carries a client secret. Whatever the database holds and whatever the request is, the body that a PUT or PATCH,
  a GET of one cluster, a GET of a list of clusters or a GET of the result of an operation is answered with has an empty client secret in every
  cluster it contains.
\<close>
theorem no_secret_answered:
  fixes f :: "('b, xOpenShiftCluster, 'w) frontend"
  shows "always (clean_answer x_ClientSecret xl_OpenShiftClusters) (putOrPatchOpenShiftCluster f (preview_version L location dynamic) r)
    \<and> always (clean_answer x_ClientSecret xl_OpenShiftClusters) (get_OpenShiftCluster f (preview_version L location dynamic) r)
    \<and> always (clean_answer x_ClientSecret xl_OpenShiftClusters) (get_OpenShiftClusters f (preview_version L location dynamic) r)
    \<and> always (clean_answer x_ClientSecret xl_OpenShiftClusters) (get_AsyncOperationResult f (preview_version L location dynamic) r)"
  unfolding putOrPatchOpenShiftCluster_def RetryOnPreconditionFailed_def
  by (intro conjI always_retry preview.clean_put preview.clean_get preview.clean_list preview.clean_result)

text \<open>
  What a PUT or PATCH may change of a stored cluster: merging any external cluster into a document keeps the
  document's identity and entity tag, the cluster's ID, name and type, and every field that is not part of the API (tenant,
  private endpoint, installation progress, storage suffix, SSH key, kubeconfig, kubeadmin password); the
  provisioning state is the one the front end chooses, whatever the request says.
\<close>
theorem merge_keeps_hidden:
  "let doc' = merge_doc (preview_version L location dynamic) isCreate x doc in
    hidden (doc_OpenShiftCluster doc') = hidden (doc_OpenShiftCluster doc)
    \<and> (doc_ID doc', doc_Key doc', doc_PartitionKey doc', doc_ETag doc') =
        (doc_ID doc, doc_Key doc, doc_PartitionKey doc, doc_ETag doc)
    \<and> (oc_ID (doc_OpenShiftCluster doc'), oc_Name (doc_OpenShiftCluster doc'), oc_Type (doc_OpenShiftCluster doc')) =
        (oc_ID (doc_OpenShiftCluster doc), oc_Name (doc_OpenShiftCluster doc), oc_Type (doc_OpenShiftCluster doc))
    \<and> oc_ProvisioningState (doc_OpenShiftCluster doc') = (if isCreate then ProvisioningStateCreating else ProvisioningStateUpdating)"
  unfolding Let_def by (simp add: preview.merge_hidden preview.merge_identity preview.merge_state)

section \<open>Which requests the state of a cluster admits\<close>

text \<open>
  The gate of the provisioning state machine: a PUT or PATCH passes exactly when the cluster is Succeeded, or
  Failed while Updating; it then keeps the document but for the failed state, which it clears. A DELETE passes
  exactly in the two terminal states.
\<close>
theorem gate_update_iff:
  "((\<exists>doc'. gate_update doc = Ok doc') \<longleftrightarrow>
      oc_ProvisioningState (doc_OpenShiftCluster doc) = ProvisioningStateSucceeded
      \<or> oc_ProvisioningState (doc_OpenShiftCluster doc) = ProvisioningStateFailed
        \<and> oc_FailedProvisioningState (doc_OpenShiftCluster doc) = ProvisioningStateUpdating)
    \<and> (gate_update doc = Ok doc' \<longleftrightarrow> (\<exists>y. gate_update doc = Ok y) \<and>
        doc' = doc\<lparr>doc_OpenShiftCluster := (if oc_ProvisioningState (doc_OpenShiftCluster doc) = ProvisioningStateFailed
          then set_FailedProvisioningState [] (doc_OpenShiftCluster doc) else doc_OpenShiftCluster doc)\<rparr>)
    \<and> (validateTerminalProvisioningState st = Ok () \<longleftrightarrow> st = ProvisioningStateSucceeded \<or> st = ProvisioningStateFailed)"
  by (auto simp: gate_update_def validateTerminalProvisioningState_def ProvisioningState_defs Let_def)

end
