(* ===== verification/Requests.thy ===== *)
theory Requests
  imports FrontendSpec
begin

text \<open>
  Requests on the provider's database, from the first read to the last write: what the front end stores and answers
  when it accepts a PUT, PATCH or DELETE, what a client polling an operation sees, and which updates of a subscription
  are accepted.
\<close>

section \<open>Steps the handlers share\<close>

text \<open>A front end on the provider's database whose next operation identifier is \<open>i\<close>.\<close>

definition serves :: "('b, 'e, rp_world) frontend \<Rightarrow> string \<Rightarrow> rp_world \<Rightarrow> string \<Rightarrow> bool" where
  "serves f u w i \<longleftrightarrow>
     f_db f = rp_database u \<and> account_good async_schema (w_async w) \<and> i = ToLower i
     \<and> account_stored (w_async w) (i, i) = None"

definition allowed_in :: "rp_world \<Rightarrow> string \<Rightarrow> SubscriptionState list \<Rightarrow> SubscriptionDocument \<Rightarrow> bool" where
  "allowed_in w key states sd \<longleftrightarrow>
     (\<exists>res. ParseResourceID key = Ok res \<and> only_subscription (w_subs w) (r_SubscriptionID res) sd
        \<and> s_State (sd_Subscription sd) \<in> set states)"

lemma validate_allowed:
  assumes "serves f u w i" "allowed_in w key states sd"
  shows "validateSubscriptionState f key states w = (Ok sd, w)"
  using assms by (auto simp: validateSubscriptionState_def serves_def allowed_in_def rp_Get_subscription)

lemma new_operation:
  assumes "serves f u w i" "f_newUUID f w = (i, w\<lparr>w_random := k\<rparr>)"
  shows "\<exists>s'. newAsyncOperation f r doc w = (Ok i, put_async s' (w\<lparr>w_random := k\<rparr>))
    \<and> account_stored s' (i, i) = Some ((new_operation_doc f r i (f_now f (w\<lparr>w_random := k\<rparr>)) doc)\<lparr>ad_ETag := nth_tag (ac_next (w_async w))\<rparr>)"
proof -
  let ?a = "new_operation_doc f r i (f_now f (w\<lparr>w_random := k\<rparr>)) doc"
  have "ad_ID ?a = i" by (simp add: new_operation_doc_def)
  with rp_Create_operation [of "w\<lparr>w_random := k\<rparr>" ?a u] assms show ?thesis
    by (auto simp: newAsyncOperation_def serves_def)
qed

lemma new_operation_sels:
  "ao_InitialProvisioningState (ad_AsyncOperation (new_operation_doc f r i now doc)) = oc_ProvisioningState (doc_OpenShiftCluster doc)"
  "ao_ProvisioningState (ad_AsyncOperation (new_operation_doc f r i now doc)) = oc_ProvisioningState (doc_OpenShiftCluster doc)"
  "ao_EndTime (ad_AsyncOperation (new_operation_doc f r i now doc)) = None"
  "ad_OpenShiftClusterKey (new_operation_doc f r i now doc) = doc_Key doc"
  by (simp_all add: new_operation_doc_def)

section \<open>Deleting\<close>

text \<open>
  C6. An accepted DELETE: on a cluster in a terminal state, in a subscription that is registered, warned or suspended, the
  front end answers 202 with the location of the operation's result, the stored cluster is Deleting with the new
  operation attached and its dequeue count reset, and the operation is stored, in progress, for that cluster.
\<close>
theorem delete_accepted:
  assumes f: "serves f u w i" "f_newUUID f w = (i, w\<lparr>w_random := k\<rparr>)"
    and sub: "allowed_in w (r_Path r) [SubscriptionStateRegistered, SubscriptionStateWarned, SubscriptionStateSuspended] sd"
    and c: "only_cluster (w_clusters w) (r_Path r) d"
      "oc_ProvisioningState (doc_OpenShiftCluster d) \<in> {ProvisioningStateSucceeded, ProvisioningStateFailed}"
    and url: "\<And>p. f_urlWithPath f (Header_Get (r_Header r) ''Referer'') p = Ok (url p)"
  shows "\<exists>hs w' d' a. deleteOpenShiftCluster f r (h, w) = (Ok (None, Some 202), (hs, w'))
    \<and> (''Location'', [url (operationResultsPath f r i)]) \<in> set hs
    \<and> account_stored (w_clusters w') (doc_PartitionKey d, doc_ID d) = Some d'
    \<and> doc_OpenShiftCluster d' = set_ProvisioningState ProvisioningStateDeleting (doc_OpenShiftCluster d)
    \<and> doc_AsyncOperationID d' = i \<and> doc_Dequeues d' = 0
    \<and> account_stored (w_async w') (i, i) = Some a
    \<and> ao_ProvisioningState (ad_AsyncOperation a) = ProvisioningStateDeleting \<and> ao_EndTime (ad_AsyncOperation a) = None
    \<and> ad_OpenShiftClusterKey a = doc_Key d"
proof -
  let ?d = "d\<lparr>doc_OpenShiftCluster := set_ProvisioningState ProvisioningStateDeleting (doc_OpenShiftCluster d), doc_Dequeues := 0\<rparr>"
  let ?d' = "?d\<lparr>doc_AsyncOperationID := i\<rparr>"
  let ?w = "w\<lparr>w_random := k\<rparr>"
  note key = only_clusterD(2) [OF c(1)]
  from new_operation [OF f, of r ?d] obtain s1 where
    s1: "newAsyncOperation f r ?d w = (Ok i, put_async s1 ?w)"
      "account_stored s1 (i, i) = Some ((new_operation_doc f r i (f_now f ?w) ?d)\<lparr>ad_ETag := nth_tag (ac_next (w_async w))\<rparr>)"
    by blast
  let ?w1 = "put_async s1 ?w"
  define hs where "hs = [(''Location'', [url (operationResultsPath f r i)])] @
    (if f_FEATURE_OPERATIONS f then [(''Azure-AsyncOperation'', [url (operationsPath f r i)])] else [])"
  have body: "delete_OpenShiftCluster f r d (h, w) = (Ok ?d', (hs, ?w1))"
    using validate_allowed [OF f(1) sub] c(2) s1(1) url key
    by (auto simp: delete_OpenShiftCluster_def validateTerminalProvisioningState_def gbind_def hs_def Let_def)
  have "only_cluster (w_clusters ?w1) (r_Path r) d" using c(1) by simp
  moreover have "keeps_identity d ?d'" by (simp add: keeps_identity_def)
  ultimately obtain s2 where s2:
    "clusters_update (rp_clusters u) ?d' None ?w1 =
      (Ok (Some (account_commit cluster_schema (w_clusters w) [] ?d')), put_clusters s2 ?w1)"
    "account_stored s2 (doc_PartitionKey d, doc_ID d) = Some (account_commit cluster_schema (w_clusters w) [] ?d')"
    using rp_update_cluster [where u = u and o' = None, of "?w1" "r_Path r" d ?d'] by (auto simp: triggers_of_def)
  have "clusters_Patch (rp_clusters u) (r_Path r) (delete_OpenShiftCluster f r) (h, w) =
      (Ok (Some (account_commit cluster_schema (w_clusters w) [] ?d')), (hs, put_clusters s2 ?w1))"
    unfolding clusters_Patch_def by (rule patch_once [where f = "delete_OpenShiftCluster f r", OF rp_Get_cluster [OF c(1)] body s2(1)])
  with f(1) have "deleteOpenShiftCluster f r (h, w) = (Ok (None, Some 202), (hs, put_clusters s2 ?w1))"
    by (simp add: deleteOpenShiftCluster_def serves_def)
  with s1(2) s2(2) show ?thesis
    by (intro exI [of _ hs] exI [of _ "put_clusters s2 ?w1"]) (simp add: hs_def new_operation_sels)
qed

definition sample_sub :: string where
  "sample_sub = ''01234567-89ab-cdef-0123-456789abcdef''"

definition idle_cluster :: OpenShiftCluster where
  "idle_cluster = set_ProvisioningState ProvisioningStateSucceeded (ToInternal sample_cluster zero_OpenShiftCluster)"

definition idle_doc :: OpenShiftClusterDocument where
  "idle_doc = zero_OpenShiftClusterDocument\<lparr>doc_ID := ''id'', doc_Key := sample_resourceID, doc_PartitionKey := sample_sub,
     doc_ETag := nth_tag 0, doc_OpenShiftCluster := idle_cluster\<rparr>"

definition registered :: SubscriptionDocument where
  "registered = zero_SubscriptionDocument\<lparr>sd_ID := sample_sub, sd_ETag := nth_tag 0,
     sd_Subscription := (sd_Subscription zero_SubscriptionDocument)\<lparr>s_State := SubscriptionStateRegistered,
       s_Properties := Some \<lparr>sp_MissingFields = None, sp_TenantID = ''tenant''\<rparr>\<rparr>\<rparr>"

definition idle_world :: rp_world where
  "idle_world = \<lparr>
     w_clusters = \<lparr>ac_docs = [((sample_sub, ''id''), idle_doc)], ac_next = 1, ac_now = 1000\<rparr>,
     w_subs = \<lparr>ac_docs = [((sample_sub, sample_sub), registered)], ac_next = 1, ac_now = 1000\<rparr>,
     w_async = \<lparr>ac_docs = [], ac_next = 0, ac_now = 1000\<rparr>, w_random = 0\<rparr>"

definition sample_frontend :: "(xOpenShiftCluster, xOpenShiftCluster, rp_world) frontend" where
  "sample_frontend = \<lparr>f_db = rp_database ''u'', f_location = ''location'', f_Unmarshal = (\<lambda>b t. Ok (Some b)),
     f_DecodeSubscription = (\<lambda>b. Err (ExternalErr ''json'')), f_ValidJSON = (\<lambda>b. True), f_emptyBody = (\<lambda>b. False),
     f_urlWithPath = (\<lambda>r p. Ok p), f_FEATURE_OPERATIONS = True, f_newUUID = (\<lambda>w. (''op'', w\<lparr>w_random := 1\<rparr>)), f_now = (\<lambda>w. 1000),
     f_ready = True, f_env_IsReady = True\<rparr>"

definition sample_request :: "string \<Rightarrow> xOpenShiftCluster request" where
  "sample_request m = \<lparr>r_Method = m, r_Path = sample_resourceID, r_OriginalPath = sample_resourceID,
     r_Vars = [(''subscriptionId'', sample_sub), (''resourceProviderNamespace'', ''microsoft.redhatopenshift'')],
     r_Header = [], r_Body = ToExternal idle_cluster\<rparr>"

lemma sample_sels [simp]:
  "f_urlWithPath sample_frontend r p = Ok p" "f_newUUID sample_frontend w = (''op'', w\<lparr>w_random := 1\<rparr>)"
  "f_Unmarshal sample_frontend b t = Ok (Some b)"
  "r_Path (sample_request m) = sample_resourceID" "r_Method (sample_request m) = m" "r_Body (sample_request m) = ToExternal idle_cluster"
  "doc_PartitionKey idle_doc = sample_sub" "doc_ID idle_doc = ''id''" "doc_OpenShiftCluster idle_doc = idle_cluster"
  "doc_Key idle_doc = sample_resourceID" "oc_ProvisioningState idle_cluster = ProvisioningStateSucceeded"
  by (simp_all add: sample_frontend_def sample_request_def idle_doc_def idle_cluster_def)

lemma sample_key:
  "clusters_partitionKey sample_resourceID = Ok sample_sub" "sample_resourceID = ToLower sample_resourceID"
  "sample_sub \<noteq> []" "sample_sub = ToLower sample_sub" "good_id sample_sub" "good_id ''id''" "''op'' = ToLower ''op''"
  by code_simp+

lemma idle_good:
  "account_good async_schema (w_async idle_world)" "account_good subscription_schema (w_subs idle_world)"
  "account_good cluster_schema (w_clusters idle_world)"
  by code_simp+

lemma idle_serves: "serves sample_frontend ''u'' idle_world ''op''"
  using idle_good sample_key by (simp add: serves_def sample_frontend_def idle_world_def account_stored_def)

lemma idle_allowed:
  assumes "SubscriptionStateRegistered \<in> set states"
  shows "allowed_in idle_world sample_resourceID states registered"
proof -
  from sample_key(1) obtain res where "ParseResourceID sample_resourceID = Ok res" "r_SubscriptionID res = sample_sub"
    by (auto simp: clusters_partitionKey_def rbind_eq_Ok)
  moreover have "only_subscription (w_subs idle_world) sample_sub registered"
    using idle_good sample_key by (simp add: only_subscription_def idle_world_def account_stored_def)
  ultimately show ?thesis using assms by (auto simp: allowed_in_def registered_def)
qed

lemma idle_only: "only_cluster (w_clusters idle_world) sample_resourceID idle_doc"
  using idle_good sample_key by (simp add: only_cluster_def account_select_def idle_world_def cluster_schema_def where_key)

type_synonym preview_answer = "(xOpenShiftCluster, xOpenShiftClusterList, xOpenShiftClusterCredentials) answer"

theorem delete_accepted_witness:
  "\<exists>hs w' d'. deleteOpenShiftCluster sample_frontend (sample_request MethodDelete) ([], idle_world) =
      (Ok (None, Some 202) :: preview_answer result, (hs, w'))
    \<and> account_stored (w_clusters w') (sample_sub, ''id'') = Some d'
    \<and> oc_ProvisioningState (doc_OpenShiftCluster d') = ProvisioningStateDeleting \<and> doc_AsyncOperationID d' = ''op''"
proof -
  let ?r = "sample_request MethodDelete"
  obtain hs w' d' where "deleteOpenShiftCluster sample_frontend ?r ([], idle_world) = (Ok (None, Some 202) :: preview_answer result, (hs, w'))"
    "account_stored (w_clusters w') (sample_sub, ''id'') = Some d'"
    "doc_OpenShiftCluster d' = set_ProvisioningState ProvisioningStateDeleting idle_cluster"
    "doc_AsyncOperationID d' = ''op''"
    using delete_accepted [where h = "[]" and k = 1 and url = "\<lambda>p. p" and r = ?r and sd = registered
        and d = idle_doc, OF idle_serves] idle_allowed idle_only by auto
  then show ?thesis by fastforce
qed

section \<open>Creating and updating\<close>

text \<open>A body that the version accepts for a document, as the external cluster \<open>x\<close>.\<close>

definition valid_body ::
    "('b, 'e, 'w) frontend \<Rightarrow> ('e, 'l, 'c, 'w) version \<Rightarrow> 'b request \<Rightarrow> bool \<Rightarrow> OpenShiftClusterDocument \<Rightarrow> 'e \<Rightarrow> 'w \<Rightarrow> bool" where
  "valid_body f v r isCreate doc x w \<longleftrightarrow>
     (\<exists>target. decode_target v (r_Method r) (doc_OpenShiftCluster doc) = Ok target \<and> f_Unmarshal f (r_Body r) target = Ok (Some x))
     \<and> v_Static v (r_Path r) x (if isCreate then None else Some (doc_OpenShiftCluster doc)) = Ok ()
     \<and> v_Dynamic v (doc_OpenShiftCluster (merge_doc v isCreate x doc)) w = (Ok (), w)"

lemma put_from_gate:
  assumes gate: "gate_update doc0 = Ok doc" and body: "valid_body f v r isCreate doc x w"
    and op: "newAsyncOperation f r (merge_doc v isCreate x doc) w = (Ok i, w1)"
    and url: "\<And>p. f_urlWithPath f (Header_Get (r_Header r) ''Referer'') p = Ok (url p)"
    and save: "save_doc (db_OpenShiftClusters (f_db f)) isCreate ((merge_doc v isCreate x doc)\<lparr>doc_AsyncOperationID := i\<rparr>) w1 = (Ok doc', w2)"
  shows "put_document f v r isCreate doc0 (h, w) =
    (Ok (Some (BCluster (v_ToExternal v (clear_ClientSecret (doc_OpenShiftCluster doc')))), if isCreate then Some 201 else None),
     (if f_FEATURE_OPERATIONS f then [(''Azure-AsyncOperation'', [url (operationsPath f r i)])] else h, w2))"
proof -
  from body obtain target where "decode_target v (r_Method r) (doc_OpenShiftCluster doc) = Ok target"
      "unmarshal_body f (r_Body r) target = Ok x"
    by (auto simp: valid_body_def unmarshal_body_def)
  with assms show ?thesis
    unfolding put_document_def Let_def by (simp add: valid_body_def)
qed

text \<open>
  C5. An accepted PUT or PATCH of an existing cluster: in a registered subscription, for a cluster the gate admits and a body that passes
  validation, the front end answers with the merged cluster without its secret, the stored cluster is that cluster in state Updating with the
  new operation attached, and the operation is stored, in progress, for it.
\<close>
theorem put_update_accepted:
  assumes f: "serves f u w i" "f_newUUID f w = (i, w\<lparr>w_random := k\<rparr>)"
    and sub: "allowed_in w (r_Path r) [SubscriptionStateRegistered] sd"
    and c: "only_cluster (w_clusters w) (r_Path r) d" "gate_update d = Ok d1"
    and body: "valid_body f v r False d1 x w"
    and url: "\<And>p. f_urlWithPath f (Header_Get (r_Header r) ''Referer'') p = Ok (url p)"
  shows "\<exists>hs w' d' a. putOrPatchOpenShiftCluster f v r (h, w) =
      (Ok (Some (BCluster (v_ToExternal v (clear_ClientSecret (doc_OpenShiftCluster d')))), None), (hs, w'))
    \<and> account_stored (w_clusters w') (doc_PartitionKey d, doc_ID d) = Some d'
    \<and> doc_OpenShiftCluster d' = doc_OpenShiftCluster (merge_doc v False x d1)
    \<and> oc_ProvisioningState (doc_OpenShiftCluster d') = ProvisioningStateUpdating
    \<and> doc_AsyncOperationID d' = i \<and> doc_Dequeues d' = 0
    \<and> account_stored (w_async w') (i, i) = Some a
    \<and> ao_ProvisioningState (ad_AsyncOperation a) = ProvisioningStateUpdating \<and> ao_EndTime (ad_AsyncOperation a) = None
    \<and> ad_OpenShiftClusterKey a = doc_Key d"
proof -
  let ?m = "merge_doc v False x d1"
  let ?d = "?m\<lparr>doc_AsyncOperationID := i\<rparr>"
  let ?w = "w\<lparr>w_random := k\<rparr>"
  from new_operation [OF f, of r ?m] obtain s1 where
    s1: "newAsyncOperation f r ?m w = (Ok i, put_async s1 ?w)"
      "account_stored s1 (i, i) = Some ((new_operation_doc f r i (f_now f ?w) ?m)\<lparr>ad_ETag := nth_tag (ac_next (w_async w))\<rparr>)"
    by blast
  let ?w1 = "put_async s1 ?w"
  have d1: "keeps_identity d d1" using c(2) by (auto simp: gate_update_def keeps_identity_def Let_def rbind_eq_Ok split: if_splits)
  then have m: "keeps_identity d ?d" "doc_Dequeues ?m = 0" "oc_ProvisioningState (doc_OpenShiftCluster ?m) = ProvisioningStateUpdating"
    by (simp_all add: keeps_identity_def merge_doc_def Let_def)
  have "only_cluster (w_clusters ?w1) (r_Path r) d" using c(1) by simp
  from rp_update_cluster [OF this m(1), where o' = None and u = u] obtain s2 where s2:
    "clusters_update (rp_clusters u) ?d None ?w1 =
      (Ok (Some (account_commit cluster_schema (w_clusters w) [] ?d)), put_clusters s2 ?w1)"
    "account_stored s2 (doc_PartitionKey d, doc_ID d) = Some (account_commit cluster_schema (w_clusters w) [] ?d)"
    by (auto simp: triggers_of_def)
  from f(1) s2(1) have save: "save_doc (db_OpenShiftClusters (f_db f)) False ?d ?w1 =
      (Ok (account_commit cluster_schema (w_clusters w) [] ?d), put_clusters s2 ?w1)"
    by (simp add: save_doc_def clusters_Update_def serves_def)
  have "find_cluster f r w = (Ok (Some d), w)"
    using rp_Get_cluster [OF c(1), of u] f(1) by (simp add: find_cluster_def serves_def)
  with validate_allowed [OF f(1) sub] put_from_gate [OF c(2) body s1(1) url save, of h]
  have "put_or_patch_OpenShiftCluster f v r (h, w) =
    (Ok (Some (BCluster (v_ToExternal v (clear_ClientSecret (doc_OpenShiftCluster (account_commit cluster_schema (w_clusters w) [] ?d))))), None),
     (if f_FEATURE_OPERATIONS f then [(''Azure-AsyncOperation'', [url (operationsPath f r i)])] else h, put_clusters s2 ?w1))"
    by (simp add: put_or_patch_OpenShiftCluster_def)
  then have "putOrPatchOpenShiftCluster f v r (h, w) =
    (Ok (Some (BCluster (v_ToExternal v (clear_ClientSecret (doc_OpenShiftCluster (account_commit cluster_schema (w_clusters w) [] ?d))))), None),
     (if f_FEATURE_OPERATIONS f then [(''Azure-AsyncOperation'', [url (operationsPath f r i)])] else h, put_clusters s2 ?w1))"
    unfolding putOrPatchOpenShiftCluster_def by (rule retry_not_412) simp
  with s1(2) s2(2) m d1 show ?thesis
    by - (rule exI, rule exI [of _ "put_clusters s2 ?w1"], rule exI [of _ "account_commit cluster_schema (w_clusters w) [] ?d"],
      simp add: new_operation_sels keeps_identity_def)
qed

text \<open>A dynamic validator that accepts.\<close>

definition sample_version :: "(xOpenShiftCluster, xOpenShiftClusterList, xOpenShiftClusterCredentials, rp_world) version" where
  "sample_version = preview_version sample_lib ''location'' (\<lambda>oc w. (Ok (), w))"

lemma idle_body: "valid_body sample_frontend sample_version (sample_request MethodPatch) False idle_doc (ToExternal idle_cluster) idle_world"
proof -
  have "Static sample_lib ''location'' sample_resourceID (ToExternal idle_cluster) (Some idle_cluster) = Ok ()" by code_simp
  then show ?thesis
    by (simp add: valid_body_def sample_version_def preview_version_def decode_target_def Method_defs)
qed

theorem put_update_accepted_witness:
  "\<exists>hs w' d'. putOrPatchOpenShiftCluster sample_frontend sample_version (sample_request MethodPatch) ([], idle_world) =
      (Ok (Some (BCluster (v_ToExternal sample_version (clear_ClientSecret (doc_OpenShiftCluster d')))), None), (hs, w'))
    \<and> account_stored (w_clusters w') (sample_sub, ''id'') = Some d'
    \<and> oc_ProvisioningState (doc_OpenShiftCluster d') = ProvisioningStateUpdating \<and> doc_AsyncOperationID d' = ''op''"
proof -
  have g: "gate_update idle_doc = Ok idle_doc"
    by (simp add: gate_update_def validateTerminalProvisioningState_def ProvisioningState_defs Let_def)
  show ?thesis
    using put_update_accepted [where h = "[]" and k = 1 and url = "\<lambda>p. p" and sd = registered and f = sample_frontend and u = "''u''"
        and v = sample_version and i = "''op''" and x = "ToExternal idle_cluster" and r = "sample_request MethodPatch"
        and w = idle_world, OF idle_serves _ _ _ g idle_body] idle_allowed idle_only by fastforce
qed


definition empty_world :: rp_world where
  "empty_world = idle_world\<lparr>w_clusters := \<lparr>ac_docs = [], ac_next = 0, ac_now = 1000\<rparr>\<rparr>"


section \<open>Polling an operation\<close>

text \<open>What a client may see of an operation: while it is attached to its cluster, its initial state and no outcome.\<close>

definition visible_operation :: "bool \<Rightarrow> AsyncOperation \<Rightarrow> AsyncOperation" where
  "visible_operation attached ao =
     (if attached
      then ao\<lparr>ao_ProvisioningState := ao_InitialProvisioningState ao, ao_EndTime := None, ao_Error := None,
              ao_MissingFields := None, ao_InitialProvisioningState := []\<rparr>
      else ao\<lparr>ao_MissingFields := None, ao_InitialProvisioningState := []\<rparr>)"

text \<open>
  C9. The outcome of an operation is not shown before it is committed: polling the status of an operation answers, whatever
  the operation document already says, the initial state with no end time and no error as long as the operation is
  attached to its cluster, and the recorded outcome once it is detached; and the result is
  not handed out (202) before that, then the cluster without its secret, or 204 if the operation has no cluster.
\<close>
theorem operation_polled:
  assumes f: "f_db f = rp_database u"
    and a: "only_operation (w_async w) (var r ''operationId'') a"
    and c: "only_cluster (w_clusters w) (ad_OpenShiftClusterKey a) d"
  shows "get_AsyncOperationsStatus f r w =
      (Ok (Some (BOperation (visible_operation (doc_AsyncOperationID d = var r ''operationId'') (ad_AsyncOperation a))), None), w)
    \<and> fst (get_AsyncOperationResult f v r (h, w)) =
      Ok (if doc_AsyncOperationID d = var r ''operationId'' then (None, Some 202)
          else case ad_OpenShiftCluster a of
                 None \<Rightarrow> (None, Some 204)
               | Some oc \<Rightarrow> (Some (BCluster (v_ToExternal v (clear_ClientSecret oc))), None))"
proof -
  have "read_operation f r w = (Ok (a, Some d), w)"
    using rp_Get_operation [OF a, of u] rp_Get_cluster [OF c, of u]
    by (simp add: read_operation_def on_404_def f)
  then show ?thesis
    by (simp add: get_AsyncOperationsStatus_def get_AsyncOperationResult_def in_progress_def visible_operation_def Let_def
      split: option.splits)
qed

definition polling :: "unit request" where
  "polling = \<lparr>r_Method = MethodGet, r_Path = [], r_OriginalPath = [], r_Vars = [(''operationId'', ''op'')], r_Header = [], r_Body = ()\<rparr>"

definition polled_frontend :: "(unit, xOpenShiftCluster, rp_world) frontend" where
  "polled_frontend = \<lparr>f_db = rp_database ''u'', f_location = [], f_Unmarshal = (\<lambda>b t. Ok None),
     f_DecodeSubscription = (\<lambda>b. Ok None), f_ValidJSON = (\<lambda>b. True), f_emptyBody = (\<lambda>b. True),
     f_urlWithPath = (\<lambda>r p. Ok p), f_FEATURE_OPERATIONS = True, f_newUUID = (\<lambda>w. ([], w)), f_now = (\<lambda>w. 0),
     f_ready = True, f_env_IsReady = True\<rparr>"

theorem operation_polled_witness:
  "get_AsyncOperationsStatus polled_frontend polling busy_world =
     (Ok (Some (BOperation (visible_operation True (ad_AsyncOperation busy_operation))), None) :: preview_answer result, busy_world)"
proof -
  have v: "var polling ''operationId'' = ''op''" by (simp add: var_def polling_def)
  have k: "ad_OpenShiftClusterKey busy_operation = doc_Key busy_doc" "doc_AsyncOperationID busy_doc = ''op''"
    by (simp_all add: busy_operation_def busy_doc_def)
  have "f_db polled_frontend = rp_database ''u''" by (simp add: polled_frontend_def)
  from operation_polled [where v = sample_version and h = "[]" and r = polling and w = busy_world and a = busy_operation
      and d = busy_doc, OF this, unfolded v k, OF busy_op busy_cluster, THEN conjunct1]
  show ?thesis by simp
qed

section \<open>Subscriptions\<close>

text \<open>
  The life of a subscription: an update is accepted exactly when the new state is one of the five known states and a
  deleted subscription stays deleted; the flag that queues the removal of its clusters is set exactly by the update to
  Deleted and never cleared, and a refused update is a bad request.
\<close>
theorem subscription_update:
  "((\<exists>doc'. update_subscription sub doc = Ok doc') \<longleftrightarrow>
      s_State sub \<in> {SubscriptionStateRegistered, SubscriptionStateUnregistered, SubscriptionStateWarned,
        SubscriptionStateSuspended, SubscriptionStateDeleted}
      \<and> \<not> (s_State (sd_Subscription doc) = SubscriptionStateDeleted \<and> s_State sub \<noteq> SubscriptionStateDeleted))
    \<and> (case update_subscription sub doc of
         Ok doc' \<Rightarrow> doc' = doc\<lparr>sd_Subscription := sub, sd_Deleting := sd_Deleting doc \<or> s_State sub = SubscriptionStateDeleted\<rparr>
       | Err e \<Rightarrow> \<exists>body. e = CloudErr 400 body
       | Panic p \<Rightarrow> False)"
  by (auto simp: update_subscription_def Let_def SubscriptionState_defs NewCloudError_def)

end
