(* ===== verification/Lifecycle.thy ===== *)
theory Lifecycle
  imports Requests
begin

text \<open>
  The life of a cluster, as an abstract transition system, and the proof that the provider implements it. The abstract state of
  the provider gives every cluster document a stage of life. The requests of the front end, the workers of the back end for
  clusters and for subscriptions, heartbeats and the passing of time are events on the provider's database; each of them, run from its first
  read to its last write, takes the stored clusters through steps of the abstract system only.
\<close>

section \<open>The abstract system\<close>

datatype task = Create | Update | Delete

datatype life = Absent | Busy task | Ready | Broken task

inductive life_step :: "life \<Rightarrow> life \<Rightarrow> bool" where
  create: "life_step Absent (Busy Create)"
| update: "life_step Ready (Busy Update)"
| update_again: "life_step (Broken Update) (Busy Update)"
| delete: "life_step Ready (Busy Delete)"
| delete_broken: "life_step (Broken t) (Busy Delete)"
| finish: "t \<noteq> Delete \<Longrightarrow> life_step (Busy t) Ready"
| fail: "life_step (Busy t) (Broken t)"
| gone: "life_step (Busy Delete) Absent"
| gone_late: "life_step (Broken Delete) Absent"

inductive_simps life_step_simps [simp]:
  "life_step Absent l" "life_step (Busy t) l" "life_step Ready l" "life_step (Broken t) l"

text \<open>All clusters together: one of them takes a step.\<close>

definition cluster_step :: "('i \<Rightarrow> life) \<Rightarrow> ('i \<Rightarrow> life) \<Rightarrow> bool" where
  "cluster_step L L' \<longleftrightarrow> (\<exists>i l. life_step (L i) l \<and> L' = L(i := l))"

abbreviation cluster_steps :: "('i \<Rightarrow> life) \<Rightarrow> ('i \<Rightarrow> life) \<Rightarrow> bool" where
  "cluster_steps \<equiv> cluster_step\<^sup>*\<^sup>*"

lemma cluster_steps_upd: "L i = l \<or> life_step (L i) l \<Longrightarrow> cluster_steps L (L(i := l))"
proof (elim disjE)
  assume "life_step (L i) l"
  then have "cluster_step L (L(i := l))" unfolding cluster_step_def by blast
  then show ?thesis by simp
qed auto

section \<open>The stage of a stored cluster\<close>

definition task_of :: "ProvisioningState \<Rightarrow> task" where
  "task_of st = (if st = ProvisioningStateCreating then Create else if st = ProvisioningStateUpdating then Update else Delete)"

definition tasks :: "ProvisioningState list" where
  "tasks = [ProvisioningStateCreating, ProvisioningStateUpdating, ProvisioningStateDeleting]"

definition stage :: "OpenShiftCluster \<Rightarrow> life" where
  "stage oc =
     (if oc_ProvisioningState oc = ProvisioningStateSucceeded then Ready
      else if oc_ProvisioningState oc = ProvisioningStateFailed then Broken (task_of (oc_FailedProvisioningState oc))
      else Busy (task_of (oc_ProvisioningState oc)))"

text \<open>The states the provider gives to a cluster.\<close>

definition known_state :: "OpenShiftCluster \<Rightarrow> bool" where
  "known_state oc \<longleftrightarrow>
     oc_ProvisioningState oc \<in> set (ProvisioningStateSucceeded # tasks)
     \<or> oc_ProvisioningState oc = ProvisioningStateFailed \<and> oc_FailedProvisioningState oc \<in> set tasks"

abbreviation life_of :: "OpenShiftClusterDocument \<Rightarrow> life" where
  "life_of d \<equiv> stage (doc_OpenShiftCluster d)"

abbreviation legal_state :: "OpenShiftClusterDocument \<Rightarrow> bool" where
  "legal_state d \<equiv> known_state (doc_OpenShiftCluster d)"

definition filed :: "(string \<times> string) \<times> OpenShiftClusterDocument \<Rightarrow> bool" where
  "filed e = (case e of ((pk, i), d) \<Rightarrow>
     doc_PartitionKey d = pk \<and> clusters_partitionKey (doc_Key d) = Ok pk \<and> doc_Key d = ToLower (doc_Key d) \<and> good_id i \<and> legal_state d)"

text \<open>
  The invariant of the collection: every document is filed under the partition of its key and under its own identifier, its key is in
  lower case, and it is in a known state.
\<close>

definition clusters_good :: "OpenShiftClusterDocument account \<Rightarrow> bool" where
  "clusters_good s \<longleftrightarrow> account_good cluster_schema s \<and> list_all filed (ac_docs s)"

definition lives :: "OpenShiftClusterDocument account \<Rightarrow> string \<times> string \<Rightarrow> life" where
  "lives s i = (case account_stored s i of None \<Rightarrow> Absent | Some d \<Rightarrow> life_of d)"

lemma clusters_good_iff:
  "clusters_good s \<longleftrightarrow> account_good cluster_schema s \<and> (\<forall>i d. account_stored s i = Some d \<longrightarrow> filed (i, d))"
proof (cases "account_good cluster_schema s")
  case True
  then have "distinct (map fst (ac_docs s))" by (simp add: account_good_def)
  then have "(i, d) \<in> set (ac_docs s) \<longleftrightarrow> account_stored s i = Some d" for i d
    by (simp add: account_stored_def)
  then show ?thesis by (auto simp: clusters_good_def list_all_iff)
qed (simp add: clusters_good_def)

lemma stored_filed:
  assumes "clusters_good s" "account_stored s (pk, i) = Some d"
  shows "doc_ID d = i" "doc_PartitionKey d = pk" "filed ((pk, i), d)"
  using assms account_goodD(1) [of cluster_schema s pk i d] by (auto simp: clusters_good_iff filed_def)

lemma listed_stored:
  assumes "clusters_good s" "((pk, i), d) \<in> set (ac_docs s)"
  shows "account_stored s (doc_PartitionKey d, doc_ID d) = Some d"
proof -
  from assms have "account_stored s (pk, i) = Some d"
    by (simp add: clusters_good_def account_good_def account_stored_def)
  with stored_filed [OF assms(1) this] show ?thesis by simp
qed

section \<open>Writing\<close>

text \<open>What a write of a document does to the stages: it replaces a stored document, and the stage with it.\<close>

definition evolves :: "OpenShiftClusterDocument \<Rightarrow> OpenShiftClusterDocument \<Rightarrow> bool" where
  "evolves d d' \<longleftrightarrow> doc_ID d' = doc_ID d \<and> doc_Key d' = doc_Key d \<and> doc_PartitionKey d' = doc_PartitionKey d
     \<and> legal_state d' \<and> (life_of d' = life_of d \<or> life_step (life_of d) (life_of d'))"

definition reaches :: "OpenShiftClusterDocument account \<Rightarrow> OpenShiftClusterDocument account \<Rightarrow> bool" where
  "reaches s s' \<longleftrightarrow> clusters_good s' \<and> cluster_steps (lives s) (lives s')"

lemma reaches_refl [simp]: "clusters_good s \<Longrightarrow> reaches s s"
  by (simp add: reaches_def)

lemma reaches_trans [trans]: "reaches s s' \<Longrightarrow> reaches s' s'' \<Longrightarrow> reaches s s''"
  by (auto simp: reaches_def)

lemma reaches_good: "reaches s s' \<Longrightarrow> clusters_good s'"
  by (simp add: reaches_def)

lemma reaches_upd:
  assumes "clusters_good s" "account_good cluster_schema s'" "account_stored s' = (account_stored s)(i := x)"
    and "\<forall>d. x = Some d \<longrightarrow> filed (i, d)"
    and "lives s i = l \<or> life_step (lives s i) l" and "l = (case x of None \<Rightarrow> Absent | Some d \<Rightarrow> life_of d)"
  shows "reaches s s'"
proof -
  have "lives s' = (lives s)(i := l)" using assms(3,6) by (auto simp: lives_def)
  with cluster_steps_upd [of "lives s" i l] assms(5) have "cluster_steps (lives s) (lives s')" by simp
  moreover have "clusters_good s'" using assms(1-4) by (auto simp: clusters_good_iff)
  ultimately show ?thesis by (simp add: reaches_def)
qed

lemma replace_reaches:
  assumes "clusters_good s" "account_stored s (doc_PartitionKey d, doc_ID d) = Some d" "evolves d d'" "plain_options o'"
  shows "reaches s (snd (c_Replace (account_docs cluster_schema) (doc_PartitionKey d') d' o' s))"
proof -
  note filed = stored_filed [OF assms(1,2)]
  from assms(1) have good: "account_good cluster_schema s" by (simp add: clusters_good_def)
  have id': "good_id (doc_ID d')" "doc_ID d' = doc_ID d" "doc_PartitionKey d' = doc_PartitionKey d"
    using assms(3) filed(3) by (auto simp: evolves_def filed_def)
  from id'(1) have "good_id (sc_ID cluster_schema d')" by simp
  with good show ?thesis using assms(4)
  proof (cases rule: cluster_store.replace_cases [where pk = "doc_PartitionKey d'"])
    case (refused e)
    with assms(1) show ?thesis by simp
  next
    case (replaced old s')
    let ?d = "account_commit cluster_schema s (triggers_of o') d'"
    have "lives s (doc_PartitionKey d, doc_ID d) = life_of d" using assms(2) by (simp add: lives_def)
    with assms(3) have step: "lives s (doc_PartitionKey d, doc_ID d) = life_of ?d \<or> life_step (lives s (doc_PartitionKey d, doc_ID d)) (life_of ?d)"
      by (auto simp: evolves_def)
    have f: "filed ((doc_PartitionKey d, doc_ID d), ?d)" using filed(3) assms(3) by (simp add: filed_def evolves_def)
    have "account_stored s' = (account_stored s)((doc_PartitionKey d, doc_ID d) := Some ?d)"
      using replaced(5) id' by simp
    from reaches_upd [OF assms(1) replaced(4) this _ step] f replaced(3) show ?thesis by simp
  qed
qed

lemma create_reaches:
  assumes "clusters_good s" "filed ((doc_PartitionKey d, doc_ID d), d)" "life_of d = Busy Create"
  shows "reaches s (snd (c_Create (account_docs cluster_schema) (doc_PartitionKey d) d None s))"
proof -
  from assms(1) have good: "account_good cluster_schema s" by (simp add: clusters_good_def)
  show ?thesis
  proof (cases "account_stored s (doc_PartitionKey d, doc_ID d)")
    case None
    let ?d = "account_commit cluster_schema s [] d"
    from cluster_store.create_ok [OF good, of "doc_PartitionKey d" d] None obtain s' where
      s': "c_Create (account_docs cluster_schema) (doc_PartitionKey d) d None s = (Ok (Some ?d), s')" "account_good cluster_schema s'"
        "account_stored s' = (account_stored s)((doc_PartitionKey d, doc_ID d) := Some ?d)"
      by auto
    have "life_step (lives s (doc_PartitionKey d, doc_ID d)) (life_of ?d)" using None assms(3) by (simp add: lives_def)
    with reaches_upd [OF assms(1) s'(2,3), of "life_of ?d"] assms(2) s'(1) show ?thesis by (simp add: filed_def)
  next
    case (Some old)
    with cluster_store.create_conflict [OF good, of "doc_PartitionKey d" d old] assms(1) show ?thesis by auto
  qed
qed

lemma account_delete_missing:
  fixes k :: "'d schema" and s :: "'d account"
  assumes st: "account_stored s (pk, sc_ID k d) = None" and i: "good_id (sc_ID k d)"
  shows "c_Delete (account_docs k) pk d (Some (zero_Options\<lparr>opt_NoETag := True\<rparr>)) s = (Err (CosmosErr 404 ''NotFound'' []), s)"
proof -
  let ?link = "''dbs/aro/colls/Docs/docs/'' @ sc_ID k d"
  let ?req = "build_request (account_client k) s MethodDelete ?link ''docs'' ?link None (Some (pk_header pk))"
  have url: "after_last CHR ''/'' (rq_URL ?req) = sc_ID k d"
    using after_last_link [OF i, of "''https://account.documents.azure.com/dbs/aro/colls/Docs''"] by simp
  have "account_Do k ?req s = (Ok (failure 404 ''NotFound''), s)"
    using st unfolding account_Do_def Let_def url plain_request [OF refl] by (simp add: Method_defs account_stored_def)
  then have "do_req (account_client k) MethodDelete ?link ''docs'' ?link 204 None
      (None :: ('d payload \<Rightarrow> unit option result) option) (Some (pk_header pk)) s =
      (receive (account_client k) 204 (None :: ('d payload \<Rightarrow> unit option result) option) (failure 404 ''NotFound''), s)"
    by (intro do_req_single [where n = 9 and body = None]) (simp_all add: receive_respond)
  then show ?thesis
    unfolding account_docs_sels document_Delete_def NewDocumentClient_def document_path_def
    by (simp add: setOptions_untagged receive_respond Let_def)
qed

lemma delete_reaches:
  assumes "clusters_good s" "good_id (doc_ID d)" "lives s (doc_PartitionKey d, doc_ID d) \<in> {Absent, Busy Delete, Broken Delete}"
  shows "reaches s (snd (c_Delete (account_docs cluster_schema) (doc_PartitionKey d) d (Some (zero_Options\<lparr>opt_NoETag := True\<rparr>)) s))"
proof -
  from assms(1) have good: "account_good cluster_schema s" by (simp add: clusters_good_def)
  show ?thesis
  proof (cases "account_stored s (doc_PartitionKey d, doc_ID d)")
    case None
    with account_delete_missing [of s "doc_PartitionKey d" cluster_schema d] assms(1,2) show ?thesis by simp
  next
    case (Some old)
    with cluster_store.delete_ok [OF good, of d "doc_PartitionKey d" old] assms(2) obtain s' where
      s': "c_Delete (account_docs cluster_schema) (doc_PartitionKey d) d (Some (zero_Options\<lparr>opt_NoETag := True\<rparr>)) s = (Ok (), s')"
        "account_good cluster_schema s'" "account_stored s' = (account_stored s)((doc_PartitionKey d, doc_ID d) := None)"
      by auto
    with reaches_upd [OF assms(1) s'(2,3), of Absent] assms(3) show ?thesis by auto
  qed
qed

section \<open>Computations that write clusters\<close>

text \<open>
  A computation on a state that contains the provider's database (\<open>get\<close>) is quiet if it does not write the clusters, and safe at a
  state if from there the clusters only take steps of the abstract system.
\<close>

definition quiet :: "('s \<Rightarrow> rp_world) \<Rightarrow> ('s, 'a) go \<Rightarrow> bool" where
  "quiet get m \<longleftrightarrow> (\<forall>s. w_clusters (get (snd (m s))) = w_clusters (get s))"

definition safe_at :: "('s \<Rightarrow> rp_world) \<Rightarrow> ('s, 'a) go \<Rightarrow> 's \<Rightarrow> bool" where
  "safe_at get m s \<longleftrightarrow>
     (clusters_good (w_clusters (get s)) \<longrightarrow> reaches (w_clusters (get s)) (w_clusters (get (snd (m s)))))"

named_theorems quiet

lemma quietD: "quiet get m \<Longrightarrow> m s = (r, s') \<Longrightarrow> w_clusters (get s') = w_clusters (get s)"
  by (metis quiet_def snd_conv)

lemma quiet_bind [quiet]: "quiet get m \<Longrightarrow> (\<And>x. quiet get (f x)) \<Longrightarrow> quiet get (gbind m f)"
  unfolding quiet_def gbind_def by (auto split: prod.splits result.splits) (metis snd_conv)+

lemma quiet_simple [quiet]: "quiet get (glift r)" "quiet get (greturn x)" "quiet get (deref d)"
  by (simp_all add: quiet_def deref_def glift_def greturn_def)

lemma quiet_if [quiet]: "quiet get m \<Longrightarrow> quiet get m' \<Longrightarrow> quiet get (if b then m else m')"
  by simp

lemma quiet_on_world [quiet]: "quiet (\<lambda>w. w) m \<Longrightarrow> quiet snd (on_world m)"
  by (auto simp: quiet_def on_world_def split: prod.splits) (metis snd_conv)

lemma quiet_zoom [quiet]: "quiet (\<lambda>w. w) (zoom w_subs put_subs m)" "quiet (\<lambda>w. w) (zoom w_async put_async m')"
  by (simp_all add: quiet_def zoom_def split: prod.splits)

lemma quiet_retry [quiet]: "quiet get m \<Longrightarrow> quiet get (RetryOnPreconditionFailed m)"
proof -
  assume m: "quiet get m"
  have "w_clusters (get (snd (retry_loop m n s))) = w_clusters (get s)" for n s
    by (induction n arbitrary: s) (use m in \<open>auto simp: quiet_def split: prod.splits dest: quietD [OF m]\<close>)
  then show ?thesis by (simp add: quiet_def RetryOnPreconditionFailed_def)
qed

lemma safe_quiet: "quiet get m \<Longrightarrow> safe_at get m s"
  by (simp add: quiet_def safe_at_def)

lemma safe_bind:
  assumes "safe_at get m s" and "\<And>x s'. m s = (Ok x, s') \<Longrightarrow> safe_at get (f x) s'"
  shows "safe_at get (gbind m f) s"
proof -
  obtain r s' where m: "m s = (r, s')" by (cases "m s")
  have "safe_at get (f x) s'" if "r = Ok x" for x using assms(2) m that by simp
  with assms(1) m show ?thesis
    by (cases r) (auto simp: safe_at_def gbind_def intro: reaches_trans dest: reaches_good)
qed

lemma safe_after:
  assumes "quiet get m" and "\<And>x s'. m s = (Ok x, s') \<Longrightarrow> w_clusters (get s') = w_clusters (get s) \<Longrightarrow> safe_at get (f x) s'"
  shows "safe_at get (gbind m f) s"
  by (rule safe_bind) (use assms in \<open>auto intro: safe_quiet dest: quietD\<close>)

lemma safe_then_quiet:
  "safe_at get m s \<Longrightarrow> (\<And>x. quiet get (f x)) \<Longrightarrow> safe_at get (gbind m f) s"
  by (rule safe_bind) (auto intro: safe_quiet)

lemma safe_on_world: "safe_at (\<lambda>w. w) m (snd s) \<Longrightarrow> safe_at snd (on_world m) s"
  by (cases "m (snd s)") (simp add: safe_at_def on_world_def)

lemma safe_glift: "(\<And>x. r = Ok x \<Longrightarrow> safe_at get (f x) s) \<Longrightarrow> safe_at get (gbind (glift r) f) s"
  by (rule safe_after) (auto simp: quiet_simple glift_def)

text \<open>
  Retries: a property of the clusters that holds at the first attempt holds at every attempt if an attempt that fails writes nothing.
\<close>

lemma safe_retry:
  assumes "\<And>s. P (w_clusters (get s)) \<Longrightarrow> safe_at get m s"
    and "\<And>s e s'. clusters_good (w_clusters (get s)) \<Longrightarrow> P (w_clusters (get s)) \<Longrightarrow> m s = (Err e, s') \<Longrightarrow> w_clusters (get s') = w_clusters (get s)"
    and "P (w_clusters (get s))"
  shows "safe_at get (RetryOnPreconditionFailed m) s"
proof -
  have "P (w_clusters (get s)) \<Longrightarrow> safe_at get (retry_loop m n) s" for n
  proof (induction n arbitrary: s)
    case 0
    with assms(1) show ?case by (simp add: safe_at_def)
  next
    case (Suc n)
    obtain r s' where m: "m s = (r, s')" by (cases "m s")
    show ?case
    proof (cases "is_status r 412")
      case True
      then obtain e where "r = Err e" by (cases r) simp_all
      with assms(2) [OF _ Suc.prems] m have "clusters_good (w_clusters (get s)) \<Longrightarrow> w_clusters (get s') = w_clusters (get s)" by simp
      with Suc.IH [of s'] Suc.prems m True show ?thesis by (auto simp: safe_at_def)
    next
      case False
      with assms(1) [OF Suc.prems] m show ?thesis by (simp add: safe_at_def)
    qed
  qed
  with assms(3) show ?thesis by (simp add: RetryOnPreconditionFailed_def)
qed

lemma safe_retry_always: "(\<And>s. safe_at get m s) \<Longrightarrow> safe_at get (RetryOnPreconditionFailed m) s"
proof -
  assume m: "\<And>s. safe_at get m s"
  have "safe_at get (retry_loop m n) s" for n
  proof (induction n arbitrary: s)
    case (Suc n)
    obtain r s' where "m s = (r, s')" by (cases "m s")
    with m [of s] Suc [of s'] show ?case by (auto simp: safe_at_def intro: reaches_trans dest: reaches_good)
  qed (use m in \<open>simp add: safe_at_def\<close>)
  then show ?thesis by (simp add: RetryOnPreconditionFailed_def)
qed

section \<open>Reading\<close>

text \<open>A query is answered with one page; without a partition key it selects from all partitions.\<close>

lemma account_page:
  fixes k :: "'d schema" and s :: "'d account"
  shows "c_Next (account_docs k) (document_Query pk q None) s =
    (Ok (Some \<lparr>ds_Count = int (length (account_select k s pk q)), ds_ResourceID = [], ds_Documents = account_select k s pk q\<rparr>,
         (document_Query pk q None)\<lparr>it_done := True\<rparr>), s)"
proof -
  let ?c = "NewDocumentClient (account_client k) (account_codec k) ''dbs/aro'' ''Docs''"
  let ?path = "''dbs/aro/colls/Docs''"
  let ?base = "Header_Set ''Content-Type'' ''application/query+json''
      (Header_Set ''X-Ms-Documentdb-Isquery'' ''True'' (Header_Set ''X-Ms-Max-Item-Count'' ''-1'' []))"
  define hs where "hs = (if pk \<noteq> [] then Header_Set ''X-Ms-Documentdb-Partitionkey'' (partition_header pk) ?base
      else Header_Set ''X-Ms-Documentdb-Query-Enablecrosspartition'' ''True'' ?base)"
  let ?req = "build_request (account_client k) s MethodPost (?path @ ''/docs'') ''docs'' ?path (Some (PQuery q)) (Some hs)"
  let ?page = "\<lparr>ds_Count = int (length (account_select k s pk q)), ds_ResourceID = [], ds_Documents = account_select k s pk q\<rparr>"
  have "Header_Get (new_headers (Some (PQuery q :: 'd payload)) (Some hs)) ''X-Ms-Documentdb-Partitionkey'' = (if pk = [] then [] else partition_header pk)"
    unfolding hs_def by (simp add: new_headers_def Header_Set_def Header_Get_def)
  then have "request_partition ?req = pk"
    unfolding request_partition_def rq_Header_build by (simp add: take_partition Let_def)
  then have "account_Do k ?req s = (Ok (respond 200 (PDocs ?page)), s)"
    unfolding account_Do_def Let_def by (simp add: Method_defs)
  then have "do (account_client k) MethodPost (?path @ ''/docs'') ''docs'' ?path 200 (Some (Ok (PQuery q)))
      (Some (cd_DecodeAll (account_codec k))) (Some hs) s =
      ((receive (account_client k) 200 (Some (cd_DecodeAll (account_codec k))) (respond 200 (PDocs ?page)),
        map_option (\<lambda>_. rs_Header (respond 200 (PDocs ?page) :: 'd payload http_response)) (Some hs)), s)"
    by (intro do_single [where n = 9 and body = "Some (PQuery q)"]) (simp_all add: receive_respond)
  then have "query_NextRaw ?c (document_Query pk q None) s = (Ok (Some ?page, (document_Query pk q None)\<lparr>it_done := True\<rparr>), s)"
    by (cases "pk = []") (simp_all add: query_NextRaw_def page_request_def document_Query_def setOptions_def NewDocumentClient_def
      document_path_def receive_respond hs_def Let_def)
  then show ?thesis by (simp add: account_docs_def client_docs_def collection_path_def)
qed

lemma account_page_done:
  "it_done i \<Longrightarrow> c_Next (account_docs k) i s = (Ok (None, i), s)"
  by (simp add: account_docs_def client_docs_def query_NextRaw_def)

lemma account_query_all:
  "c_QueryAll (account_docs k) pk q None s =
    (Ok \<lparr>ds_Count = int (length (account_select k s pk q)), ds_ResourceID = [], ds_Documents = account_select k s pk q\<rparr>, s)"
  using account_page [of k pk q s] account_page_done [of "(document_Query pk q None)\<lparr>it_done := True\<rparr>" k s]
  by (simp add: account_docs_def client_docs_def document_QueryAll_def all_docs_def eval_nat_numeral append_page_def)

text \<open>The one document of a key, if there is one.\<close>

definition sole_cluster :: "OpenShiftClusterDocument account \<Rightarrow> string \<Rightarrow> OpenShiftClusterDocument \<Rightarrow> bool" where
  "sole_cluster s key d \<longleftrightarrow> account_stored s (doc_PartitionKey d, doc_ID d) = Some d \<and> doc_Key d = key
     \<and> (\<forall>i d'. account_stored s i = Some d' \<and> doc_Key d' = key \<longrightarrow> d' = d)"

lemma selected_key:
  assumes "clusters_good s" "clusters_partitionKey key = Ok pk" "account_select cluster_schema s pk (key_query key) = [d]"
  shows "sole_cluster s key d"
proof -
  have sel: "x \<in> set (account_select cluster_schema s pk (key_query key))" if st: "account_stored s i = Some x" "doc_Key x = key" for i x
  proof -
    obtain p j where i: "i = (p, j)" by (cases i)
    from stored_filed [OF assms(1)] st(1) have "filed ((p, j), x)" unfolding i by auto
    then have "p = pk" using st(2) assms(2) by (simp add: filed_def)
    moreover have "((p, j), x) \<in> set (ac_docs s)" using st(1) unfolding i account_stored_def by (rule map_of_SomeD)
    ultimately show ?thesis using st(2) by (force simp: account_select_def cluster_schema_def where_key)
  qed
  have "d \<in> set (account_select cluster_schema s pk (key_query key))" using assms(3) by simp
  then obtain p j where "((p, j), d) \<in> set (ac_docs s)" "doc_Key d = key"
    by (auto simp: account_select_def cluster_schema_def where_key)
  with listed_stored [OF assms(1)] sel assms(3) show ?thesis by (auto simp: sole_cluster_def)
qed

lemma sole_case: "(case xs of [] \<Rightarrow> Err e | [x] \<Rightarrow> Ok x | x # y # zs \<Rightarrow> Err e') = Ok d \<Longrightarrow> xs = [d]"
  by (auto split: list.splits)

lemma clusters_Get_reads:
  shows "quiet (\<lambda>w. w) (clusters_Get (rp_clusters u) key)"
    and "clusters_good (w_clusters w) \<Longrightarrow> clusters_Get (rp_clusters u) key w = (Ok d, w') \<Longrightarrow> sole_cluster (w_clusters w) key d"
proof -
  have q: "c_QueryAll (cl_c (rp_clusters u)) pk (key_query key) None w =
      (Ok \<lparr>ds_Count = int (length (account_select cluster_schema (w_clusters w) pk (key_query key))), ds_ResourceID = [],
           ds_Documents = account_select cluster_schema (w_clusters w) pk (key_query key)\<rparr>, w)" for pk w
    by (simp add: rp_database_def zoom_def account_query_all)
  show "quiet (\<lambda>w. w) (clusters_Get (rp_clusters u) key)"
    by (auto simp: quiet_def clusters_Get_def q gbind_def glift_def split: result.splits)
  show "sole_cluster (w_clusters w) key d" if "clusters_good (w_clusters w)" "clusters_Get (rp_clusters u) key w = (Ok d, w')"
  proof -
    from that(2) obtain pk where "clusters_partitionKey key = Ok pk" "account_select cluster_schema (w_clusters w) pk (key_query key) = [d]"
      using sole_case by (fastforce simp: clusters_Get_def q gbind_eq_Ok split: if_splits)
    with that(1) show ?thesis by (rule selected_key)
  qed
qed

lemmas quiet_Get [quiet] = clusters_Get_reads(1)

section \<open>The operations of the database\<close>

lemma update_safe:
  assumes "account_stored (w_clusters w) (doc_PartitionKey d, doc_ID d) = Some d" "evolves d d'" "plain_options o'"
  shows "safe_at (\<lambda>w. w) (clusters_update (rp_clusters u) d' o') w"
  using replace_reaches [OF _ assms]
  by (auto simp: safe_at_def clusters_update_def rp_database_def zoom_def split: prod.splits)

lemma update_fails:
  assumes "clusters_good (w_clusters w)" "account_stored (w_clusters w) (doc_PartitionKey d, doc_ID d) = Some d" "evolves d d'" "plain_options o'"
    and "clusters_update (rp_clusters u) d' o' w = (Err e, w')"
  shows "w_clusters w' = w_clusters w"
proof -
  from assms(1) have good: "account_good cluster_schema (w_clusters w)" by (simp add: clusters_good_def)
  have "good_id (doc_ID d)" using stored_filed(3) [OF assms(1,2)] by (simp add: filed_def)
  with assms(3) have "good_id (sc_ID cluster_schema d')" by (simp add: evolves_def)
  with good show ?thesis using assms(4)
    by (cases rule: cluster_store.replace_cases [where pk = "doc_PartitionKey d'"])
      (use assms(5) in \<open>auto simp: clusters_update_def rp_database_def zoom_def split: if_splits\<close>)
qed

text \<open>
  A patch is safe if the function it is given writes no cluster and takes every document of the key one step ahead, on clusters with a
  property \<open>P\<close>.
\<close>

lemma patch_safe:
  assumes quiet: "\<And>d. quiet snd (f d)" and o': "plain_options o'" and P: "P (w_clusters (snd s))"
    and step: "\<And>d s d' s'. clusters_good (w_clusters (snd s)) \<Longrightarrow> P (w_clusters (snd s)) \<Longrightarrow> sole_cluster (w_clusters (snd s)) key d \<Longrightarrow>
      legal_state d \<Longrightarrow> f d s = (Ok d', s') \<Longrightarrow> evolves d d'"
  shows "safe_at snd (clusters_patch (rp_clusters u) key f o') s"
proof -
  let ?m = "gbind (on_world (clusters_Get (rp_clusters u) key)) (\<lambda>doc. gbind (f doc) (\<lambda>doc'. on_world (clusters_update (rp_clusters u) doc' o')))"
  have ahead: "account_stored (w_clusters (snd s2)) (doc_PartitionKey d, doc_ID d) = Some d \<and> evolves d d'
      \<and> w_clusters (snd s2) = w_clusters (snd s)"
    if "clusters_good (w_clusters (snd s))" "P (w_clusters (snd s))" "on_world (clusters_Get (rp_clusters u) key) s = (Ok d, s1)"
      "f d s1 = (Ok d', s2)" for s d s1 d' s2
  proof -
    from that(3) have "clusters_Get (rp_clusters u) key (snd s) = (Ok d, snd s1)"
      by (auto simp: on_world_def split: prod.splits)
    from clusters_Get_reads(2) [OF that(1) this] have sole: "sole_cluster (w_clusters (snd s)) key d" .
    have same: "w_clusters (snd s1) = w_clusters (snd s)" "w_clusters (snd s2) = w_clusters (snd s1)"
      using quietD [OF quiet_on_world [OF quiet_Get] that(3)] quietD [OF quiet that(4)] by auto
    have "account_stored (w_clusters (snd s)) (doc_PartitionKey d, doc_ID d) = Some d" using sole by (simp add: sole_cluster_def)
    moreover from stored_filed(3) [OF that(1) this] have "legal_state d" by (simp add: filed_def)
    ultimately show ?thesis using step [of s1 d d' s2] that sole same by simp
  qed
  show ?thesis unfolding clusters_patch_def
  proof (rule safe_retry [where P = P])
    fix s :: "'a \<times> rp_world"
    assume p: "P (w_clusters (snd s))"
    show "safe_at snd ?m s"
    proof (cases "clusters_good (w_clusters (snd s))")
      case True
      show ?thesis
        by (intro safe_after quiet_on_world quiet_Get quiet safe_on_world)
          (metis ahead [OF True p] update_safe o')
    qed (simp add: safe_at_def)
    fix e s'
    assume good: "clusters_good (w_clusters (snd s))" and run: "?m s = (Err e, s')"
    obtain r1 s1 where get: "on_world (clusters_Get (rp_clusters u) key) s = (r1, s1)"
      by (cases "on_world (clusters_Get (rp_clusters u) key) s")
    show "w_clusters (snd s') = w_clusters (snd s)"
    proof (cases r1)
      case (Ok d)
      obtain r2 s2 where f: "f d s1 = (r2, s2)" by (cases "f d s1")
      show ?thesis
      proof (cases r2)
        case ok: (Ok d')
        from ahead [OF good p get [unfolded Ok] f [unfolded ok]]
        have a: "account_stored (w_clusters (snd s2)) (doc_PartitionKey d, doc_ID d) = Some d" "evolves d d'"
          "w_clusters (snd s2) = w_clusters (snd s)" by auto
        obtain e' w' where "clusters_update (rp_clusters u) d' o' (snd s2) = (Err e', w')" "w' = snd s'"
          using run get f Ok ok by (auto simp: gbind_def on_world_def split: prod.splits)
        from update_fails [OF _ a(1,2) o' this(1)] this(2) good a(3) show ?thesis by simp
      qed (use run get f Ok quietD [OF quiet_on_world [OF quiet_Get] get] quietD [OF quiet f] in \<open>auto simp: gbind_def\<close>)
    qed (use run get quietD [OF quiet_on_world [OF quiet_Get] get] in \<open>auto simp: gbind_def\<close>)
  qed (rule P)
qed

lemma create_safe:
  assumes "life_of d = Busy Create" "legal_state d" "good_id (doc_ID d)"
  shows "safe_at (\<lambda>w. w) (clusters_Create (rp_clusters u) d) w"
proof -
  have "reaches (w_clusters w) (snd (c_Create (account_docs cluster_schema) pk (d\<lparr>doc_PartitionKey := pk\<rparr>) None (w_clusters w)))"
    if "clusters_good (w_clusters w)" "doc_Key d = ToLower (doc_Key d)" "clusters_partitionKey (doc_Key d) = Ok pk" for pk
    using create_reaches [of "w_clusters w" "d\<lparr>doc_PartitionKey := pk\<rparr>"] assms that
    by (simp add: filed_def)
  then show ?thesis
    by (auto simp: safe_at_def clusters_Create_def rp_database_def zoom_def gbind_def glift_def split: prod.splits result.splits)
qed

lemma delete_safe:
  assumes "lives (w_clusters w) (doc_PartitionKey d, doc_ID d) \<in> {Absent, Busy Delete, Broken Delete}" "good_id (doc_ID d)"
  shows "safe_at (\<lambda>w. w) (clusters_Delete (rp_clusters u) d) w"
  using delete_reaches [OF _ assms(2,1)]
  by (auto simp: safe_at_def clusters_Delete_def rp_database_def zoom_def split: prod.splits)

section \<open>The front end\<close>

text \<open>
  The environment of the front end: new identifiers contain no slash, and neither drawing one nor validating against Azure
  writes the clusters.
\<close>

definition front_ok :: "('b, 'e, rp_world) frontend \<Rightarrow> ('e, 'l, 'c, rp_world) version \<Rightarrow> string \<Rightarrow> bool" where
  "front_ok f v u \<longleftrightarrow> f_db f = rp_database u
     \<and> (\<forall>w. good_id (fst (f_newUUID f w)) \<and> w_clusters (snd (f_newUUID f w)) = w_clusters w)
     \<and> (\<forall>oc. quiet (\<lambda>w. w) (v_Dynamic v oc))"

lemma quiet_collections [quiet]:
  "quiet (\<lambda>w. w) (subs_Get (rp_subs u) i)" "quiet (\<lambda>w. w) (subs_update (rp_subs u) sd o')"
  "quiet (\<lambda>w. w) (async_Create (rp_async u) a)" "quiet (\<lambda>w. w) (async_Get (rp_async u) i)"
  "quiet (\<lambda>w. w) (c_Replace (cl_c (rp_async u)) pk a o')"
  by (simp_all add: quiet_def rp_database_def zoom_def subs_Get_def subs_update_def async_Create_def async_Get_def split: prod.splits)

lemma quiet_validate [quiet]:
  assumes "f_db f = rp_database u"
  shows "quiet (\<lambda>w. w) (validateSubscriptionState f key states)"
proof -
  have "w_clusters (snd (validateSubscriptionState f key states w)) = w_clusters w" for w
    using assms quiet_collections(1) [of u] quietD [OF quiet_collections(1)]
    by (auto simp: validateSubscriptionState_def gbind_def glift_def deref_def quiet_def split: prod.splits result.splits option.splits)
  then show ?thesis by (simp add: quiet_def)
qed

lemma quiet_newAsync [quiet]:
  assumes "front_ok f v u"
  shows "quiet (\<lambda>w. w) (newAsyncOperation f r doc)"
proof -
  have "quiet (\<lambda>w. w) (gbind (async_Create (rp_async u) a) (\<lambda>_. greturn i))" for a and i :: string
    by (intro quiet)
  moreover have "w_clusters (snd (f_newUUID f w)) = w_clusters w" for w using assms by (simp add: front_ok_def)
  ultimately show ?thesis
    using assms by (simp add: quiet_def front_ok_def newAsyncOperation_def split_def)
qed

lemma evolves_terminal:
  assumes "known_state (doc_OpenShiftCluster d)" "oc_ProvisioningState (doc_OpenShiftCluster d) \<in> {ProvisioningStateSucceeded, ProvisioningStateFailed}"
    and "oc_ProvisioningState (doc_OpenShiftCluster d') = ProvisioningStateDeleting"
    and "doc_ID d' = doc_ID d" "doc_Key d' = doc_Key d" "doc_PartitionKey d' = doc_PartitionKey d"
  shows "evolves d d'"
  using assms by (auto simp: evolves_def stage_def known_state_def task_of_def tasks_def ProvisioningState_defs)

lemma delete_request_safe:
  assumes "front_ok f v u"
  shows "safe_at snd (deleteOpenShiftCluster f r :: (header \<times> rp_world, ('e, 'l, 'c) answer) go) s"
proof -
  have db: "f_db f = rp_database u" using assms by (simp add: front_ok_def)
  have q: "quiet snd (delete_OpenShiftCluster f r d)" for d
    unfolding delete_OpenShiftCluster_def Let_def
    by (intro quiet quiet_validate [OF db] quiet_newAsync [OF assms]) (simp add: quiet_def)
  have "safe_at snd (clusters_Patch (rp_clusters u) (r_Path r) (delete_OpenShiftCluster f r)) s"
    unfolding clusters_Patch_def
  proof (rule patch_safe [where P = "\<lambda>_. True", OF q])
    fix d d' s s'
    assume legal: "legal_state d" and run: "delete_OpenShiftCluster f r d s = (Ok d', s')"
    have "oc_ProvisioningState (doc_OpenShiftCluster d) \<in> {ProvisioningStateSucceeded, ProvisioningStateFailed}"
        "oc_ProvisioningState (doc_OpenShiftCluster d') = ProvisioningStateDeleting"
        "doc_ID d' = doc_ID d" "doc_Key d' = doc_Key d" "doc_PartitionKey d' = doc_PartitionKey d"
      using run by (auto simp: delete_OpenShiftCluster_def gbind_eq_Ok validateTerminalProvisioningState_def Let_def split: if_splits)
    with legal show "evolves d d'" by (rule evolves_terminal)
  qed simp_all
  then show ?thesis using db by (auto simp: safe_at_def deleteOpenShiftCluster_def split: prod.splits result.splits)
qed

lemma gate_life:
  assumes "gate_update d = Ok d1"
  shows "life_step (life_of d) (Busy Update)" "doc_ID d1 = doc_ID d" "doc_Key d1 = doc_Key d" "doc_PartitionKey d1 = doc_PartitionKey d"
  using assms
  by (auto simp: gate_update_def validateTerminalProvisioningState_def rbind_eq_Ok Let_def stage_def task_of_def ProvisioningState_defs
      split: if_splits)

lemma merge_life:
  "life_of (merge_doc v True x d) = Busy Create" "legal_state (merge_doc v True x d)"
  "life_of (merge_doc v False x d) = Busy Update" "legal_state (merge_doc v False x d)"
  "doc_ID (merge_doc v c x d) = doc_ID d" "doc_Key (merge_doc v c x d) = doc_Key d" "doc_PartitionKey (merge_doc v c x d) = doc_PartitionKey d"
  by (simp_all add: merge_doc_def Let_def stage_def known_state_def task_of_def tasks_def ProvisioningState_defs set_ProvisioningState_def)

lemma save_safe:
  assumes "isCreate \<Longrightarrow> life_of d' = Busy Create \<and> legal_state d' \<and> good_id (doc_ID d')"
    and "\<not> isCreate \<Longrightarrow> account_stored (w_clusters w) (doc_PartitionKey d, doc_ID d) = Some d \<and> evolves d d'"
  shows "safe_at (\<lambda>w. w) (save_doc (rp_clusters u) isCreate d') w"
proof (cases isCreate)
  case True
  with create_safe [of d' u w] assms(1) show ?thesis
    by (auto simp: safe_at_def save_doc_def deref_def glift_def split: prod.splits result.splits option.splits)
next
  case False
  with assms(2) update_safe [of w d d' None u] have "safe_at (\<lambda>w. w) (gbind (clusters_Update (rp_clusters u) d') deref) w"
    unfolding clusters_Update_def by (intro safe_then_quiet) (auto intro: quiet)
  with False show ?thesis by (simp add: safe_at_def save_doc_def)
qed

lemma put_document_safe:
  assumes front: "front_ok f v u"
    and new: "isCreate \<Longrightarrow> good_id (doc_ID d)"
    and old: "\<not> isCreate \<Longrightarrow> account_stored (w_clusters (snd s)) (doc_PartitionKey d, doc_ID d) = Some d"
  shows "safe_at snd (put_document f v r isCreate d) s"
proof -
  have db: "f_db f = rp_database u" and dyn: "quiet (\<lambda>w. w) (v_Dynamic v oc)" for oc using front by (auto simp: front_ok_def)
  have save: "safe_at (\<lambda>w. w) (save_doc (rp_clusters u) isCreate ((merge_doc v isCreate x d1)\<lparr>doc_AsyncOperationID := i\<rparr>)) w"
    if "gate_update d = Ok d1" "w_clusters w = w_clusters (snd s)" for d1 x i w
    using gate_life [OF that(1)] merge_life(1-4) [of v x d1] merge_life(5-7) [of v isCreate x d1] new old that(2)
    by (intro save_safe [where d = d]) (auto simp: evolves_def)
  have "quiet snd (if f_FEATURE_OPERATIONS f
      then gbind (glift (f_urlWithPath f (Header_Get (r_Header r) ''Referer'') (operationsPath f r i)))
        (\<lambda>u s. (Ok (), ([(''Azure-AsyncOperation'', [u])], snd s)))
      else greturn ())" for i
    by (intro quiet) (simp add: quiet_def)
  note quiets = quiet_on_world [OF dyn] quiet_on_world [OF quiet_newAsync [OF front]] this
  show ?thesis unfolding put_document_def Let_def db
    by (rule safe_glift, rule safe_glift, rule safe_glift, rule safe_glift, rule safe_after [OF quiets(1)],
        rule safe_after [OF quiets(2)], rule safe_after [OF quiets(3)], rule safe_then_quiet, rule safe_on_world, rule save)
      (simp_all add: quiet)
qed

lemma put_request_safe:
  assumes "front_ok f v u"
  shows "safe_at snd (putOrPatchOpenShiftCluster f v r) s"
  unfolding putOrPatchOpenShiftCluster_def
proof (rule safe_retry_always)
  fix s
  have db: "f_db f = rp_database u" using assms by (simp add: front_ok_def)
  have found: "quiet (\<lambda>w. w) (find_cluster f r)"
    using db quietD [OF quiet_Get [of u "r_Path r"]]
    by (auto simp: quiet_def find_cluster_def split: prod.splits result.splits)
  have new: "quiet (\<lambda>w. w) (create_doc f r sd)" for sd
    using assms by (auto simp: quiet_def create_doc_def front_ok_def gbind_def glift_def deref_def greturn_def split_def split: result.splits option.splits)
  have id': "good_id (doc_ID d)" if "create_doc f r sd w = (Ok d, w')" for sd w d w'
  proof -
    have "doc_ID d = fst (f_newUUID f w)"
      using that by (auto simp: create_doc_def gbind_eq_Ok new_cluster_doc_def split_def)
    with assms show ?thesis by (simp add: front_ok_def)
  qed
  have put: "safe_at snd (gbind (case found of None \<Rightarrow> on_world (create_doc f r sd) | Some d \<Rightarrow> greturn d) (put_document f v r (found = None))) s"
    if "\<And>d. clusters_good (w_clusters (snd s)) \<Longrightarrow> found = Some d \<Longrightarrow> account_stored (w_clusters (snd s)) (doc_PartitionKey d, doc_ID d) = Some d"
    for sd found s
  proof (cases "clusters_good (w_clusters (snd s))")
    case good: True
    show ?thesis
    proof (cases found)
      case None
      then show ?thesis
        by (auto intro!: safe_after quiet_on_world new put_document_safe [OF assms] dest!: id' simp: on_world_def split: prod.splits)
    next
      case (Some d)
      then show ?thesis using that [OF good Some]
        by (auto intro!: safe_after quiet put_document_safe [OF assms] simp: greturn_def)
    qed
  qed (simp add: safe_at_def)
  show "safe_at snd (put_or_patch_OpenShiftCluster f v r) s"
    unfolding put_or_patch_OpenShiftCluster_def
  proof (rule safe_after [OF quiet_on_world [OF quiet_validate [OF db]]], rule safe_after [OF quiet_on_world [OF found]], rule put)
    fix sd s1 fd s2 d
    assume "on_world (find_cluster f r) s1 = (Ok fd, s2)" "fd = Some d" and same: "w_clusters (snd s2) = w_clusters (snd s1)"
      and good: "clusters_good (w_clusters (snd s2))"
    then have "clusters_Get (rp_clusters u) (r_Path r) (snd s1) = (Ok d, snd s2)"
      using db by (auto simp: on_world_def find_cluster_def split: prod.splits result.splits if_splits)
    from clusters_Get_reads(2) [OF _ this] good same
    show "account_stored (w_clusters (snd s2)) (doc_PartitionKey d, doc_ID d) = Some d" by (simp add: sole_cluster_def)
  qed
qed

end
