(* ===== verification/Provider.thy ===== *)
theory Provider
  imports Lifecycle
begin

text \<open>
  The back end as a part of the abstract system of \<open>Lifecycle\<close>: what a worker knows of its cluster, dequeues, the ends of leases,
  the deletion of a subscription's clusters; then the whole provider as a transition system on its database and
  the theorem that it implements the abstract one.
\<close>

section \<open>Dequeues\<close>

lemma take_evolves: "legal_state d \<Longrightarrow> evolves d (take_cluster u d)"
  by (simp add: evolves_def take_cluster_def)

text \<open>A document that is in the queue or has been taken from it: it is stored as it is and there is work to do.\<close>

definition pending :: "OpenShiftClusterDocument \<Rightarrow> OpenShiftClusterDocument account \<Rightarrow> bool" where
  "pending d s \<longleftrightarrow> account_stored s (doc_PartitionKey d, doc_ID d) = Some d \<and> oc_ProvisioningState (doc_OpenShiftCluster d) \<in> set tasks"

lemma take_update:
  assumes "clusters_good (w_clusters w)" "pending d (w_clusters w)"
    and "clusters_update (rp_clusters u) (take_cluster u d) (Some renewLease) w = (r, w')"
  shows "reaches (w_clusters w) (w_clusters w') \<and> (is_status r 412 \<longrightarrow> w_clusters w' = w_clusters w)
    \<and> (\<forall>d'. r = Ok (Some d') \<longrightarrow> pending d' (w_clusters w'))"
proof -
  from assms(1) have good: "account_good cluster_schema (w_clusters w)" by (simp add: clusters_good_def)
  from assms(2) have st: "account_stored (w_clusters w) (doc_PartitionKey d, doc_ID d) = Some d" by (simp add: pending_def)
  from stored_filed(3) [OF assms(1) st] have f: "good_id (doc_ID d)" "legal_state d" "doc_Key d = ToLower (doc_Key d)" by (auto simp: filed_def)
  have upd: "clusters_update (rp_clusters u) (take_cluster u d) (Some renewLease) w =
      zoom w_clusters put_clusters (c_Replace (account_docs cluster_schema) (doc_PartitionKey d) (take_cluster u d) (Some renewLease)) w"
    using f(3) by (simp add: clusters_update_def rp_database_def)
  from replace_reaches [OF assms(1) st take_evolves [OF f(2)], of "Some renewLease" u]
  have reaches: "reaches (w_clusters w) (w_clusters w')"
    using assms(3) unfolding upd by (auto simp: zoom_def split: prod.splits)
  from f(1) have "good_id (sc_ID cluster_schema (take_cluster u d))" by simp
  with good show ?thesis using plain_options_sources(2)
  proof (cases rule: cluster_store.replace_cases [where pk = "doc_PartitionKey d"])
    case (refused e)
    with assms(3) reaches show ?thesis unfolding upd by (auto simp: zoom_def)
  next
    case (replaced old s')
    with assms(2,3) reaches cluster_store.id_commit [of "w_clusters w" "triggers_of (Some renewLease)" "take_cluster u d"]
    show ?thesis unfolding upd
      by (auto simp: zoom_def pending_def) (simp_all add: take_cluster_def)
  qed
qed

lemma dequeue_page_takes:
  assumes "clusters_good (w_clusters w)" "list_all (\<lambda>d. pending d (w_clusters w)) ds"
    and "dequeue_page (\<lambda>doc. clusters_update (rp_clusters u) (take_cluster u doc) (Some renewLease)) ds w = (r, w')"
  shows "reaches (w_clusters w) (w_clusters w') \<and> (\<forall>d'. r = Ok (Some (Some d')) \<longrightarrow> pending d' (w_clusters w'))
    \<and> (r = Ok None \<longrightarrow> w_clusters w' = w_clusters w)"
  using assms
proof (induction ds arbitrary: w)
  case (Cons d ds)
  obtain r1 w1 where upd: "clusters_update (rp_clusters u) (take_cluster u d) (Some renewLease) w = (r1, w1)"
    by (cases "clusters_update (rp_clusters u) (take_cluster u d) (Some renewLease) w")
  from take_update [OF Cons.prems(1) _ upd] Cons.prems(2)
  have t: "reaches (w_clusters w) (w_clusters w1)" "is_status r1 412 \<Longrightarrow> w_clusters w1 = w_clusters w"
    "\<And>d'. r1 = Ok (Some d') \<Longrightarrow> pending d' (w_clusters w1)" by auto
  show ?case
  proof (cases "is_status r1 412")
    case True
    with Cons.IH [of w1] Cons.prems t(2) upd show ?thesis by simp
  next
    case False
    with Cons.prems(3) upd have "w' = w1" "r = rbind r1 (\<lambda>d'. Ok (Some d'))" by auto
    with t show ?thesis by (cases r1) auto
  qed
qed auto

lemma queue_pending:
  assumes "clusters_good s" "d \<in> set (account_select cluster_schema s [] cluster_queue_query)"
  shows "pending d s"
proof -
  from assms(2) obtain pk i where d: "((pk, i), d) \<in> set (ac_docs s)" "cluster_where (ac_now s) cluster_queue_query d"
    by (auto simp: account_select_def cluster_schema_def)
  have "q_Query cluster_queue_query \<noteq> q_Query (key_query [])" "q_Query cluster_queue_query \<noteq> q_Query (prefix_query [])"
    by (simp_all add: cluster_queue_query_def key_query_def prefix_query_def)
  with d(2) have "oc_ProvisioningState (doc_OpenShiftCluster d) \<notin> {ProvisioningStateSucceeded, ProvisioningStateFailed}"
    by (simp add: cluster_where_def)
  moreover have "legal_state d" using assms(1) d(1) by (auto simp: clusters_good_def list_all_iff filed_def)
  ultimately show ?thesis using listed_stored [OF assms(1) d(1)] by (auto simp: pending_def known_state_def)
qed

lemma dequeue_takes:
  assumes "clusters_good (w_clusters w)" "clusters_Dequeue (rp_clusters u) w = (r, w')"
  shows "reaches (w_clusters w) (w_clusters w')" "r = Ok (Some d) \<Longrightarrow> pending d (w_clusters w')"
proof -
  let ?i = "document_Query [] cluster_queue_query None"
  let ?upd = "\<lambda>doc. clusters_update (rp_clusters u) (take_cluster u doc) (Some renewLease)"
  let ?ds = "account_select cluster_schema (w_clusters w) [] cluster_queue_query"
  have page: "c_Next (cl_c (rp_clusters u)) ?i w =
      (Ok (Some \<lparr>ds_Count = int (length ?ds), ds_ResourceID = [], ds_Documents = ?ds\<rparr>, ?i\<lparr>it_done := True\<rparr>), w)"
    by (simp add: rp_database_def zoom_def account_page)
  have last: "c_Next (cl_c (rp_clusters u)) (?i\<lparr>it_done := True\<rparr>) v = (Ok (None, ?i\<lparr>it_done := True\<rparr>), v)" for v
    by (simp add: rp_database_def zoom_def account_page_done)
  have c: "cl_fuel (rp_clusters u) = Suc (Suc 0)" "c_Query (cl_c (rp_clusters u)) = document_Query"
    by (simp_all add: rp_database_def zoom_docs_def account_docs_def client_docs_def)
  obtain rp wp where p: "dequeue_page ?upd ?ds w = (rp, wp)" by (cases "dequeue_page ?upd ?ds w")
  have "list_all (\<lambda>d. pending d (w_clusters w)) ?ds"
    using queue_pending [OF assms(1)] by (simp add: list_all_iff)
  from dequeue_page_takes [OF assms(1) this p]
  have t: "reaches (w_clusters w) (w_clusters wp)" "\<And>d. rp = Ok (Some (Some d)) \<Longrightarrow> pending d (w_clusters wp)" by auto
  have "w' = wp \<and> (\<forall>d. r = Ok (Some d) \<longrightarrow> rp = Ok (Some (Some d)))"
    using assms(2) p
    by (auto simp: clusters_Dequeue_def c page last split: result.splits option.splits)
  with t show "reaches (w_clusters w) (w_clusters w')" "r = Ok (Some d) \<Longrightarrow> pending d (w_clusters w')" by auto
qed

section \<open>The end of a lease\<close>

text \<open>
  What a worker may rely on when it ends: as long as the document of its key is leased to its process, the document is in the state in which the worker
  found it; and a cluster that was being deleted has not left this stage otherwise than by a failure or by the end of its deletion.
\<close>

definition current :: "string \<Rightarrow> OpenShiftClusterDocument \<Rightarrow> OpenShiftClusterDocument account \<Rightarrow> bool" where
  "current u doc s \<longleftrightarrow>
     (\<forall>d. sole_cluster s (doc_Key doc) d \<and> doc_LeaseOwner d = u \<longrightarrow> life_of d = life_of doc)
     \<and> (life_of doc = Busy Delete \<longrightarrow> lives s (doc_PartitionKey doc, doc_ID doc) \<in> {Absent, Busy Delete, Broken Delete})"

lemma busy_stage: "oc_ProvisioningState oc \<in> set tasks \<Longrightarrow> stage oc = Busy (task_of (oc_ProvisioningState oc))"
  by (auto simp: stage_def tasks_def ProvisioningState_defs)

lemma ended_stage:
  "stage (set_FailedProvisioningState p (set_ProvisioningState ProvisioningStateFailed oc)) = Broken (task_of p)"
  "stage (set_FailedProvisioningState p (set_ProvisioningState ProvisioningStateSucceeded oc)) = Ready"
  "known_state (set_FailedProvisioningState p (set_ProvisioningState ProvisioningStateFailed oc)) \<longleftrightarrow> p \<in> set tasks"
  "known_state (set_FailedProvisioningState p (set_ProvisioningState ProvisioningStateSucceeded oc))"
  by (auto simp: stage_def known_state_def tasks_def ProvisioningState_defs)

lemma end_lease_evolves:
  assumes "oc_ProvisioningState (doc_OpenShiftCluster doc) \<in> set tasks" "life_of d = life_of doc"
    and "st = ProvisioningStateFailed \<or> st = ProvisioningStateSucceeded \<and> life_of doc \<noteq> Busy Delete"
  shows "evolves d (end_cluster_lease st (if st = ProvisioningStateFailed then oc_ProvisioningState (doc_OpenShiftCluster doc) else []) d)"
proof -
  have "ProvisioningStateFailed \<noteq> ProvisioningStateSucceeded" by (simp add: ProvisioningState_defs)
  with assms busy_stage [OF assms(1)] show ?thesis by (auto simp: evolves_def end_cluster_lease_def Let_def ended_stage)
qed

lemma quiet_updateAsync [quiet]:
  assumes "b_db b = rp_database u"
  shows "quiet snd (updateAsyncOperation b i oc st st')"
proof -
  have "quiet snd (async_Patch (rp_async u) i (\<lambda>ad s. (Ok (finish_operation (b_now b (snd s)) oc st st' ad), s)))"
    unfolding async_Patch_def by (intro quiet) (simp add: quiet_def)
  then show ?thesis unfolding updateAsyncOperation_def assms by (intro quiet)
qed

lemma quiet_stop [quiet]: "quiet snd stop_heartbeat"
  by (simp add: quiet_def stop_heartbeat_def)

lemma endLease_safe:
  assumes db: "b_db b = rp_database u" and doc: "oc_ProvisioningState (doc_OpenShiftCluster doc) \<in> set tasks"
    and cur: "current u doc (w_clusters (snd s))"
    and st: "st = ProvisioningStateFailed \<or> st = ProvisioningStateSucceeded \<and> life_of doc \<noteq> Busy Delete"
  shows "safe_at snd (endLease b stop doc st) s"
proof -
  let ?f = "if st = ProvisioningStateFailed then oc_ProvisioningState (doc_OpenShiftCluster doc) else []"
  have EndLease: "safe_at snd (clusters_EndLease (rp_clusters u) (doc_Key doc) st ?f) s'"
    if "w_clusters (snd s') = w_clusters (snd s)" for s' :: "bool \<times> rp_world"
    unfolding clusters_EndLease_def clusters_patchWithLease_def
  proof (rule patch_safe [where P = "current u doc"])
    fix d s1 d' s2
    assume "current u doc (w_clusters (snd s1))" and sole: "sole_cluster (w_clusters (snd s1)) (doc_Key doc) d"
      and run: "(if doc_LeaseOwner d \<noteq> cl_uuid (rp_clusters u) then (Err lost_lease, s1) else greturn (end_cluster_lease st ?f d) s1) = (Ok d', s2)"
    moreover from run have own: "doc_LeaseOwner d = u" "d' = end_cluster_lease st ?f d" by (auto split: if_splits)
    ultimately have "life_of d = life_of doc" by (auto simp: current_def)
    with end_lease_evolves [OF doc _ st] own(2) show "evolves d d'" by simp
  qed (use cur that in \<open>simp_all add: quiet_def\<close>)
  have last: "safe_at snd (gbind (clusters_EndLease (rp_clusters u) (doc_Key doc) st ?f) (\<lambda>_. greturn ())) s'"
    if "w_clusters (snd s') = w_clusters (snd s)" for s' :: "bool \<times> rp_world"
    using EndLease [OF that] by (rule safe_then_quiet) (rule quiet)
  have "quiet snd (if stop then stop_heartbeat else greturn () :: (bool \<times> rp_world, unit) go)" by (intro quiet)
  then show ?thesis unfolding endLease_def Let_def db
    by (rule safe_after [OF quiet_updateAsync [OF db] safe_after]) (rule last, simp)
qed

section \<open>Workers\<close>

text \<open>
  The environment of a worker. Making the manager and running it take as long as they take; what the manager and everybody else do to
  the clusters meanwhile are steps of the abstract system, after which the worker may still rely on what it relied on before.
\<close>

definition keeps :: "('s \<Rightarrow> rp_world) \<Rightarrow> string \<Rightarrow> OpenShiftClusterDocument \<Rightarrow> ('s, 'a) go \<Rightarrow> bool" where
  "keeps get u doc m \<longleftrightarrow>
     (\<forall>s. clusters_good (w_clusters (get s)) \<and> current u doc (w_clusters (get s)) \<longrightarrow>
        reaches (w_clusters (get s)) (w_clusters (get (snd (m s)))) \<and> current u doc (w_clusters (get (snd (m s)))))"

definition back_ok :: "rp_world backend \<Rightarrow> string \<Rightarrow> bool" where
  "back_ok b u \<longleftrightarrow> b_db b = rp_database u
     \<and> (\<forall>doc. keeps (\<lambda>w. w) u doc (b_NewManager b doc)
          \<and> (\<forall>w m w'. b_NewManager b doc w = (Ok m, w') \<longrightarrow>
               keeps (\<lambda>w. w) u doc (m_Create m) \<and> keeps (\<lambda>w. w) u doc (m_Update m) \<and> keeps (\<lambda>w. w) u doc (m_Delete m)))"

lemma keeps_on_world: "keeps (\<lambda>w. w) u doc m \<Longrightarrow> keeps snd u doc (on_world m)"
  by (auto simp: keeps_def on_world_def split: prod.splits)

lemma keeps_quiet: "quiet get m \<Longrightarrow> keeps get u doc m"
  by (simp add: quiet_def keeps_def)

lemma keepsE:
  assumes "keeps get u doc m" "clusters_good (w_clusters (get s))" "current u doc (w_clusters (get s))" "m s = (r, s')"
  shows "reaches (w_clusters (get s)) (w_clusters (get s'))" "current u doc (w_clusters (get s'))"
  using assms by (auto simp: keeps_def dest: spec [of _ s])

lemma or_fail_safe:
  assumes db: "b_db b = rp_database u" and doc: "oc_ProvisioningState (doc_OpenShiftCluster doc) \<in> set tasks"
    and m: "keeps snd u doc m" and k: "\<And>s. current u doc (w_clusters (snd s)) \<Longrightarrow> safe_at snd k s"
    and cur: "current u doc (w_clusters (snd s))"
  shows "safe_at snd (or_fail b doc m k) s"
proof (cases "clusters_good (w_clusters (snd s))")
  case True
  obtain r s' where run: "m s = (r, s')" by (cases "m s")
  note after = keepsE [OF m True cur run]
  have "safe_at snd k s'" "safe_at snd (endLease b True doc ProvisioningStateFailed) s'"
    using k after(2) endLease_safe [OF db doc after(2)] by auto
  with run after(1) show ?thesis
    by (cases r) (auto simp: safe_at_def or_fail_def intro: reaches_trans dest: reaches_good)
qed (simp add: safe_at_def)

lemma busy_states:
  assumes "oc_ProvisioningState oc \<in> set tasks"
  shows "stage oc = Busy Create \<longleftrightarrow> oc_ProvisioningState oc = ProvisioningStateCreating"
    "stage oc = Busy Update \<longleftrightarrow> oc_ProvisioningState oc = ProvisioningStateUpdating"
    "stage oc = Busy Delete \<longleftrightarrow> oc_ProvisioningState oc = ProvisioningStateDeleting"
    "stage oc = Busy Create \<or> stage oc = Busy Update \<or> stage oc = Busy Delete"
  using assms by (auto simp: stage_def task_of_def tasks_def ProvisioningState_defs)

lemma handle_safe:
  assumes env: "back_ok b u" and doc: "oc_ProvisioningState (doc_OpenShiftCluster doc) \<in> set tasks" "good_id (doc_ID doc)"
    and cur: "current u doc (w_clusters (snd s))"
  shows "safe_at snd (handle b doc) s"
proof (cases "clusters_good (w_clusters (snd s))")
  case good: True
  have db: "b_db b = rp_database u" using env by (simp add: back_ok_def)
  obtain r s' where run: "on_world (b_NewManager b doc) (True, snd s) = (r, s')" by (cases "on_world (b_NewManager b doc) (True, snd s)")
  have "keeps snd u doc (on_world (b_NewManager b doc))" using env by (auto simp: back_ok_def intro: keeps_on_world)
  from keepsE [OF this, of "(True, snd s)"] run good cur
  have after: "reaches (w_clusters (snd s)) (w_clusters (snd s'))" "current u doc (w_clusters (snd s'))" by auto
  have finish: "safe_at snd (endLease b True doc ProvisioningStateSucceeded) s" if "life_of doc \<noteq> Busy Delete" "current u doc (w_clusters (snd s))" for s
    using endLease_safe [OF db doc(1) that(2)] that(1) by simp
  have remove: "safe_at snd (gbind stop_heartbeat (\<lambda>_. on_world (clusters_Delete (rp_clusters u) doc))) s"
    if "life_of doc = Busy Delete" "current u doc (w_clusters (snd s))" for s
    using that doc(2) by (intro safe_after quiet safe_on_world delete_safe) (auto simp: current_def)
  have "safe_at snd (or_fail b doc (on_world (m_Create m)) (endLease b True doc ProvisioningStateSucceeded)) s'"
    if "r = Ok m" "life_of doc \<noteq> Busy Delete" for m
    using that run env by (intro or_fail_safe [OF db doc(1)] keeps_on_world finish after) (auto simp: back_ok_def on_world_def split: prod.splits)
  moreover have "safe_at snd (or_fail b doc (on_world (m_Update m)) (endLease b True doc ProvisioningStateSucceeded)) s'"
    if "r = Ok m" "life_of doc \<noteq> Busy Delete" for m
    using that run env by (intro or_fail_safe [OF db doc(1)] keeps_on_world finish after) (auto simp: back_ok_def on_world_def split: prod.splits)
  moreover have "safe_at snd (or_fail b doc (on_world (m_Delete m))
      (or_fail b doc (updateAsyncOperation b (doc_AsyncOperationID doc) None ProvisioningStateSucceeded [])
        (gbind stop_heartbeat (\<lambda>_. on_world (clusters_Delete (rp_clusters u) doc))))) s'"
    if "r = Ok m" "life_of doc = Busy Delete" for m
    using that run env
    by (intro or_fail_safe [OF db doc(1)] keeps_on_world keeps_quiet [OF quiet_updateAsync [OF db]] remove after)
      (auto simp: back_ok_def on_world_def split: prod.splits)
  moreover have "safe_at snd (endLease b True doc ProvisioningStateFailed) s'"
    using endLease_safe [OF db doc(1) after(2)] by simp
  ultimately have "reaches (w_clusters (snd s')) (w_clusters (snd (snd (handle_body b doc (True, snd s)))))"
    using run reaches_good [OF after(1)] busy_states [OF doc(1)]
    by (cases r) (auto simp: handle_body_def Let_def safe_at_def db)
  with after(1) have "reaches (w_clusters (snd s)) (w_clusters (snd (snd (handle_body b doc (True, snd s)))))"
    by (rule reaches_trans)
  then show ?thesis by (simp add: safe_at_def handle_def stop_heartbeat_def split_def)
qed (simp add: safe_at_def)

text \<open>A document that has just been taken is current.\<close>

lemma pending_current: "pending d s \<Longrightarrow> current u d s"
  by (auto simp: pending_def current_def sole_cluster_def lives_def)

lemma try_safe:
  assumes "b_db b = rp_database u"
  shows "safe_at (\<lambda>w. w) (cluster_try b) w"
    and "clusters_good (w_clusters w) \<Longrightarrow> cluster_try b w = (Ok t, w') \<Longrightarrow> tr_spawn t = Some d \<Longrightarrow> pending d (w_clusters w')"
proof -
  obtain r w1 where run: "clusters_Dequeue (rp_clusters u) w = (r, w1)" by (cases "clusters_Dequeue (rp_clusters u) w")
  have took: "reaches (w_clusters w) (w_clusters w1)" "\<And>d. r = Ok (Some d) \<Longrightarrow> pending d (w_clusters w1)"
    if "clusters_good (w_clusters w)" using dequeue_takes [OF that run] by auto
  have "safe_at snd (endLease b False d ProvisioningStateFailed) (False, w1)" if "r = Ok (Some d)" "clusters_good (w_clusters w)" for d
    using took(2) [OF that(2,1)] endLease_safe [OF assms, of d "(False, w1)"] pending_current [of d "w_clusters w1" u]
    by (simp add: pending_def)
  then have "reaches (w_clusters w1) (w_clusters (snd (snd (endLease b False d ProvisioningStateFailed (False, w1)))))"
    if "r = Ok (Some d)" "clusters_good (w_clusters w)" for d
    using that took(1) by (auto simp: safe_at_def dest: reaches_good)
  with run took(1) show "safe_at (\<lambda>w. w) (cluster_try b) w"
    by (cases r) (auto simp: safe_at_def cluster_try_def assms intro: reaches_trans split: option.splits prod.splits result.splits)
  show "pending d (w_clusters w')" if "clusters_good (w_clusters w)" "cluster_try b w = (Ok t, w')" "tr_spawn t = Some d"
    using that(2,3) run took [OF that(1)]
    by (auto simp: cluster_try_def assms tried_nothing_def split: option.splits prod.splits result.splits if_splits)
qed

section \<open>Subscriptions that are deleted\<close>

lemma enqueue_safe: "safe_at snd (clusters_Patch (rp_clusters u) key enqueue_delete) s"
  unfolding clusters_Patch_def
proof (rule patch_safe [where P = "\<lambda>_. True"])
  fix d d' s s'
  assume legal: "legal_state d" and run: "enqueue_delete d s = (Ok d', s')"
  show "evolves d d'"
  proof (cases "oc_ProvisioningState (doc_OpenShiftCluster d) \<in> {ProvisioningStateSucceeded, ProvisioningStateFailed}")
    case True
    then have "oc_ProvisioningState (doc_OpenShiftCluster d) \<notin> set tasks" by (auto simp: tasks_def ProvisioningState_defs)
    with run True have "d' = d\<lparr>doc_OpenShiftCluster := set_ProvisioningState ProvisioningStateDeleting (doc_OpenShiftCluster d)\<rparr>"
      by (auto simp: enqueue_delete_def Let_def tasks_def split: if_splits)
    with legal True show ?thesis by (intro evolves_terminal) simp_all
  next
    case False
    with run have "d' = d" by (auto simp: enqueue_delete_def Let_def split: if_splits)
    with legal show ?thesis by (simp add: evolves_def)
  qed
qed (simp_all add: quiet_def enqueue_delete_def Let_def)

lemma delete_page_safe: "safe_at snd (delete_page (rp_clusters u) docs) s"
proof (induction docs arbitrary: s)
  case (Cons d docs)
  have "safe_at snd (gbind (clusters_Patch (rp_clusters u) (doc_Key d) enqueue_delete) (\<lambda>_. delete_page (rp_clusters u) docs)) s"
    using Cons by (intro safe_bind enqueue_safe) auto
  then show ?case by (simp add: safe_at_def)
qed (simp add: safe_at_def)

lemma quiet_page:
  assumes "i = document_Query pk q None \<or> it_done i"
  shows "quiet (\<lambda>w. w) (c_Next (cl_c (rp_clusters u)) i)"
    and "c_Next (cl_c (rp_clusters u)) i w = (Ok (x, i'), w') \<Longrightarrow> it_done i'"
  using assms by (auto simp: quiet_def rp_database_def zoom_def account_page account_page_done)

lemma delete_loop_safe:
  "i = document_Query pk q None \<or> it_done i \<Longrightarrow> safe_at snd (delete_loop (rp_clusters u) n i) s"
proof (induction n arbitrary: i s)
  case (Suc n i s)
  obtain r s' where next': "on_world (c_Next (cl_c (rp_clusters u)) i) s = (r, s')" by (cases "on_world (c_Next (cl_c (rp_clusters u)) i) s")
  have same: "w_clusters (snd s') = w_clusters (snd s)"
    using quietD [OF quiet_on_world [OF quiet_page(1) [OF Suc.prems]] next'] by simp
  have "safe_at snd (gbind (delete_page (rp_clusters u) ds) (\<lambda>_. delete_loop (rp_clusters u) n i')) s'" if "r = Ok (x, i')" for ds x i'
  proof -
    have "it_done i'" using next' that quiet_page(2) [OF Suc.prems] by (auto simp: on_world_def split: prod.splits)
    with Suc.IH show ?thesis by (intro safe_bind delete_page_safe) auto
  qed
  with next' same show ?case
    by (auto simp: safe_at_def split: prod.splits result.splits option.splits)
qed (simp add: safe_at_def)

lemma handleDelete_safe: "safe_at (\<lambda>w. w) (handleDelete (rp_clusters u) sd) w"
proof -
  let ?i = "document_Query (sd_ID sd) (prefix_query (''/subscriptions/'' @ sd_ID sd @ ''/'')) None"
  have "clusters_ListByPrefix (rp_clusters u) (sd_ID sd) (''/subscriptions/'' @ sd_ID sd @ ''/'') = Ok i \<Longrightarrow> i = ?i" for i
    by (auto simp: clusters_ListByPrefix_def rp_database_def zoom_docs_def account_docs_def client_docs_def split: if_splits)
  moreover have "safe_at snd (delete_loop (rp_clusters u) (cl_fuel (rp_clusters u)) ?i) (True, w)"
    by (rule delete_loop_safe) (rule disjI1, rule refl)
  ultimately show ?thesis
    by (auto simp: safe_at_def handleDelete_def split: result.splits prod.splits)
qed

lemma sub_handle_safe:
  assumes "b_db b = rp_database u"
  shows "safe_at snd (sub_handle b doc) s"
proof -
  have patch: "quiet snd (subs_patch (rp_subs u) i f o')" if "\<And>d. quiet snd (f d)" for i and f :: "SubscriptionDocument \<Rightarrow> (bool \<times> rp_world, SubscriptionDocument) go" and o'
    unfolding subs_patch_def by (intro quiet that)
  have "quiet snd (\<lambda>s. if sd_LeaseOwner d \<noteq> u then (Err lost_lease, s) else greturn (end_subscription_lease dn later d) s)" for d dn later
    by (simp add: quiet_def)
  then have "quiet snd (sub_endLease b True doc dn later)" for dn later
    unfolding sub_endLease_def subs_EndLease_def subs_patchWithLease_def Let_def assms by (intro quiet patch) simp
  then have quiet_end: "w_clusters (snd s'') = w_clusters (snd s')" if "sub_endLease b True doc dn later s' = (r, s'')" for dn later s' r s''
    using that by (rule quietD)
  have "safe_at snd (on_world (handleDelete (rp_clusters u) doc)) (True, snd s)"
    by (intro safe_on_world handleDelete_safe)
  then show ?thesis
    by (auto simp: safe_at_def sub_handle_def assms stop_heartbeat_def dest!: quiet_end split: prod.splits result.splits)
qed

section \<open>The provider\<close>

text \<open>
  The provider as a transition system on its database: a request that changes clusters, a dequeue, a dequeue with the worker that it starts, the worker
  of a subscription that is being deleted, a heartbeat, the passing of time, and whatever does not write the clusters (the other requests, the
  dequeue of subscriptions).
\<close>

inductive provider_step ::
    "('b, 'e, rp_world) frontend \<Rightarrow> ('e, 'l, 'c, rp_world) version \<Rightarrow> rp_world backend \<Rightarrow> rp_world \<Rightarrow> rp_world \<Rightarrow> bool"
  for f :: "('b, 'e, rp_world) frontend" and v :: "('e, 'l, 'c, rp_world) version" and b :: "rp_world backend" where
  put: "putOrPatchOpenShiftCluster f v r (h, w) = (x, (h', w')) \<Longrightarrow> provider_step f v b w w'"
| delete: "(deleteOpenShiftCluster f r :: (header \<times> rp_world, ('e, 'l, 'c) answer) go) (h, w) = (x, (h', w')) \<Longrightarrow> provider_step f v b w w'"
| dequeue: "cluster_try b w = (x, w') \<Longrightarrow> provider_step f v b w w'"
| worker: "cluster_try b w = (Ok t, w1) \<Longrightarrow> tr_spawn t = Some doc \<Longrightarrow> handle b doc (hb, w1) = (x, (hb', w')) \<Longrightarrow> provider_step f v b w w'"
| subscription_worker: "sub_handle b sd (hb, w) = (x, (hb', w')) \<Longrightarrow> provider_step f v b w w'"
| heartbeat: "clusters_Lease (db_OpenShiftClusters (b_db b)) key (hb :: bool, w) = (x, (hb', w')) \<Longrightarrow> provider_step f v b w w'"
| clock: "provider_step f v b w (w\<lparr>w_clusters := (w_clusters w)\<lparr>ac_now := now\<rparr>\<rparr>)"
| elsewhere: "w_clusters w' = w_clusters w \<Longrightarrow> provider_step f v b w w'"

lemma lease_safe: "safe_at snd (clusters_Lease (rp_clusters u) key) (hb :: bool, w)"
  unfolding clusters_Lease_def clusters_patchWithLease_def
  by (rule patch_safe [where P = "\<lambda>_. True"]) (auto simp: quiet_def evolves_def split: if_splits)

lemma safe_step: "safe_at get m s \<Longrightarrow> m s = (x, s') \<Longrightarrow> clusters_good (w_clusters (get s)) \<Longrightarrow> reaches (w_clusters (get s)) (w_clusters (get s'))"
  by (auto simp: safe_at_def)

lemma provider_step_reaches:
  assumes env: "front_ok f v u" "back_ok b u" and good: "clusters_good (w_clusters w)" and step: "provider_step f v b w w'"
  shows "reaches (w_clusters w) (w_clusters w')"
proof -
  have db: "b_db b = rp_database u" using env(2) by (simp add: back_ok_def)
  from step show ?thesis
  proof cases
    case (put r h x h')
    then show ?thesis using safe_step [OF put_request_safe [OF env(1)]] good by fastforce
  next
    case (delete r h x h')
    then show ?thesis using safe_step [OF delete_request_safe [OF env(1)]] good by fastforce
  next
    case (dequeue x)
    then show ?thesis using safe_step [OF try_safe(1) [OF db]] good by fastforce
  next
    case (worker t w1 doc hb x hb')
    have first: "reaches (w_clusters w) (w_clusters w1)" using safe_step [OF try_safe(1) [OF db] worker(1)] good by simp
    have pending: "pending doc (w_clusters w1)" using try_safe(2) [OF db good worker(1,2)] .
    then have "oc_ProvisioningState (doc_OpenShiftCluster doc) \<in> set tasks" "good_id (doc_ID doc)"
      using stored_filed(3) [OF reaches_good [OF first]] by (auto simp: pending_def filed_def)
    from handle_safe [OF env(2) this, of "(hb, w1)"] pending_current [OF pending]
    have "safe_at snd (handle b doc) (hb, w1)" by simp
    from safe_step [OF this worker(3)] reaches_good [OF first] have "reaches (w_clusters w1) (w_clusters w')" by simp
    with first show ?thesis by (rule reaches_trans)
  next
    case (subscription_worker sd hb x hb')
    then show ?thesis using safe_step [OF sub_handle_safe [OF db]] good by fastforce
  next
    case (heartbeat key hb x hb')
    then show ?thesis using safe_step [OF lease_safe] good db by fastforce
  next
    case (clock now)
    have "account_stored (w_clusters w\<lparr>ac_now := now\<rparr>) = account_stored (w_clusters w)" by (simp add: account_stored_def)
    with clock good show ?thesis
      by (simp add: reaches_def clusters_good_def account_good_def lives_def [abs_def])
  qed (use good in simp)
qed


text \<open>A provider without Azure: validation accepts everything and managers do nothing.\<close>

definition idle_backend :: "rp_world backend" where
  "idle_backend = rp_backend ''u'' (\<lambda>doc. greturn \<lparr>m_Create = greturn (), m_Update = greturn (), m_Delete = greturn ()\<rparr>) (\<lambda>_. 0)"

lemma idle_ok: "front_ok sample_frontend sample_version ''u''" "back_ok idle_backend ''u''"
proof -
  show "back_ok idle_backend ''u''"
    by (simp add: back_ok_def idle_backend_def rp_backend_def keeps_def)
  have "good_id ''op''" by code_simp
  then show "front_ok sample_frontend sample_version ''u''"
    by (simp add: front_ok_def sample_frontend_def sample_version_def preview_version_def quiet_def)
qed

lemma idle_clusters_good: "clusters_good (w_clusters idle_world)"
  by code_simp

definition deleted_world :: rp_world where
  "deleted_world = snd (snd (deleteOpenShiftCluster sample_frontend (sample_request MethodDelete) ([], idle_world) ::
     preview_answer result \<times> header \<times> rp_world))"


text \<open>
  A cluster whose creation was given up after too many dequeues, and the deletion of its subscription: the worker of the subscription marks the cluster
  as Deleting but leaves the number of its dequeues, so that the next dequeue gives up again, and no worker is started.
\<close>

definition given_up_doc :: OpenShiftClusterDocument where
  "given_up_doc = idle_doc\<lparr>doc_Dequeues := 6, doc_OpenShiftCluster :=
     set_FailedProvisioningState ProvisioningStateCreating (set_ProvisioningState ProvisioningStateFailed idle_cluster)\<rparr>"

definition given_up_world :: rp_world where
  "given_up_world = idle_world\<lparr>w_clusters := \<lparr>ac_docs = [((sample_sub, ''id''), given_up_doc)], ac_next = 1, ac_now = 1000\<rparr>\<rparr>"

definition unsubscribed_world :: rp_world where
  "unsubscribed_world = snd (snd (sub_handle idle_backend registered (True, given_up_world)))"

lemma subscription_deletion_given_up:
  "lives (w_clusters unsubscribed_world) (sample_sub, ''id'') = Busy Delete"
  "case cluster_try idle_backend unsubscribed_world of (r, w) \<Rightarrow>
     (case r of Ok t \<Rightarrow> tr_did t \<and> tr_spawn t = None | _ \<Rightarrow> False)
     \<and> lives (w_clusters w) (sample_sub, ''id'') = Broken Delete"
  by code_simp+

end
