(* ===== verification/Middleware.thy ===== *)
theory Middleware
  imports Frontend StaticValidation
begin

text \<open>
  The way of a request through the front end: \<^verbatim>\<open>src/pkg/frontend/middleware\<close>, the routes of
  \<^verbatim>\<open>src/pkg/frontend/frontend.go\<close> with the router that matches them, and the handlers with their replies.

  A handler is a computation on the response writer and the world; a panic leaves it as a result of its own. The request of a
  handler is extended with what the middleware reads: the query parameters (the first value of each), the
  text of the URL, the TLS state, the bytes the connection delivers (none: reading fails) and the matched route. Body and context: the
  body that the handlers read is set by \<^verbatim>\<open>Body\<close> for the three methods whose handlers read it.

  Of the access log and the metrics only the method, the path, the status code, the version and the name of the route are kept.
\<close>

section \<open>Requests and handlers\<close>

datatype elem = Lit string | Var string

datatype version_query = NoQuery | AnyVersion | OnlyVersion string

record route =
  rt_Name :: string
  rt_Method :: string
  rt_Path :: "elem list"
  rt_Version :: version_query
  rt_Authenticated :: bool

record 't incoming = "string request" +
  in_Query :: "(string \<times> string) list"
  in_URL :: string
  in_TLS :: 't
  in_Stream :: "string option"
  in_Route :: "route option"

type_synonym ('y, 'w) http = "('y response_writer \<times> 'w, unit) go"
type_synonym ('t, 'y, 'w) handler = "'t incoming \<Rightarrow> ('y, 'w) http"

datatype log_entry =
    RequestStarted string string string string
  | RequestDone string int
  | Panicked string
  | Logged string

record metric =
  mt_Name :: string
  mt_Verb :: string
  mt_Version :: string
  mt_Code :: int
  mt_Route :: string

record ('t, 'w) mw_env =
  mw_newUUID :: "'w \<Rightarrow> string \<times> 'w"
  mw_log :: "log_entry \<Rightarrow> 'w \<Rightarrow> 'w"
  mw_emit :: "metric \<Rightarrow> 'w \<Rightarrow> 'w"
  mw_IsAuthorized :: "'t \<Rightarrow> bool"
  mw_dev :: bool
  mw_Location :: string
  mw_apis :: "string \<Rightarrow> bool"
  mw_urlString :: "string \<Rightarrow> string"

definition writes :: "('y response_writer \<Rightarrow> 'y response_writer) \<Rightarrow> ('y, 'w) http" where
  "writes f s = (Ok (), (f (fst s), snd s))"

section \<open>The middleware\<close>

definition Lowercase :: "('t, 'y, 'w) handler \<Rightarrow> ('t, 'y, 'w) handler" where
  "Lowercase h r = h (r\<lparr>r_OriginalPath := r_Path r, r_Path := ToLower (r_Path r)\<rparr>)"

definition Log :: "('t, 'w) mw_env \<Rightarrow> ('t, 'y, 'w) handler \<Rightarrow> ('t, 'y, 'w) handler" where
  "Log e h r s =
     (case mw_newUUID e (snd s) of (requestID, w) \<Rightarrow>
        let rw = (fst s)\<lparr>rw_Header := Header_Set ''X-Ms-Request-Id'' requestID (rw_Header (fst s)), rw_Logged := 200\<rparr>;
            correlationID = Header_Get (r_Header r) ''X-Ms-Correlation-Request-Id'';
            w = mw_log e (RequestStarted (r_Method r) (r_Path r) correlationID requestID) w in
        case h r (rw, w) of (x, s') \<Rightarrow>
          (x, (fst s', mw_log e (RequestDone (r_Method r) (rw_Logged (fst s'))) (snd s'))))"

definition Metrics :: "('t, 'w) mw_env \<Rightarrow> ('t, 'y, 'w) handler \<Rightarrow> ('t, 'y, 'w) handler" where
  "Metrics e h r s =
     (let name = (case in_Route r of Some rt \<Rightarrow> rt_Name rt | None \<Rightarrow> ''unknown'');
          metric = (\<lambda>n c. \<lparr>mt_Name = n, mt_Verb = r_Method r, mt_Version = var (request.truncate r) ''api-version'',
                           mt_Code = c, mt_Route = name\<rparr>) in
      case h r s of (x, s') \<Rightarrow>
        let c = rw_Logged (fst s') in
        (x, (fst s', mw_emit e (metric ''frontend.duration'' c) (mw_emit e (metric ''frontend.count'' c) (snd s')))))"

text \<open>\<^verbatim>\<open>Panic\<close>: the handler's panic is recovered and answered.\<close>

definition Recover :: "('t, 'w) mw_env \<Rightarrow> ('t, 'y, 'w) handler \<Rightarrow> ('t, 'y, 'w) handler" where
  "Recover e h r s =
     (case h r s of
        (Panic p, s') \<Rightarrow>
          (Ok (), (WriteError 500 CloudErrorCodeInternalServerError [] ''Internal server error.'' [] (fst s'),
                   mw_log e (Panicked p) (snd s')))
      | x \<Rightarrow> x)"

definition Headers :: "('t, 'w) mw_env \<Rightarrow> ('t, 'y, 'w) handler \<Rightarrow> ('t, 'y, 'w) handler" where
  "Headers e h r s =
     (let hs = Header_Set ''Content-Type'' ''application/json'' (rw_Header (fst s));
          hs = (if EqualFold (Header_Get (r_Header r) ''X-Ms-Return-Client-Request-Id'') ''true''
                then Header_Set ''X-Ms-Client-Request-Id'' (Header_Get (r_Header r) ''X-Ms-Client-Request-Id'') hs else hs);
          r = (if mw_dev e
               then r\<lparr>r_Header := Header_Set ''Referer'' (''https://localhost:8443'' @ in_URL r) (r_Header r)\<rparr> else r) in
      h r ((fst s)\<lparr>rw_Header := hs\<rparr>, snd s))"

definition Authenticated :: "('t, 'w) mw_env \<Rightarrow> ('t, 'y, 'w) handler \<Rightarrow> ('t, 'y, 'w) handler" where
  "Authenticated e h r =
     (if \<not> mw_IsAuthorized e (in_TLS r) then writes (WriteError 403 CloudErrorCodeForbidden [] ''Forbidden.'' [])
      else h r)"

definition max_body :: int where "max_body = 1048576"

definition Body :: "('t, 'y, 'w) handler \<Rightarrow> ('t, 'y, 'w) handler" where
  "Body h r =
     (if r_Method r \<in> {MethodPatch, MethodPost, MethodPut} then
        (case in_Stream r of
           None \<Rightarrow> writes (WriteError 400 CloudErrorCodeInvalidResource [] ''The resource definition is invalid.'' [])
         | Some body \<Rightarrow>
             if int (length body) > max_body
             then writes (WriteError 400 CloudErrorCodeInvalidResource [] ''The resource definition is invalid.'' [])
             else
               let contentType = takeWhile (\<lambda>c. c \<noteq> CHR '';'') (Header_Get (r_Header r) ''Content-Type'') in
               if contentType \<noteq> ''application/json'' \<and> \<not> (body = [] \<and> contentType = [])
               then writes (WriteError 415 CloudErrorCodeUnsupportedMediaType []
                      ''The content media type '%s' is not supported. Only 'application/json' is supported.''
                      [AStr (Header_Get (r_Header r) ''Content-Type'')])
               else h (r\<lparr>r_Body := body\<rparr>))
      else h r)"

subsection \<open>Validate\<close>

definition rxResourceGroupName :: rx where
  "rxResourceGroupName = RCat (RRep rg_dot_class 0 89) (RCls rg_class)"

definition middleware_resourceProviderNamespace :: string where
  "middleware_resourceProviderNamespace = ''Microsoft.RedHatOpenShift''"

definition middleware_resourceType :: string where
  "middleware_resourceType = ''openShiftClusters''"

text \<open>A refusal: status, code, message and its arguments.\<close>

type_synonym refusal = "int \<times> string \<times> string \<times> fmt_arg list"

text \<open>The check of one route variable, if the route has it.\<close>

definition check_var :: "'b request \<Rightarrow> string \<Rightarrow> (string \<Rightarrow> bool) \<Rightarrow> refusal \<Rightarrow> refusal option" where
  "check_var r v ok refused =
     (case map_of (r_Vars r) v of None \<Rightarrow> None | Some x \<Rightarrow> if ok x then None else Some refused)"

fun first_refusal :: "refusal option list \<Rightarrow> refusal option" where
  "first_refusal [] = None"
| "first_refusal (None # cs) = first_refusal cs"
| "first_refusal (Some x # cs) = Some x"

definition is_uuid :: "string \<Rightarrow> bool" where
  "is_uuid s = (case uuid_FromString s of Ok _ \<Rightarrow> True | _ \<Rightarrow> False)"

definition validate_vars :: "('t, 'w) mw_env \<Rightarrow> version_query \<Rightarrow> 'b request \<Rightarrow> refusal option" where
  "validate_vars e q r =
     (let a = (\<lambda>v. AStr (var r v));
          bad_type = (404, CloudErrorCodeInvalidResourceType,
            ''The resource type '%s' could not be found in the namespace '%s' for api version '%s'.'',
            [a ''resourceType'', a ''resourceProviderNamespace'', a ''api-version'']) in
      first_refusal [
        check_var r ''subscriptionId'' is_uuid
          (404, CloudErrorCodeInvalidSubscriptionID, ''The provided subscription identifier '%s' is malformed or invalid.'', [a ''subscriptionId'']),
        check_var r ''resourceGroupName'' (rx_match rxResourceGroupName)
          (404, CloudErrorCodeResourceGroupNotFound, ''Resource group '%s' could not be found.'', [a ''resourceGroupName'']),
        check_var r ''resourceProviderNamespace'' (\<lambda>x. x = ToLower middleware_resourceProviderNamespace)
          (404, CloudErrorCodeInvalidResourceNamespace, ''The resource namespace '%s' is invalid.'', [a ''resourceProviderNamespace'']),
        check_var r ''resourceType'' (\<lambda>x. x = ToLower middleware_resourceType) bad_type,
        check_var r ''resourceName'' (rx_match rxResourceGroupName)
          (404, CloudErrorCodeResourceNotFound, ''The Resource '%s/%s/%s' under resource group '%s' was not found.'',
           [a ''resourceProviderNamespace'', a ''resourceType'', a ''resourceName'', a ''resourceGroupName'']),
        check_var r ''location'' (\<lambda>x. EqualFold x (mw_Location e))
          (404, CloudErrorCodeInvalidLocation, ''The provided location '%s' is malformed or invalid.'', [a ''location'']),
        check_var r ''operationId'' is_uuid
          (404, CloudErrorCodeInvalidOperationID, ''The provided operation identifier '%s' is malformed or invalid.'', [a ''operationId'']),
        (case q of OnlyVersion v \<Rightarrow> None | _ \<Rightarrow> check_var r ''api-version'' (mw_apis e) bad_type)])"

text \<open>The middleware \<^verbatim>\<open>Validate\<close>.\<close>

definition ValidateRequest :: "('t, 'w) mw_env \<Rightarrow> ('t, 'y, 'w) handler \<Rightarrow> ('t, 'y, 'w) handler" where
  "ValidateRequest e h r s =
     (case in_Route r of
        None \<Rightarrow> (Ok (), (WriteError 404 CloudErrorCodeInternalServerError [] ''Internal server error.'' [] (fst s),
                        mw_log e (Logged ''route was nil'') (snd s)))
      | Some rt \<Rightarrow>
          if r_Path r \<noteq> ToLower (r_Path r)
          then (Ok (), (WriteError 500 CloudErrorCodeInternalServerError [] ''Internal server error.'' [] (fst s),
                        mw_log e (Logged ''path was not lower case'') (snd s)))
          else case validate_vars e (rt_Version rt) (request.truncate r) of
                 Some (status, code, msg, a) \<Rightarrow> writes (WriteError status code [] msg a) s
               | None \<Rightarrow> h r s)"

section \<open>Routes\<close>

definition cluster_path :: "elem list" where
  "cluster_path = [Lit ''subscriptions'', Var ''subscriptionId'', Lit ''resourcegroups'', Var ''resourceGroupName'',
     Lit ''providers'', Var ''resourceProviderNamespace'', Var ''resourceType'', Var ''resourceName'']"

definition operation_path :: "string \<Rightarrow> elem list" where
  "operation_path what = [Lit ''subscriptions'', Var ''subscriptionId'', Lit ''providers'', Var ''resourceProviderNamespace'',
     Lit ''locations'', Var ''location'', Lit what, Var ''operationId'']"

definition unauthenticatedRoutes :: "route list" where
  "unauthenticatedRoutes = [
     \<lparr>rt_Name = [], rt_Method = MethodGet, rt_Path = [Lit ''healthz'', Lit ''ready''], rt_Version = NoQuery, rt_Authenticated = False\<rparr>]"

definition authenticatedRoutes :: "route list" where
  "authenticatedRoutes =
     (let rt = (\<lambda>n m p v. \<lparr>rt_Name = n, rt_Method = m, rt_Path = p, rt_Version = v, rt_Authenticated = True\<rparr>) in
      [rt ''deleteOpenShiftCluster'' MethodDelete cluster_path AnyVersion,
       rt ''getOpenShiftCluster'' MethodGet cluster_path AnyVersion,
       rt ''putOrPatchOpenShiftCluster'' MethodPatch cluster_path AnyVersion,
       rt ''putOrPatchOpenShiftCluster'' MethodPut cluster_path AnyVersion,
       rt ''getOpenShiftClusters'' MethodGet (butlast cluster_path) AnyVersion,
       rt ''getOpenShiftClusters'' MethodGet
         [Lit ''subscriptions'', Var ''subscriptionId'', Lit ''providers'', Var ''resourceProviderNamespace'', Var ''resourceType''] AnyVersion,
       rt ''getAsyncOperationsStatus'' MethodGet (operation_path ''operationsstatus'') AnyVersion,
       rt ''getAsyncOperationResult'' MethodGet (operation_path ''operationresults'') AnyVersion,
       rt ''postOpenShiftClusterCredentials'' MethodPost (cluster_path @ [Lit ''listcredentials'']) AnyVersion,
       rt ''getOperations'' MethodGet [Lit ''providers'', Var ''resourceProviderNamespace'', Lit ''operations''] AnyVersion,
       rt ''putSubscription'' MethodPut [Lit ''subscriptions'', Var ''subscriptionId''] (OnlyVersion ''2.0'')])"

subsection \<open>Matching\<close>

text \<open>
  The router's patterns: a variable is a non-empty path element, a version is the first value of the parameter (no
  line break in it); the first route whose path, version and method match is taken.
\<close>

fun match_elems :: "elem list \<Rightarrow> string list \<Rightarrow> (string \<times> string) list option" where
  "match_elems [] [] = Some []"
| "match_elems (Lit l # es) (s # ss) = (if s = l then match_elems es ss else None)"
| "match_elems (Var v # es) (s # ss) = (if s = [] then None else map_option (Cons (v, s)) (match_elems es ss))"
| "match_elems _ _ = None"

definition match_path :: "elem list \<Rightarrow> string \<Rightarrow> (string \<times> string) list option" where
  "match_path es path = (case Split CHR ''/'' path of [] # ss \<Rightarrow> match_elems es ss | _ \<Rightarrow> None)"

definition match_version :: "version_query \<Rightarrow> (string \<times> string) list \<Rightarrow> (string \<times> string) list option" where
  "match_version q query =
     (case q of
        NoQuery \<Rightarrow> Some []
      | AnyVersion \<Rightarrow> (case map_of query ''api-version'' of
           Some v \<Rightarrow> if CHR 0x0A \<in> set v then None else Some [(''api-version'', v)]
         | None \<Rightarrow> None)
      | OnlyVersion v \<Rightarrow> if map_of query ''api-version'' = Some v then Some [] else None)"

definition match_route :: "string \<Rightarrow> (string \<times> string) list \<Rightarrow> route \<Rightarrow> (route \<times> (string \<times> string) list) option" where
  "match_route path query rt =
     (case (match_path (rt_Path rt) path, match_version (rt_Version rt) query) of
        (Some xs, Some ys) \<Rightarrow> Some (rt, xs @ ys)
      | _ \<Rightarrow> None)"

datatype dispatched = Matched route "(string \<times> string) list" | MethodNotAllowed | NotFound

definition dispatch :: "string \<Rightarrow> string \<Rightarrow> (string \<times> string) list \<Rightarrow> dispatched" where
  "dispatch method path query =
     (let candidates = List.map_filter (match_route path query) (unauthenticatedRoutes @ authenticatedRoutes) in
      case List.find (\<lambda>(rt, vars). rt_Method rt = method) candidates of
        Some (rt, vars) \<Rightarrow> Matched rt vars
      | None \<Rightarrow> if candidates = [] then NotFound else MethodNotAllowed)"

text \<open>\<^verbatim>\<open>path.Clean\<close> of a rooted path, and the router's \<^verbatim>\<open>cleanPath\<close>.\<close>

fun clean_elems :: "string list \<Rightarrow> string list \<Rightarrow> string list" where
  "clean_elems acc [] = rev acc"
| "clean_elems acc (s # ss) =
     (if s = [] \<or> s = ''.'' then clean_elems acc ss
      else if s = ''..'' then clean_elems (tl acc) ss
      else clean_elems (s # acc) ss)"

definition cleanPath :: "string \<Rightarrow> string" where
  "cleanPath p =
     (if p = [] then ''/''
      else let p = (if hd p \<noteq> CHR ''/'' then CHR ''/'' # p else p);
               np = CHR ''/'' # Join CHR ''/'' (clean_elems [] (Split CHR ''/'' p)) in
           if last p = CHR ''/'' \<and> np \<noteq> ''/'' then np @ ''/'' else np)"

section \<open>The router\<close>

text \<open>The middleware around the handler of a route, as \<^verbatim>\<open>setupRouter\<close> composes it.\<close>

definition chain :: "('t, 'w) mw_env \<Rightarrow> route \<Rightarrow> ('t, 'y, 'w) handler \<Rightarrow> ('t, 'y, 'w) handler" where
  "chain e rt h =
     Log e (Metrics e (Recover e (Headers e (ValidateRequest e (Body (if rt_Authenticated rt then Authenticated e h else h))))))"

definition notFound :: "('t, 'y, 'w) handler" where
  "notFound r s =
     (let rw = (fst s)\<lparr>rw_Header := Header_Set ''Content-Type'' ''application/json'' (rw_Header (fst s))\<rparr> in
      writes (WriteError 404 CloudErrorCodeNotFound [] ''The requested path could not be found.'' []) (rw, snd s))"

definition router :: "('t, 'w) mw_env \<Rightarrow> (string \<Rightarrow> ('t, 'y, 'w) handler) \<Rightarrow> ('t, 'y, 'w) handler" where
  "router e handlers r =
     (if cleanPath (r_Path r) \<noteq> r_Path r
      then writes (\<lambda>rw. WriteHeader 301 (rw\<lparr>rw_Header :=
             Header_Set ''Location'' (mw_urlString e (cleanPath (r_Path r))) (rw_Header rw)\<rparr>))
      else case dispatch (r_Method r) (r_Path r) (in_Query r) of
             Matched rt vars \<Rightarrow> chain e rt (handlers (rt_Name rt)) (r\<lparr>r_Vars := vars, in_Route := Some rt\<rparr>)
           | MethodNotAllowed \<Rightarrow> writes (WriteHeader 405)
           | NotFound \<Rightarrow> Authenticated e notFound r)"

definition server :: "('t, 'w) mw_env \<Rightarrow> (string \<Rightarrow> ('t, 'y, 'w) handler) \<Rightarrow> ('t, 'y, 'w) handler" where
  "server e handlers = Lowercase (router e handlers)"

section \<open>The handlers with their replies\<close>

definition reply_with :: "(header \<times> 'w, 'y option \<times> int option) go \<Rightarrow> ('y, 'w) http" where
  "reply_with m s =
     (case m ([], snd s) of (x, (hs, w)) \<Rightarrow>
        case reply_result hs x (fst s) of
          Ok rw \<Rightarrow> (Ok (), (rw, w))
        | Err e \<Rightarrow> (Err e, (fst s, w))
        | Panic p \<Rightarrow> (Panic p, (fst s, w)))"

text \<open>A version that is not registered is a nil pointer.\<close>

definition with_version ::
    "(string \<Rightarrow> ('e, 'l, 'c, 'w) version option) \<Rightarrow> 'b request \<Rightarrow> (('e, 'l, 'c, 'w) version \<Rightarrow> ('y, 'w) http) \<Rightarrow> ('y, 'w) http" where
  "with_version apis r k s =
     (case apis (var r ''api-version'') of None \<Rightarrow> (Panic ''nil pointer dereference'', s) | Some v \<Rightarrow> k v s)"

definition getOpenShiftCluster ::
    "(string, 'e, 'w) frontend \<Rightarrow> (string \<Rightarrow> ('e, 'l, 'c, 'w) version option) \<Rightarrow> string request \<Rightarrow> (('e, 'l, 'c) body, 'w) http" where
  "getOpenShiftCluster f apis r = with_version apis r (\<lambda>v. reply_with (on_world (get_OpenShiftCluster f v r)))"

definition getOpenShiftClusters ::
    "(string, 'e, 'w) frontend \<Rightarrow> (string \<Rightarrow> ('e, 'l, 'c, 'w) version option) \<Rightarrow> string request \<Rightarrow> (('e, 'l, 'c) body, 'w) http" where
  "getOpenShiftClusters f apis r = with_version apis r (\<lambda>v. reply_with (on_world (get_OpenShiftClusters f v r)))"

definition getAsyncOperationResult ::
    "(string, 'e, 'w) frontend \<Rightarrow> (string \<Rightarrow> ('e, 'l, 'c, 'w) version option) \<Rightarrow> string request \<Rightarrow> (('e, 'l, 'c) body, 'w) http" where
  "getAsyncOperationResult f apis r = with_version apis r (\<lambda>v. reply_with (get_AsyncOperationResult f v r))"

definition getAsyncOperationsStatus ::
    "(string, 'e, 'w) frontend \<Rightarrow> string request \<Rightarrow> (('e, 'l, 'c) body, 'w) http" where
  "getAsyncOperationsStatus f r = reply_with (on_world (get_AsyncOperationsStatus f r))"

lemmas handler_defs =
  getOpenShiftCluster_def getOpenShiftClusters_def getAsyncOperationResult_def getAsyncOperationsStatus_def

text \<open>The handler of a route, by the name of the route.\<close>

definition frontend_handler ::
    "(string, 'e, 'w) frontend \<Rightarrow> (string \<Rightarrow> ('e, 'l, 'c, 'w) version option) \<Rightarrow> string \<Rightarrow> ('t, ('e, 'l, 'c) body, 'w) handler" where
  "frontend_handler f apis name r =
     (let q = request.truncate r in
      if name = ''deleteOpenShiftCluster'' then reply_with (deleteOpenShiftCluster f q)
      else if name = ''getOpenShiftCluster'' then getOpenShiftCluster f apis q
      else if name = ''putOrPatchOpenShiftCluster'' then with_version apis q (\<lambda>v. reply_with (putOrPatchOpenShiftCluster f v q))
      else if name = ''getOpenShiftClusters'' then getOpenShiftClusters f apis q
      else if name = ''getAsyncOperationsStatus'' then getAsyncOperationsStatus f q
      else if name = ''getAsyncOperationResult'' then getAsyncOperationResult f apis q
      else if name = ''postOpenShiftClusterCredentials''
        then with_version apis q (\<lambda>v. reply_with (on_world (postOpenShiftClusterCredentials f v q)))
      else if name = ''getOperations'' then reply_with (greturn (Some (BOperations getOperations), None))
      else if name = ''putSubscription'' then reply_with (on_world (putSubscription f q))
      else writes (getReady f))"

end
