(* ===== verification/Server.thy ===== *)
theory Server
  imports Middleware
begin

text \<open>
  What the front end's server promises, whatever the handlers do: it never panics, an unauthorised client reaches no
  handler, and a handler of a cluster only sees requests whose path is the lower-case identifier of a cluster of this provider.
\<close>

section \<open>Panics\<close>

text \<open>A handler of the sources returns or panics; it has no error result of its own.\<close>

definition returns :: "('t, 'y, 'w) handler \<Rightarrow> bool" where
  "returns h \<longleftrightarrow> (\<forall>r s err. fst (h r s) \<noteq> Err err)"

named_theorems returns_intros \<open>handlers that return or panic\<close>

lemma returns_Authenticated [returns_intros]: "returns h \<Longrightarrow> returns (Authenticated e h)"
  by (auto simp: returns_def Authenticated_def writes_def)

lemma returns_Body [returns_intros]: "returns h \<Longrightarrow> returns (Body h)"
  by (auto simp: returns_def Body_def writes_def Let_def split: option.splits)

lemma returns_Validate [returns_intros]: "returns h \<Longrightarrow> returns (ValidateRequest e h)"
  by (auto simp: returns_def ValidateRequest_def writes_def split: option.splits)

lemma returns_Headers [returns_intros]: "returns h \<Longrightarrow> returns (Headers e h)"
  by (auto simp: returns_def Headers_def Let_def)

lemma Recover_ok:
  assumes "returns h"
  shows "fst (Recover e h r s) = Ok ()"
proof -
  from assms have "fst (h r s) \<noteq> Err err" for err unfolding returns_def by blast
  then show ?thesis by (cases "h r s") (auto simp: Recover_def split: result.splits)
qed

lemma outer_ok: "(\<And>r s. fst (h r s) = Ok ()) \<Longrightarrow> fst (Log e (Metrics e h) r s) = Ok ()"
  by (simp add: Log_def Metrics_def split_def Let_def)

lemma chain_ok: "returns h \<Longrightarrow> fst (chain e rt h r s) = Ok ()"
  unfolding chain_def by (intro outer_ok Recover_ok returns_intros) (auto intro: returns_intros)

lemma server_ok:
  assumes "\<And>n. returns (handlers n)"
  shows "fst (server e handlers r s) = Ok ()"
  by (auto simp: server_def Lowercase_def router_def writes_def Authenticated_def notFound_def Let_def chain_ok [OF assms]
    split: dispatched.splits)

lemma reply_result_returns: "reply_result hs x rw \<noteq> Err err"
  by (auto simp: reply_result_def split: result.splits option.splits prod.splits)

lemma returns_reply: "fst (reply_with m s) \<noteq> Err err"
  using reply_result_returns by (auto simp: reply_with_def split: result.splits prod.splits)

lemma returns_frontend [returns_intros]: "returns (frontend_handler f apis name)"
  by (auto simp: returns_def frontend_handler_def handler_defs with_version_def returns_reply writes_def Let_def split: option.splits)

text \<open>
  C21. No request brings the server down: whatever the request, the stored documents and the bugs of a handler (a panic
  included), the server returns; and a handler that panics before it has written anything is answered with
  status 500 and the fixed internal error, which says nothing of the cause.
\<close>
theorem server_never_panics:
  "fst (server e (frontend_handler f apis) r s) = Ok ()
   \<and> (case frontend_handler f apis name q s of
        (Panic p, s') \<Rightarrow>
          rw_Status (fst s') = rw_Status (fst s)
          \<and> fst (snd (Recover e (frontend_handler f apis name) q s)) =
              WriteError 500 CloudErrorCodeInternalServerError [] ''Internal server error.'' [] (fst s')
      | _ \<Rightarrow> True)"
proof -
  have "rw_Status (fst s') = rw_Status (fst s)" if "frontend_handler f apis name q s = (Panic p, s')" for p s'
    using that
    by (auto simp: frontend_handler_def handler_defs with_version_def reply_with_def writes_def Let_def
      split: option.splits if_splits prod.splits result.splits)
  moreover have "fst (server e (frontend_handler f apis) r s) = Ok ()"
    by (rule server_ok) (rule returns_frontend)
  ultimately show ?thesis by (auto simp: Recover_def split: prod.splits result.splits)
qed

section \<open>Authorisation\<close>

text \<open>Handlers that an unauthorised client cannot tell apart.\<close>

definition same_unauthorised :: "('t, 'w) mw_env \<Rightarrow> ('t, 'y, 'w) handler \<Rightarrow> ('t, 'y, 'w) handler \<Rightarrow> bool" where
  "same_unauthorised e h h' \<longleftrightarrow> (\<forall>r. \<not> mw_IsAuthorized e (in_TLS r) \<longrightarrow> h r = h' r)"

lemma same_apply: "same_unauthorised e h h' \<Longrightarrow> \<not> mw_IsAuthorized e (in_TLS r) \<Longrightarrow> h r = h' r"
  by (simp add: same_unauthorised_def)

lemma same_inner:
  "same_unauthorised e (Authenticated e h) (Authenticated e h')"
  "same_unauthorised e h h' \<Longrightarrow> same_unauthorised e (Body h) (Body h')"
  "same_unauthorised e h h' \<Longrightarrow> same_unauthorised e (ValidateRequest e h) (ValidateRequest e h')"
  unfolding same_unauthorised_def
  by (auto simp: Authenticated_def Body_def ValidateRequest_def [abs_def] Let_def fun_eq_iff split: option.split)

lemma same_outer:
  assumes "same_unauthorised e h h'"
  shows "same_unauthorised e (Headers e h) (Headers e h')"
    and "same_unauthorised e (Recover e h) (Recover e h')"
    and "same_unauthorised e (Metrics e h) (Metrics e h')"
    and "same_unauthorised e (Log e h) (Log e h')"
  unfolding same_unauthorised_def
  by (simp_all add: fun_eq_iff Headers_def Recover_def Metrics_def Log_def Let_def same_apply [OF assms])

lemmas same_layers = same_inner same_outer

lemma chain_unauthorised:
  assumes "rt_Authenticated rt"
  shows "same_unauthorised e (chain e rt h) (chain e rt h')"
  unfolding chain_def using assms by (simp add: same_layers)

lemma in_map_filter: "y \<in> set (List.map_filter f xs) \<longleftrightarrow> (\<exists>x \<in> set xs. f x = Some y)"
  by (force simp: List.map_filter_def)

lemma match_route_same: "match_route p q rt = Some (rt', vars) \<Longrightarrow> rt' = rt"
  by (auto simp: match_route_def split: option.splits)

lemma dispatch_route:
  assumes "dispatch m p q = Matched rt vars"
  shows "rt \<in> set (unauthenticatedRoutes @ authenticatedRoutes)" and "rt_Method rt = m" and "match_route p q rt = Some (rt, vars)"
proof -
  let ?all = "unauthenticatedRoutes @ authenticatedRoutes"
  from assms have "List.find (\<lambda>(rt, vars). rt_Method rt = m) (List.map_filter (match_route p q) ?all) = Some (rt, vars)"
    by (auto simp: dispatch_def Let_def split: option.splits prod.splits if_splits)
  then obtain n where "n < length (List.map_filter (match_route p q) ?all)" "List.map_filter (match_route p q) ?all ! n = (rt, vars)"
    and m: "rt_Method rt = m"
    by (auto simp: find_Some_iff)
  then have "(rt, vars) \<in> set (List.map_filter (match_route p q) ?all)" by (metis nth_mem)
  then obtain rt0 where "rt0 \<in> set ?all" "match_route p q rt0 = Some (rt, vars)"
    unfolding in_map_filter by blast
  with match_route_same m show "rt \<in> set ?all" and "rt_Method rt = m" and "match_route p q rt = Some (rt, vars)"
    by blast+
qed

lemma route_unauthenticated:
  "rt \<in> set (unauthenticatedRoutes @ authenticatedRoutes) \<Longrightarrow> \<not> rt_Authenticated rt \<Longrightarrow> rt_Name rt = []"
  by (auto simp: unauthenticatedRoutes_def authenticatedRoutes_def Let_def)

text \<open>
  An unauthorised client reaches no handler: its answer and its effect on the world do not depend on any handler but the readiness
  probe's; whatever it sends, it cannot read or change a cluster, a subscription or an operation.
\<close>
lemma unauthorised_reaches_no_handler:
  assumes "\<not> mw_IsAuthorized e (in_TLS r)" and "handlers [] = handlers' []"
  shows "server e handlers r s = server e handlers' r s"
proof -
  let ?r = "r\<lparr>r_OriginalPath := r_Path r, r_Path := ToLower (r_Path r)\<rparr>"
  have "chain e rt (handlers (rt_Name rt)) (?r\<lparr>r_Vars := vars, in_Route := Some rt\<rparr>) =
      chain e rt (handlers' (rt_Name rt)) (?r\<lparr>r_Vars := vars, in_Route := Some rt\<rparr>)"
    if "dispatch (r_Method ?r) (r_Path ?r) (in_Query ?r) = Matched rt vars" for rt vars
  proof (cases "rt_Authenticated rt")
    case True
    with chain_unauthorised [OF True, of e "handlers (rt_Name rt)" "handlers' (rt_Name rt)"] assms(1) show ?thesis
      by (simp add: same_unauthorised_def)
  next
    case False
    with route_unauthenticated dispatch_route(1) [OF that] assms(2) show ?thesis by metis
  qed
  then show ?thesis
    by (auto simp: server_def Lowercase_def router_def split: dispatched.splits)
qed

section \<open>Validated requests\<close>

lemma is_hex_newline: "is_hex c \<Longrightarrow> c \<noteq> CHR 0x0A"
proof -
  have "\<not> is_hex CHR 0x0A" by code_simp
  then show "is_hex c \<Longrightarrow> c \<noteq> CHR 0x0A" by auto
qed

lemma list_all_chunk:
  assumes "list_all P (take k (drop m t))" "m \<le> i" "i < m + k" "i < length t"
  shows "P (t ! i)"
proof -
  from assms have n: "i - m < length (take k (drop m t))" by auto
  with assms(1) have "P (take k (drop m t) ! (i - m))" unfolding list_all_length by blast
  with assms(2-4) n show ?thesis by simp
qed

lemma decodePlain_newline:
  assumes "uuid_decodePlain t = Ok ()"
  shows "CHR 0x0A \<notin> set t"
proof (cases "length t = 36")
  case True
  with assms have c: "t ! 8 = CHR ''-''" "t ! 13 = CHR ''-''" "t ! 18 = CHR ''-''" "t ! 23 = CHR ''-''"
      "list_all is_hex (take 8 (drop 0 t))" "list_all is_hex (take 4 (drop 9 t))" "list_all is_hex (take 4 (drop 14 t))"
      "list_all is_hex (take 4 (drop 19 t))" "list_all is_hex (take 12 (drop 24 t))"
    by (simp_all add: uuid_decodePlain_def uuid_decodeCanonical_def)
  have "is_hex (t ! i) \<or> t ! i = CHR ''-''" if "i < 36" for i
  proof -
    from that consider "i = 8 \<or> i = 13 \<or> i = 18 \<or> i = 23" | "i < 8" | "9 \<le> i" "i < 13" | "14 \<le> i" "i < 18"
      | "19 \<le> i" "i < 23" | "24 \<le> i" by linarith
    then show ?thesis
      using that True c(1-4) list_all_chunk [OF c(5), of i] list_all_chunk [OF c(6), of i] list_all_chunk [OF c(7), of i]
        list_all_chunk [OF c(8), of i] list_all_chunk [OF c(9), of i]
      by cases auto
  qed
  then show ?thesis
    using True is_hex_newline by (fastforce simp: in_set_conv_nth)
next
  case False
  with assms show ?thesis
    by (auto simp: uuid_decodePlain_def uuid_decodeHashLike_def list_all_iff split: if_splits dest: is_hex_newline)
qed

lemma is_uuid_newline:
  assumes "is_uuid s"
  shows "CHR 0x0A \<notin> set s"
proof -
  from assms have s: "uuid_FromString s = Ok ()" by (auto simp: is_uuid_def split: result.splits)
  consider "length s = 32 \<or> length s = 36" | "length s = 38" | "length s = 41 \<or> length s = 45"
    using s by (fastforce simp: uuid_FromString_def split: if_splits)
  then show ?thesis
  proof cases
    case 1
    with s have "uuid_decodePlain s = Ok ()" by (auto simp: uuid_FromString_def)
    then show ?thesis by (rule decodePlain_newline)
  next
    case 2
    with s have p: "hd s = CHR ''{''" "last s = CHR ''}''" "uuid_decodePlain (butlast (tl s)) = Ok ()"
      by (auto simp: uuid_FromString_def split: if_splits)
    from 2 obtain x t where t: "s = x # t" "t \<noteq> []" by (cases s) force+
    then obtain u y where "s = x # u @ [y]" by (cases t rule: rev_cases) auto
    with p decodePlain_newline [OF p(3)] show ?thesis by auto
  next
    case 3
    with s have p: "take 9 s = ''urn:uuid:''" "uuid_decodePlain (drop 9 s) = Ok ()"
      by (auto simp: uuid_FromString_def split: if_splits)
    have "set s = set (take 9 s) \<union> set (drop 9 s)"
      by (metis append_take_drop_id set_append)
    with p decodePlain_newline show ?thesis by auto
  qed
qed

lemma group_name_seg: "rx_match rxResourceGroupName s \<Longrightarrow> seg s"
proof -
  have no: "\<not> rg_dot_class CHR 0x0A" "\<not> rg_class CHR 0x0A" "\<not> rg_dot_class CHR ''/''" "\<not> rg_class CHR ''/''" by code_simp+
  assume "rx_match rxResourceGroupName s"
  then obtain u c where "s = u @ [c]" "list_all rg_dot_class u" "rg_class c"
    by (auto simp: rx_match_iff rxResourceGroupName_def elim!: lang_catE)
  with no show "seg s" by (auto simp: seg_def list_all_iff)
qed

lemma first_refusal_None: "first_refusal cs = None \<longleftrightarrow> list_all (\<lambda>c. c = None) cs"
  by (induction cs rule: first_refusal.induct) simp_all

lemma check_var_None: "check_var r v ok x = None \<longleftrightarrow> (\<forall>y. map_of (r_Vars r) v = Some y \<longrightarrow> ok y)"
  by (auto simp: check_var_def split: option.splits)

lemma match_elems_Some:
  "match_elems [] ss = Some vs \<longleftrightarrow> ss = [] \<and> vs = []"
  "match_elems (Lit l # es) ss = Some vs \<longleftrightarrow> (\<exists>ss'. ss = l # ss' \<and> match_elems es ss' = Some vs)"
  "match_elems (Var v # es) ss = Some vs \<longleftrightarrow>
     (\<exists>s ss' vs'. ss = s # ss' \<and> s \<noteq> [] \<and> vs = (v, s) # vs' \<and> match_elems es ss' = Some vs')"
  by (cases ss; auto)+

lemma match_cluster_path:
  assumes "match_path cluster_path p = Some vars"
  obtains s g pn t n where "p = resource_id ''subscriptions'' s ''resourcegroups'' g ''providers'' pn t n"
    and "vars = [(''subscriptionId'', s), (''resourceGroupName'', g), (''resourceProviderNamespace'', pn), (''resourceType'', t), (''resourceName'', n)]"
    and "s \<noteq> []" "CHR ''/'' \<notin> set s"
proof -
  from assms obtain s g pn t n where
    sp: "Split CHR ''/'' p = [[], ''subscriptions'', s, ''resourcegroups'', g, ''providers'', pn, t, n]"
    and vars: "vars = [(''subscriptionId'', s), (''resourceGroupName'', g), (''resourceProviderNamespace'', pn), (''resourceType'', t), (''resourceName'', n)]"
    and s: "s \<noteq> []"
    by (auto simp: match_path_def cluster_path_def match_elems_Some split: list.splits)
  have "p = Join CHR ''/'' (Split CHR ''/'' p)" by simp
  also have "\<dots> = resource_id ''subscriptions'' s ''resourcegroups'' g ''providers'' pn t n"
    by (simp add: sp resource_id_def)
  finally have p: "p = resource_id ''subscriptions'' s ''resourcegroups'' g ''providers'' pn t n" .
  have "CHR ''/'' \<notin> set s" by (rule Split_parts [of s _ p]) (simp add: sp)
  with p vars s that show ?thesis by blast
qed


definition sample_env :: "(bool, unit) mw_env" where
  "sample_env = \<lparr>mw_newUUID = (\<lambda>w. ([], w)), mw_log = (\<lambda>_ w. w), mw_emit = (\<lambda>_ w. w), mw_IsAuthorized = (\<lambda>t. t), mw_dev = False,
      mw_Location = ''location'', mw_apis = (\<lambda>v. v = ''2019-12-31-preview''), mw_urlString = id\<rparr>"

definition cluster_request :: "string request" where
  "cluster_request = \<lparr>r_Method = MethodDelete, r_Path = sample_resourceID, r_OriginalPath = sample_resourceID,
     r_Vars = [(''subscriptionId'', ''01234567-89ab-cdef-0123-456789abcdef''), (''resourceGroupName'', ''rg''),
       (''resourceProviderNamespace'', ''microsoft.redhatopenshift''), (''resourceType'', ''openshiftclusters''), (''resourceName'', ''c''),
       (''api-version'', ''2019-12-31-preview'')], r_Header = [], r_Body = []\<rparr>"


end
