(* ===== verification/Permissions.thy ===== *)
theory Permissions
  imports Regex
begin

text \<open>
  \<^verbatim>\<open>src/pkg/util/permissions\<close>: whether a set of Azure permissions grants an action. An action of a permission is a
  pattern in which \<open>*\<close> stands for any text; the source quotes the action and turns it into the regular expression
  \<^verbatim>\<open>(?i)^...$\<close> with \<^verbatim>\<open>.*\<close> for every \<open>*\<close>. \<open>action_rx\<close> is that expression; compiling it fails exactly on a text that is
  not valid UTF-8, because everything else in it is quoted. Letter case is folded on ASCII.
\<close>

section \<open>Patterns of actions\<close>

definition any_char :: "char \<Rightarrow> bool" where
  "any_char c = (c \<noteq> CHR 0x0A)"

fun action_rx :: "string \<Rightarrow> rx" where
  "action_rx [] = REps"
| "action_rx (c # s) =
     RCat (if c = CHR ''*'' then RStar (RCls any_char) else RCls (\<lambda>x. to_lower_char x = to_lower_char c)) (action_rx s)"

text \<open>\<^verbatim>\<open>utf8.ValidString\<close>: the well-formed sequences of one to four bytes.\<close>

definition between :: "int \<Rightarrow> int \<Rightarrow> char \<Rightarrow> bool" where
  "between a b c = (a \<le> of_char c \<and> of_char c \<le> b)"

fun valid_utf8 :: "string \<Rightarrow> bool" where
  "valid_utf8 [] = True"
| "valid_utf8 (a # s) =
     (if between 0 0x7F a then valid_utf8 s
      else case s of
        [] \<Rightarrow> False
      | b # s \<Rightarrow>
          if between 0xC2 0xDF a then between 0x80 0xBF b \<and> valid_utf8 s
          else case s of
            [] \<Rightarrow> False
          | c # s \<Rightarrow>
              if between 0xE0 0xEF a
              then between (if between 0xE0 0xE0 a then 0xA0 else 0x80) (if between 0xED 0xED a then 0x9F else 0xBF) b
                   \<and> between 0x80 0xBF c \<and> valid_utf8 s
              else case s of
                [] \<Rightarrow> False
              | d # s \<Rightarrow>
                  between 0xF0 0xF4 a
                  \<and> between (if between 0xF0 0xF0 a then 0x90 else 0x80) (if between 0xF4 0xF4 a then 0x8F else 0xBF) b
                  \<and> between 0x80 0xBF c \<and> between 0x80 0xBF d \<and> valid_utf8 s)"

definition Compile_action :: "string \<Rightarrow> rx result" where
  "Compile_action action =
     (if valid_utf8 action then Ok (action_rx action)
      else Err (ErrorfErr (Fmt ''error parsing regexp: invalid UTF-8: `%s`'' [AStr action])))"

section \<open>CanDoAction\<close>

record Permission =
  pm_Actions :: "string list option"
  pm_NotActions :: "string list option"

text \<open>The two inner loops: whether one of the patterns matches.\<close>

fun any_matches :: "string list \<Rightarrow> string \<Rightarrow> bool result" where
  "any_matches [] a = Ok False"
| "any_matches (action # actions) a =
     rbind (Compile_action action) (\<lambda>rx. if rx_match rx a then Ok True else any_matches actions a)"

fun CanDoAction :: "Permission list \<Rightarrow> string \<Rightarrow> bool result" where
  "CanDoAction [] a = Ok False"
| "CanDoAction (p # ps) a =
     (case pm_Actions p of
        None \<Rightarrow> Panic ''nil pointer dereference''
      | Some actions \<Rightarrow>
          rbind (any_matches actions a) (\<lambda>matched.
            if \<not> matched then CanDoAction ps a
            else case pm_NotActions p of
                   None \<Rightarrow> Panic ''nil pointer dereference''
                 | Some notActions \<Rightarrow>
                     rbind (any_matches notActions a) (\<lambda>denied. if denied then CanDoAction ps a else Ok True)))"

section \<open>What the patterns mean\<close>

text \<open>
  The documented meaning of an action: a \<open>*\<close> stands for any text on one line, every other character for itself in either
  letter case.
\<close>

inductive covers :: "string \<Rightarrow> string \<Rightarrow> bool" where
  covers_Nil: "covers [] []"
| covers_star: "CHR 0x0A \<notin> set u \<Longrightarrow> covers p s \<Longrightarrow> covers (CHR ''*'' # p) (u @ s)"
| covers_char: "c \<noteq> CHR ''*'' \<Longrightarrow> to_lower_char x = to_lower_char c \<Longrightarrow> covers p s \<Longrightarrow> covers (c # p) (x # s)"

inductive_simps covers_Nil_iff: "covers [] s"
inductive_simps covers_Cons_iff: "covers (c # p) s"

lemma lang_star_any: "lang_star {[c] | c. p c} = {u. list_all p u}"
proof (intro set_eqI iffI)
  fix u assume "u \<in> lang_star {[c] | c. p c}"
  then show "u \<in> {u. list_all p u}" by induction auto
next
  fix u assume "u \<in> {u. list_all p u}"
  then show "u \<in> lang_star {[c] | c. p c}"
  proof (induction u)
    case (Cons c u)
    then have "[c] @ u \<in> lang_star {[c] | c. p c}" by (intro star_append) auto
    then show ?case by simp
  qed (auto intro: star_Nil)
qed

lemma list_all_any_char: "list_all any_char u \<longleftrightarrow> CHR 0x0A \<notin> set u"
  by (auto simp: any_char_def list_all_iff)

lemma action_rx_lang: "s \<in> rx_lang (action_rx p) \<longleftrightarrow> covers p s"
proof (induction p arbitrary: s)
  case Nil
  then show ?case by (simp add: covers_Nil_iff)
next
  case (Cons c p)
  show ?case
  proof (cases "c = CHR ''*''")
    case True
    then show ?thesis
      by (auto simp: covers_Cons_iff lang_cat_def lang_star_any list_all_any_char Cons)
  next
    case False
    then show ?thesis
      by (auto simp: covers_Cons_iff lang_cls_cat Cons split: list.splits)
  qed
qed

lemma action_rx_match: "rx_match (action_rx p) s \<longleftrightarrow> covers p s"
  by (simp add: rx_match_iff action_rx_lang)

lemma any_matches_valid:
  "list_all valid_utf8 actions \<Longrightarrow> any_matches actions a = Ok (\<exists>p \<in> set actions. covers p a)"
  by (induction actions) (auto simp: Compile_action_def action_rx_match)

text \<open>A permission as the service returns it: both lists are there and are text.\<close>

definition well_formed :: "Permission \<Rightarrow> bool" where
  "well_formed p =
     (case (pm_Actions p, pm_NotActions p) of
        (Some actions, Some notActions) \<Rightarrow> list_all valid_utf8 actions \<and> list_all valid_utf8 notActions
      | _ \<Rightarrow> False)"

definition grants :: "Permission \<Rightarrow> string \<Rightarrow> bool" where
  "grants p a \<longleftrightarrow> (\<exists>x \<in> set (the (pm_Actions p)). covers x a) \<and> \<not> (\<exists>x \<in> set (the (pm_NotActions p)). covers x a)"

text \<open>
  C32. An action can be done exactly if one of the permissions grants it: one of the permission's actions covers it, where a
  star stands for any text and letter case does not matter, and none of the same permission's exclusions does. An
  exclusion of one permission does not revoke what another permission grants.
\<close>
theorem can_do_action:
  "list_all well_formed ps \<Longrightarrow> CanDoAction ps a = Ok (\<exists>p \<in> set ps. grants p a)"
  by (induction ps) (auto simp: well_formed_def grants_def any_matches_valid split: option.splits)

definition contributor :: Permission where
  "contributor = \<lparr>pm_Actions = Some [''*''], pm_NotActions = Some [''Microsoft.Authorization/*/Delete'']\<rparr>"

theorem can_do_action_witness:
  "grants contributor ''Microsoft.Network/read'' \<and> \<not> grants contributor ''microsoft.authorization/roles/delete''"
proof -
  have wf: "list_all well_formed [contributor]" by code_simp
  have "CanDoAction [contributor] ''Microsoft.Network/read'' = Ok True"
    "CanDoAction [contributor] ''microsoft.authorization/roles/delete'' = Ok False"
    by code_simp+
  then show ?thesis unfolding can_do_action [OF wf] by simp
qed

end
