(* ===== verification/Azure.thy ===== *)
theory Azure
  imports ResourceID
begin

text \<open>
  The managers of Azure resources under \<^verbatim>\<open>src/pkg/util\<close>: subnets (\<^verbatim>\<open>subnet\<close>), the DNS records of the clusters (\<^verbatim>\<open>dns\<close>) and
  the private endpoints (\<^verbatim>\<open>privateendpoint\<close>), and the polling loop of the Kubernetes libraries that several callers
  use. The Azure clients behind them are third-party code: they are the fields of \<open>subnets_client\<close>,
  \<open>recordsets_client\<close> and \<open>privateendpoints_client\<close>, computations on a world that the clients read and change.

  An error of an Azure client is \<^verbatim>\<open>autorest.DetailedError\<close> with a status code, or another error.
\<close>

definition is_detailed :: "int \<Rightarrow> error \<Rightarrow> bool" where
  "is_detailed code e = (case e of DetailedErr c \<Rightarrow> c = code | _ \<Rightarrow> False)"

lemma is_detailed_simps [simp]:
  "is_detailed code (DetailedErr c) \<longleftrightarrow> c = code"
  "\<not> is_detailed code (CloudErr s b)"
  "\<not> is_detailed code (ErrorfErr m)"
  "\<not> is_detailed code (ExternalErr x)"
  by (simp_all add: is_detailed_def)

text \<open>Look at the error of a call before it is returned.\<close>

definition on_error :: "('w, 'a) go \<Rightarrow> (error \<Rightarrow> ('w, 'a) go) \<Rightarrow> ('w, 'a) go" where
  "on_error m f w = (case m w of (Err e, w') \<Rightarrow> f e w' | r \<Rightarrow> r)"

lemma on_error_simps [simp, result_simps]:
  "m w = (Ok a, w') \<Longrightarrow> on_error m f w = (Ok a, w')"
  "m w = (Err e, w') \<Longrightarrow> on_error m f w = f e w'"
  "m w = (Panic p, w') \<Longrightarrow> on_error m f w = (Panic p, w')"
  by (simp_all add: on_error_def)

lemma on_error_eq_Ok:
  "on_error m f w = (Ok a, w') \<longleftrightarrow> m w = (Ok a, w') \<or> (\<exists>e w1. m w = (Err e, w1) \<and> f e w1 = (Ok a, w'))"
  by (auto simp: on_error_def split: prod.splits result.splits)

section \<open>Polling\<close>

text \<open>
  \<^verbatim>\<open>wait.PollImmediate\<close>: the condition is tried at once, at every tick of a timer and once more at the time-out. How many ticks
  arrive before the time-out depends on how long the condition takes; it is a parameter.
\<close>

definition ErrWaitTimeout :: error where
  "ErrWaitTimeout = ExternalErr ''timed out waiting for the condition''"

primrec WaitFor :: "nat \<Rightarrow> ('w, bool) go \<Rightarrow> ('w, unit) go" where
  "WaitFor 0 condition = gbind condition (\<lambda>done. if done then greturn () else glift (Err ErrWaitTimeout))"
| "WaitFor (Suc ticks) condition = gbind condition (\<lambda>done. if done then greturn () else WaitFor ticks condition)"

definition PollImmediate :: "nat \<Rightarrow> ('w, bool) go \<Rightarrow> ('w, unit) go" where
  "PollImmediate ticks condition = gbind condition (\<lambda>done. if done then greturn () else WaitFor ticks condition)"

text \<open>A condition that holds in the world the poll starts in ends it at once, and one that never holds times it out.\<close>

lemma PollImmediate_done: "condition w = (Ok True, w') \<Longrightarrow> PollImmediate ticks condition w = (Ok (), w')"
  by (simp add: PollImmediate_def gbind_def)

lemma WaitFor_never: "condition w = (Ok False, w) \<Longrightarrow> WaitFor ticks condition w = (Err ErrWaitTimeout, w)"
  by (induction ticks) (simp_all add: gbind_def)

lemma PollImmediate_never: "condition w = (Ok False, w) \<Longrightarrow> PollImmediate ticks condition w = (Err ErrWaitTimeout, w)"
  by (simp add: PollImmediate_def WaitFor_never gbind_def)

section \<open>Subnets\<close>

text \<open>
  \<^verbatim>\<open>mgmtnetwork.Subnet\<close>: the fields the provider reads, and the others together as \<open>sn_Other\<close>, which it only passes on. The properties
  are an embedded pointer, so reading one of a subnet without properties is a nil dereference, as is reading through a nil field.
\<close>

record ServiceEndpoint =
  se_Service :: "string option"
  se_ProvisioningState :: string

record SubnetProperties =
  sn_AddressPrefix :: "string option"
  sn_NetworkSecurityGroup :: "string option option"
  sn_ServiceEndpoints :: "ServiceEndpoint list option"
  sn_PrivateLinkServiceNetworkPolicies :: "string option"
  sn_Other :: string

record Subnet =
  sn_ID :: "string option"
  sn_Properties :: "SubnetProperties option"

definition nonnil :: "'a option \<Rightarrow> 'a result" where
  "nonnil x = (case x of None \<Rightarrow> Panic ''nil pointer dereference'' | Some a \<Rightarrow> Ok a)"

lemma nonnil_simps [simp, result_simps]:
  "nonnil (Some a) = Ok a" "nonnil None = Panic ''nil pointer dereference''"
  by (simp_all add: nonnil_def)

lemma nonnil_eq_Ok [simp]: "nonnil x = Ok a \<longleftrightarrow> x = Some a"
  by (cases x) simp_all

lemma nonnil_not_Err [simp]: "nonnil x \<noteq> Err e"
  by (cases x) simp_all

text \<open>\<^verbatim>\<open>WorkerProfiles[0]\<close>, which several callers read.\<close>

definition first_worker :: "OpenShiftCluster \<Rightarrow> WorkerProfile result" where
  "first_worker oc = (case p_WorkerProfiles (oc_Properties oc) of Some (x # _) \<Rightarrow> Ok x | _ \<Rightarrow> Panic ''index out of range'')"

record 'w subnets_client =
  sc_Get :: "string \<Rightarrow> string \<Rightarrow> string \<Rightarrow> ('w, Subnet) go"
  sc_CreateOrUpdateAndWait :: "string \<Rightarrow> string \<Rightarrow> string \<Rightarrow> Subnet \<Rightarrow> ('w, unit) go"

definition subnets_Get :: "'w subnets_client \<Rightarrow> string \<Rightarrow> ('w, Subnet) go" where
  "subnets_Get m subnetID =
     gbind (glift (subnet_Split subnetID)) (\<lambda>(vnetID, subnetName).
     gbind (glift (ParseResourceID vnetID)) (\<lambda>r.
     sc_Get m (r_ResourceGroup r) (r_ResourceName r) subnetName))"

definition subnets_CreateOrUpdate :: "'w subnets_client \<Rightarrow> string \<Rightarrow> Subnet \<Rightarrow> ('w, unit) go" where
  "subnets_CreateOrUpdate m subnetID s =
     gbind (glift (subnet_Split subnetID)) (\<lambda>(vnetID, subnetName).
     gbind (glift (ParseResourceID vnetID)) (\<lambda>r.
     sc_CreateOrUpdateAndWait m (r_ResourceGroup r) (r_ResourceName r) subnetName s))"

section \<open>DNS records\<close>

text \<open>
  \<^verbatim>\<open>mgmtdns.RecordSet\<close>: its entity tag and, behind an embedded pointer, its metadata, time to live and addresses.
\<close>

record RecordSetProperties =
  rs_Metadata :: "(string \<times> string option) list"
  rs_TTL :: "int option"
  rs_ARecords :: "string list option"

record RecordSet =
  rs_Etag :: "string option"
  rs_Properties :: "RecordSetProperties option"

text \<open>The client, with the type of the records (A) left out: resource group, zone, name of the record, then the arguments.\<close>

record 'w recordsets_client =
  rc_Get :: "string \<Rightarrow> string \<Rightarrow> string \<Rightarrow> ('w, RecordSet) go"
  rc_CreateOrUpdate :: "string \<Rightarrow> string \<Rightarrow> string \<Rightarrow> RecordSet \<Rightarrow> string \<Rightarrow> string \<Rightarrow> ('w, unit) go"
  rc_Delete :: "string \<Rightarrow> string \<Rightarrow> string \<Rightarrow> string \<Rightarrow> ('w, unit) go"

text \<open>What the managers read of \<^verbatim>\<open>env.Interface\<close>.\<close>

record rp_env =
  env_SubscriptionID :: string
  env_ResourceGroup :: string
  env_Domain :: string

record 'w dns_manager =
  dm_env :: rp_env
  dm_recordsets :: "'w recordsets_client"

definition dns_resourceID :: string where
  "dns_resourceID = ''resourceId''"

definition managedDomain :: "rp_env \<Rightarrow> string \<Rightarrow> string" where
  "managedDomain e domain =
     (let domain = TrimSuffix domain (CHR ''.'' # env_Domain e) in
      if CHR ''.'' \<notin> set domain then domain else [])"

text \<open>\<^verbatim>\<open>rs.Metadata[resourceID] == nil || *rs.Metadata[resourceID] != oc.ID\<close>, negated.\<close>

definition registered_to :: "OpenShiftCluster \<Rightarrow> RecordSet \<Rightarrow> bool result" where
  "registered_to oc rs =
     rbind (nonnil (rs_Properties rs)) (\<lambda>p. Ok (map_of (rs_Metadata p) dns_resourceID = Some (Some (oc_ID oc))))"

definition already_registered :: "string \<Rightarrow> error" where
  "already_registered domain = ErrorfErr (Fmt ''recordset %q already registered'' [AStr (''api.'' @ domain)])"

abbreviation cluster_domain :: "OpenShiftCluster \<Rightarrow> string" where
  "cluster_domain oc \<equiv> cp_Domain (p_ClusterProfile (oc_Properties oc))"

definition dns_createOrUpdate :: "'w dns_manager \<Rightarrow> OpenShiftCluster \<Rightarrow> string \<Rightarrow> string \<Rightarrow> string \<Rightarrow> ('w, unit) go" where
  "dns_createOrUpdate m oc ip ifMatch ifNoneMatch =
     (let d = managedDomain (dm_env m) (cluster_domain oc) in
      if d = [] then greturn ()
      else let rs = \<lparr>rs_Etag = None,
                     rs_Properties = Some \<lparr>rs_Metadata = [(dns_resourceID, Some (oc_ID oc))], rs_TTL = Some 300,
                                           rs_ARecords = (if ip \<noteq> [] then Some [ip] else None)\<rparr>\<rparr> in
           rc_CreateOrUpdate (dm_recordsets m) (env_ResourceGroup (dm_env m)) (env_Domain (dm_env m)) (''api.'' @ d) rs
             ifMatch ifNoneMatch)"

definition dns_Create :: "'w dns_manager \<Rightarrow> OpenShiftCluster \<Rightarrow> ('w, unit) go" where
  "dns_Create m oc w =
     (let d = managedDomain (dm_env m) (cluster_domain oc) in
      if d = [] then (Ok (), w)
      else case rc_Get (dm_recordsets m) (env_ResourceGroup (dm_env m)) (env_Domain (dm_env m)) (''api.'' @ d) w of
             (Ok rs, w') \<Rightarrow> (rbind (registered_to oc rs) (\<lambda>ours. rguard ours (already_registered d)), w')
           | (Err e, w') \<Rightarrow> if is_detailed 404 e then dns_createOrUpdate m oc [] [] ''*'' w' else (Err e, w')
           | (Panic p, w') \<Rightarrow> (Panic p, w'))"

definition dns_Update :: "'w dns_manager \<Rightarrow> OpenShiftCluster \<Rightarrow> string \<Rightarrow> ('w, unit) go" where
  "dns_Update m oc ip =
     (let d = managedDomain (dm_env m) (cluster_domain oc) in
      if d = [] then greturn ()
      else gbind (rc_Get (dm_recordsets m) (env_ResourceGroup (dm_env m)) (env_Domain (dm_env m)) (''api.'' @ d)) (\<lambda>rs.
           gbind (glift (registered_to oc rs)) (\<lambda>ours.
           if \<not> ours then glift (Err (already_registered d))
           else gbind (glift (nonnil (rs_Etag rs))) (\<lambda>etag. dns_createOrUpdate m oc ip etag []))))"

definition dns_CreateOrUpdateRouter :: "'w dns_manager \<Rightarrow> OpenShiftCluster \<Rightarrow> string \<Rightarrow> ('w, unit) go" where
  "dns_CreateOrUpdateRouter m oc routerIP =
     (let d = managedDomain (dm_env m) (cluster_domain oc) in
      if d = [] then greturn ()
      else rc_CreateOrUpdate (dm_recordsets m) (env_ResourceGroup (dm_env m)) (env_Domain (dm_env m)) (''*.apps.'' @ d)
             \<lparr>rs_Etag = None,
              rs_Properties = Some \<lparr>rs_Metadata = [], rs_TTL = Some 300, rs_ARecords = Some [routerIP]\<rparr>\<rparr> [] [])"

definition dns_Delete :: "'w dns_manager \<Rightarrow> OpenShiftCluster \<Rightarrow> ('w, unit) go" where
  "dns_Delete m oc w =
     (let d = managedDomain (dm_env m) (cluster_domain oc);
          group = env_ResourceGroup (dm_env m); zone = env_Domain (dm_env m) in
      if d = [] then (Ok (), w)
      else case rc_Get (dm_recordsets m) group zone (''api.'' @ d) w of
             (Err e, w') \<Rightarrow> if is_detailed 404 e then (Ok (), w') else (Err e, w')
           | (Panic p, w') \<Rightarrow> (Panic p, w')
           | (Ok rs, w') \<Rightarrow>
               gbind (glift (registered_to oc rs)) (\<lambda>ours.
               if \<not> ours then greturn ()
               else gbind (rc_Delete (dm_recordsets m) group zone (''*.apps.'' @ d) []) (\<lambda>_.
                    gbind (glift (nonnil (rs_Etag rs))) (\<lambda>etag.
                    rc_Delete (dm_recordsets m) group zone (''api.'' @ d) etag))) w')"

section \<open>Private endpoints\<close>

text \<open>A private endpoint: of the returned one only the addresses of its network interfaces are read.\<close>

record PrivateEndpoint =
  pe_Subnet :: string
  pe_ConnectionName :: string
  pe_PrivateLinkServiceID :: string
  pe_Location :: string

text \<open>Per interface its IP configurations, per configuration its address; all behind pointers.\<close>

type_synonym interfaces = "string option list option list option"

record 'w privateendpoints_client =
  pc_CreateOrUpdateAndWait :: "string \<Rightarrow> string \<Rightarrow> PrivateEndpoint \<Rightarrow> ('w, unit) go"
  pc_DeleteAndWait :: "string \<Rightarrow> string \<Rightarrow> ('w, unit) go"
  pc_Get :: "string \<Rightarrow> string \<Rightarrow> string \<Rightarrow> ('w, interfaces option) go"

record 'w pe_manager =
  pm_env :: rp_env
  pm_client :: "'w privateendpoints_client"

definition pe_prefix :: string where
  "pe_prefix = ''rp-pe-''"

definition pe_Create :: "'w pe_manager \<Rightarrow> OpenShiftClusterDocument \<Rightarrow> ('w, unit) go" where
  "pe_Create m doc =
     pc_CreateOrUpdateAndWait (pm_client m) (env_ResourceGroup (pm_env m)) (pe_prefix @ doc_ID doc)
       \<lparr>pe_Subnet = ''/subscriptions/'' @ env_SubscriptionID (pm_env m) @ ''/resourceGroups/'' @ env_ResourceGroup (pm_env m)
          @ ''/providers/Microsoft.Network/virtualNetworks/rp-vnet/subnets/rp-pe-subnet'',
        pe_ConnectionName = ''rp-plsconnection'',
        pe_PrivateLinkServiceID = cp_ResourceGroupID (p_ClusterProfile (oc_Properties (doc_OpenShiftCluster doc)))
          @ ''/providers/Microsoft.Network/privateLinkServices/aro-pls'',
        pe_Location = oc_Location (doc_OpenShiftCluster doc)\<rparr>"

definition pe_Delete :: "'w pe_manager \<Rightarrow> OpenShiftClusterDocument \<Rightarrow> ('w, unit) go" where
  "pe_Delete m doc = pc_DeleteAndWait (pm_client m) (env_ResourceGroup (pm_env m)) (pe_prefix @ doc_ID doc)"

text \<open>\<^verbatim>\<open>xs[0]\<close>.\<close>

definition index0 :: "'a list \<Rightarrow> 'a result" where
  "index0 xs = (case xs of [] \<Rightarrow> Panic ''index out of range'' | x # _ \<Rightarrow> Ok x)"

definition first_address :: "interfaces option \<Rightarrow> string result" where
  "first_address pe =
     rbind (nonnil pe) (\<lambda>ifs. rbind (nonnil ifs) (\<lambda>ifs. rbind (index0 ifs) (\<lambda>confs.
     rbind (nonnil confs) (\<lambda>confs. rbind (index0 confs) nonnil))))"

definition GetIP :: "'w pe_manager \<Rightarrow> OpenShiftClusterDocument \<Rightarrow> ('w, string) go" where
  "GetIP m doc w =
     (case pc_Get (pm_client m) (env_ResourceGroup (pm_env m)) (pe_prefix @ doc_ID doc) ''networkInterfaces'' w of
        (Err e, w') \<Rightarrow> (Ok [], w')
      | (Panic p, w') \<Rightarrow> (Panic p, w')
      | (Ok pe, w') \<Rightarrow> (first_address pe, w'))"

section \<open>Who may change a record\<close>

text \<open>
  The managed part of a domain: the name itself if it has no dot, the name before the provider's domain if that is the
  whole of its suffix, and nothing for every other domain.
\<close>

lemma managedDomain_iff:
  "managedDomain e domain = d \<and> d \<noteq> [] \<longleftrightarrow>
     d \<noteq> [] \<and> CHR ''.'' \<notin> set d \<and> (domain = d @ CHR ''.'' # env_Domain e \<or> domain = d)"
proof -
  have "managedDomain e (d @ CHR ''.'' # env_Domain e) = d" if "CHR ''.'' \<notin> set d"
    using that by (simp add: managedDomain_def Let_def)
  moreover have "managedDomain e d = d" if "CHR ''.'' \<notin> set d"
    using that by (auto simp: managedDomain_def Let_def TrimSuffix_def HasSuffix_iff)
  moreover have "domain = managedDomain e domain @ CHR ''.'' # env_Domain e \<or> domain = managedDomain e domain"
    "CHR ''.'' \<notin> set (managedDomain e domain)" if "managedDomain e domain \<noteq> []"
    using that by (auto simp: managedDomain_def Let_def TrimSuffix_def HasSuffix_iff split: if_splits)
  ultimately show ?thesis by auto
qed

text \<open>
  The DNS record of a cluster is the cluster's own. If the record of the API server of a managed domain is registered to another
  resource, or to none, creating or updating it for this cluster fails and deleting it does nothing: after the record has been
  read, no call reaches the DNS service.
\<close>
theorem foreign_record_untouched:
  assumes "managedDomain (dm_env m) (cluster_domain oc) = d" and "d \<noteq> []"
    and "rc_Get (dm_recordsets m) (env_ResourceGroup (dm_env m)) (env_Domain (dm_env m)) (''api.'' @ d) w = (Ok rs, w')"
    and "registered_to oc rs = Ok False"
  shows "dns_Create m oc w = (Err (already_registered d), w') \<and> dns_Update m oc ip w = (Err (already_registered d), w')
         \<and> dns_Delete m oc w = (Ok (), w')"
  using assms by (simp add: dns_Create_def dns_Update_def dns_Delete_def gbind_def Let_def)

text \<open>A zone: the names that were written, and one record, which another cluster registered.\<close>

definition taken_zone :: "string list recordsets_client" where
  "taken_zone =
     \<lparr>rc_Get = (\<lambda>group zone name w. (Ok \<lparr>rs_Etag = Some ''1'',
        rs_Properties = Some \<lparr>rs_Metadata = [(''resourceId'', Some ''/other'')], rs_TTL = None, rs_ARecords = None\<rparr>\<rparr>, w)),
      rc_CreateOrUpdate = (\<lambda>group zone name rs ifMatch ifNoneMatch w. (Ok (), name # w)),
      rc_Delete = (\<lambda>group zone name ifMatch w. (Ok (), name # w))\<rparr>"

definition taken_manager :: "string list dns_manager" where
  "taken_manager = \<lparr>dm_env = \<lparr>env_SubscriptionID = ''sub'', env_ResourceGroup = ''rp'', env_Domain = ''aro.example''\<rparr>,
     dm_recordsets = taken_zone\<rparr>"

definition demo_cluster :: OpenShiftCluster where
  "demo_cluster = zero_OpenShiftCluster\<lparr>oc_ID := ''/mine'',
     oc_Properties := zero_Properties\<lparr>p_ClusterProfile := (p_ClusterProfile zero_Properties)\<lparr>cp_Domain := ''demo.aro.example''\<rparr>\<rparr>\<rparr>"

theorem foreign_record_untouched_witness:
  "dns_Update taken_manager demo_cluster ''10.0.0.1'' [] = (Err (already_registered ''demo''), [])
   \<and> dns_Delete taken_manager demo_cluster [] = (Ok (), [])"
proof -
  have "managedDomain (dm_env taken_manager) (cluster_domain demo_cluster) = ''demo''" by code_simp
  with foreign_record_untouched [of taken_manager demo_cluster "''demo''" "[]" _ "[]" "''10.0.0.1''"]
  show ?thesis
    by (simp add: taken_manager_def taken_zone_def registered_to_def dns_resourceID_def demo_cluster_def)
qed

end
