(* ===== verification/DynamicValidation.thy ===== *)
theory DynamicValidation
  imports Permissions Azure GoNet
begin

text \<open>
  Validation of a cluster against Azure: \<^verbatim>\<open>src/pkg/api/v20191231preview/openshiftcluster_validatedynamic.go\<close>, with
  \<^verbatim>\<open>net.IPNet.Contains\<close> and the vendored \<^verbatim>\<open>go-cidr\<close> that decides whether networks overlap.

  The credentials, the tokens, the permissions and the subnets come from Azure and its libraries: they are the fields
  of \<open>dyn_env\<close>. The textual forms of IPv6 addresses and of networks are the fields \<open>dy_parse6\<close> and \<open>dy_show\<close>.
\<close>

unbundle bit_operations_syntax

section \<open>Networks\<close>

fun as_v4 :: "ip \<Rightarrow> 32 word option" where
  "as_v4 (IP4 a) = Some a"
| "as_v4 (IP6 a) = (if v4in6 a then Some (ucast a) else None)"

text \<open>\<^verbatim>\<open>IPNet.Contains\<close>: both addresses are brought to their short form first.\<close>

fun Contains :: "ipnet \<Rightarrow> ip \<Rightarrow> bool" where
  "Contains (Net4 a n) x = (case as_v4 x of Some y \<Rightarrow> mask_to n a = mask_to n y | None \<Rightarrow> False)"
| "Contains (Net6 a n) x =
     (if v4in6 a
      then (case as_v4 x of Some y \<Rightarrow> mask_to (n - 96) (ucast a :: 32 word) = mask_to (n - 96) y | None \<Rightarrow> False)
      else (case x of IP6 y \<Rightarrow> \<not> v4in6 y \<and> mask_to n a = mask_to n y | IP4 y \<Rightarrow> False))"

fun AddressRange :: "ipnet \<Rightarrow> ip \<times> ip" where
  "AddressRange (Net4 a n) = (IP4 a, IP4 (a OR mask (32 - n)))"
| "AddressRange (Net6 a n) = (IP6 a, IP6 (a OR mask (128 - n)))"

definition find_overlap :: "ipnet list \<Rightarrow> nat \<Rightarrow> nat option" where
  "find_overlap subnets i =
     List.find (\<lambda>j. i \<noteq> j \<and> (case AddressRange (subnets ! j) of (a, z) \<Rightarrow>
       Contains (subnets ! i) a \<or> Contains (subnets ! i) z)) [0..<length subnets]"

fun verify_from :: "(ipnet \<Rightarrow> string) \<Rightarrow> ipnet list \<Rightarrow> ipnet \<Rightarrow> nat list \<Rightarrow> unit result" where
  "verify_from show_net subnets block [] = Ok ()"
| "verify_from show_net subnets block (i # is) =
     (case AddressRange (subnets ! i) of (a, z) \<Rightarrow>
        if \<not> Contains block a \<or> \<not> Contains block z
        then Err (ErrorfErr (Fmt ''%s does not fully contain %s'' [AStr (show_net block), AStr (show_net (subnets ! i))]))
        else case find_overlap subnets i of
               Some j \<Rightarrow> Err (ErrorfErr (Fmt ''%s overlaps with %s'' [AStr (show_net (subnets ! j)), AStr (show_net (subnets ! i))]))
             | None \<Rightarrow> verify_from show_net subnets block is)"

definition VerifyNoOverlap :: "(ipnet \<Rightarrow> string) \<Rightarrow> ipnet list \<Rightarrow> ipnet \<Rightarrow> unit result" where
  "VerifyNoOverlap show_net subnets block = verify_from show_net subnets block [0..<length subnets]"

section \<open>The validator\<close>

record ('a, 't, 'w) dyn_env =
  dy_ticks :: nat
  dy_ServicePrincipalToken :: "string \<Rightarrow> string \<Rightarrow> string \<Rightarrow> string \<Rightarrow> ('w, 't) go"
  dy_EnsureFresh :: "'t \<Rightarrow> ('w, unit) go"
  dy_Roles :: "'t \<Rightarrow> ('w, string list) go"
  dy_BearerAuthorizer :: "'t \<Rightarrow> 'a"
  dy_FPAuthorizer :: "string \<Rightarrow> string \<Rightarrow> ('w, 'a) go"
  dy_ListForResource :: "string \<Rightarrow> 'a \<Rightarrow> string \<Rightarrow> string \<Rightarrow> string \<Rightarrow> string \<Rightarrow> string \<Rightarrow> ('w, Permission list) go"
  dy_subnets :: "string \<Rightarrow> 'a \<Rightarrow> 'w subnets_client"
  dy_parse6 :: "string \<Rightarrow> 128 word option"
  dy_show :: "ipnet \<Rightarrow> string"

definition ResourceManagerEndpoint :: string where
  "ResourceManagerEndpoint = ''https://management.azure.com/''"

definition GraphEndpoint :: string where
  "GraphEndpoint = ''https://graph.windows.net/''"

text \<open>The condition both callers poll, and the poll, whose result the callers do not look at.\<close>

definition fresh_condition :: "('a, 't, 'w) dyn_env \<Rightarrow> 't \<Rightarrow> ('w, bool) go" where
  "fresh_condition e token = on_error (gbind (dy_EnsureFresh e token) (\<lambda>_. greturn True)) (\<lambda>_. greturn False)"

definition poll_fresh :: "('a, 't, 'w) dyn_env \<Rightarrow> 't \<Rightarrow> ('w, unit) go" where
  "poll_fresh e token = on_error (PollImmediate (dy_ticks e) (fresh_condition e token)) (\<lambda>_. greturn ())"

definition dyn_validateServicePrincipalProfile :: "('a, 't, 'w) dyn_env \<Rightarrow> OpenShiftCluster \<Rightarrow> ('w, 'a) go" where
  "dyn_validateServicePrincipalProfile e oc =
     (let spp = p_ServicePrincipalProfile (oc_Properties oc) in
      gbind (dy_ServicePrincipalToken e (spp_ClientID spp) (spp_ClientSecret spp) (spp_TenantID spp) ResourceManagerEndpoint) (\<lambda>token.
      gbind (poll_fresh e token) (\<lambda>_.
      greturn (dy_BearerAuthorizer e token))))"

definition validateServicePrincipalRole :: "('a, 't, 'w) dyn_env \<Rightarrow> OpenShiftCluster \<Rightarrow> ('w, unit) go" where
  "validateServicePrincipalRole e oc =
     (let spp = p_ServicePrincipalProfile (oc_Properties oc) in
      gbind (dy_ServicePrincipalToken e (spp_ClientID spp) (spp_ClientSecret spp) (spp_TenantID spp) GraphEndpoint) (\<lambda>token.
      gbind (poll_fresh e token) (\<lambda>_.
      gbind (dy_Roles e token) (\<lambda>roles.
      glift (rguard (''Application.ReadWrite.OwnedBy'' \<notin> set roles)
        (NewCloudError 400 CloudErrorCodeInvalidServicePrincipalCredentials ''properties.servicePrincipalProfile''
          ''The provided service principal must not have the Application.ReadWrite.OwnedBy permission.'' []))))))"

definition vnet_actions :: "string list" where
  "vnet_actions = [''Microsoft.Network/virtualNetworks/subnets/join/action'',
     ''Microsoft.Network/virtualNetworks/subnets/read'', ''Microsoft.Network/virtualNetworks/subnets/write'']"

fun check_actions :: "Permission list \<Rightarrow> error \<Rightarrow> string list \<Rightarrow> unit result" where
  "check_actions permissions refused [] = Ok ()"
| "check_actions permissions refused (action # actions) =
     rbind (CanDoAction permissions action) (\<lambda>ok.
       if \<not> ok then Err refused else check_actions permissions refused actions)"

definition validateVnetPermissions ::
    "('a, 't, 'w) dyn_env \<Rightarrow> OpenShiftCluster \<Rightarrow> string \<Rightarrow> 'a \<Rightarrow> string \<Rightarrow> string \<Rightarrow> ('w, unit) go" where
  "validateVnetPermissions e oc subscriptionID client code typ =
     gbind (glift (subnet_Split (mp_SubnetID (p_MasterProfile (oc_Properties oc))))) (\<lambda>(vnetID, _).
     gbind (glift (ParseResourceID vnetID)) (\<lambda>r.
     gbind (on_error (dy_ListForResource e subscriptionID client (r_ResourceGroup r) (r_Provider r) (r_ResourceType r) [] (r_ResourceName r))
              (\<lambda>err. glift (Err (if is_detailed 404 err
                 then NewCloudError 400 CloudErrorCodeInvalidLinkedVNet [] ''The vnet '%s' could not be found.'' [AStr vnetID]
                 else err)))) (\<lambda>permissions.
     glift (check_actions permissions
       (NewCloudError 400 code [] (''The '' @ typ @ '' does not have Contributor permission on vnet '%s'.'') [AStr vnetID])
       vnet_actions))))"

text \<open>The three checks of a subnet that is there, each with its early return.\<close>

definition subnet_error :: "string \<Rightarrow> string \<Rightarrow> string \<Rightarrow> fmt_arg list \<Rightarrow> error" where
  "subnet_error path typ msg args = NewCloudError 400 CloudErrorCodeInvalidLinkedVNet path (''The provided '' @ typ @ msg) args"

definition check_policies :: "OpenShiftCluster \<Rightarrow> string \<Rightarrow> string \<Rightarrow> string \<Rightarrow> Subnet \<Rightarrow> unit result" where
  "check_policies oc path typ subnetID s =
     (if EqualFold (mp_SubnetID (p_MasterProfile (oc_Properties oc))) subnetID
      then rbind (nonnil (sn_Properties s)) (\<lambda>p.
           rbind (nonnil (sn_PrivateLinkServiceNetworkPolicies p)) (\<lambda>policies.
           rguard (EqualFold policies ''Disabled'') (subnet_error path typ
             '' VM subnet '%s' is invalid: must have privateLinkServiceNetworkPolicies disabled.'' [AStr subnetID])))
      else Ok ())"

fun has_endpoint :: "ServiceEndpoint list \<Rightarrow> bool result" where
  "has_endpoint [] = Ok False"
| "has_endpoint (se # ses) =
     rbind (nonnil (se_Service se)) (\<lambda>service.
       if EqualFold service ''Microsoft.ContainerRegistry'' \<and> se_ProvisioningState se = ''Succeeded'' then Ok True
       else has_endpoint ses)"

definition check_endpoints :: "string \<Rightarrow> string \<Rightarrow> string \<Rightarrow> Subnet \<Rightarrow> unit result" where
  "check_endpoints path typ subnetID s =
     rbind (nonnil (sn_Properties s)) (\<lambda>p.
     rbind (nonnil (sn_ServiceEndpoints p)) (\<lambda>ses.
     rbind (has_endpoint ses) (\<lambda>found.
     rguard found (subnet_error path typ
       '' VM subnet '%s' is invalid: must have Microsoft.ContainerRegistry serviceEndpoint.'' [AStr subnetID]))))"

definition attached_nsg :: "Subnet \<Rightarrow> string option option" where
  "attached_nsg s = Option.bind (sn_Properties s) sn_NetworkSecurityGroup"

definition check_nsg :: "OpenShiftCluster \<Rightarrow> string \<Rightarrow> string \<Rightarrow> string \<Rightarrow> Subnet \<Rightarrow> unit result" where
  "check_nsg oc path typ subnetID s =
     (if oc_ProvisioningState oc = ProvisioningStateCreating
      then rguard (attached_nsg s = None) (subnet_error path typ
             '' VM subnet '%s' is invalid: must not have a network security group attached.'' [AStr subnetID])
      else rbind (nonnil (sn_ID s)) (\<lambda>id'.
           rbind (NetworkSecurityGroupID oc id') (\<lambda>nsgID.
           let refused = subnet_error path typ
             '' VM subnet '%s' is invalid: must have network security group '%s' attached.'' [AStr subnetID, AStr nsgID] in
           case attached_nsg s of
             None \<Rightarrow> Err refused
           | Some nsg \<Rightarrow> rbind (nonnil nsg) (\<lambda>id'. rguard (EqualFold id' nsgID) refused))))"

definition check_subnet ::
    "('a, 't, 'w) dyn_env \<Rightarrow> OpenShiftCluster \<Rightarrow> string \<Rightarrow> string \<Rightarrow> string \<Rightarrow> Subnet \<Rightarrow> ipnet result" where
  "check_subnet e oc path typ subnetID s =
     rbind (check_policies oc path typ subnetID s) (\<lambda>_.
     rbind (check_endpoints path typ subnetID s) (\<lambda>_.
     rbind (check_nsg oc path typ subnetID s) (\<lambda>_.
     rbind (nonnil (sn_Properties s)) (\<lambda>p.
     rbind (nonnil (sn_AddressPrefix p)) (\<lambda>prefix.
     rbind (ParseCIDR (dy_parse6 e) prefix) (\<lambda>n.
     rbind (rguard (mask_ones n \<le> 27) (subnet_error path typ
       '' VM subnet '%s' is invalid: must be /27 or larger.'' [AStr subnetID])) (\<lambda>_.
     Ok n)))))))"

definition validateSubnet ::
    "('a, 't, 'w) dyn_env \<Rightarrow> 'w subnets_client \<Rightarrow> OpenShiftCluster \<Rightarrow> string \<Rightarrow> string \<Rightarrow> string \<Rightarrow> ('w, ipnet) go" where
  "validateSubnet e subnets oc path typ subnetID =
     gbind (on_error (subnets_Get subnets subnetID)
              (\<lambda>err. glift (Err (if is_detailed 404 err
                 then subnet_error path typ '' VM subnet '%s' could not be found.'' [AStr subnetID] else err)))) (\<lambda>s.
     glift (check_subnet e oc path typ subnetID s))"

definition worker_subnet_path :: string where
  "worker_subnet_path = ''properties.workerProfiles['' @ [CHR 0x22] @ ''worker'' @ [CHR 0x22] @ ''].subnetId''"

definition validateSubnets :: "('a, 't, 'w) dyn_env \<Rightarrow> 'w subnets_client \<Rightarrow> OpenShiftCluster \<Rightarrow> ('w, unit) go" where
  "validateSubnets e subnets oc =
     gbind (validateSubnet e subnets oc ''properties.masterProfile.subnetId'' ''master''
              (mp_SubnetID (p_MasterProfile (oc_Properties oc)))) (\<lambda>master.
     gbind (glift (first_worker oc)) (\<lambda>wp.
     gbind (validateSubnet e subnets oc worker_subnet_path ''worker'' (wp_SubnetID wp)) (\<lambda>worker.
     gbind (glift (ParseCIDR (dy_parse6 e) (np_PodCIDR (p_NetworkProfile (oc_Properties oc))))) (\<lambda>pod.
     gbind (glift (ParseCIDR (dy_parse6 e) (np_ServiceCIDR (p_NetworkProfile (oc_Properties oc))))) (\<lambda>service.
     on_error (glift (VerifyNoOverlap (dy_show e) [master, worker, pod, service] (Net4 0 0)))
       (\<lambda>err. glift (Err (NewCloudError 400 CloudErrorCodeInvalidLinkedVNet []
          ''The provided CIDRs must not overlap: '%s'.'' [AErr err]))))))))"

definition Dynamic :: "('a, 't, 'w) dyn_env \<Rightarrow> OpenShiftCluster \<Rightarrow> ('w, unit) go" where
  "Dynamic e oc =
     gbind (glift (ParseResourceID (oc_ID oc))) (\<lambda>r.
     gbind (dyn_validateServicePrincipalProfile e oc) (\<lambda>spAuthorizer.
     gbind (validateServicePrincipalRole e oc) (\<lambda>_.
     gbind (validateVnetPermissions e oc (r_SubscriptionID r) spAuthorizer
              CloudErrorCodeInvalidServicePrincipalPermissions ''provided service principal'') (\<lambda>_.
     gbind (dy_FPAuthorizer e (spp_TenantID (p_ServicePrincipalProfile (oc_Properties oc))) ResourceManagerEndpoint) (\<lambda>fpAuthorizer.
     gbind (validateVnetPermissions e oc (r_SubscriptionID r) fpAuthorizer
              CloudErrorCodeInvalidResourceProviderPermissions ''resource provider'') (\<lambda>_.
     validateSubnets e (dy_subnets e (r_SubscriptionID r) spAuthorizer) oc))))))"

section \<open>Which networks overlap\<close>

lemma bit_mask_to: "bit (mask_to n (a :: 'a::len word)) k \<longleftrightarrow> bit a k \<and> LENGTH('a) - n \<le> k"
  by (auto simp: mask_to_def bit_push_bit_iff bit_drop_bit_eq dest: bit_imp_le_length)

lemma mask_to_mask_to: "n \<le> m \<Longrightarrow> mask_to n (mask_to m a) = mask_to n a"
  by (auto simp: bit_eq_iff bit_mask_to)

lemma mask_to_last: "mask_to n (a OR mask (LENGTH('a) - n)) = mask_to n (a :: 'a::len word)"
  by (auto simp: bit_eq_iff bit_mask_to bit_or_iff bit_mask_iff)

lemma mask_to_0 [simp]: "mask_to 0 (a :: 32 word) = 0"
  by (auto simp: bit_eq_iff bit_mask_to dest: bit_imp_le_length)

text \<open>
  An IPv4 network as \<^verbatim>\<open>ParseCIDR\<close> returns it, possibly written as an IPv6 network of mapped addresses, and the addresses in it.
\<close>

fun net4 :: "ipnet \<Rightarrow> bool" where
  "net4 (Net4 a n) = (n \<le> 32 \<and> mask_to n a = a)"
| "net4 (Net6 a n) = (v4in6 a \<and> 96 \<le> n \<and> n \<le> 128 \<and> mask_to n a = a)"

fun addresses :: "ipnet \<Rightarrow> 32 word set" where
  "addresses (Net4 a n) = {x. in_net4 x a n}"
| "addresses (Net6 a n) = (if v4in6 a then {x. in_net4 x (ucast a) (n - 96)} else {})"

lemma mask_to_mapped: "96 \<le> n \<Longrightarrow> mask_to n (a :: 128 word) = a \<Longrightarrow> mask_to (n - 96) (ucast a :: 32 word) = ucast a"
proof (rule bit_word_eqI)
  fix k assume n: "96 \<le> n" "mask_to n a = a" and k: "k < LENGTH(32)"
  have "bit a k \<Longrightarrow> 128 - n \<le> k" using n(2) bit_mask_to [of n a k] by simp
  with n(1) k show "bit (mask_to (n - 96) (ucast a :: 32 word)) k = bit (ucast a :: 32 word) k"
    by (auto simp: bit_mask_to bit_ucast_iff)
qed

lemma ucast_last: "96 \<le> n \<Longrightarrow> (ucast (a OR mask (128 - n) :: 128 word) :: 32 word) = ucast a OR mask (32 - (n - 96))"
  by (rule bit_word_eqI) (auto simp: bit_ucast_iff bit_or_iff bit_mask_iff)

lemma v4in6_last: "96 \<le> n \<Longrightarrow> v4in6 (a OR mask (128 - n)) \<longleftrightarrow> v4in6 a"
proof -
  assume "96 \<le> n"
  then have "drop_bit 32 (a OR mask (128 - n)) = drop_bit 32 a"
    by (intro bit_word_eqI) (auto simp: bit_drop_bit_eq bit_or_iff bit_mask_iff)
  then show ?thesis by (simp add: v4in6_def)
qed

lemma net4_shape:
  assumes "net4 t"
  obtains b m x z where "addresses t = {y. mask_to m y = b}" "mask_to m b = b" "AddressRange t = (x, z)"
    "as_v4 x = Some b" "as_v4 z = Some (b OR mask (32 - m))"
proof (cases t)
  case (Net4 a n)
  with assms that [of n a "IP4 a" "IP4 (a OR mask (32 - n))"] show ?thesis by (simp add: in_net4_def)
next
  case (Net6 a n)
  with assms that [of "n - 96" "ucast a" "IP6 a" "IP6 (a OR mask (128 - n))"] show ?thesis
    by (simp add: in_net4_def mask_to_mapped ucast_last v4in6_last)
qed

lemma Contains_net4: "net4 s \<Longrightarrow> Contains s x \<longleftrightarrow> (\<exists>y. as_v4 x = Some y \<and> y \<in> addresses s)"
  by (cases s) (auto simp: in_net4_def mask_to_mapped split: option.splits)

text \<open>Two networks share an address exactly if one of them holds an end of the other.\<close>

definition overlap :: "ipnet \<Rightarrow> ipnet \<Rightarrow> bool" where
  "overlap s t \<longleftrightarrow> addresses s \<inter> addresses t \<noteq> {}"

definition holds_end :: "ipnet \<Rightarrow> ipnet \<Rightarrow> bool" where
  "holds_end s t = (case AddressRange t of (a, z) \<Rightarrow> Contains s a \<or> Contains s z)"

lemma holds_end_overlap:
  assumes "net4 s" "net4 t" "holds_end s t"
  shows "overlap s t"
proof -
  obtain b m x z where t: "addresses t = {y. mask_to m y = b}" "mask_to m b = b" "AddressRange t = (x, z)"
    "as_v4 x = Some b" "as_v4 z = Some (b OR mask (32 - m))"
    using net4_shape [OF assms(2)] by metis
  have "b \<in> addresses t" "b OR mask (32 - m) \<in> addresses t"
    using t(1,2) mask_to_last [of m b] by simp_all
  moreover have "b \<in> addresses s \<or> b OR mask (32 - m) \<in> addresses s"
    using assms(3) t(3-5) by (auto simp: holds_end_def Contains_net4 [OF assms(1)])
  ultimately show ?thesis by (auto simp: overlap_def)
qed

lemma overlap_holds_end:
  assumes "net4 s" "net4 t" "overlap s t"
  shows "holds_end s t \<or> holds_end t s"
proof -
  obtain a n u v where s: "addresses s = {y. mask_to n y = a}" "AddressRange s = (u, v)" "as_v4 u = Some a"
    using net4_shape [OF assms(1)] by metis
  obtain b m x z where t: "addresses t = {y. mask_to m y = b}" "AddressRange t = (x, z)" "as_v4 x = Some b"
    using net4_shape [OF assms(2)] by metis
  from assms(3) obtain y where y: "mask_to n y = a" "mask_to m y = b"
    unfolding overlap_def s t by auto
  have "mask_to n b = a \<or> mask_to m a = b"
    using y mask_to_mask_to [of n m y] mask_to_mask_to [of m n y] by (cases "n \<le> m") auto
  then have "b \<in> addresses s \<or> a \<in> addresses t" using s t by auto
  then show ?thesis
    using s t by (auto simp: holds_end_def Contains_net4 [OF assms(1)] Contains_net4 [OF assms(2)])
qed

lemma find_overlap_None:
  "find_overlap nets i = None \<longleftrightarrow> (\<forall>j < length nets. i \<noteq> j \<longrightarrow> \<not> holds_end (nets ! i) (nets ! j))"
  by (auto simp: find_overlap_def find_None_iff holds_end_def split_beta)

lemma verify_from_Ok:
  "verify_from sh nets block is = Ok () \<longleftrightarrow>
     (\<forall>i \<in> set is. (case AddressRange (nets ! i) of (a, z) \<Rightarrow> Contains block a \<and> Contains block z)
        \<and> find_overlap nets i = None)"
proof (induction "is")
  case (Cons i "is")
  obtain a z where "AddressRange (nets ! i) = (a, z)" by fastforce
  with Cons show ?case by (auto split: option.splits if_splits)
qed simp

lemma net4_in_everything: "net4 s \<Longrightarrow> case AddressRange s of (a, z) \<Rightarrow> Contains (Net4 0 0) a \<and> Contains (Net4 0 0) z"
  by (erule net4_shape) simp

definition pairwise_disjoint :: "ipnet list \<Rightarrow> bool" where
  "pairwise_disjoint nets \<longleftrightarrow>
     (\<forall>i < length nets. \<forall>j < length nets. i \<noteq> j \<longrightarrow> addresses (nets ! i) \<inter> addresses (nets ! j) = {})"

lemma no_holds_end_disjoint:
  assumes "list_all net4 nets"
  shows "(\<forall>i < length nets. \<forall>j < length nets. i \<noteq> j \<longrightarrow> \<not> holds_end (nets ! i) (nets ! j)) \<longleftrightarrow> pairwise_disjoint nets"
proof -
  have net: "net4 (nets ! i)" if "i < length nets" for i
    using assms that by (simp add: list_all_length)
  have "(\<forall>i < length nets. \<forall>j < length nets. i \<noteq> j \<longrightarrow> \<not> holds_end (nets ! i) (nets ! j)) \<longleftrightarrow>
      (\<forall>i < length nets. \<forall>j < length nets. i \<noteq> j \<longrightarrow> \<not> overlap (nets ! i) (nets ! j))"
    using net holds_end_overlap overlap_holds_end by metis
  then show ?thesis by (simp add: pairwise_disjoint_def overlap_def)
qed

text \<open>
  C30. The overlap check is exact. For IPv4 networks, comparing the first and the last address of each network with every
  other network accepts a list exactly if no address belongs to two of its networks.
\<close>
theorem no_overlap_iff:
  assumes "list_all net4 nets"
  shows "VerifyNoOverlap sh nets (Net4 0 0) = Ok () \<longleftrightarrow> pairwise_disjoint nets"
proof -
  have net: "net4 (nets ! i)" if "i < length nets" for i
    using assms that by (simp add: list_all_length)
  note net_everything = net4_in_everything [OF net]
  have "VerifyNoOverlap sh nets (Net4 0 0) = Ok () \<longleftrightarrow>
      (\<forall>i < length nets. \<forall>j < length nets. i \<noteq> j \<longrightarrow> \<not> holds_end (nets ! i) (nets ! j))"
    using net_everything by (auto simp: VerifyNoOverlap_def verify_from_Ok find_overlap_None)
  with no_holds_end_disjoint [OF assms] show ?thesis by simp
qed

theorem no_overlap_iff_witness:
  "pairwise_disjoint [Net4 0x0A000000 24, Net4 0x0A000100 24] \<and> \<not> pairwise_disjoint [Net4 0x0A000000 24, Net4 0x0A000000 27]"
proof -
  have net: "list_all net4 [Net4 0x0A000000 24, Net4 0x0A000100 24]" "list_all net4 [Net4 0x0A000000 24, Net4 0x0A000000 27]"
    by code_simp+
  have "VerifyNoOverlap (\<lambda>_. []) [Net4 0x0A000000 24, Net4 0x0A000100 24] (Net4 0 0) = Ok ()"
    "VerifyNoOverlap (\<lambda>_. []) [Net4 0x0A000000 24, Net4 0x0A000000 27] (Net4 0 0) \<noteq> Ok ()"
    by code_simp+
  then show ?thesis using no_overlap_iff [OF net(1)] no_overlap_iff [OF net(2)] by blast
qed

section \<open>What a validated cluster is\<close>

lemma v4in6_mask: "v4in6 a \<Longrightarrow> mask_to n a = a \<Longrightarrow> 96 \<le> n"
proof -
  assume "v4in6 a" and n: "mask_to n a = a"
  then have "bit (drop_bit 32 a) 0" by (simp add: v4in6_def)
  then have "bit a 32" by (simp add: bit_drop_bit_eq)
  with n have "128 - n \<le> 32" using bit_mask_to [of n a 32] by simp
  then show ?thesis by simp
qed

lemma ParseCIDR_net:
  "ParseCIDR parse6 s = Ok n \<Longrightarrow> (case n of Net4 a k \<Rightarrow> k \<le> 32 \<and> mask_to k a = a | Net6 a k \<Rightarrow> k \<le> 128 \<and> mask_to k a = a)"
  by (auto simp: ParseCIDR_def Let_def mask_to_mask_to split: option.splits if_splits)

lemma verified_net4:
  assumes "ParseCIDR parse6 s = Ok n" "Contains (Net4 0 0) (fst (AddressRange n))"
  shows "net4 n"
proof (cases n)
  case (Net6 a k)
  with assms ParseCIDR_net [OF assms(1)] show ?thesis by (auto intro: v4in6_mask split: option.splits if_splits)
qed (use ParseCIDR_net [OF assms(1)] in auto)

lemma VerifyNoOverlap_OkD:
  assumes "VerifyNoOverlap sh nets (Net4 0 0) = Ok ()" and "\<forall>n \<in> set nets. \<exists>s. ParseCIDR parse6 s = Ok n"
  shows "list_all net4 nets \<and> pairwise_disjoint nets"
proof -
  have "net4 n" if "n \<in> set nets" for n
  proof -
    from that obtain i where i: "i < length nets" "nets ! i = n" by (auto simp: in_set_conv_nth)
    from bspec [OF assms(2) that] obtain s where "ParseCIDR parse6 s = Ok n" ..
    moreover have "case AddressRange n of (a, z) \<Rightarrow> Contains (Net4 0 0) a \<and> Contains (Net4 0 0) z"
      using assms(1) i unfolding VerifyNoOverlap_def verify_from_Ok by (metis atLeastLessThan_iff le0 set_upt)
    then have "Contains (Net4 0 0) (fst (AddressRange n))" by (simp add: split_beta)
    ultimately show ?thesis by (rule verified_net4)
  qed
  then have net: "list_all net4 nets" by (simp add: list_all_iff)
  have "\<forall>i < length nets. find_overlap nets i = None"
    using assms(1) by (simp add: VerifyNoOverlap_def verify_from_Ok)
  then have "pairwise_disjoint nets"
    unfolding find_overlap_None no_holds_end_disjoint [OF net] .
  with net show ?thesis ..
qed

text \<open>A subnet a cluster may use, as Azure returned it when it was validated.\<close>

definition usable_subnet :: "('a, 't, 'w) dyn_env \<Rightarrow> OpenShiftCluster \<Rightarrow> 'w subnets_client \<Rightarrow> string \<Rightarrow> ipnet \<Rightarrow> bool" where
  "usable_subnet e oc c subnetID n \<longleftrightarrow>
     (\<exists>w w' s p prefix. subnets_Get c subnetID w = (Ok s, w') \<and> sn_Properties s = Some p
        \<and> sn_AddressPrefix p = Some prefix \<and> ParseCIDR (dy_parse6 e) prefix = Ok n \<and> mask_ones n \<le> 27
        \<and> (\<exists>se \<in> set (the (sn_ServiceEndpoints p)). EqualFold (the (se_Service se)) ''Microsoft.ContainerRegistry''
              \<and> se_ProvisioningState se = ''Succeeded'')
        \<and> (oc_ProvisioningState oc = ProvisioningStateCreating \<longrightarrow> sn_NetworkSecurityGroup p = None))"

lemma has_endpoint_True:
  "has_endpoint ses = Ok True \<Longrightarrow>
     \<exists>se \<in> set ses. EqualFold (the (se_Service se)) ''Microsoft.ContainerRegistry'' \<and> se_ProvisioningState se = ''Succeeded''"
  by (induction ses) (auto split: if_splits)

lemma check_endpoints_OkD:
  "check_endpoints path typ subnetID s = Ok () \<Longrightarrow> sn_Properties s = Some p \<Longrightarrow>
     \<exists>se \<in> set (the (sn_ServiceEndpoints p)). EqualFold (the (se_Service se)) ''Microsoft.ContainerRegistry''
        \<and> se_ProvisioningState se = ''Succeeded''"
  by (auto simp: check_endpoints_def dest: has_endpoint_True)

lemma check_nsg_OkD:
  "check_nsg oc path typ subnetID s = Ok () \<Longrightarrow> sn_Properties s = Some p \<Longrightarrow>
     oc_ProvisioningState oc = ProvisioningStateCreating \<Longrightarrow> sn_NetworkSecurityGroup p = None"
  by (simp add: check_nsg_def attached_nsg_def)

lemma validateSubnet_usable:
  assumes "validateSubnet e c oc path typ subnetID w = (Ok n, w')"
  shows "usable_subnet e oc c subnetID n"
proof -
  obtain s w1 where s: "subnets_Get c subnetID w = (Ok s, w1)" and "check_subnet e oc path typ subnetID s = Ok n"
    using assms by (auto simp: validateSubnet_def gbind_eq_Ok on_error_eq_Ok)
  then obtain p prefix where "sn_Properties s = Some p" "check_endpoints path typ subnetID s = Ok ()"
      "check_nsg oc path typ subnetID s = Ok ()" "sn_AddressPrefix p = Some prefix"
      "ParseCIDR (dy_parse6 e) prefix = Ok n" "mask_ones n \<le> 27"
    by (auto simp: check_subnet_def rbind_eq_Ok)
  with s show ?thesis
    unfolding usable_subnet_def
    by (intro exI [of _ w] exI [of _ w1] exI [of _ s] exI [of _ p] exI [of _ prefix] conjI impI)
      (simp_all add: check_endpoints_OkD check_nsg_OkD)
qed


text \<open>A cluster that is being created, and an Azure in which its two subnets exist.\<close>

definition dyn_vnet :: string where
  "dyn_vnet = ''/subscriptions/s/resourceGroups/g/providers/Microsoft.Network/virtualNetworks/v''"

definition dyn_cluster :: OpenShiftCluster where
  "dyn_cluster = zero_OpenShiftCluster\<lparr>
     oc_ID := ''/subscriptions/s/resourceGroups/g/providers/Microsoft.RedHatOpenShift/openShiftClusters/c'',
     oc_Properties := zero_Properties\<lparr>p_ProvisioningState := ProvisioningStateCreating,
       p_NetworkProfile := (p_NetworkProfile zero_Properties)\<lparr>np_PodCIDR := ''10.128.0.0/14'', np_ServiceCIDR := ''172.30.0.0/16''\<rparr>,
       p_MasterProfile := (p_MasterProfile zero_Properties)\<lparr>mp_SubnetID := dyn_vnet @ ''/subnets/master''\<rparr>,
       p_WorkerProfiles := Some [\<lparr>wp_MissingFields = None, wp_Name = ''worker'', wp_VMSize = [], wp_DiskSizeGB = 128,
         wp_SubnetID = dyn_vnet @ ''/subnets/worker'', wp_Count = 3\<rparr>]\<rparr>\<rparr>"

definition dyn_subnets :: "unit subnets_client" where
  "dyn_subnets = \<lparr>sc_Get = (\<lambda>group vnet name w. (Ok \<lparr>sn_ID = None,
       sn_Properties = Some \<lparr>sn_AddressPrefix = Some (if name = ''master'' then ''10.0.0.0/24'' else ''10.0.1.0/24''),
         sn_NetworkSecurityGroup = None,
         sn_ServiceEndpoints = Some [\<lparr>se_Service = Some ''Microsoft.ContainerRegistry'', se_ProvisioningState = ''Succeeded''\<rparr>],
         sn_PrivateLinkServiceNetworkPolicies = Some ''Disabled'', sn_Other = []\<rparr>\<rparr>, w)),
     sc_CreateOrUpdateAndWait = (\<lambda>group vnet name s w. (Ok (), w))\<rparr>"

definition dyn_azure :: "unit result \<Rightarrow> (unit, unit, unit) dyn_env" where
  "dyn_azure fresh = \<lparr>dy_ticks = 2, dy_ServicePrincipalToken = (\<lambda>client secret tenant resource w. (Ok (), w)),
     dy_EnsureFresh = (\<lambda>token w. (fresh, w)), dy_Roles = (\<lambda>token w. (Ok [], w)), dy_BearerAuthorizer = (\<lambda>token. ()),
     dy_FPAuthorizer = (\<lambda>tenant resource w. (Ok (), w)),
     dy_ListForResource = (\<lambda>subscription client group provider typ parent name w. (Ok [contributor], w)),
     dy_subnets = (\<lambda>subscription authorizer. dyn_subnets), dy_parse6 = (\<lambda>_. None), dy_show = (\<lambda>_. [])\<rparr>"


text \<open>
  C31. Credentials that never work are not reported. If no attempt to get a token with the credentials of the service principal
  succeeds, the check of the credentials still succeeds: the result of the poll is dropped, and the error that is
  looked at afterwards is the one of the step before.
\<close>
theorem invalid_credentials_not_reported:
  assumes "dy_ServicePrincipalToken e (spp_ClientID spp) (spp_ClientSecret spp) (spp_TenantID spp) ResourceManagerEndpoint w = (Ok token, w')"
    and "dy_EnsureFresh e token w' = (Err err, w')"
    and "spp = p_ServicePrincipalProfile (oc_Properties oc)"
  shows "PollImmediate (dy_ticks e) (fresh_condition e token) w' = (Err ErrWaitTimeout, w')
         \<and> dyn_validateServicePrincipalProfile e oc w = (Ok (dy_BearerAuthorizer e token), w')"
proof -
  have "fresh_condition e token w' = (Ok False, w')" using assms(2) by (simp add: fresh_condition_def)
  then have poll: "PollImmediate (dy_ticks e) (fresh_condition e token) w' = (Err ErrWaitTimeout, w')"
    by (rule PollImmediate_never)
  then have "poll_fresh e token w' = (Ok (), w')" by (simp add: poll_fresh_def)
  with poll assms(1,3) show ?thesis by (simp add: dyn_validateServicePrincipalProfile_def Let_def)
qed

theorem invalid_credentials_not_reported_witness:
  "dyn_validateServicePrincipalProfile (dyn_azure (Err (ExternalErr ''unauthorized''))) dyn_cluster () = (Ok (), ())"
  using invalid_credentials_not_reported [of "dyn_azure (Err (ExternalErr ''unauthorized''))" _ "()" "()" "()" _ dyn_cluster]
  by (simp add: dyn_azure_def)

end
