(* ===== verification/Scale.thy ===== *)
theory Scale
  imports Azure
begin

text \<open>
  Updating a cluster, \<^verbatim>\<open>src/pkg/backend/openshiftcluster/update.go\<close>: the worker machine sets are scaled until they have as many
  replicas as the cluster's worker profile asks for. The connection to the cluster is \<^verbatim>\<open>src/pkg/util/restconfig\<close>.

  The Kubernetes client is third-party code: \<open>machine_client\<close>. Replicas are 32-bit integers (\<open>wrap32\<close>); the sum of the replicas is a
  64-bit integer that no list of machine sets overflows. The number of ticks of the last loop is a parameter as for every poll.
\<close>

section \<open>The connection\<close>

text \<open>\<^verbatim>\<open>net.SplitHostPort\<close>, of which only the port is used.\<close>

definition addr_error :: "string \<Rightarrow> string \<Rightarrow> error" where
  "addr_error hostport why = ErrorfErr (Fmt ''address %s: %s'' [AStr hostport, AStr why])"

definition split_port :: "string \<Rightarrow> string result" where
  "split_port hostport =
     (let c = CHR '':''; port = after_last c hostport; i = length hostport - length port - 1;
          close = length (takeWhile (\<lambda>x. x \<noteq> CHR '']'') hostport);
          finish = (\<lambda>j k.
            if CHR ''['' \<in> set (drop j hostport) then Err (addr_error hostport ''unexpected '[' in address'')
            else if CHR '']'' \<in> set (drop k hostport) then Err (addr_error hostport ''unexpected ']' in address'')
            else Ok port) in
      if c \<notin> set hostport then Err (addr_error hostport ''missing port in address'')
      else if hd hostport = CHR ''['' then
        (if CHR '']'' \<notin> set hostport then Err (addr_error hostport ''missing ']' in address'')
         else if close + 1 = length hostport then Err (addr_error hostport ''missing port in address'')
         else if close + 1 = i then finish 1 (close + 1)
         else if hostport ! (close + 1) = c then Err (addr_error hostport ''too many colons in address'')
         else Err (addr_error hostport ''missing port in address''))
      else if c \<in> set (take i hostport) then Err (addr_error hostport ''too many colons in address'')
      else finish 0 0)"

record ('c, 'n, 'w) rest_config =
  rest_Config :: 'c
  rest_Dial :: "string \<Rightarrow> string \<Rightarrow> ('w, 'n) go"

record ('c, 'n, 'w) kube_env =
  ke_Load :: "string option \<Rightarrow> ('w, 'c) go"
  ke_DialContext :: "string \<Rightarrow> string \<Rightarrow> ('w, 'n) go"

definition RestConfig :: "('c, 'n, 'w) kube_env \<Rightarrow> OpenShiftCluster \<Rightarrow> ('w, ('c, 'n, 'w) rest_config) go" where
  "RestConfig e oc =
     gbind (ke_Load e (p_AdminKubeconfig (oc_Properties oc))) (\<lambda>config.
     greturn \<lparr>rest_Config = config,
       rest_Dial = (\<lambda>network address.
         if network \<noteq> ''tcp'' then glift (Err (ErrorfErr (Fmt ''unimplemented network %q'' [AStr network])))
         else gbind (glift (split_port address)) (\<lambda>port.
              ke_DialContext e network (np_PrivateEndpointIP (p_NetworkProfile (oc_Properties oc)) @ CHR '':'' # port)))\<rparr>)"

section \<open>Machine sets\<close>

record MachineSet =
  ms_Namespace :: string
  ms_Name :: string
  ms_Replicas :: "int option"
  ms_Generation :: int
  ms_ObservedGeneration :: int
  ms_AvailableReplicas :: int
  ms_Other :: string

record 'w machine_client =
  mc_List :: "string \<Rightarrow> ('w, MachineSet list) go"
  mc_Get :: "string \<Rightarrow> string \<Rightarrow> ('w, MachineSet) go"
  mc_Update :: "string \<Rightarrow> MachineSet \<Rightarrow> ('w, MachineSet) go"
  mc_IsConflict :: "error \<Rightarrow> bool"

definition wrap32 :: "int \<Rightarrow> int" where
  "wrap32 i = (i + 2147483648) mod 4294967296 - 2147483648"

lemma wrap32_id: "- 2147483648 \<le> i \<Longrightarrow> i < 2147483648 \<Longrightarrow> wrap32 i = i"
  by (simp add: wrap32_def)

definition replicas :: "MachineSet list \<Rightarrow> nat \<Rightarrow> int result" where
  "replicas items i = nonnil (ms_Replicas (items ! i))"

text \<open>\<^verbatim>\<open>find\<close>: the index of the first of the best items; every comparison reads through two pointers.\<close>

fun find_from :: "(int \<Rightarrow> int \<Rightarrow> bool) \<Rightarrow> MachineSet list \<Rightarrow> nat \<Rightarrow> nat list \<Rightarrow> nat result" where
  "find_from better items j [] = Ok j"
| "find_from better items j (i # is) =
     rbind (replicas items i) (\<lambda>a. rbind (replicas items j) (\<lambda>b.
       find_from better items (if better a b then i else j) is))"

definition find_set :: "(int \<Rightarrow> int \<Rightarrow> bool) \<Rightarrow> MachineSet list \<Rightarrow> nat result" where
  "find_set better items =
     rbind (find_from better items 0 [0..<length items]) (\<lambda>j.
       if j < length items then Ok j else Panic ''index out of range'')"

text \<open>One turn of a scaling loop: the replicas of the item that was found change by \<open>d\<close>.\<close>

definition scale_step :: "(int \<Rightarrow> int \<Rightarrow> bool) \<Rightarrow> int \<Rightarrow> MachineSet list \<Rightarrow> MachineSet list result" where
  "scale_step better d items =
     rbind (find_set better items) (\<lambda>j.
     rbind (replicas items j) (\<lambda>r.
     Ok (items[j := (items ! j)\<lparr>ms_Replicas := Some (wrap32 (r + d))\<rparr>])))"

lemma rbind_cong [fundef_cong]:
  "r = r' \<Longrightarrow> (\<And>a. r' = Ok a \<Longrightarrow> f a = g a) \<Longrightarrow> rbind r f = rbind r' g"
  by (cases r') simp_all

function scale_down :: "int \<Rightarrow> int \<Rightarrow> MachineSet list \<Rightarrow> MachineSet list result" where
  "scale_down count have items =
     (if have > count then rbind (scale_step (>) (- 1) items) (scale_down count (have - 1)) else Ok items)"
  by pat_completeness auto
termination by (relation "measure (\<lambda>(count, have, items). nat (have - count))") auto

function scale_up :: "int \<Rightarrow> int \<Rightarrow> MachineSet list \<Rightarrow> MachineSet list result" where
  "scale_up count have items =
     (if have < count then rbind (scale_step (<) 1 items) (scale_up count (have + 1)) else Ok items)"
  by pat_completeness auto
termination by (relation "measure (\<lambda>(count, have, items). nat (count - have))") auto

declare scale_down.simps [simp del] scale_up.simps [simp del]

text \<open>What the sets have: a set without replicas counts as one, but the default is written to a copy of the item.\<close>

definition have_replicas :: "MachineSet list \<Rightarrow> int" where
  "have_replicas items = sum_list (map (\<lambda>ms. case ms_Replicas ms of None \<Rightarrow> 1 | Some r \<Rightarrow> r) items)"

definition scale :: "int \<Rightarrow> MachineSet list \<Rightarrow> MachineSet list result" where
  "scale count items =
     (let have = have_replicas items in
      rbind (scale_down count have items) (scale_up count (if have > count then count else have)))"

text \<open>\<^verbatim>\<open>retry.RetryOnConflict(retry.DefaultRetry, ...)\<close>: at most five attempts.\<close>

primrec on_conflict :: "(error \<Rightarrow> bool) \<Rightarrow> nat \<Rightarrow> ('w, unit) go \<Rightarrow> ('w, unit) go" where
  "on_conflict conflict 0 f = f"
| "on_conflict conflict (Suc n) f = on_error f (\<lambda>e. if conflict e then on_conflict conflict n f else glift (Err e))"

definition RetryOnConflict :: "(error \<Rightarrow> bool) \<Rightarrow> ('w, unit) go \<Rightarrow> ('w, unit) go" where
  "RetryOnConflict conflict = on_conflict conflict 4"

definition set_replicas :: "'w machine_client \<Rightarrow> MachineSet \<Rightarrow> int \<Rightarrow> ('w, unit) go" where
  "set_replicas cli item want =
     gbind (mc_Get cli (ms_Namespace item) (ms_Name item)) (\<lambda>machineset.
     let have = (case ms_Replicas machineset of None \<Rightarrow> 1 | Some r \<Rightarrow> r) in
     if have \<noteq> want
     then gbind (mc_Update cli (ms_Namespace machineset) (machineset\<lparr>ms_Replicas := Some want\<rparr>)) (\<lambda>_. greturn ())
     else greturn ())"

fun apply_replicas :: "'w machine_client \<Rightarrow> MachineSet list \<Rightarrow> ('w, unit) go" where
  "apply_replicas cli [] = greturn ()"
| "apply_replicas cli (item # items) =
     gbind (glift (nonnil (ms_Replicas item))) (\<lambda>want.
     gbind (RetryOnConflict (mc_IsConflict cli) (set_replicas cli item want)) (\<lambda>_.
     apply_replicas cli items))"

definition scaled :: "'w machine_client \<Rightarrow> MachineSet \<Rightarrow> int \<Rightarrow> ('w, bool) go" where
  "scaled cli item want =
     gbind (mc_Get cli (ms_Namespace item) (ms_Name item)) (\<lambda>m.
     greturn (ms_ObservedGeneration m = ms_Generation m \<and> ms_AvailableReplicas m = want))"

fun await_replicas :: "nat \<Rightarrow> 'w machine_client \<Rightarrow> MachineSet list \<Rightarrow> ('w, unit) go" where
  "await_replicas ticks cli [] = greturn ()"
| "await_replicas ticks cli (item # items) =
     gbind (glift (nonnil (ms_Replicas item))) (\<lambda>want.
     gbind (PollImmediate ticks (scaled cli item want)) (\<lambda>_.
     await_replicas ticks cli items))"

definition is_worker_set :: "MachineSet \<Rightarrow> bool" where
  "is_worker_set ms = HasPrefix (ms_Name ms) ''aro-worker-''"

definition Update_machines :: "nat \<Rightarrow> 'w machine_client \<Rightarrow> OpenShiftCluster \<Rightarrow> ('w, unit) go" where
  "Update_machines ticks cli oc =
     gbind (mc_List cli ''openshift-machine-api'') (\<lambda>machinesets.
     let items = filter is_worker_set machinesets in
     if items = [] then glift (Err (ErrorfErr (Fmt ''no worker machinesets found'' [])))
     else gbind (glift (first_worker oc)) (\<lambda>wp.
          gbind (glift (scale (wp_Count wp) items)) (\<lambda>items.
          gbind (apply_replicas cli items) (\<lambda>_.
          await_replicas ticks cli items))))"

record ('c, 'n, 'w) update_env =
  ue_kube :: "('c, 'n, 'w) kube_env"
  ue_NewForConfig :: "('c, 'n, 'w) rest_config \<Rightarrow> ('w, 'w machine_client) go"
  ue_ticks :: nat

definition Manager_Update :: "('c, 'n, 'w) update_env \<Rightarrow> OpenShiftClusterDocument \<Rightarrow> ('w, unit) go" where
  "Manager_Update e doc =
     gbind (RestConfig (ue_kube e) (doc_OpenShiftCluster doc)) (\<lambda>restConfig.
     gbind (ue_NewForConfig e restConfig) (\<lambda>cli.
     Update_machines (ue_ticks e) cli (doc_OpenShiftCluster doc)))"

section \<open>How the replicas are distributed\<close>

abbreviation counts :: "MachineSet list \<Rightarrow> int list" where
  "counts items \<equiv> map (\<lambda>ms. the (ms_Replicas ms)) items"

definition counted :: "MachineSet list \<Rightarrow> bool" where
  "counted items = list_all (\<lambda>ms. case ms_Replicas ms of None \<Rightarrow> False | Some r \<Rightarrow> 0 \<le> r \<and> r < 2147483648) items"

abbreviation others :: "MachineSet list \<Rightarrow> MachineSet list" where
  "others items \<equiv> map (\<lambda>ms. ms\<lparr>ms_Replicas := None\<rparr>) items"

text \<open>
  From \<open>r\<close> to \<open>r'\<close> the numbers only grow (\<open>s = 1\<close>) or only shrink (\<open>s = -1\<close>), and one that changed has not gone further than one step
  beyond any other.
\<close>

definition evenly :: "int \<Rightarrow> int list \<Rightarrow> int list \<Rightarrow> bool" where
  "evenly s r r' \<longleftrightarrow> length r' = length r
     \<and> (\<forall>i < length r. s * r ! i \<le> s * r' ! i
          \<and> (s * r ! i < s * r' ! i \<longrightarrow> (\<forall>j < length r. s * r' ! i \<le> s * r' ! j + 1)))"

lemma evenly_refl: "evenly s r r"
  by (simp add: evenly_def)

lemma evenly_step:
  assumes "evenly s r q" and s: "s * s = 1" and "j < length r" and "\<forall>i < length r. s * q ! j \<le> s * q ! i"
  shows "evenly s r (q[j := q ! j + s])"
  using assms unfolding evenly_def
  by (auto simp: nth_list_update distrib_left order_trans [of "s * r ! j" "s * q ! j"]) (smt (verit))+

lemma replicas_counted: "counted items \<Longrightarrow> i < length items \<Longrightarrow> replicas items i = Ok (counts items ! i)"
  by (auto simp: counted_def list_all_length replicas_def split: option.splits)

lemma find_from_least:
  assumes "counted items" and "\<forall>i \<in> insert j (set is). i < length items"
  shows "\<exists>k. find_from (\<lambda>a b. s * a < s * b) items j is = Ok k \<and> k \<in> insert j (set is)
          \<and> (\<forall>i \<in> insert j (set is). s * counts items ! k \<le> s * counts items ! i)"
  using assms(2)
proof (induction "is" arbitrary: j)
  case (Cons i "is")
  let ?j = "if s * counts items ! i < s * counts items ! j then i else j"
  obtain k where "find_from (\<lambda>a b. s * a < s * b) items ?j is = Ok k" "k \<in> insert ?j (set is)"
      "\<forall>i \<in> insert ?j (set is). s * counts items ! k \<le> s * counts items ! i"
    using Cons.IH [of ?j] Cons.prems by auto
  then show ?case using Cons.prems
    by (intro exI [of _ k]) (auto simp: replicas_counted [OF assms(1)] split: if_splits)
qed simp

lemma find_set_least:
  assumes "counted items" "items \<noteq> []"
  obtains k where "find_set (\<lambda>a b. s * a < s * b) items = Ok k" "k < length items"
    "\<forall>i < length items. s * counts items ! k \<le> s * counts items ! i"
proof -
  obtain k where "find_from (\<lambda>a b. s * a < s * b) items 0 [0..<length items] = Ok k" "k < length items"
      "\<forall>i < length items. s * counts items ! k \<le> s * counts items ! i"
    using find_from_least [OF assms(1), of 0 "[0..<length items]" s] assms(2) by auto
  with that show ?thesis by (simp add: find_set_def)
qed

lemma counted_update:
  "counted items \<Longrightarrow> k < length items \<Longrightarrow> 0 \<le> r \<Longrightarrow> r < 2147483648 \<Longrightarrow>
     counted (items[k := (items ! k)\<lparr>ms_Replicas := Some (wrap32 r)\<rparr>])
     \<and> counts (items[k := (items ! k)\<lparr>ms_Replicas := Some (wrap32 r)\<rparr>]) = (counts items)[k := r]
     \<and> others (items[k := (items ! k)\<lparr>ms_Replicas := Some (wrap32 r)\<rparr>]) = others items"
  by (auto simp: counted_def list_all_length wrap32_id nth_list_update map_update list_update_same_conv)

lemma counts_le_sum: "counted items \<Longrightarrow> i < length items \<Longrightarrow> counts items ! i \<le> sum_list (counts items)"
  by (intro member_le_sum_list) (auto simp: counted_def list_all_iff split: option.splits)

lemma sum_list_update_int: "k < length xs \<Longrightarrow> sum_list (xs[k := x :: int]) = sum_list xs - xs ! k + x"
  by (induction xs arbitrary: k) (auto split: nat.splits)

text \<open>One turn of either loop, as long as the sum stays in range.\<close>

lemma scale_step_even:
  assumes c: "counted items" "items \<noteq> []" and e: "evenly s r (counts items)"
    and s: "s = 1 \<and> sum_list (counts items) < 2147483647 \<or> s = - 1 \<and> 0 < sum_list (counts items)"
  obtains items' where "scale_step (\<lambda>a b. s * a < s * b) s items = Ok items'" "counted items'" "items' \<noteq> []"
    "others items' = others items" "sum_list (counts items') = sum_list (counts items) + s" "evenly s r (counts items')"
proof -
  obtain k where k: "find_set (\<lambda>a b. s * a < s * b) items = Ok k" "k < length items"
      "\<forall>i < length items. s * counts items ! k \<le> s * counts items ! i"
    using find_set_least [OF c] .
  let ?r = "counts items ! k + s"
  have "0 \<le> counts items ! k"
    using c(1) k(2) by (auto simp: counted_def list_all_length split: option.splits)
  moreover have "0 < counts items ! k" if "s = - 1"
  proof (rule ccontr)
    assume "\<not> 0 < counts items ! k"
    with that k(3) have "\<forall>i < length items. counts items ! i \<le> 0" by force
    then have "\<forall>x \<in> set (counts items). x \<le> 0" by (auto simp: in_set_conv_nth)
    then have "sum_list (counts items) \<le> 0" by (intro sum_list_nonpos) auto
    with s that show False by simp
  qed
  ultimately have "0 \<le> ?r" "?r < 2147483648"
    using s counts_le_sum [OF c(1) k(2)] k(2) c(1) by (auto simp: counted_def list_all_length split: option.splits)
  note upd = counted_update [OF c(1) k(2) this]
  have "scale_step (\<lambda>a b. s * a < s * b) s items = Ok (items[k := (items ! k)\<lparr>ms_Replicas := Some (wrap32 ?r)\<rparr>])"
    using k by (simp add: scale_step_def replicas_counted [OF c(1)])
  moreover have "evenly s r ((counts items)[k := ?r])"
    using e k s by (intro evenly_step) (auto simp: evenly_def)
  ultimately show ?thesis
    using that upd c(2) k(2) by (simp add: sum_list_update_int)
qed

lemma scale_down_even:
  assumes "counted items" "items \<noteq> []" "evenly (- 1) r (counts items)" "have = sum_list (counts items)" "0 \<le> count"
  shows "\<exists>items'. scale_down count have items = Ok items' \<and> counted items' \<and> items' \<noteq> [] \<and> others items' = others items
          \<and> sum_list (counts items') = min count have \<and> evenly (- 1) r (counts items')"
  using assms
proof (induction "nat (have - count)" arbitrary: "have" items)
  case 0
  then show ?case by (intro exI [of _ items]) (simp add: scale_down.simps min_def)
next
  case (Suc n)
  then have s: "- 1 = (1 :: int) \<and> sum_list (counts items) < 2147483647 \<or> (- 1 :: int) = - 1 \<and> 0 < sum_list (counts items)"
    by simp
  obtain items' where items': "scale_step (\<lambda>a b. - 1 * a < - 1 * b) (- 1) items = Ok items'" "counted items'" "items' \<noteq> []"
      "others items' = others items" "sum_list (counts items') = have - 1" "evenly (- 1) r (counts items')"
    using scale_step_even [OF Suc.prems(1-3) s] Suc.prems(4) by (metis uminus_add_conv_diff add.commute)
  have "n = nat (have - 1 - count)" using Suc.hyps(2) by simp
  obtain items'' where "scale_down count (have - 1) items' = Ok items''" "counted items''" "items'' \<noteq> []"
      "others items'' = others items'" "sum_list (counts items'') = min count (have - 1)" "evenly (- 1) r (counts items'')"
    using Suc.hyps(1) [OF \<open>n = _\<close> items'(2,3,6) items'(5) [symmetric] Suc.prems(5)] by blast
  moreover have "count < have" using Suc.hyps(2) by simp
  ultimately show ?case using items' by (simp add: scale_down.simps [of count "have"])
qed

lemma scale_up_even:
  assumes "counted items" "items \<noteq> []" "evenly 1 r (counts items)" "have = sum_list (counts items)" "count < 2147483648"
  shows "\<exists>items'. scale_up count have items = Ok items' \<and> others items' = others items
          \<and> sum_list (counts items') = max count have \<and> evenly 1 r (counts items')"
  using assms
proof (induction "nat (count - have)" arbitrary: "have" items)
  case 0
  then show ?case by (intro exI [of _ items]) (simp add: scale_up.simps max_def)
next
  case (Suc n)
  then have s: "(1 :: int) = 1 \<and> sum_list (counts items) < 2147483647 \<or> (1 :: int) = - 1 \<and> 0 < sum_list (counts items)"
    by simp
  obtain items' where items': "scale_step (\<lambda>a b. 1 * a < 1 * b) 1 items = Ok items'" "counted items'" "items' \<noteq> []"
      "others items' = others items" "sum_list (counts items') = have + 1" "evenly 1 r (counts items')"
    using scale_step_even [OF Suc.prems(1-3) s] Suc.prems(4) by metis
  have "n = nat (count - (have + 1))" using Suc.hyps(2) by simp
  obtain items'' where "scale_up count (have + 1) items' = Ok items''"
      "others items'' = others items'" "sum_list (counts items'') = max count (have + 1)" "evenly 1 r (counts items'')"
    using Suc.hyps(1) [OF \<open>n = _\<close> items'(2,3,6) items'(5) [symmetric] Suc.prems(5)] by blast
  moreover have "have < count" using Suc.hyps(2) by simp
  ultimately show ?case using items' by (simp add: scale_up.simps [of count "have"])
qed

lemma have_counted: "counted items \<Longrightarrow> have_replicas items = sum_list (counts items)"
  unfolding have_replicas_def
  by (intro arg_cong [where f = sum_list] map_cong) (auto simp: counted_def list_all_iff split: option.splits)

text \<open>
  C33. Scaling gives a cluster exactly the workers it asks for, and spreads them. Both loops end; the machine sets then have
  together the number of replicas of the worker profile; nothing else of them changes; and they were shrunk, or grown, evenly: a set
  that changed is never more than one replica beyond any other set.
\<close>
theorem scaling_exact_and_even:
  assumes "counted items" and "items \<noteq> []" and "0 \<le> count" and "count < 2147483648"
  shows "\<exists>items'. scale count items = Ok items' \<and> sum_list (counts items') = count \<and> others items' = others items
           \<and> evenly (if have_replicas items > count then - 1 else 1) (counts items) (counts items')"
proof -
  let ?have = "have_replicas items"
  note sum = have_counted [OF assms(1)]
  obtain q where q: "scale_down count ?have items = Ok q" "counted q" "q \<noteq> []" "others q = others items"
      "sum_list (counts q) = min count ?have" "evenly (- 1) (counts items) (counts q)"
    using scale_down_even [OF assms(1,2) evenly_refl sum assms(3)] by auto
  obtain q' where q': "scale_up count (sum_list (counts q)) q = Ok q'" "others q' = others q"
      "sum_list (counts q') = max count (sum_list (counts q))" "evenly 1 (counts q) (counts q')"
    using scale_up_even [OF q(2,3) evenly_refl refl assms(4)] by auto
  have "scale count items = Ok q'"
    using q(1,5) q'(1) by (cases "count < ?have") (simp_all add: scale_def Let_def min_def split: if_splits)
  moreover have "q = items" if "\<not> count < ?have" using q(1) that by (simp add: scale_down.simps)
  moreover have "q' = q" if "count < ?have" using q'(1) q(5) that by (simp add: scale_up.simps)
  ultimately show ?thesis using q q' by (auto simp: max_def min_def split: if_splits)
qed

definition three_sets :: "MachineSet list" where
  "three_sets = map (\<lambda>(n, r). \<lparr>ms_Namespace = ''openshift-machine-api'', ms_Name = ''aro-worker-'' @ n, ms_Replicas = Some r,
     ms_Generation = 1, ms_ObservedGeneration = 1, ms_AvailableReplicas = r, ms_Other = []\<rparr>) [(''1'', 1), (''2'', 4), (''3'', 2)]"

theorem scaling_exact_and_even_witness:
  "\<exists>items'. scale 4 three_sets = Ok items' \<and> sum_list (counts items') = 4 \<and> others items' = others three_sets
     \<and> evenly (if have_replicas three_sets > 4 then - 1 else 1) (counts three_sets) (counts items')
     \<and> counts items' = [1, 1, 2]"
proof -
  have "counted three_sets" by code_simp
  then obtain items' where *: "scale 4 three_sets = Ok items'" "sum_list (counts items') = 4" "others items' = others three_sets"
      "evenly (if have_replicas three_sets > 4 then - 1 else 1) (counts three_sets) (counts items')"
    using scaling_exact_and_even [of three_sets 4] by (auto simp: three_sets_def)
  moreover have "(case scale 4 three_sets of Ok x \<Rightarrow> counts x | _ \<Rightarrow> []) = [1, 1, 2]" by code_simp
  ultimately show ?thesis by auto
qed

section \<open>Machine sets without replicas\<close>

lemma find_from_nil: "i \<in> set is \<Longrightarrow> ms_Replicas (items ! i) = None \<Longrightarrow> find_from better items j is \<noteq> Ok k"
  by (induction "is" arbitrary: j) (auto simp: replicas_def rbind_eq_Ok)

lemma scale_step_nil: "x \<in> set items \<Longrightarrow> ms_Replicas x = None \<Longrightarrow> scale_step better d items \<noteq> Ok items'"
proof -
  assume "x \<in> set items" "ms_Replicas x = None"
  then obtain i where "i < length items" "ms_Replicas (items ! i) = None" by (auto simp: in_set_conv_nth)
  then have "find_from better items 0 [0..<length items] \<noteq> Ok k" for k
    by (intro find_from_nil [of i]) auto
  then show ?thesis by (auto simp: scale_step_def find_set_def rbind_eq_Ok)
qed

lemma scale_nil: "x \<in> set items \<Longrightarrow> ms_Replicas x = None \<Longrightarrow> scale count items = Ok items' \<Longrightarrow> items' = items"
  by (auto simp: scale_def Let_def rbind_eq_Ok scale_down.simps [of count "have_replicas items"] scale_up.simps [of count _ items]
      dest: scale_step_nil split: if_splits)

lemma apply_replicas_nil: "x \<in> set items \<Longrightarrow> ms_Replicas x = None \<Longrightarrow> apply_replicas cli items w \<noteq> (Ok (), w')"
  by (induction items arbitrary: w) (auto simp: gbind_eq_Ok)

text \<open>
  A worker machine set without replicas cannot be updated. Kubernetes counts such a set as one replica, and so does the code, but it
  writes the default to a copy of the list's item: no update of a cluster with such a set succeeds, whatever number of workers it
  asks for.
\<close>
theorem update_without_replicas:
  assumes "mc_List cli ''openshift-machine-api'' w = (Ok machinesets, w')"
    and "x \<in> set machinesets" and "is_worker_set x" and "ms_Replicas x = None"
  shows "fst (Update_machines ticks cli oc w) \<noteq> Ok ()"
proof
  let ?items = "filter is_worker_set machinesets"
  assume "fst (Update_machines ticks cli oc w) = Ok ()"
  then obtain w2 where "Update_machines ticks cli oc w = (Ok (), w2)" by (metis prod.collapse)
  then obtain wp :: WorkerProfile and items w3 where "scale (wp_Count wp) ?items = Ok items" "apply_replicas cli items w' = (Ok (), w3)"
    using assms(1) by (auto simp: Update_machines_def gbind_eq_Ok Let_def split: if_splits)
  moreover have "x \<in> set ?items" using assms by simp
  ultimately show False using scale_nil apply_replicas_nil assms(4) by metis
qed

definition no_replicas :: "unit machine_client" where
  "no_replicas =
     (let ms = (hd three_sets)\<lparr>ms_Replicas := None\<rparr> in
      \<lparr>mc_List = (\<lambda>ns w. (Ok [ms], w)), mc_Get = (\<lambda>ns name w. (Ok ms, w)), mc_Update = (\<lambda>ns ms w. (Ok ms, w)), mc_IsConflict = (\<lambda>_. False)\<rparr>)"

theorem update_without_replicas_witness: "fst (Update_machines 2 no_replicas zero_OpenShiftCluster ()) \<noteq> Ok ()"
proof -
  let ?x = "(hd three_sets)\<lparr>ms_Replicas := None\<rparr>"
  have "is_worker_set ?x" by code_simp
  then show ?thesis
    using update_without_replicas [of no_replicas "()" "[?x]" "()" ?x] by (simp add: no_replicas_def Let_def)
qed

end
