(* ===== verification/Graph.thy ===== *)
theory Graph
  imports Prelude
begin

text \<open>
  The asset graph of the installer, \<^verbatim>\<open>src/pkg/install/graph.go\<close>: a map from the type of an asset to the asset. An asset, what it depends on
  and how it is generated are the OpenShift installer's: \<open>Dependencies\<close> and \<open>Generate\<close> are parameters, as is the JSON form of
  one asset. A type is identified by its name.

  Resolving an asset calls itself on the assets it depends on. Go has no bound for that: if the dependencies have a cycle, the call ends in
  a stack overflow. \<open>resolve\<close> has the depth of the stack as its first argument and panics when it is used up;
  \<open>resolve_complete\<close> shows that for dependencies without a cycle the depth of the dependencies is enough.
\<close>

section \<open>Resolving assets\<close>

type_synonym 'v graph = "string \<rightharpoonup> 'v"

record 'v installer_lib =
  il_Dependencies :: "string \<Rightarrow> string list"
  il_Generate :: "string \<Rightarrow> 'v graph \<Rightarrow> 'v result"

definition stack_overflow :: string where
  "stack_overflow = ''stack overflow''"

fun resolve_all :: "(string \<Rightarrow> ('v graph, 'v) go) \<Rightarrow> string list \<Rightarrow> ('v graph, unit) go" where
  "resolve_all f [] = greturn ()"
| "resolve_all f (dep # deps) = gbind (f dep) (\<lambda>_. resolve_all f deps)"

definition generate :: "'v installer_lib \<Rightarrow> string \<Rightarrow> ('v graph, 'v) go" where
  "generate L a g = (case il_Generate L a g of Ok v \<Rightarrow> (Ok v, g(a \<mapsto> v)) | Err e \<Rightarrow> (Err e, g) | Panic p \<Rightarrow> (Panic p, g))"

primrec resolve :: "nat \<Rightarrow> 'v installer_lib \<Rightarrow> string \<Rightarrow> ('v graph, 'v) go" where
  "resolve 0 L a = glift (Panic stack_overflow)"
| "resolve (Suc depth) L a = (\<lambda>g.
     case g a of
       Some v \<Rightarrow> (Ok v, g)
     | None \<Rightarrow> gbind (resolve_all (resolve depth L) (il_Dependencies L a)) (\<lambda>_. generate L a) g)"

section \<open>The stored graph\<close>

definition registeredTypes :: "string list" where
  "registeredTypes = [
    ''github.com/openshift/installer/pkg/asset/releaseimage'', ''github.com/openshift/installer/pkg/asset/rhcos'',
    ''github.com/openshift/installer/pkg/asset/templates/content/bootkube'',
    ''github.com/openshift/installer/pkg/asset/templates/content/openshift'',
    ''github.com/openshift/installer/pkg/asset/tls'', ''*bootkube.CVOOverrides'', ''*bootkube.EtcdCAConfigMap'',
    ''*bootkube.EtcdClientSecret'', ''*bootkube.EtcdHostService'', ''*bootkube.EtcdHostServiceEndpoints'',
    ''*bootkube.EtcdMetricClientSecret'', ''*bootkube.EtcdMetricServingCAConfigMap'', ''*bootkube.EtcdMetricSignerSecret'',
    ''*bootkube.EtcdNamespace'', ''*bootkube.EtcdService'', ''*bootkube.EtcdServingCAConfigMap'',
    ''*bootkube.EtcdSignerSecret'', ''*bootkube.KubeCloudConfig'', ''*bootkube.KubeSystemConfigmapRootCA'',
    ''*bootkube.MachineConfigServerTLSSecret'', ''*bootkube.OpenshiftConfigSecretPullSecret'',
    ''*bootkube.OpenshiftMachineConfigOperator'', ''*bootstrap.Bootstrap'', ''*cluster.Metadata'',
    ''*cluster.TerraformVariables'', ''*installconfig.ClusterID'', ''*installconfig.InstallConfig'',
    ''*installconfig.PlatformCreds'', ''*installconfig.PlatformCredsCheck'', ''*kubeconfig.AdminClient'',
    ''*kubeconfig.AdminInternalClient'', ''*kubeconfig.Kubelet'', ''*kubeconfig.LoopbackClient'', ''*machine.Master'',
    ''*machine.Worker'', ''*machines.Master'', ''*machines.Worker'', ''*manifests.AdditionalTrustBundleConfig'',
    ''*manifests.CloudProviderConfig'', ''*manifests.DNS'', ''*manifests.ImageContentSourcePolicy'',
    ''*manifests.Infrastructure'', ''*manifests.Ingress'', ''*manifests.Manifests'', ''*manifests.Networking'',
    ''*manifests.Openshift'', ''*manifests.Proxy'', ''*manifests.Scheduler'', ''*openshift.CloudCredsSecret'',
    ''*openshift.KubeadminPasswordSecret'', ''*openshift.NetworkCRDs'', ''*openshift.PrivateClusterOutbound'',
    ''*openshift.RoleCloudCredsSecretReader'', ''*password.KubeadminPassword'', ''*releaseimage.Image'',
    ''*rhcos.BootstrapImage'', ''*rhcos.Image'', ''*tls.AdminKubeConfigCABundle'', ''*tls.AdminKubeConfigClientCertKey'',
    ''*tls.AdminKubeConfigSignerCertKey'', ''*tls.AggregatorCA'', ''*tls.AggregatorCABundle'',
    ''*tls.AggregatorClientCertKey'', ''*tls.AggregatorSignerCertKey'', ''*tls.APIServerProxyCertKey'', ''*tls.EtcdCABundle'',
    ''*tls.EtcdMetricCABundle'', ''*tls.EtcdMetricSignerCertKey'', ''*tls.EtcdMetricSignerClientCertKey'',
    ''*tls.EtcdSignerCertKey'', ''*tls.EtcdSignerClientCertKey'', ''*tls.JournalCertKey'',
    ''*tls.KubeAPIServerCompleteCABundle'', ''*tls.KubeAPIServerCompleteClientCABundle'',
    ''*tls.KubeAPIServerExternalLBServerCertKey'', ''*tls.KubeAPIServerInternalLBServerCertKey'',
    ''*tls.KubeAPIServerLBCABundle'', ''*tls.KubeAPIServerLBSignerCertKey'', ''*tls.KubeAPIServerLocalhostCABundle'',
    ''*tls.KubeAPIServerLocalhostServerCertKey'', ''*tls.KubeAPIServerLocalhostSignerCertKey'',
    ''*tls.KubeAPIServerServiceNetworkCABundle'', ''*tls.KubeAPIServerServiceNetworkServerCertKey'',
    ''*tls.KubeAPIServerServiceNetworkSignerCertKey'', ''*tls.KubeAPIServerToKubeletCABundle'',
    ''*tls.KubeAPIServerToKubeletClientCertKey'', ''*tls.KubeAPIServerToKubeletSignerCertKey'',
    ''*tls.KubeControlPlaneCABundle'', ''*tls.KubeControlPlaneKubeControllerManagerClientCertKey'',
    ''*tls.KubeControlPlaneKubeSchedulerClientCertKey'', ''*tls.KubeControlPlaneSignerCertKey'',
    ''*tls.KubeletBootstrapCABundle'', ''*tls.KubeletBootstrapCertSigner'', ''*tls.KubeletClientCABundle'',
    ''*tls.KubeletClientCertKey'', ''*tls.KubeletCSRSignerCertKey'', ''*tls.KubeletServingCABundle'', ''*tls.MCSCertKey'',
    ''*tls.RootCA'', ''*tls.ServiceAccountKeyPair'']"

text \<open>
  \<^verbatim>\<open>MarshalJSON\<close> and \<^verbatim>\<open>UnmarshalJSON\<close> between a graph and the members of a JSON object; \<open>enc\<close> and \<open>dec\<close> are the JSON form of one asset of a type.
  The order in which a Go map is iterated is not determined: the members are a list in any order.
\<close>

definition graph_members :: "(string \<Rightarrow> 'v \<Rightarrow> 'j result) \<Rightarrow> (string \<times> 'v) list \<Rightarrow> (string \<times> 'j) list result" where
  "graph_members enc entries =
     foldr (\<lambda>(t, a) r. rbind (enc t a) (\<lambda>j. rbind r (\<lambda>ms. Ok ((t, j) # ms)))) entries (Ok [])"

fun graph_UnmarshalJSON :: "(string \<Rightarrow> 'j \<Rightarrow> 'v result) \<Rightarrow> (string \<times> 'j) list \<Rightarrow> 'v graph \<Rightarrow> 'v graph result" where
  "graph_UnmarshalJSON dec [] g = Ok g"
| "graph_UnmarshalJSON dec ((n, b) # m) g =
     (if n \<notin> set registeredTypes then Err (ErrorfErr (Fmt ''unregistered type %q'' [AStr n]))
      else rbind (dec n b) (\<lambda>a. graph_UnmarshalJSON dec m (g(n \<mapsto> a))))"

section \<open>A resolved graph is complete\<close>

text \<open>Every asset of the graph has the assets it depends on.\<close>

definition closed_graph :: "'v installer_lib \<Rightarrow> string set \<Rightarrow> 'v graph \<Rightarrow> bool" where
  "closed_graph L given g \<longleftrightarrow> (\<forall>a \<in> dom g - given. set (il_Dependencies L a) \<subseteq> dom g)"

text \<open>
  The outcome of a successful call: the assets are there, no asset that was there is made again, the graph stays closed, and
  only assets below \<open>n\<close> in the order of the dependencies are added.
\<close>

definition resolves ::
    "'v installer_lib \<Rightarrow> string set \<Rightarrow> (string \<Rightarrow> nat) \<Rightarrow> nat \<Rightarrow> string list \<Rightarrow> 'v graph \<Rightarrow> 'v graph \<Rightarrow> bool" where
  "resolves L given rank n as g g' \<longleftrightarrow>
     g \<subseteq>\<^sub>m g' \<and> set as \<subseteq> dom g' \<and> (closed_graph L given g \<longrightarrow> closed_graph L given g') \<and> (\<forall>b \<in> dom g' - dom g. rank b < n)"

lemma resolves_less: "resolves L given rank m as g g' \<Longrightarrow> m \<le> n \<Longrightarrow> resolves L given rank n as g g'"
  unfolding resolves_def by (meson order_less_le_trans)

lemma resolves_Cons:
  assumes "resolves L given rank n [a] g g1" "resolves L given rank n as g1 g2"
  shows "resolves L given rank n (a # as) g g2"
proof -
  have le: "g \<subseteq>\<^sub>m g1" "g1 \<subseteq>\<^sub>m g2" using assms by (simp_all add: resolves_def)
  then have "dom g1 \<subseteq> dom g2" "g \<subseteq>\<^sub>m g2" by (blast dest: map_le_implies_dom_le map_le_trans)+
  with assms show ?thesis unfolding resolves_def by (simp, blast)
qed

lemma resolve_all_Ok:
  assumes "\<And>a g. a \<in> set as \<Longrightarrow> \<exists>v g'. f a g = (Ok v, g') \<and> resolves L given rank n [a] g g'"
  shows "\<exists>g'. resolve_all f as g = (Ok (), g') \<and> resolves L given rank n as g g'"
  using assms
proof (induction as arbitrary: g)
  case Nil
  then show ?case by (simp add: resolves_def)
next
  case (Cons a as)
  obtain v g1 where g1: "f a g = (Ok v, g1)" "resolves L given rank n [a] g g1"
    using Cons.prems [of a g] by auto
  moreover obtain g2 where "resolve_all f as g1 = (Ok (), g2)" "resolves L given rank n as g1 g2"
    using Cons.IH [of g1] Cons.prems by auto
  ultimately show ?case by (auto intro: resolves_Cons)
qed

lemma generate_Ok:
  assumes "il_Generate L a g = Ok v" "g a = None" "set (il_Dependencies L a) \<subseteq> dom g" "rank a < n"
  shows "generate L a g = (Ok v, g(a \<mapsto> v)) \<and> resolves L given rank n [a] g (g(a \<mapsto> v))"
  using assms by (auto simp: generate_def resolves_def closed_graph_def map_le_def)

lemma resolves_trans:
  assumes "resolves L given rank m ds g g1" "m \<le> n" "resolves L given rank n as g1 g2"
  shows "resolves L given rank n as g g2"
proof -
  have "g \<subseteq>\<^sub>m g2" using assms by (auto simp: resolves_def intro: map_le_trans)
  with resolves_less [OF assms(1,2)] assms(3) show ?thesis unfolding resolves_def by (simp, blast)
qed

text \<open>
  C34. Resolving an asset ends with a complete graph. If the dependencies of the assets have no cycle and an asset can be generated once
  those it depends on are in the graph, then a stack as deep as the dependencies is enough, the asset is in the graph
  afterwards, every asset that was supplied or made before is kept as it was, and every asset that was made has all its dependencies in the graph.
\<close>
theorem resolve_complete:
  assumes "\<forall>a. \<forall>d \<in> set (il_Dependencies L a). rank d < rank a"
    and "\<forall>a g. set (il_Dependencies L a) \<subseteq> dom g \<longrightarrow> (\<exists>v. il_Generate L a g = Ok v)"
    and "rank a < depth"
  shows "\<exists>v g'. resolve depth L a g = (Ok v, g') \<and> g' a = Some v \<and> resolves L given rank (Suc (rank a)) [a] g g'"
  using assms(3)
proof (induction depth arbitrary: a g)
  case (Suc depth)
  show ?case
  proof (cases "g a")
    case (Some v)
    then show ?thesis by (auto simp: resolves_def)
  next
    case None
    have "\<exists>v g'. resolve depth L d g = (Ok v, g') \<and> resolves L given rank (rank a) [d] g g'"
      if d: "d \<in> set (il_Dependencies L a)" for d g
    proof -
      have "rank d < rank a" using assms(1) d by blast
      moreover obtain v g' where "resolve depth L d g = (Ok v, g')" "resolves L given rank (Suc (rank d)) [d] g g'"
        using Suc.IH [of d g] Suc.prems \<open>rank d < rank a\<close> by auto
      ultimately show ?thesis using resolves_less [of L given rank "Suc (rank d)" "[d]" g g' "rank a"] by auto
    qed
    then obtain g1 where g1: "resolve_all (resolve depth L) (il_Dependencies L a) g = (Ok (), g1)"
        "resolves L given rank (rank a) (il_Dependencies L a) g g1"
      using resolve_all_Ok by metis
    have deps: "set (il_Dependencies L a) \<subseteq> dom g1" and new: "g1 a = None"
      using g1(2) None by (auto simp: resolves_def)
    obtain v where "il_Generate L a g1 = Ok v" using assms(2) deps by blast
    from generate_Ok [OF this new deps, of rank "Suc (rank a)" given]
    show ?thesis using g1 None resolves_trans [OF g1(2)] by auto
  qed
qed simp

text \<open>A lock needs a key; everything is there in two steps.\<close>

definition lock_lib :: "string list installer_lib" where
  "lock_lib = \<lparr>il_Dependencies = (\<lambda>a. if a = ''lock'' then [''key''] else []),
     il_Generate = (\<lambda>a g. Ok (if a = ''lock'' then [''lock'', hd (the (g ''key''))] else [a]))\<rparr>"

theorem resolve_complete_witness:
  "\<exists>v g'. resolve 2 lock_lib ''lock'' Map.empty = (Ok v, g') \<and> g' ''lock'' = Some v
     \<and> resolves lock_lib {} (\<lambda>a. if a = ''lock'' then 1 else 0) 2 [''lock''] Map.empty g'"
  using resolve_complete [of lock_lib "\<lambda>a. if a = ''lock'' then 1 else 0" "''lock''" 2 Map.empty "{}"]
  by (simp add: lock_lib_def numeral_2_eq_2)

section \<open>Storing the graph\<close>

lemma graph_members_Ok:
  "(\<And>t a. (t, a) \<in> set entries \<Longrightarrow> \<exists>j. enc t a = Ok j \<and> dec t j = Ok a) \<Longrightarrow>
     \<exists>ms. graph_members enc entries = Ok ms \<and> map fst ms = map fst entries
       \<and> list_all2 (\<lambda>(t, a) (t', j). t' = t \<and> dec t j = Ok a) entries ms"
proof (induction entries)
  case (Cons x entries)
  obtain t a where x: "x = (t, a)" by (cases x)
  obtain j where "enc t a = Ok j" "dec t j = Ok a" using Cons.prems [of t a] by (auto simp: x)
  moreover obtain ms where "graph_members enc entries = Ok ms" "map fst ms = map fst entries"
      "list_all2 (\<lambda>(t, a) (t', j). t' = t \<and> dec t j = Ok a) entries ms"
    using Cons.IH Cons.prems by auto
  ultimately show ?case by (intro exI [of _ "(t, j) # ms"]) (simp add: graph_members_def x)
qed (simp add: graph_members_def)

lemma unmarshal_members:
  assumes "distinct (map fst ms)" "fst ` set ms \<subseteq> set registeredTypes" "\<And>t j. (t, j) \<in> set ms \<Longrightarrow> \<exists>a. G t = Some a \<and> dec t j = Ok a"
  shows "\<exists>g'. graph_UnmarshalJSON dec ms g = Ok g' \<and> (\<forall>t. g' t = (if t \<in> fst ` set ms then G t else g t))"
  using assms
proof (induction ms arbitrary: g)
  case (Cons x ms)
  obtain t j where x: "x = (t, j)" by (cases x)
  obtain a where a: "G t = Some a" "dec t j = Ok a" using Cons.prems(3) [of t j] by (auto simp: x)
  have "\<exists>g'. graph_UnmarshalJSON dec ms (g(t \<mapsto> a)) = Ok g' \<and> (\<forall>u. g' u = (if u \<in> fst ` set ms then G u else (g(t \<mapsto> a)) u))"
    using Cons.prems by (intro Cons.IH) auto
  with a Cons.prems(1,2) show ?case by (force simp: x)
qed simp



end
