(* ===== verification/Arm.thy ===== *)
theory Arm
  imports Prelude
begin

text \<open>
  Azure resource manager templates, \<^verbatim>\<open>src/pkg/util/arm\<close>: the types of a template, how a resource is written as one JSON object, and
  the conditions under which a template can be deployed.

  A resource of the Azure SDK is a tree \<open>val\<close>: the name of its Go type and the fields that the literal in the source sets; a field that is
  not set has its zero value. Pointers to values are written as the values. The constants of the SDK are replaced by their text.
\<close>

datatype val =
    Str string
  | Num int
  | Bool bool
  | Arr "val list"
  | Obj string "(string \<times> val) list"
  | Nil

record Copy =
  copy_Name :: string
  copy_Count :: int
  copy_Mode :: string
  copy_BatchSize :: int

record TemplateParameter =
  tp_Type :: string
  tp_DefaultValue :: val
  tp_AllowedValues :: "val list"
  tp_Metadata :: "(string \<times> val) list"
  tp_MinValue :: int
  tp_MaxValue :: int
  tp_MinLength :: int
  tp_MaxLength :: int

record arm_Resource =
  ar_Resource :: val
  ar_Name :: string
  ar_Type :: string
  ar_Condition :: bool
  ar_APIVersion :: string
  ar_DependsOn :: "string list"
  ar_Location :: string
  ar_Tags :: "(string \<times> val) list"
  ar_Copy :: "Copy option"
  ar_Comments :: string

record Output =
  ou_Condition :: bool
  ou_Type :: string
  ou_Value :: val

record Template =
  t_Schema :: string
  t_APIProfile :: string
  t_ContentVersion :: string
  t_Variables :: "(string \<times> val) list"
  t_Parameters :: "(string \<times> TemplateParameter) list"
  t_Functions :: "val list"
  t_Resources :: "arm_Resource list"
  t_Outputs :: "(string \<times> Output) list"

record ParametersParameter =
  pp_Ref :: string
  pp_Value :: val
  pp_Metadata :: "(string \<times> val) list"

record Parameters =
  pa_Schema :: string
  pa_ContentVersion :: string
  pa_Parameters :: "(string \<times> ParametersParameter) list"

text \<open>The zero values, from which the literals of the source start.\<close>

definition zero_Copy :: Copy where
  "zero_Copy = \<lparr>copy_Name = [], copy_Count = 0, copy_Mode = [], copy_BatchSize = 0\<rparr>"

definition zero_TemplateParameter :: TemplateParameter where
  "zero_TemplateParameter = \<lparr>tp_Type = [], tp_DefaultValue = Nil, tp_AllowedValues = [], tp_Metadata = [], tp_MinValue = 0,
     tp_MaxValue = 0, tp_MinLength = 0, tp_MaxLength = 0\<rparr>"

definition resource :: "val \<Rightarrow> string \<Rightarrow> arm_Resource" where
  "resource r v = \<lparr>ar_Resource = r, ar_Name = [], ar_Type = [], ar_Condition = False, ar_APIVersion = v, ar_DependsOn = [],
     ar_Location = [], ar_Tags = [], ar_Copy = None, ar_Comments = []\<rparr>"

definition template_of :: "arm_Resource list \<Rightarrow> Template" where
  "template_of rs = \<lparr>t_Schema = ''https://schema.management.azure.com/schemas/2015-01-01/deploymentTemplate.json#'',
     t_APIProfile = [], t_ContentVersion = ''1.0.0.0'', t_Variables = [], t_Parameters = [], t_Functions = [], t_Resources = rs,
     t_Outputs = []\<rparr>"

text \<open>The fields of the outer struct that are not zero, in the order in which the type declares them.\<close>

definition outer_fields :: "arm_Resource \<Rightarrow> (string \<times> val) list" where
  "outer_fields r =
     (let str = (\<lambda>f s. if s = [] then [] else [(f, Str s)]) in
      str ''Name'' (ar_Name r) @ str ''Type'' (ar_Type r)
      @ (if ar_Condition r then [(''Condition'', Bool True)] else [])
      @ str ''APIVersion'' (ar_APIVersion r)
      @ (if ar_DependsOn r = [] then [] else [(''DependsOn'', Arr (map Str (ar_DependsOn r)))])
      @ str ''Location'' (ar_Location r)
      @ (if ar_Tags r = [] then [] else [(''Tags'', Obj ''map'' (ar_Tags r))])
      @ (case ar_Copy r of None \<Rightarrow> []
         | Some c \<Rightarrow> [(''Copy'', Obj ''arm.Copy'' [(''Name'', Str (copy_Name c)), (''Count'', Num (copy_Count c)),
             (''Mode'', Str (copy_Mode c)), (''BatchSize'', Num (copy_BatchSize c))])])
      @ str ''Comments'' (ar_Comments r))"

text \<open>A field of the outer struct replaces the field of the resource with its name, or is added.\<close>

fun set_field :: "string \<times> val \<Rightarrow> (string \<times> val) list \<Rightarrow> (string \<times> val) list" where
  "set_field (f, v) [] = [(f, v)]"
| "set_field (f, v) ((g, w) # fs) = (if f = g then (f, v) # fs else (g, w) # set_field (f, v) fs)"

definition combine :: "(string \<times> val) list \<Rightarrow> (string \<times> val) list \<Rightarrow> (string \<times> val) list" where
  "combine inner outer = foldl (\<lambda>fs fv. set_field fv fs) inner outer"

definition arm_MarshalJSON :: "arm_Resource \<Rightarrow> val result" where
  "arm_MarshalJSON r =
     (case ar_Resource r of
        Obj t fs \<Rightarrow> Ok (Obj [] (combine fs (outer_fields r)))
      | _ \<Rightarrow> Err (ErrorfErr (Fmt ''Resource field must be a struct'' [])))"

lemma map_of_set_field: "map_of (set_field (f, v) fs) g = (if g = f then Some v else map_of fs g)"
  by (induction "(f, v)" fs rule: set_field.induct) auto

lemma map_of_combine:
  "distinct (map fst outer) \<Longrightarrow>
     map_of (combine inner outer) f = (case map_of outer f of Some v \<Rightarrow> Some v | None \<Rightarrow> map_of inner f)"
proof (induction outer arbitrary: inner)
  case (Cons x outer)
  obtain g v where x: "x = (g, v)" by (cases x)
  with Cons.prems have "map_of outer g = None" by (auto simp: map_of_eq_None_iff)
  moreover have "combine inner (x # outer) = combine (set_field x inner) outer" by (simp add: combine_def)
  ultimately show ?case using Cons by (auto simp: x map_of_set_field split: option.splits)
qed (simp add: combine_def)

section \<open>Deployable templates\<close>

text \<open>A field of a resource, which the outer struct may override.\<close>

definition ar_field :: "string \<Rightarrow> arm_Resource \<Rightarrow> string" where
  "ar_field f r =
     (case arm_MarshalJSON r of
        Ok (Obj t fs) \<Rightarrow> (case map_of fs f of Some (Str s) \<Rightarrow> s | _ \<Rightarrow> [])
      | _ \<Rightarrow> [])"

text \<open>
  The identifiers by which another resource of the template can depend on a resource. A nested resource (\<open>a/b/c\<close> of type \<open>T/t/u\<close>) is
  \<open>T/a/t/b/u/c\<close>. A name that is an expression is put into an expression, of either of the two forms the sources use.
\<close>

fun interleave :: "string list \<Rightarrow> string list \<Rightarrow> string list" where
  "interleave (x # xs) (y # ys) = x # y # interleave xs ys"
| "interleave xs [] = xs"
| "interleave [] ys = ys"

definition concat_prefix :: string where
  "concat_prefix = ''[concat('' @ sq"

definition arm_id :: "arm_Resource \<Rightarrow> string" where
  "arm_id r =
     (let name = ar_field ''Name'' r; typ = ar_field ''Type'' r in
      if HasPrefix name concat_prefix then concat_prefix @ typ @ CHR ''/'' # drop (length concat_prefix) name
      else if HasPrefix name ''['' then concat_prefix @ typ @ ''/'' @ sq @ '', '' @ butlast (tl name) @ '')]''
      else case Split CHR ''/'' typ of
             provider # types \<Rightarrow> provider @ CHR ''/'' # Join CHR ''/'' (interleave types (Split CHR ''/'' name))
           | [] \<Rightarrow> [])"

text \<open>
  The reference \<open>[resourceId('T', a, b)]\<close> to a resource: its type and the segments of its name, which may be a text, an expression or a
  concatenation of expressions separated by slashes.
\<close>

definition split_comma :: "string \<Rightarrow> string list" where
  "split_comma s = map (\<lambda>a. if HasPrefix a '' '' then tl a else a) (Split CHR '','' s)"

definition name_segments :: "string \<Rightarrow> string list" where
  "name_segments name =
     (if HasPrefix name ''[concat(''
      then map (\<lambda>a. if HasPrefix a (sq @ ''/'') then sq @ drop 2 a else a)
             (filter (\<lambda>a. a \<noteq> sq @ ''/'' @ sq) (split_comma (take (length name - 10) (drop 8 name))))
      else if HasPrefix name ''['' then [butlast (tl name)]
      else [sq @ name @ sq])"

definition arm_reference :: "arm_Resource \<Rightarrow> string" where
  "arm_reference r =
     ''[resourceId('' @ Join CHR '','' ((sq @ ar_field ''Type'' r @ sq) # map (\<lambda>a. CHR '' '' # a) (name_segments (ar_field ''Name'' r))) @ '')]''"

text \<open>What a resource provides: its identifiers and the name of its copy loop.\<close>

definition provides :: "arm_Resource \<Rightarrow> string list" where
  "provides r = arm_id r # arm_reference r # (case ar_Copy r of None \<Rightarrow> [] | Some c \<Rightarrow> [copy_Name c])"

text \<open>A list of resources in an order in which they can be deployed: each depends only on resources before it.\<close>

fun in_order :: "string list \<Rightarrow> arm_Resource list \<Rightarrow> bool" where
  "in_order done [] = True"
| "in_order done (r # rs) = (list_all (\<lambda>d. d \<in> set done) (ar_DependsOn r) \<and> in_order (provides r @ done) rs)"

lemma in_order_mono: "in_order early rs \<Longrightarrow> set early \<subseteq> set more_early \<Longrightarrow> in_order more_early rs"
proof (induction rs arbitrary: early more_early)
  case (Cons r rs)
  then have "in_order (provides r @ early) rs" "set (provides r @ early) \<subseteq> set (provides r @ more_early)" by auto
  with Cons show ?case by (auto simp: list_all_iff)
qed simp

text \<open>A resource on which no other depends can be put at any place after its own dependencies.\<close>

lemma in_order_insert:
  assumes "in_order early (rs @ rs')" and "\<forall>d\<in>set (ar_DependsOn r). d \<in> set early \<or> (\<exists>q\<in>set rs. d \<in> set (provides q))"
  shows "in_order early (rs @ r # rs')"
  using assms
proof (induction rs arbitrary: early)
  case Nil
  then show ?case by (auto simp: list_all_iff intro: in_order_mono)
next
  case (Cons q rs)
  then have "in_order (provides q @ early) (rs @ r # rs')" by (intro Cons.IH) auto
  with Cons.prems(1) show ?case by simp
qed

text \<open>A template can be deployed if its resources have different identifiers and there is such an order of them.\<close>

definition deployable :: "Template \<Rightarrow> bool" where
  "deployable t \<longleftrightarrow> distinct (map arm_id (t_Resources t))
     \<and> (\<exists>rs. set rs = set (t_Resources t) \<and> length rs = length (t_Resources t) \<and> in_order [] rs)"

section \<open>References of a template\<close>

text \<open>All texts in a value, the keys of its maps included.\<close>

fun strings_of :: "val \<Rightarrow> string list" where
  "strings_of (Str s) = [s]"
| "strings_of (Arr vs) = concat (map strings_of vs)"
| "strings_of (Obj t fs) = concat (map (\<lambda>(f, v). f # strings_of v) fs)"
| "strings_of _ = []"

definition resource_strings :: "arm_Resource \<Rightarrow> string list" where
  "resource_strings r = (case arm_MarshalJSON r of Ok v \<Rightarrow> strings_of v | _ \<Rightarrow> [])"

text \<open>What follows the occurrences of a text in another.\<close>

fun after_each :: "string \<Rightarrow> string \<Rightarrow> string list" where
  "after_each p [] = []"
| "after_each p (c # s) = (if HasPrefix (c # s) p then [drop (length p) (c # s)] else []) @ after_each p s"

definition unquoted :: "string \<Rightarrow> string" where
  "unquoted s = takeWhile (\<lambda>c. c \<noteq> CHR 0x27) s"

text \<open>Whatever follows the occurrences of a text in a resource satisfies a condition.\<close>

definition follows :: "string \<Rightarrow> (string \<Rightarrow> bool) \<Rightarrow> string list \<Rightarrow> bool" where
  "follows p P ss \<longleftrightarrow> list_all (\<lambda>s. list_all P (after_each p s)) ss"

definition parameter_call :: string where
  "parameter_call = ''parameters('' @ sq"

definition reference_call :: string where
  "reference_call = ''resourceId('' @ sq"

definition parameters_declared :: "Template \<Rightarrow> bool" where
  "parameters_declared t \<longleftrightarrow>
     (let names = map fst (t_Parameters t) in
      list_all (\<lambda>r. follows parameter_call (\<lambda>x. unquoted x \<in> set names) (resource_strings r)) (t_Resources t))"

text \<open>
  The resource at the root of a reference \<open>resourceId('T', a, b)\<close>, as the first two segments of the type and the first argument
  (without its closing delimiter), and the root of a resource.
\<close>

definition root_type :: "string \<Rightarrow> string" where
  "root_type typ = Join CHR ''/'' (take 2 (Split CHR ''/'' typ))"

definition first_argument :: "string \<Rightarrow> string" where
  "first_argument s = (if HasPrefix s sq then sq @ unquoted (tl s) else takeWhile (\<lambda>c. c \<noteq> CHR '','' \<and> c \<noteq> CHR '')'') s)"

definition root_of_reference :: "string \<Rightarrow> string \<times> string" where
  "root_of_reference s = (root_type (unquoted s), first_argument (drop (length (unquoted s) + 3) s))"

definition root_of_resource :: "arm_Resource \<Rightarrow> string \<times> string" where
  "root_of_resource r =
     (let name = ar_field ''Name'' r in
      (root_type (ar_field ''Type'' r),
       if HasPrefix name ''[concat('' then first_argument (drop 8 name)
       else if HasPrefix name ''['' then first_argument (tl name)
       else sq @ name))"

text \<open>Every resource that a template refers to is one of its own or one of the templates deployed before it.\<close>

definition references_closed :: "Template list \<Rightarrow> Template \<Rightarrow> bool" where
  "references_closed earlier t \<longleftrightarrow>
     (let roots = concat (map (\<lambda>t. map root_of_resource (t_Resources t)) (t # earlier)) in
      list_all (\<lambda>r. follows reference_call (\<lambda>x. root_of_reference x \<in> set roots) (resource_strings r)) (t_Resources t))"

lemma references_closedI:
  assumes "list_all (\<lambda>r. follows reference_call (\<lambda>x. root_of_reference x \<in> set roots) (resource_strings r)) (t_Resources t)"
    and "set roots \<subseteq> set (concat (map (\<lambda>t. map root_of_resource (t_Resources t)) (t # earlier)))"
  shows "references_closed earlier t"
proof -
  have "follows reference_call (\<lambda>x. root_of_reference x \<in> set (concat (map (\<lambda>t. map root_of_resource (t_Resources t)) (t # earlier)))) ss"
    if "follows reference_call (\<lambda>x. root_of_reference x \<in> set roots) ss" for ss
    using that assms(2) unfolding follows_def list_all_iff by blast
  with assms(1) show ?thesis unfolding references_closed_def Let_def list_all_iff by blast
qed

lemma HasPrefix_split: "HasPrefix s p \<longleftrightarrow> (\<exists>t. s = p @ t)"
  by (induction s p rule: HasPrefix.induct) auto

text \<open>A stretch of text in which a pattern cannot occur: it lacks a character of the pattern, and what comes next breaks the pattern off.\<close>

lemma no_prefix_across:
  assumes "z \<notin> set xs" and "y \<notin> set q" and "y \<noteq> z"
  shows "\<not> HasPrefix (xs @ y # ys) (q @ z # r)"
proof
  assume "HasPrefix (xs @ y # ys) (q @ z # r)"
  then obtain t where "xs @ y # ys = q @ z # r @ t" by (auto simp: HasPrefix_split)
  then show False using assms by (auto simp: append_eq_append_conv2 Cons_eq_append_conv append_eq_Cons_conv)
qed

lemma after_each_skip:
  assumes "z \<notin> set xs" and "y \<notin> set q" and "y \<noteq> z"
  shows "after_each (q @ z # r) (xs @ y # ys) = after_each (q @ z # r) (y # ys)"
  using assms
proof (induction xs)
  case (Cons x xs)
  then have "\<not> HasPrefix ((x # xs) @ y # ys) (q @ z # r)" by (intro no_prefix_across) auto
  with Cons show ?case by simp
qed simp

end
