(* ===== verification/InstallTemplates.thy ===== *)
theory InstallTemplates
  imports Arm Api
begin

text \<open>
  The templates that the installer deploys for a cluster: the resources of \<^verbatim>\<open>installStorage\<close> and \<^verbatim>\<open>installResources\<close> in \<^verbatim>\<open>src/pkg/install\<close>,
  one definition per resource, and the public load balancer of \<^verbatim>\<open>src/pkg/install/resources.go\<close>. \<open>template_input\<close> holds what the
  literals read from their context.
\<close>

section \<open>The install configuration\<close>

text \<open>The parts of the OpenShift installer's configuration that the provider sets.\<close>

record rhcos_image =
  im_Publisher :: string
  im_Offer :: string
  im_SKU :: string
  im_Version :: string

record machine_pool =
  mpl_Name :: string
  mpl_Replicas :: int
  mpl_Zones :: "string list"
  mpl_InstanceType :: string
  mpl_DiskSizeGB :: int
  mpl_Hyperthreading :: string

record install_config =
  ic_Name :: string
  ic_SSHKey :: string
  ic_BaseDomain :: string
  ic_MachineCIDR :: string
  ic_NetworkType :: string
  ic_ClusterNetwork :: "(string \<times> int) list"
  ic_ServiceNetwork :: "string list"
  ic_ControlPlane :: machine_pool
  ic_Compute :: "machine_pool list"
  ic_Region :: string
  ic_ResourceGroupName :: string
  ic_NetworkResourceGroupName :: string
  ic_VirtualNetwork :: string
  ic_ControlPlaneSubnet :: string
  ic_ComputeSubnet :: string
  ic_ARO :: bool
  ic_PullSecret :: string
  ic_ImageContentSources :: "(string \<times> string list) list"
  ic_Publish :: string
  ic_Image :: rhcos_image

record template_input =
  ti_config :: install_config
  ti_oc :: OpenShiftCluster
  ti_vnetID :: string
  ti_lbIP :: string
  ti_srvRecords :: "val list"
  ti_zones :: val
  ti_objectID :: string
  ti_masterData :: string
  ti_subscriptionID :: string

definition install_apiVersions :: "string \<Rightarrow> string" where
  "install_apiVersions k =
     (if k = ''authorization'' then ''2015-07-01''
      else if k = ''compute'' then ''2019-03-01''
      else if k = ''network'' then ''2019-07-01''
      else if k = ''privatedns'' then ''2018-09-01''
      else if k = ''storage'' then ''2019-04-01''
      else [])"

section \<open>The resources\<close>

definition res_roleAssignment :: "template_input \<Rightarrow> arm_Resource" where
  "res_roleAssignment i =
     (resource (Obj ''mgmtauthorization.RoleAssignment'' [
      (''Name'', Str (''[guid(resourceGroup().id, 'SP / Contributor')]'')),
      (''Type'', Str ''Microsoft.Authorization/roleAssignments''),
      (''Properties'', Obj ''mgmtauthorization.RoleAssignmentPropertiesWithScope'' [
        (''Scope'', Str ''[resourceGroup().id]''),
        (''RoleDefinitionID'', Str (''[resourceId('Microsoft.Authorization/roleDefinitions', 'b24988ac-6180-42a0-ab88-20f7382dd24c')]'')),
        (''PrincipalID'', Str (ti_objectID i))])])
     (install_apiVersions ''authorization''))"

definition res_privateZone :: "template_input \<Rightarrow> arm_Resource" where
  "res_privateZone i =
     (resource (Obj ''mgmtprivatedns.PrivateZone'' [
      (''Name'', Str (ic_Name (ti_config i) @ ''.'' @ ic_BaseDomain (ti_config i))),
      (''Type'', Str ''Microsoft.Network/privateDnsZones''),
      (''Location'', Str ''global'')])
     (install_apiVersions ''privatedns''))"

definition res_api_int :: "template_input \<Rightarrow> arm_Resource" where
  "res_api_int i =
     (resource (Obj ''mgmtprivatedns.RecordSet'' [
      (''Name'', Str (ic_Name (ti_config i) @ ''.'' @ ic_BaseDomain (ti_config i) @ ''/api-int'')),
      (''Type'', Str ''Microsoft.Network/privateDnsZones/A''),
      (''RecordSetProperties'', Obj ''mgmtprivatedns.RecordSetProperties'' [
        (''TTL'', Num 300),
        (''ARecords'', Arr [Obj ''mgmtprivatedns.ARecord'' [(''Ipv4Address'', Str (ti_lbIP i))]])])])
     (install_apiVersions ''privatedns''))\<lparr>ar_DependsOn := [''Microsoft.Network/privateDnsZones/'' @ ic_Name (ti_config i) @ ''.'' @ ic_BaseDomain (ti_config i)]\<rparr>"

definition res_api :: "template_input \<Rightarrow> arm_Resource" where
  "res_api i =
     (resource (Obj ''mgmtprivatedns.RecordSet'' [
      (''Name'', Str (ic_Name (ti_config i) @ ''.'' @ ic_BaseDomain (ti_config i) @ ''/api'')),
      (''Type'', Str ''Microsoft.Network/privateDnsZones/A''),
      (''RecordSetProperties'', Obj ''mgmtprivatedns.RecordSetProperties'' [
        (''TTL'', Num 300),
        (''ARecords'', Arr [Obj ''mgmtprivatedns.ARecord'' [(''Ipv4Address'', Str (ti_lbIP i))]])])])
     (install_apiVersions ''privatedns''))\<lparr>ar_DependsOn := [''Microsoft.Network/privateDnsZones/'' @ ic_Name (ti_config i) @ ''.'' @ ic_BaseDomain (ti_config i)]\<rparr>"

definition res_etcd_srv :: "template_input \<Rightarrow> arm_Resource" where
  "res_etcd_srv i =
     (resource (Obj ''mgmtprivatedns.RecordSet'' [
      (''Name'', Str (ic_Name (ti_config i) @ ''.'' @ ic_BaseDomain (ti_config i) @ ''/_etcd-server-ssl._tcp'')),
      (''Type'', Str ''Microsoft.Network/privateDnsZones/SRV''),
      (''RecordSetProperties'', Obj ''mgmtprivatedns.RecordSetProperties'' [(''TTL'', Num 60), (''SrvRecords'', Arr (ti_srvRecords i))])])
     (install_apiVersions ''privatedns''))\<lparr>ar_DependsOn := [''Microsoft.Network/privateDnsZones/'' @ ic_Name (ti_config i) @ ''.'' @ ic_BaseDomain (ti_config i)]\<rparr>"

definition res_etcd :: "template_input \<Rightarrow> arm_Resource" where
  "res_etcd i =
     (resource (Obj ''mgmtprivatedns.RecordSet'' [
      (''Name'', Str (''[concat('' @ sq @ ic_Name (ti_config i) @ ''.'' @ ic_BaseDomain (ti_config i) @ ''/etcd-', copyIndex())]'')),
      (''Type'', Str ''Microsoft.Network/privateDnsZones/A''),
      (''RecordSetProperties'', Obj ''mgmtprivatedns.RecordSetProperties'' [
        (''TTL'', Num 60),
        (''ARecords'', Arr [
          Obj ''mgmtprivatedns.ARecord'' [
            (''Ipv4Address'', Str (''[reference(resourceId('Microsoft.Network/networkInterfaces', concat('aro-master', copyIndex(), '-nic')), '2019-07-01').ipConfigurations[0].properties.privateIPAddress]''))]])])])
     (install_apiVersions ''privatedns''))\<lparr>ar_Copy := Some (zero_Copy\<lparr>copy_Name := ''privatednscopy'', copy_Count := mpl_Replicas (ic_ControlPlane (ti_config i))\<rparr>),
     ar_DependsOn := [''[concat('Microsoft.Network/networkInterfaces/aro-master', copyIndex(), '-nic')]'', ''Microsoft.Network/privateDnsZones/'' @ ic_Name (ti_config i) @ ''.'' @ ic_BaseDomain (ti_config i)]\<rparr>"

definition res_networkLink :: "template_input \<Rightarrow> arm_Resource" where
  "res_networkLink i =
     (resource (Obj ''mgmtprivatedns.VirtualNetworkLink'' [
      (''VirtualNetworkLinkProperties'', Obj ''mgmtprivatedns.VirtualNetworkLinkProperties'' [
        (''VirtualNetwork'', Obj ''mgmtprivatedns.SubResource'' [(''ID'', Str (ti_vnetID i))]),
        (''RegistrationEnabled'', Bool False)]),
      (''Name'', Str (ic_Name (ti_config i) @ ''.'' @ ic_BaseDomain (ti_config i) @ ''/'' @ ic_Name (ti_config i) @ ''-network-link'')),
      (''Type'', Str ''Microsoft.Network/privateDnsZones/virtualNetworkLinks''),
      (''Location'', Str ''global'')])
     (install_apiVersions ''privatedns''))\<lparr>ar_DependsOn := [''Microsoft.Network/privateDnsZones/'' @ ic_Name (ti_config i) @ ''.'' @ ic_BaseDomain (ti_config i), ''privatednscopy'']\<rparr>"

definition res_privateLinkService :: "template_input \<Rightarrow> arm_Resource" where
  "res_privateLinkService i =
     (resource (Obj ''mgmtnetwork.PrivateLinkService'' [
      (''PrivateLinkServiceProperties'', Obj ''mgmtnetwork.PrivateLinkServiceProperties'' [
        (''LoadBalancerFrontendIPConfigurations'', Arr [
          Obj ''mgmtnetwork.FrontendIPConfiguration'' [
            (''ID'', Str (''[resourceId('Microsoft.Network/loadBalancers/frontendIPConfigurations', 'aro-internal-lb', 'internal-lb-ip')]''))]]),
        (''IPConfigurations'', Arr [
          Obj ''mgmtnetwork.PrivateLinkServiceIPConfiguration'' [
            (''PrivateLinkServiceIPConfigurationProperties'', Obj ''mgmtnetwork.PrivateLinkServiceIPConfigurationProperties'' [
              (''Subnet'', Obj ''mgmtnetwork.Subnet'' [(''ID'', Str (mp_SubnetID (p_MasterProfile (oc_Properties (ti_oc i)))))])]),
            (''Name'', Str ''aro-pls-nic'')]]),
        (''Visibility'', Obj ''mgmtnetwork.PrivateLinkServicePropertiesVisibility'' [(''Subscriptions'', Arr [Str (ti_subscriptionID i)])]),
        (''AutoApproval'', Obj ''mgmtnetwork.PrivateLinkServicePropertiesAutoApproval'' [(''Subscriptions'', Arr [Str (ti_subscriptionID i)])])]),
      (''Name'', Str ''aro-pls''),
      (''Type'', Str ''Microsoft.Network/privateLinkServices''),
      (''Location'', Str (ic_Region (ti_config i)))])
     (install_apiVersions ''network''))\<lparr>ar_DependsOn := [''Microsoft.Network/loadBalancers/aro-internal-lb'']\<rparr>"

definition res_routeTable :: "template_input \<Rightarrow> arm_Resource" where
  "res_routeTable i =
     (resource (Obj ''mgmtnetwork.RouteTable'' [
      (''Name'', Str ''aro-node-routetable''),
      (''Type'', Str ''Microsoft.Network/routeTables''),
      (''Location'', Str (ic_Region (ti_config i)))])
     (install_apiVersions ''network''))"

definition res_pip :: "template_input \<Rightarrow> arm_Resource" where
  "res_pip i =
     (resource (Obj ''mgmtnetwork.PublicIPAddress'' [
      (''Sku'', Obj ''mgmtnetwork.PublicIPAddressSku'' [(''Name'', Str ''Standard'')]),
      (''PublicIPAddressPropertiesFormat'', Obj ''mgmtnetwork.PublicIPAddressPropertiesFormat'' [(''PublicIPAllocationMethod'', Str ''Static'')]),
      (''Name'', Str ''aro-pip''),
      (''Type'', Str ''Microsoft.Network/publicIPAddresses''),
      (''Location'', Str (ic_Region (ti_config i)))])
     (install_apiVersions ''network''))"

definition res_internalLB :: "template_input \<Rightarrow> arm_Resource" where
  "res_internalLB i =
     (resource (Obj ''mgmtnetwork.LoadBalancer'' [
      (''Sku'', Obj ''mgmtnetwork.LoadBalancerSku'' [(''Name'', Str ''Standard'')]),
      (''LoadBalancerPropertiesFormat'', Obj ''mgmtnetwork.LoadBalancerPropertiesFormat'' [
        (''FrontendIPConfigurations'', Arr [
          Obj ''mgmtnetwork.FrontendIPConfiguration'' [
            (''FrontendIPConfigurationPropertiesFormat'', Obj ''mgmtnetwork.FrontendIPConfigurationPropertiesFormat'' [
              (''PrivateIPAddress'', Str (ti_lbIP i)),
              (''PrivateIPAllocationMethod'', Str ''Static''),
              (''Subnet'', Obj ''mgmtnetwork.Subnet'' [(''ID'', Str (mp_SubnetID (p_MasterProfile (oc_Properties (ti_oc i)))))])]),
            (''Name'', Str ''internal-lb-ip'')]]),
        (''BackendAddressPools'', Arr [
          Obj ''mgmtnetwork.BackendAddressPool'' [(''Name'', Str ''aro-internal-controlplane'')]]),
        (''LoadBalancingRules'', Arr [
          Obj ''mgmtnetwork.LoadBalancingRule'' [
            (''LoadBalancingRulePropertiesFormat'', Obj ''mgmtnetwork.LoadBalancingRulePropertiesFormat'' [
              (''FrontendIPConfiguration'', Obj ''mgmtnetwork.SubResource'' [
                (''ID'', Str (''[resourceId('Microsoft.Network/loadBalancers/frontendIPConfigurations', 'aro-internal-lb', 'internal-lb-ip')]''))]),
              (''BackendAddressPool'', Obj ''mgmtnetwork.SubResource'' [
                (''ID'', Str (''[resourceId('Microsoft.Network/loadBalancers/backendAddressPools', 'aro-internal-lb', 'aro-internal-controlplane')]''))]),
              (''Probe'', Obj ''mgmtnetwork.SubResource'' [
                (''ID'', Str (''[resourceId('Microsoft.Network/loadBalancers/probes', 'aro-internal-lb', 'api-internal-probe')]''))]),
              (''Protocol'', Str ''Tcp''),
              (''LoadDistribution'', Str ''Default''),
              (''FrontendPort'', Num 6443),
              (''BackendPort'', Num 6443),
              (''IdleTimeoutInMinutes'', Num 30),
              (''DisableOutboundSnat'', Bool True)]),
            (''Name'', Str ''api-internal'')],
          Obj ''mgmtnetwork.LoadBalancingRule'' [
            (''LoadBalancingRulePropertiesFormat'', Obj ''mgmtnetwork.LoadBalancingRulePropertiesFormat'' [
              (''FrontendIPConfiguration'', Obj ''mgmtnetwork.SubResource'' [
                (''ID'', Str (''[resourceId('Microsoft.Network/loadBalancers/frontendIPConfigurations', 'aro-internal-lb', 'internal-lb-ip')]''))]),
              (''BackendAddressPool'', Obj ''mgmtnetwork.SubResource'' [
                (''ID'', Str (''[resourceId('Microsoft.Network/loadBalancers/backendAddressPools', 'aro-internal-lb', 'aro-internal-controlplane')]''))]),
              (''Probe'', Obj ''mgmtnetwork.SubResource'' [
                (''ID'', Str (''[resourceId('Microsoft.Network/loadBalancers/probes', 'aro-internal-lb', 'sint-probe')]''))]),
              (''Protocol'', Str ''Tcp''),
              (''LoadDistribution'', Str ''Default''),
              (''FrontendPort'', Num 22623),
              (''BackendPort'', Num 22623),
              (''IdleTimeoutInMinutes'', Num 30)]),
            (''Name'', Str ''sint'')]]),
        (''Probes'', Arr [
          Obj ''mgmtnetwork.Probe'' [
            (''ProbePropertiesFormat'', Obj ''mgmtnetwork.ProbePropertiesFormat'' [
              (''Protocol'', Str ''Tcp''),
              (''Port'', Num 6443),
              (''IntervalInSeconds'', Num 10),
              (''NumberOfProbes'', Num 3)]),
            (''Name'', Str ''api-internal-probe'')],
          Obj ''mgmtnetwork.Probe'' [
            (''ProbePropertiesFormat'', Obj ''mgmtnetwork.ProbePropertiesFormat'' [
              (''Protocol'', Str ''Tcp''),
              (''Port'', Num 22623),
              (''IntervalInSeconds'', Num 10),
              (''NumberOfProbes'', Num 3)]),
            (''Name'', Str ''sint-probe'')]])]),
      (''Name'', Str ''aro-internal-lb''),
      (''Type'', Str ''Microsoft.Network/loadBalancers''),
      (''Location'', Str (ic_Region (ti_config i)))])
     (install_apiVersions ''network''))"

definition res_bootstrapNic :: "template_input \<Rightarrow> arm_Resource" where
  "res_bootstrapNic i =
     (resource (Obj ''mgmtnetwork.Interface'' [
      (''InterfacePropertiesFormat'', Obj ''mgmtnetwork.InterfacePropertiesFormat'' [
        (''IPConfigurations'', Arr [
          Obj ''mgmtnetwork.InterfaceIPConfiguration'' [
            (''InterfaceIPConfigurationPropertiesFormat'', Obj ''mgmtnetwork.InterfaceIPConfigurationPropertiesFormat'' [
              (''LoadBalancerBackendAddressPools'', Arr [
                Obj ''mgmtnetwork.BackendAddressPool'' [
                  (''ID'', Str (''[resourceId('Microsoft.Network/loadBalancers/backendAddressPools', 'aro-public-lb', 'aro-public-lb-control-plane')]''))],
                Obj ''mgmtnetwork.BackendAddressPool'' [
                  (''ID'', Str (''[resourceId('Microsoft.Network/loadBalancers/backendAddressPools', 'aro-internal-lb', 'aro-internal-controlplane')]''))]]),
              (''Subnet'', Obj ''mgmtnetwork.Subnet'' [(''ID'', Str (mp_SubnetID (p_MasterProfile (oc_Properties (ti_oc i)))))])]),
            (''Name'', Str ''bootstrap-nic-ip'')]])]),
      (''Name'', Str ''aro-bootstrap-nic''),
      (''Type'', Str ''Microsoft.Network/networkInterfaces''),
      (''Location'', Str (ic_Region (ti_config i)))])
     (install_apiVersions ''network''))\<lparr>ar_DependsOn := [''Microsoft.Network/loadBalancers/aro-internal-lb'', ''Microsoft.Network/loadBalancers/aro-public-lb'']\<rparr>"

definition res_masterNics :: "template_input \<Rightarrow> arm_Resource" where
  "res_masterNics i =
     (resource (Obj ''mgmtnetwork.Interface'' [
      (''InterfacePropertiesFormat'', Obj ''mgmtnetwork.InterfacePropertiesFormat'' [
        (''IPConfigurations'', Arr [
          Obj ''mgmtnetwork.InterfaceIPConfiguration'' [
            (''InterfaceIPConfigurationPropertiesFormat'', Obj ''mgmtnetwork.InterfaceIPConfigurationPropertiesFormat'' [
              (''LoadBalancerBackendAddressPools'', Arr [
                Obj ''mgmtnetwork.BackendAddressPool'' [
                  (''ID'', Str (''[resourceId('Microsoft.Network/loadBalancers/backendAddressPools', 'aro-public-lb', 'aro-public-lb-control-plane')]''))],
                Obj ''mgmtnetwork.BackendAddressPool'' [
                  (''ID'', Str (''[resourceId('Microsoft.Network/loadBalancers/backendAddressPools', 'aro-internal-lb', 'aro-internal-controlplane')]''))]]),
              (''Subnet'', Obj ''mgmtnetwork.Subnet'' [(''ID'', Str (mp_SubnetID (p_MasterProfile (oc_Properties (ti_oc i)))))])]),
            (''Name'', Str ''pipConfig'')]])]),
      (''Name'', Str (''[concat('aro-master', copyIndex(), '-nic')]'')),
      (''Type'', Str ''Microsoft.Network/networkInterfaces''),
      (''Location'', Str (ic_Region (ti_config i)))])
     (install_apiVersions ''network''))\<lparr>ar_Copy := Some (zero_Copy\<lparr>copy_Name := ''networkcopy'', copy_Count := mpl_Replicas (ic_ControlPlane (ti_config i))\<rparr>),
     ar_DependsOn := [''Microsoft.Network/loadBalancers/aro-internal-lb'', ''Microsoft.Network/loadBalancers/aro-public-lb'']\<rparr>"

definition res_bootstrapVM :: "template_input \<Rightarrow> arm_Resource" where
  "res_bootstrapVM i =
     (resource (Obj ''mgmtcompute.VirtualMachine'' [
      (''VirtualMachineProperties'', Obj ''mgmtcompute.VirtualMachineProperties'' [
        (''HardwareProfile'', Obj ''mgmtcompute.HardwareProfile'' [(''VMSize'', Str ''Standard_D4s_v3'')]),
        (''StorageProfile'', Obj ''mgmtcompute.StorageProfile'' [
          (''ImageReference'', Obj ''mgmtcompute.ImageReference'' [
            (''Publisher'', Str (im_Publisher (ic_Image (ti_config i)))),
            (''Offer'', Str (im_Offer (ic_Image (ti_config i)))),
            (''Sku'', Str (im_SKU (ic_Image (ti_config i)))),
            (''Version'', Str (im_Version (ic_Image (ti_config i))))]),
          (''OsDisk'', Obj ''mgmtcompute.OSDisk'' [
            (''Name'', Str ''aro-bootstrap_OSDisk''),
            (''Caching'', Str ''ReadWrite''),
            (''CreateOption'', Str ''FromImage''),
            (''DiskSizeGB'', Num 100),
            (''ManagedDisk'', Obj ''mgmtcompute.ManagedDiskParameters'' [(''StorageAccountType'', Str ''Premium_LRS'')])])]),
        (''OsProfile'', Obj ''mgmtcompute.OSProfile'' [
          (''ComputerName'', Str ''aro-bootstrap-vm''),
          (''AdminUsername'', Str ''core''),
          (''AdminPassword'', Str ''NotActuallyApplied!''),
          (''CustomData'', Str (''[base64(concat('{'' @ [CHR 0x22] @ ''ignition'' @ [CHR 0x22] @ '':{'' @ [CHR 0x22] @ ''version'' @ [CHR 0x22] @ '':'' @ [CHR 0x22] @ ''2.2.0'' @ [CHR 0x22] @ '','' @ [CHR 0x22] @ ''config'' @ [CHR 0x22] @ '':{'' @ [CHR 0x22] @ ''replace'' @ [CHR 0x22] @ '':{'' @ [CHR 0x22] @ ''source'' @ [CHR 0x22] @ '':'' @ [CHR 0x22] @ ''https://cluster'' @ p_StorageSuffix (oc_Properties (ti_oc i)) @ ''.blob.core.windows.net/ignition/bootstrap.ign?', listAccountSas(resourceId('Microsoft.Storage/storageAccounts', 'cluster'' @ p_StorageSuffix (oc_Properties (ti_oc i)) @ sq @ ''), '2019-04-01', parameters('sas')).accountSasToken, '' @ sq @ [CHR 0x22] @ ''}}}}'))]'')),
          (''LinuxConfiguration'', Obj ''mgmtcompute.LinuxConfiguration'' [(''DisablePasswordAuthentication'', Bool False)])]),
        (''NetworkProfile'', Obj ''mgmtcompute.NetworkProfile'' [
          (''NetworkInterfaces'', Arr [
            Obj ''mgmtcompute.NetworkInterfaceReference'' [
              (''ID'', Str (''[resourceId('Microsoft.Network/networkInterfaces', 'aro-bootstrap-nic')]''))]])]),
        (''DiagnosticsProfile'', Obj ''mgmtcompute.DiagnosticsProfile'' [
          (''BootDiagnostics'', Obj ''mgmtcompute.BootDiagnostics'' [
            (''Enabled'', Bool True),
            (''StorageURI'', Str (''https://cluster'' @ p_StorageSuffix (oc_Properties (ti_oc i)) @ ''.blob.core.windows.net/''))])])]),
      (''Name'', Str ''aro-bootstrap''),
      (''Type'', Str ''Microsoft.Compute/virtualMachines''),
      (''Location'', Str (ic_Region (ti_config i)))])
     (install_apiVersions ''compute''))\<lparr>ar_DependsOn := [''[concat('Microsoft.Authorization/roleAssignments/', guid(resourceGroup().id, 'SP / Contributor'))]'', ''Microsoft.Network/networkInterfaces/aro-bootstrap-nic'', ''Microsoft.Network/privateDnsZones/'' @ ic_Name (ti_config i) @ ''.'' @ ic_BaseDomain (ti_config i) @ ''/virtualNetworkLinks/'' @ ic_Name (ti_config i) @ ''-network-link'']\<rparr>"

definition res_masterVMs :: "template_input \<Rightarrow> arm_Resource" where
  "res_masterVMs i =
     (resource (Obj ''mgmtcompute.VirtualMachine'' [
      (''VirtualMachineProperties'', Obj ''mgmtcompute.VirtualMachineProperties'' [
        (''HardwareProfile'', Obj ''mgmtcompute.HardwareProfile'' [(''VMSize'', Str (mpl_InstanceType (ic_ControlPlane (ti_config i))))]),
        (''StorageProfile'', Obj ''mgmtcompute.StorageProfile'' [
          (''ImageReference'', Obj ''mgmtcompute.ImageReference'' [
            (''Publisher'', Str (im_Publisher (ic_Image (ti_config i)))),
            (''Offer'', Str (im_Offer (ic_Image (ti_config i)))),
            (''Sku'', Str (im_SKU (ic_Image (ti_config i)))),
            (''Version'', Str (im_Version (ic_Image (ti_config i))))]),
          (''OsDisk'', Obj ''mgmtcompute.OSDisk'' [
            (''Name'', Str (''[concat('aro-master-', copyIndex(), '_OSDisk')]'')),
            (''Caching'', Str ''ReadOnly''),
            (''CreateOption'', Str ''FromImage''),
            (''DiskSizeGB'', Num (mpl_DiskSizeGB (ic_ControlPlane (ti_config i)))),
            (''ManagedDisk'', Obj ''mgmtcompute.ManagedDiskParameters'' [(''StorageAccountType'', Str ''Premium_LRS'')])])]),
        (''OsProfile'', Obj ''mgmtcompute.OSProfile'' [
          (''ComputerName'', Str (''[concat('aro-master-', copyIndex())]'')),
          (''AdminUsername'', Str ''core''),
          (''AdminPassword'', Str ''NotActuallyApplied!''),
          (''CustomData'', Str (ti_masterData i)),
          (''LinuxConfiguration'', Obj ''mgmtcompute.LinuxConfiguration'' [(''DisablePasswordAuthentication'', Bool False)])]),
        (''NetworkProfile'', Obj ''mgmtcompute.NetworkProfile'' [
          (''NetworkInterfaces'', Arr [
            Obj ''mgmtcompute.NetworkInterfaceReference'' [
              (''ID'', Str (''[resourceId('Microsoft.Network/networkInterfaces', concat('aro-master', copyIndex(), '-nic'))]''))]])]),
        (''DiagnosticsProfile'', Obj ''mgmtcompute.DiagnosticsProfile'' [
          (''BootDiagnostics'', Obj ''mgmtcompute.BootDiagnostics'' [
            (''Enabled'', Bool True),
            (''StorageURI'', Str (''https://cluster'' @ p_StorageSuffix (oc_Properties (ti_oc i)) @ ''.blob.core.windows.net/''))])])]),
      (''Zones'', ti_zones i),
      (''Name'', Str (''[concat('aro-master-', copyIndex())]'')),
      (''Type'', Str ''Microsoft.Compute/virtualMachines''),
      (''Location'', Str (ic_Region (ti_config i)))])
     (install_apiVersions ''compute''))\<lparr>ar_Copy := Some (zero_Copy\<lparr>copy_Name := ''computecopy'', copy_Count := mpl_Replicas (ic_ControlPlane (ti_config i))\<rparr>),
     ar_DependsOn := [''[concat('Microsoft.Authorization/roleAssignments/', guid(resourceGroup().id, 'SP / Contributor'))]'', ''[concat('Microsoft.Network/networkInterfaces/aro-master', copyIndex(), '-nic')]'', ''Microsoft.Network/privateDnsZones/'' @ ic_Name (ti_config i) @ ''.'' @ ic_BaseDomain (ti_config i) @ ''/virtualNetworkLinks/'' @ ic_Name (ti_config i) @ ''-network-link'']\<rparr>"

definition res_outboundPip :: "template_input \<Rightarrow> arm_Resource" where
  "res_outboundPip i =
     (resource (Obj ''mgmtnetwork.PublicIPAddress'' [
      (''Sku'', Obj ''mgmtnetwork.PublicIPAddressSku'' [(''Name'', Str ''Standard'')]),
      (''PublicIPAddressPropertiesFormat'', Obj ''mgmtnetwork.PublicIPAddressPropertiesFormat'' [(''PublicIPAllocationMethod'', Str ''Static'')]),
      (''Name'', Str ''aro-outbound-pip''),
      (''Type'', Str ''Microsoft.Network/publicIPAddresses''),
      (''Location'', Str (ic_Region (ti_config i)))])
     (install_apiVersions ''network''))"

definition res_outboundLB :: "template_input \<Rightarrow> arm_Resource" where
  "res_outboundLB i =
     (resource (Obj ''mgmtnetwork.LoadBalancer'' [
      (''Sku'', Obj ''mgmtnetwork.LoadBalancerSku'' [(''Name'', Str ''Standard'')]),
      (''LoadBalancerPropertiesFormat'', Obj ''mgmtnetwork.LoadBalancerPropertiesFormat'' [
        (''FrontendIPConfigurations'', Arr [
          Obj ''mgmtnetwork.FrontendIPConfiguration'' [
            (''FrontendIPConfigurationPropertiesFormat'', Obj ''mgmtnetwork.FrontendIPConfigurationPropertiesFormat'' [
              (''PublicIPAddress'', Obj ''mgmtnetwork.PublicIPAddress'' [
                (''ID'', Str (''[resourceId('Microsoft.Network/publicIPAddresses', 'aro-outbound-pip')]''))])]),
            (''Name'', Str ''outbound'')]]),
        (''BackendAddressPools'', Arr [Obj ''mgmtnetwork.BackendAddressPool'' [(''Name'', Str ''aro'')]]),
        (''OutboundRules'', Arr [
          Obj ''mgmtnetwork.OutboundRule'' [
            (''OutboundRulePropertiesFormat'', Obj ''mgmtnetwork.OutboundRulePropertiesFormat'' [
              (''FrontendIPConfigurations'', Arr [
                Obj ''mgmtnetwork.SubResource'' [
                  (''ID'', Str (''[resourceId('Microsoft.Network/loadBalancers/frontendIPConfigurations', 'aro', 'outbound')]''))]]),
              (''BackendAddressPool'', Obj ''mgmtnetwork.SubResource'' [
                (''ID'', Str (''[resourceId('Microsoft.Network/loadBalancers/backendAddressPools', 'aro', 'aro')]''))]),
              (''Protocol'', Str ''All''),
              (''IdleTimeoutInMinutes'', Num 30)]),
            (''Name'', Str ''outboundrule'')]])]),
      (''Name'', Str ''aro''),
      (''Type'', Str ''Microsoft.Network/loadBalancers''),
      (''Location'', Str (ic_Region (ti_config i)))])
     (install_apiVersions ''network''))\<lparr>ar_DependsOn := [''Microsoft.Network/publicIPAddresses/aro-outbound-pip'']\<rparr>"

definition apiServerPublicLoadBalancer :: "string \<Rightarrow> string \<Rightarrow> arm_Resource" where
  "apiServerPublicLoadBalancer location visibility =
     (resource (Obj ''mgmtnetwork.LoadBalancer'' [
       (''Sku'', Obj ''mgmtnetwork.LoadBalancerSku'' [(''Name'', Str ''Standard'')]),
       (''LoadBalancerPropertiesFormat'', Obj ''mgmtnetwork.LoadBalancerPropertiesFormat'' ([
        (''FrontendIPConfigurations'', Arr [
          Obj ''mgmtnetwork.FrontendIPConfiguration'' [
            (''FrontendIPConfigurationPropertiesFormat'', Obj ''mgmtnetwork.FrontendIPConfigurationPropertiesFormat'' [
              (''PublicIPAddress'', Obj ''mgmtnetwork.PublicIPAddress'' [
                (''ID'', Str (''[resourceId('Microsoft.Network/publicIPAddresses', 'aro-pip')]''))])]),
            (''Name'', Str ''public-lb-ip'')]]),
        (''BackendAddressPools'', Arr [
          Obj ''mgmtnetwork.BackendAddressPool'' [(''Name'', Str ''aro-public-lb-control-plane'')]]),
        (''OutboundRules'', Arr [
          Obj ''mgmtnetwork.OutboundRule'' [
            (''OutboundRulePropertiesFormat'', Obj ''mgmtnetwork.OutboundRulePropertiesFormat'' [
              (''FrontendIPConfigurations'', Arr [
                Obj ''mgmtnetwork.SubResource'' [
                  (''ID'', Str (''[resourceId('Microsoft.Network/loadBalancers/frontendIPConfigurations', 'aro-public-lb', 'public-lb-ip')]''))]]),
              (''BackendAddressPool'', Obj ''mgmtnetwork.SubResource'' [
                (''ID'', Str (''[resourceId('Microsoft.Network/loadBalancers/backendAddressPools', 'aro-public-lb', 'aro-public-lb-control-plane')]''))]),
              (''Protocol'', Str ''All''),
              (''IdleTimeoutInMinutes'', Num 30)]),
            (''Name'', Str ''api-internal-outboundrule'')]])] @ (if visibility = VisibilityPublic
      then [(''LoadBalancingRules'', Arr [
          Obj ''mgmtnetwork.LoadBalancingRule'' [
            (''LoadBalancingRulePropertiesFormat'', Obj ''mgmtnetwork.LoadBalancingRulePropertiesFormat'' [
              (''FrontendIPConfiguration'', Obj ''mgmtnetwork.SubResource'' [
                (''ID'', Str (''[resourceId('Microsoft.Network/loadBalancers/frontendIPConfigurations', 'aro-public-lb', 'public-lb-ip')]''))]),
              (''BackendAddressPool'', Obj ''mgmtnetwork.SubResource'' [
                (''ID'', Str (''[resourceId('Microsoft.Network/loadBalancers/backendAddressPools', 'aro-public-lb', 'aro-public-lb-control-plane')]''))]),
              (''Probe'', Obj ''mgmtnetwork.SubResource'' [
                (''ID'', Str (''[resourceId('Microsoft.Network/loadBalancers/probes', 'aro-public-lb', 'api-internal-probe')]''))]),
              (''Protocol'', Str ''Tcp''),
              (''LoadDistribution'', Str ''Default''),
              (''FrontendPort'', Num 6443),
              (''BackendPort'', Num 6443),
              (''IdleTimeoutInMinutes'', Num 30),
              (''DisableOutboundSnat'', Bool True)]),
            (''Name'', Str ''api-internal'')]]),
        (''Probes'', Arr [
          Obj ''mgmtnetwork.Probe'' [
            (''ProbePropertiesFormat'', Obj ''mgmtnetwork.ProbePropertiesFormat'' [
              (''Protocol'', Str ''Tcp''),
              (''Port'', Num 6443),
              (''IntervalInSeconds'', Num 10),
              (''NumberOfProbes'', Num 3)]),
            (''Name'', Str ''api-internal-probe''),
            (''Type'', Str ''Microsoft.Network/loadBalancers/probes'')]])]
      else []))),
       (''Name'', Str ''aro-public-lb''),
       (''Type'', Str ''Microsoft.Network/loadBalancers''),
       (''Location'', Str location)])
     (install_apiVersions ''network''))\<lparr>ar_DependsOn := [''Microsoft.Network/publicIPAddresses/aro-pip'']\<rparr>"

definition res_storageAccount :: "string \<Rightarrow> string \<Rightarrow> arm_Resource" where
  "res_storageAccount suffix region =
     (resource (Obj ''mgmtstorage.Account'' [
      (''Sku'', Obj ''mgmtstorage.Sku'' [(''Name'', Str ''Standard_LRS'')]),
      (''Name'', Str (''cluster'' @ suffix)),
      (''Location'', Str region),
      (''Type'', Str ''Microsoft.Storage/storageAccounts'')])
     (install_apiVersions ''storage''))"

definition res_ignitionContainer :: "string \<Rightarrow> string \<Rightarrow> arm_Resource" where
  "res_ignitionContainer suffix region =
     (resource (Obj ''mgmtstorage.BlobContainer'' [
      (''Name'', Str (''cluster'' @ suffix @ ''/default/ignition'')),
      (''Type'', Str ''Microsoft.Storage/storageAccounts/blobServices/containers'')])
     (install_apiVersions ''storage''))\<lparr>ar_DependsOn := [''Microsoft.Storage/storageAccounts/cluster'' @ suffix]\<rparr>"

definition res_aroContainer :: "string \<Rightarrow> string \<Rightarrow> arm_Resource" where
  "res_aroContainer suffix region =
     (resource (Obj ''mgmtstorage.BlobContainer'' [
      (''Name'', Str (''cluster'' @ suffix @ ''/default/aro'')),
      (''Type'', Str ''Microsoft.Storage/storageAccounts/blobServices/containers'')])
     (install_apiVersions ''storage''))\<lparr>ar_DependsOn := [''Microsoft.Storage/storageAccounts/cluster'' @ suffix]\<rparr>"

definition res_controlplaneNSG :: "string \<Rightarrow> string \<Rightarrow> arm_Resource" where
  "res_controlplaneNSG suffix region =
     (resource (Obj ''mgmtnetwork.SecurityGroup'' [
      (''SecurityGroupPropertiesFormat'', Obj ''mgmtnetwork.SecurityGroupPropertiesFormat'' [
        (''SecurityRules'', Arr [
          Obj ''mgmtnetwork.SecurityRule'' [
            (''SecurityRulePropertiesFormat'', Obj ''mgmtnetwork.SecurityRulePropertiesFormat'' [
              (''Protocol'', Str ''Tcp''),
              (''SourcePortRange'', Str ''*''),
              (''DestinationPortRange'', Str ''6443''),
              (''SourceAddressPrefix'', Str ''*''),
              (''DestinationAddressPrefix'', Str ''*''),
              (''Access'', Str ''Allow''),
              (''Priority'', Num 101),
              (''Direction'', Str ''Inbound'')]),
            (''Name'', Str ''apiserver_in'')],
          Obj ''mgmtnetwork.SecurityRule'' [
            (''SecurityRulePropertiesFormat'', Obj ''mgmtnetwork.SecurityRulePropertiesFormat'' [
              (''Protocol'', Str ''Tcp''),
              (''SourcePortRange'', Str ''*''),
              (''DestinationPortRange'', Str ''22''),
              (''SourceAddressPrefix'', Str ''*''),
              (''DestinationAddressPrefix'', Str ''*''),
              (''Access'', Str ''Allow''),
              (''Priority'', Num 103),
              (''Direction'', Str ''Inbound'')]),
            (''Name'', Str ''bootstrap_ssh_in'')]])]),
      (''Name'', Str ''aro-controlplane-nsg''),
      (''Type'', Str ''Microsoft.Network/networkSecurityGroups''),
      (''Location'', Str region)])
     (install_apiVersions ''network''))"

definition res_nodeNSG :: "string \<Rightarrow> string \<Rightarrow> arm_Resource" where
  "res_nodeNSG suffix region =
     (resource (Obj ''mgmtnetwork.SecurityGroup'' [
      (''Name'', Str ''aro-node-nsg''),
      (''Type'', Str ''Microsoft.Network/networkSecurityGroups''),
      (''Location'', Str region)])
     (install_apiVersions ''network''))"

section \<open>The templates\<close>

definition storage_template :: "string \<Rightarrow> string \<Rightarrow> Template" where
  "storage_template suffix region = template_of [res_storageAccount suffix region, res_ignitionContainer suffix region,
     res_aroContainer suffix region, res_controlplaneNSG suffix region, res_nodeNSG suffix region]"

definition resources_template :: "template_input \<Rightarrow> Template" where
  "resources_template i = (template_of [
     res_roleAssignment i, res_privateZone i, res_api_int i, res_api i, res_etcd_srv i, res_etcd i, res_networkLink i,
     res_privateLinkService i, res_routeTable i, res_pip i,
     apiServerPublicLoadBalancer (ic_Region (ti_config i)) (ap_Visibility (p_APIServerProfile (oc_Properties (ti_oc i)))),
     res_internalLB i, res_bootstrapNic i, res_masterNics i, res_bootstrapVM i, res_masterVMs i, res_outboundPip i, res_outboundLB i])
     \<lparr>t_Parameters := [(''sas'', zero_TemplateParameter\<lparr>tp_Type := ''object''\<rparr>)]\<rparr>"

section \<open>The templates can be deployed\<close>

text \<open>What the text of a name has to be for the identifiers to come out: no separator in it, and not an expression.\<close>

definition plain_name :: "string \<Rightarrow> bool" where
  "plain_name s \<longleftrightarrow> CHR ''/'' \<notin> set s \<and> s \<noteq> [] \<and> hd s \<noteq> CHR ''[''"

lemma HasPrefix_bracket: "HasPrefix (s @ t) (CHR ''['' # p) \<longleftrightarrow> s = [] \<and> HasPrefix t (CHR ''['' # p) \<or> s \<noteq> [] \<and> hd s = CHR ''['' \<and> HasPrefix (tl s @ t) p"
  by (cases s) auto

lemmas id_simps = arm_id_def ar_field_def arm_MarshalJSON_def combine_def outer_fields_def resource_def concat_prefix_def Let_def

lemma storage_ids:
  assumes "plain_name suffix"
  shows "arm_id (res_storageAccount suffix region) = ''Microsoft.Storage/storageAccounts/cluster'' @ suffix"
    "arm_id (res_ignitionContainer suffix region) = ''Microsoft.Storage/storageAccounts/cluster'' @ suffix @ ''/blobServices/default/containers/ignition''"
    "arm_id (res_aroContainer suffix region) = ''Microsoft.Storage/storageAccounts/cluster'' @ suffix @ ''/blobServices/default/containers/aro''"
    "arm_id (res_controlplaneNSG suffix region) = ''Microsoft.Network/networkSecurityGroups/aro-controlplane-nsg''"
    "arm_id (res_nodeNSG suffix region) = ''Microsoft.Network/networkSecurityGroups/aro-node-nsg''"
  using assms
  by (simp_all add: id_simps plain_name_def res_storageAccount_def res_ignitionContainer_def res_aroContainer_def
      res_controlplaneNSG_def res_nodeNSG_def Split_no_sep Split_append_sep)

lemma Split_prefix: "c \<notin> set s \<Longrightarrow> Split c (s @ t) = (s @ hd (Split c t)) # tl (Split c t)"
  by (induction s) (auto split: list.splits)

text \<open>The identifiers of the resources, in the order in which they can be deployed.\<close>

definition ordered_resources :: "template_input \<Rightarrow> arm_Resource list" where
  "ordered_resources i = [
     res_roleAssignment i, res_privateZone i, res_api_int i, res_api i, res_etcd_srv i, res_routeTable i, res_pip i,
     apiServerPublicLoadBalancer (ic_Region (ti_config i)) (ap_Visibility (p_APIServerProfile (oc_Properties (ti_oc i)))),
     res_internalLB i, res_privateLinkService i, res_bootstrapNic i, res_masterNics i, res_etcd i, res_networkLink i,
     res_bootstrapVM i, res_masterVMs i, res_outboundPip i, res_outboundLB i]"

lemma zone_ids:
  assumes "plain_name (ic_Name (ti_config i))" "CHR ''/'' \<notin> set (ic_BaseDomain (ti_config i))"
  shows
    "arm_id (res_privateZone i) = ''Microsoft.Network/privateDnsZones/'' @ ic_Name (ti_config i) @ ''.'' @ ic_BaseDomain (ti_config i)"
    "arm_id (res_api_int i) = ''Microsoft.Network/privateDnsZones/'' @ ic_Name (ti_config i) @ ''.'' @ ic_BaseDomain (ti_config i) @ ''/A/api-int''"
    "arm_id (res_api i) = ''Microsoft.Network/privateDnsZones/'' @ ic_Name (ti_config i) @ ''.'' @ ic_BaseDomain (ti_config i) @ ''/A/api''"
    "arm_id (res_etcd_srv i) = ''Microsoft.Network/privateDnsZones/'' @ ic_Name (ti_config i) @ ''.'' @ ic_BaseDomain (ti_config i) @ ''/SRV/_etcd-server-ssl._tcp''"
    "arm_id (res_networkLink i) = ''Microsoft.Network/privateDnsZones/'' @ ic_Name (ti_config i) @ ''.'' @ ic_BaseDomain (ti_config i)
       @ ''/virtualNetworkLinks/'' @ ic_Name (ti_config i) @ ''-network-link''"
    "arm_id (res_etcd i) = ''[concat('Microsoft.Network/privateDnsZones/A/'' @ ic_Name (ti_config i) @ ''.'' @ ic_BaseDomain (ti_config i) @ ''/etcd-', copyIndex())]''"
  using assms
  by (simp_all add: id_simps plain_name_def HasPrefix_bracket Split_prefix Split_no_sep
      res_privateZone_def res_api_int_def res_api_def res_etcd_srv_def res_networkLink_def res_etcd_def)

lemma fixed_ids:
  "arm_id (res_roleAssignment i) = ''[concat('Microsoft.Authorization/roleAssignments/', guid(resourceGroup().id, 'SP / Contributor'))]''"
  "arm_id (res_privateLinkService i) = ''Microsoft.Network/privateLinkServices/aro-pls''"
  "arm_id (res_routeTable i) = ''Microsoft.Network/routeTables/aro-node-routetable''"
  "arm_id (res_pip i) = ''Microsoft.Network/publicIPAddresses/aro-pip''"
  "arm_id (apiServerPublicLoadBalancer l v) = ''Microsoft.Network/loadBalancers/aro-public-lb''"
  "arm_id (res_internalLB i) = ''Microsoft.Network/loadBalancers/aro-internal-lb''"
  "arm_id (res_bootstrapNic i) = ''Microsoft.Network/networkInterfaces/aro-bootstrap-nic''"
  "arm_id (res_masterNics i) = ''[concat('Microsoft.Network/networkInterfaces/aro-master', copyIndex(), '-nic')]''"
  "arm_id (res_bootstrapVM i) = ''Microsoft.Compute/virtualMachines/aro-bootstrap''"
  "arm_id (res_masterVMs i) = ''[concat('Microsoft.Compute/virtualMachines/aro-master-', copyIndex())]''"
  "arm_id (res_outboundPip i) = ''Microsoft.Network/publicIPAddresses/aro-outbound-pip''"
  "arm_id (res_outboundLB i) = ''Microsoft.Network/loadBalancers/aro''"
  by (simp_all add: id_simps res_roleAssignment_def res_privateLinkService_def res_routeTable_def res_pip_def
      apiServerPublicLoadBalancer_def res_internalLB_def res_bootstrapNic_def res_masterNics_def res_bootstrapVM_def
      res_masterVMs_def res_outboundPip_def res_outboundLB_def)

lemma resource_sels [simp]: "ar_DependsOn (resource v a) = []" "ar_Copy (resource v a) = None"
  by (simp_all add: resource_def)

lemma copies:
  "ar_Copy (res_etcd i) = Some (zero_Copy\<lparr>copy_Name := ''privatednscopy'', copy_Count := mpl_Replicas (ic_ControlPlane (ti_config i))\<rparr>)"
  "ar_Copy (res_masterNics i) = Some (zero_Copy\<lparr>copy_Name := ''networkcopy'', copy_Count := mpl_Replicas (ic_ControlPlane (ti_config i))\<rparr>)"
  "ar_Copy (res_masterVMs i) = Some (zero_Copy\<lparr>copy_Name := ''computecopy'', copy_Count := mpl_Replicas (ic_ControlPlane (ti_config i))\<rparr>)"
  by (simp_all add: res_etcd_def res_masterNics_def res_masterVMs_def)

lemma no_copies:
  "ar_Copy (res_roleAssignment i) = None" "ar_Copy (res_privateZone i) = None" "ar_Copy (res_api_int i) = None" "ar_Copy (res_api i) = None"
  "ar_Copy (res_etcd_srv i) = None" "ar_Copy (res_networkLink i) = None" "ar_Copy (res_privateLinkService i) = None"
  "ar_Copy (res_routeTable i) = None" "ar_Copy (res_pip i) = None" "ar_Copy (apiServerPublicLoadBalancer l v) = None"
  "ar_Copy (res_internalLB i) = None" "ar_Copy (res_bootstrapNic i) = None" "ar_Copy (res_bootstrapVM i) = None"
  "ar_Copy (res_outboundPip i) = None" "ar_Copy (res_outboundLB i) = None"
  "ar_Copy (res_storageAccount s r) = None" "ar_Copy (res_ignitionContainer s r) = None" "ar_Copy (res_aroContainer s r) = None"
  "ar_Copy (res_controlplaneNSG s r) = None" "ar_Copy (res_nodeNSG s r) = None"
  by (simp_all add: res_roleAssignment_def res_privateZone_def res_api_int_def res_api_def res_etcd_srv_def res_networkLink_def
      res_privateLinkService_def res_routeTable_def res_pip_def apiServerPublicLoadBalancer_def res_internalLB_def res_bootstrapNic_def
      res_bootstrapVM_def res_outboundPip_def res_outboundLB_def res_storageAccount_def res_ignitionContainer_def res_aroContainer_def
      res_controlplaneNSG_def res_nodeNSG_def)

abbreviation zone_id :: "template_input \<Rightarrow> string" where
  "zone_id i \<equiv> ''Microsoft.Network/privateDnsZones/'' @ ic_Name (ti_config i) @ ''.'' @ ic_BaseDomain (ti_config i)"

abbreviation vm_dependencies :: "template_input \<Rightarrow> string \<Rightarrow> string list" where
  "vm_dependencies i nic \<equiv> [''[concat('Microsoft.Authorization/roleAssignments/', guid(resourceGroup().id, 'SP / Contributor'))]'', nic,
     zone_id i @ ''/virtualNetworkLinks/'' @ ic_Name (ti_config i) @ ''-network-link'']"

lemma dependencies:
  "ar_DependsOn (res_roleAssignment i) = []" "ar_DependsOn (res_privateZone i) = []" "ar_DependsOn (res_api_int i) = [zone_id i]"
  "ar_DependsOn (res_api i) = [zone_id i]" "ar_DependsOn (res_etcd_srv i) = [zone_id i]"
  "ar_DependsOn (res_etcd i) = [''[concat('Microsoft.Network/networkInterfaces/aro-master', copyIndex(), '-nic')]'', zone_id i]"
  "ar_DependsOn (res_networkLink i) = [zone_id i, ''privatednscopy'']"
  "ar_DependsOn (res_privateLinkService i) = [''Microsoft.Network/loadBalancers/aro-internal-lb'']"
  "ar_DependsOn (res_routeTable i) = []" "ar_DependsOn (res_pip i) = []"
  "ar_DependsOn (apiServerPublicLoadBalancer l v) = [''Microsoft.Network/publicIPAddresses/aro-pip'']"
  "ar_DependsOn (res_internalLB i) = []"
  "ar_DependsOn (res_bootstrapNic i) = [''Microsoft.Network/loadBalancers/aro-internal-lb'', ''Microsoft.Network/loadBalancers/aro-public-lb'']"
  "ar_DependsOn (res_masterNics i) = [''Microsoft.Network/loadBalancers/aro-internal-lb'', ''Microsoft.Network/loadBalancers/aro-public-lb'']"
  "ar_DependsOn (res_bootstrapVM i) = vm_dependencies i ''Microsoft.Network/networkInterfaces/aro-bootstrap-nic''"
  "ar_DependsOn (res_masterVMs i) = vm_dependencies i ''[concat('Microsoft.Network/networkInterfaces/aro-master', copyIndex(), '-nic')]''"
  "ar_DependsOn (res_outboundPip i) = []" "ar_DependsOn (res_outboundLB i) = [''Microsoft.Network/publicIPAddresses/aro-outbound-pip'']"
  by (simp_all add: res_roleAssignment_def res_privateZone_def res_api_int_def res_api_def res_etcd_srv_def res_etcd_def res_networkLink_def
      res_privateLinkService_def res_routeTable_def res_pip_def apiServerPublicLoadBalancer_def res_internalLB_def res_bootstrapNic_def
      res_masterNics_def res_bootstrapVM_def res_masterVMs_def res_outboundPip_def res_outboundLB_def)

lemma storage_dependencies:
  "ar_DependsOn (res_storageAccount s r) = []" "ar_DependsOn (res_controlplaneNSG s r) = []" "ar_DependsOn (res_nodeNSG s r) = []"
  "ar_DependsOn (res_ignitionContainer s r) = [''Microsoft.Storage/storageAccounts/cluster'' @ s]"
  "ar_DependsOn (res_aroContainer s r) = [''Microsoft.Storage/storageAccounts/cluster'' @ s]"
  by (simp_all add: res_storageAccount_def res_ignitionContainer_def res_aroContainer_def res_controlplaneNSG_def res_nodeNSG_def)

lemma storage_deployable:
  assumes "plain_name suffix"
  shows "deployable (storage_template suffix region)"
proof -
  let ?rs = "t_Resources (storage_template suffix region)"
  have "in_order [] ?rs"
    by (simp add: storage_template_def template_of_def provides_def no_copies storage_dependencies storage_ids [OF assms])
  moreover have "distinct (map arm_id ?rs)"
    by (simp add: storage_template_def template_of_def storage_ids [OF assms])
  ultimately show ?thesis unfolding deployable_def by blast
qed

lemma resources_deployable:
  assumes "plain_name (ic_Name (ti_config i))" "CHR ''/'' \<notin> set (ic_BaseDomain (ti_config i))"
  shows "deployable (resources_template i)"
proof -
  let ?rs = "ordered_resources i"
  have "in_order [] ?rs"
    by (simp add: ordered_resources_def provides_def copies no_copies dependencies zone_ids [OF assms] fixed_ids)
  moreover have "set ?rs = set (t_Resources (resources_template i))" "length ?rs = length (t_Resources (resources_template i))"
    by (auto simp: ordered_resources_def resources_template_def template_of_def)
  moreover have "distinct (map arm_id (t_Resources (resources_template i)))"
    by (simp add: resources_template_def template_of_def zone_ids [OF assms] fixed_ids)
  ultimately show ?thesis unfolding deployable_def by blast
qed

end
