(* ===== verification/Install.thy ===== *)
theory Install
  imports DynamicValidation Scale Graph InstallTemplates Database
begin

text \<open>
  The installer, \<^verbatim>\<open>src/pkg/install\<close>: the loop over the phases of an installation and the three phases.

  The installer keeps the cluster document in a variable that every patch replaces; here the document is passed from call to call. The
  Azure and Kubernetes clients, the blob storage, the OpenShift installer's assets and the encodings are the fields of \<open>installer\<close>.

  The loop ends when the last phase is done, at the first error and at a phase it does not know; that it does not run
  forever rests on the stored phase, so \<open>install_loop\<close> has a bound, and running into it is a panic of its own (\<open>unfinished\<close>).
\<close>

section \<open>The installer\<close>

record platform_creds =
  crd_TenantID :: string
  crd_ClientID :: string
  crd_ClientSecret :: string
  crd_SubscriptionID :: string

text \<open>The assets the provider makes or looks into.\<close>

datatype asset =
    InstallConfigAsset install_config
  | FileAsset string
  | PasswordAsset string
  | PlatformCredsAsset platform_creds
  | ImageAsset string
  | ClusterIDAsset string string
  | OtherAsset string

record 'w blobs =
  bl_Create :: "string \<Rightarrow> string \<Rightarrow> string \<Rightarrow> ('w, unit) go"
  bl_Get :: "string \<Rightarrow> string \<Rightarrow> ('w, string) go"

record ClusterVersion =
  cv_Conditions :: "(string \<times> string) list"
  cv_Upstream :: string
  cv_Channel :: string
  cv_Other :: string

record 'w config_client =
  cc_Get :: "string \<Rightarrow> ('w, ClusterVersion) go"
  cc_Update :: "ClusterVersion \<Rightarrow> ('w, unit) go"
  cc_IsConflict :: "error \<Rightarrow> bool"

record 'w kube_client =
  kc_ConfigMap :: "string \<Rightarrow> string \<Rightarrow> ('w, string \<rightharpoonup> string) go"
  kc_ServiceIngress :: "string \<Rightarrow> string \<Rightarrow> ('w, string list) go"

record ('c, 'n, 'w) installer =
  in_db :: "'w openShiftClusters"
  in_dns :: "'w dns_manager"
  in_privateendpoint :: "'w pe_manager"
  in_subnets :: "'w subnets_client"
  in_subscriptionID :: string
  in_dev :: bool
  in_CreateRoleAssignment :: "string \<Rightarrow> ('w, unit) go"
  in_groups :: "string \<Rightarrow> string \<Rightarrow> string option \<Rightarrow> ('w, unit) go"
  in_deploy :: "string \<Rightarrow> Template \<Rightarrow> val \<Rightarrow> ('w, unit) go"
  in_DeploymentActive :: "error \<Rightarrow> bool"
  in_deployWait :: "string \<Rightarrow> ('w, unit) go"
  in_ListAccountSAS :: "string \<Rightarrow> string \<Rightarrow> int \<Rightarrow> int \<Rightarrow> ('w, string option) go"
  in_NewBlobService :: "string \<Rightarrow> string \<Rightarrow> 'w blobs result"
  in_ObjectID :: "string \<Rightarrow> string \<Rightarrow> string \<Rightarrow> ('w, string option) go"
  in_publicIP :: "string \<Rightarrow> string \<Rightarrow> ('w, string option) go"
  in_deleteVM :: "string \<Rightarrow> string \<Rightarrow> ('w, unit) go"
  in_deleteDisk :: "string \<Rightarrow> string \<Rightarrow> ('w, unit) go"
  in_deleteNic :: "string \<Rightarrow> string \<Rightarrow> ('w, unit) go"
  in_kube :: "('c, 'n, 'w) kube_env"
  in_configclient :: "('c, 'n, 'w) rest_config \<Rightarrow> ('w, 'w config_client) go"
  in_kubernetes :: "('c, 'n, 'w) rest_config \<Rightarrow> ('w, 'w kube_client) go"
  in_ticks :: nat
  in_lib :: "asset installer_lib"
  in_targets :: "string list"
  in_stack :: nat
  in_range :: "asset graph \<Rightarrow> (string \<times> asset) list"
  in_encode :: "string \<Rightarrow> asset \<Rightarrow> string result"
  in_decode :: "string \<Rightarrow> string \<Rightarrow> asset result"
  in_Marshal :: "(string \<times> string) list \<Rightarrow> string"
  in_Unmarshal :: "string \<Rightarrow> (string \<times> string) list result"
  in_base64 :: "string \<Rightarrow> string"
  in_parse6 :: "string \<Rightarrow> 128 word option"
  in_show6 :: "128 word \<Rightarrow> string"
  in_RFC3339 :: "int \<Rightarrow> string"
  in_newUUID :: "'w \<Rightarrow> string \<times> 'w"
  in_now :: "'w \<Rightarrow> int"

text \<open>\<^verbatim>\<open>i.doc, err = i.db.PatchWithLease(ctx, i.doc.Key, f)\<close>; \<open>f\<close> reads and changes the world.\<close>

definition patch_lease ::
    "'w openShiftClusters \<Rightarrow> string \<Rightarrow> (OpenShiftClusterDocument \<Rightarrow> ('w, OpenShiftClusterDocument) go) \<Rightarrow> ('w, OpenShiftClusterDocument) go" where
  "patch_lease c key f w =
     (case clusters_PatchWithLease c key (\<lambda>d. on_world (f d)) ((), w) of
        (Ok r, s) \<Rightarrow> (nonnil r, snd s)
      | (Err e, s) \<Rightarrow> (Err e, snd s)
      | (Panic p, s) \<Rightarrow> (Panic p, snd s))"

definition map_properties :: "(Properties \<Rightarrow> Properties) \<Rightarrow> OpenShiftClusterDocument \<Rightarrow> OpenShiftClusterDocument" where
  "map_properties f d =
     d\<lparr>doc_OpenShiftCluster := (doc_OpenShiftCluster d)\<lparr>oc_Properties := f (oc_Properties (doc_OpenShiftCluster d))\<rparr>\<rparr>"

abbreviation doc_properties :: "OpenShiftClusterDocument \<Rightarrow> Properties" where
  "doc_properties d \<equiv> oc_Properties (doc_OpenShiftCluster d)"

definition cluster_group :: "OpenShiftClusterDocument \<Rightarrow> string" where
  "cluster_group d = after_last CHR ''/'' (cp_ResourceGroupID (p_ClusterProfile (doc_properties d)))"

section \<open>Storage of the cluster\<close>

definition getBlobService :: "('c, 'n, 'w) installer \<Rightarrow> OpenShiftClusterDocument \<Rightarrow> ('w, 'w blobs) go" where
  "getBlobService i d w =
     (let account = ''cluster'' @ p_StorageSuffix (doc_properties d); t = in_now i w in
      gbind (in_ListAccountSAS i (cluster_group d) account t (t + 86400)) (\<lambda>token.
      gbind (glift (nonnil token)) (\<lambda>token.
      glift (in_NewBlobService i account token))) w)"

definition getGraph :: "('c, 'n, 'w) installer \<Rightarrow> OpenShiftClusterDocument \<Rightarrow> ('w, asset graph) go" where
  "getGraph i d =
     gbind (getBlobService i d) (\<lambda>blobs.
     gbind (bl_Get blobs ''aro'' ''graph'') (\<lambda>text.
     gbind (glift (in_Unmarshal i text)) (\<lambda>members.
     glift (graph_UnmarshalJSON (in_decode i) members Map.empty))))"

definition putGraph :: "('c, 'n, 'w) installer \<Rightarrow> 'w blobs \<Rightarrow> asset graph \<Rightarrow> ('w, unit) go" where
  "putGraph i blobs g =
     gbind (glift (graph_members (in_encode i) (in_range i g))) (\<lambda>members.
     bl_Create blobs ''aro'' ''graph'' (in_Marshal i members))"

text \<open>The type assertions on assets of the graph.\<close>

definition bad_conversion :: "'a result" where
  "bad_conversion = Panic ''interface conversion''"

definition asset_config :: "asset graph \<Rightarrow> install_config result" where
  "asset_config g = (case g ''*installconfig.InstallConfig'' of Some (InstallConfigAsset c) \<Rightarrow> Ok c | _ \<Rightarrow> bad_conversion)"

definition asset_file :: "string \<Rightarrow> asset graph \<Rightarrow> string result" where
  "asset_file t g = (case g t of Some (FileAsset x) \<Rightarrow> Ok x | _ \<Rightarrow> bad_conversion)"

definition asset_password :: "asset graph \<Rightarrow> string result" where
  "asset_password g = (case g ''*password.KubeadminPassword'' of Some (PasswordAsset x) \<Rightarrow> Ok x | _ \<Rightarrow> bad_conversion)"

text \<open>Deploying a template; a deployment that is already running is waited for.\<close>

definition deploy_arm :: "('c, 'n, 'w) installer \<Rightarrow> string \<Rightarrow> Template \<Rightarrow> val \<Rightarrow> ('w, unit) go" where
  "deploy_arm i resourceGroup t parameters =
     on_error (in_deploy i resourceGroup t parameters) (\<lambda>e. if in_DeploymentActive i e then in_deployWait i resourceGroup else glift (Err e))"

section \<open>Phase 0: storage\<close>

definition attach_nsg :: "('c, 'n, 'w) installer \<Rightarrow> OpenShiftClusterDocument \<Rightarrow> string \<Rightarrow> ('w, unit) go" where
  "attach_nsg i d subnetID =
     gbind (subnets_Get (in_subnets i) subnetID) (\<lambda>s.
     let p = (case sn_Properties s of Some p \<Rightarrow> p
              | None \<Rightarrow> \<lparr>sn_AddressPrefix = None, sn_NetworkSecurityGroup = None, sn_ServiceEndpoints = None,
                          sn_PrivateLinkServiceNetworkPolicies = None, sn_Other = []\<rparr>) in
     gbind (glift (NetworkSecurityGroupID (doc_OpenShiftCluster d) subnetID)) (\<lambda>nsgID.
     case sn_NetworkSecurityGroup p of
       Some nsg \<Rightarrow>
         gbind (glift (nonnil nsg)) (\<lambda>id'.
         glift (rguard (EqualFold id' nsgID) (ErrorfErr (Fmt ''tried to overwrite non-nil network security group'' []))))
     | None \<Rightarrow> subnets_CreateOrUpdate (in_subnets i) subnetID
                 (s\<lparr>sn_Properties := Some (p\<lparr>sn_NetworkSecurityGroup := Some (Some nsgID)\<rparr>)\<rparr>)))"

definition record_storage :: "int \<Rightarrow> string \<Rightarrow> OpenShiftClusterDocument \<Rightarrow> OpenShiftClusterDocument result" where
  "record_storage now kubeconfig d =
     rbind (nonnil (p_Install (doc_properties d))) (\<lambda>ins.
     Ok (map_properties (\<lambda>p. p\<lparr>p_Install := Some (ins\<lparr>ins_Now := now\<rparr>), p_AdminKubeconfig := Some kubeconfig\<rparr>) d))"

definition initial_graph :: "install_config \<Rightarrow> platform_creds \<Rightarrow> string \<Rightarrow> string \<Rightarrow> asset graph" where
  "initial_graph config creds release uuid =
     [''*installconfig.InstallConfig'' \<mapsto> InstallConfigAsset config, ''*installconfig.PlatformCreds'' \<mapsto> PlatformCredsAsset creds,
      ''*releaseimage.Image'' \<mapsto> ImageAsset release, ''*installconfig.ClusterID'' \<mapsto> ClusterIDAsset uuid ''aro'']"

definition resolve_targets :: "('c, 'n, 'w) installer \<Rightarrow> asset graph \<Rightarrow> asset graph result" where
  "resolve_targets i g =
     (case resolve_all (resolve (in_stack i) (in_lib i)) (in_targets i) g of
        (Ok _, g') \<Rightarrow> Ok g' | (Err e, g') \<Rightarrow> Err e | (Panic p, g') \<Rightarrow> Panic p)"

definition installStorage ::
    "('c, 'n, 'w) installer \<Rightarrow> install_config \<Rightarrow> platform_creds \<Rightarrow> string \<Rightarrow> OpenShiftClusterDocument \<Rightarrow> ('w, OpenShiftClusterDocument) go" where
  "installStorage i config creds release d =
     gbind (dns_Create (in_dns i) (doc_OpenShiftCluster d)) (\<lambda>_.
     gbind (\<lambda>w. case in_newUUID i w of (u, w') \<Rightarrow> (Ok u, w')) (\<lambda>uuid.
     gbind (glift (resolve_targets i (initial_graph config creds release uuid))) (\<lambda>g.
     gbind (glift (asset_file ''*kubeconfig.AdminClient'' g)) (\<lambda>kubeconfig.
     gbind (glift (asset_file ''*bootstrap.Bootstrap'' g)) (\<lambda>ignition.
     gbind (in_groups i (cluster_group d) (ic_Region config) (if in_dev i then None else Some (oc_ID (doc_OpenShiftCluster d)))) (\<lambda>_.
     gbind (if in_dev i then in_CreateRoleAssignment i (cluster_group d) else greturn ()) (\<lambda>_.
     gbind (deploy_arm i (cluster_group d) (storage_template (p_StorageSuffix (doc_properties d)) (ic_Region config)) Nil) (\<lambda>_.
     gbind (getBlobService i d) (\<lambda>blobs.
     gbind (bl_Create blobs ''ignition'' ''bootstrap.ign'' ignition) (\<lambda>_.
     gbind (putGraph i blobs g) (\<lambda>_.
     gbind (attach_nsg i d (mp_SubnetID (p_MasterProfile (doc_properties d)))) (\<lambda>_.
     gbind (glift (first_worker (doc_OpenShiftCluster d))) (\<lambda>wp.
     gbind (attach_nsg i d (wp_SubnetID wp)) (\<lambda>_.
     patch_lease (in_db i) (doc_Key d) (\<lambda>d w. (record_storage (in_now i w) kubeconfig d, w))))))))))))))))"

section \<open>Phase 1: resources\<close>

definition cidr_Dec :: "ip \<Rightarrow> ip" where
  "cidr_Dec x = (case as_v4 x of Some a \<Rightarrow> IP4 (a - 1) | None \<Rightarrow> (case x of IP6 a \<Rightarrow> IP6 (a - 1) | IP4 a \<Rightarrow> IP4 (a - 1)))"

text \<open>The address of the internal load balancer: the last usable address of the master subnet.\<close>

definition load_balancer_ip :: "ipnet \<Rightarrow> ip" where
  "load_balancer_ip n = cidr_Dec (cidr_Dec (snd (AddressRange n)))"

definition ip4_String :: "32 word \<Rightarrow> string" where
  "ip4_String a = Join CHR ''.'' (map (\<lambda>k. Itoa (uint (drop_bit k a) mod 256)) [24, 16, 8, 0])"

definition ip_String :: "(128 word \<Rightarrow> string) \<Rightarrow> ip \<Rightarrow> string" where
  "ip_String show6 x = (case as_v4 x of Some a \<Rightarrow> ip4_String a | None \<Rightarrow> (case x of IP6 a \<Rightarrow> show6 a | IP4 a \<Rightarrow> ip4_String a))"

definition srv_records :: "install_config \<Rightarrow> val list" where
  "srv_records c =
     map (\<lambda>k. Obj ''mgmtprivatedns.SrvRecord'' [(''Priority'', Num 10), (''Weight'', Num 10), (''Port'', Num 2380),
            (''Target'', Str (''etcd-'' @ Itoa (int k) @ ''.'' @ ic_Name c @ ''.'' @ ic_BaseDomain c))])
       [0..<nat (mpl_Replicas (ic_ControlPlane c))]"

definition zones_value :: "install_config \<Rightarrow> val result" where
  "zones_value c =
     (let n = int (length (mpl_Zones (ic_ControlPlane c))) in
      if n = 1 then Ok Nil
      else if n = mpl_Replicas (ic_ControlPlane c) then Ok (Arr [Str ''[copyIndex(1)]''])
      else Err (ErrorfErr (Fmt ''cluster creation with %d zones is unimplemented'' [AInt n])))"

definition sas_parameters :: "('c, 'n, 'w) installer \<Rightarrow> int \<Rightarrow> val" where
  "sas_parameters i now = Obj ''map'' [(''sas'', Obj ''map'' [(''value'', Obj ''map'' [
     (''signedStart'', Str (in_RFC3339 i now)), (''signedExpiry'', Str (in_RFC3339 i (now + 86400))), (''signedPermission'', Str ''rl''),
     (''signedResourceTypes'', Str ''o''), (''signedServices'', Str ''b''), (''signedProtocol'', Str ''https'')])])]"

definition record_addresses :: "string \<Rightarrow> string \<Rightarrow> OpenShiftClusterDocument \<Rightarrow> OpenShiftClusterDocument" where
  "record_addresses privateEndpointIP ipAddress =
     map_properties (\<lambda>p. p\<lparr>p_NetworkProfile := (p_NetworkProfile p)\<lparr>np_PrivateEndpointIP := privateEndpointIP\<rparr>,
                            p_APIServerProfile := (p_APIServerProfile p)\<lparr>ap_IP := ipAddress\<rparr>\<rparr>)"

definition bootstrap_complete :: "'w kube_client \<Rightarrow> ('w, bool) go" where
  "bootstrap_complete cli =
     on_error (gbind (kc_ConfigMap cli ''kube-system'' ''bootstrap'') (\<lambda>data. greturn (data ''status'' = Some ''complete'')))
       (\<lambda>_. greturn False)"

definition deploy_resources :: "('c, 'n, 'w) installer \<Rightarrow> OpenShiftClusterDocument \<Rightarrow> ('w, string) go" where
  "deploy_resources i d =
     gbind (getGraph i d) (\<lambda>g.
     gbind (glift (asset_config g)) (\<lambda>config.
     gbind (glift (asset_file ''*machine.Master'' g)) (\<lambda>master.
     gbind (glift (subnet_Split (mp_SubnetID (p_MasterProfile (doc_properties d))))) (\<lambda>(vnetID, _).
     gbind (subnets_Get (in_subnets i) (mp_SubnetID (p_MasterProfile (doc_properties d)))) (\<lambda>s.
     gbind (glift (rbind (nonnil (sn_Properties s)) (\<lambda>p. nonnil (sn_AddressPrefix p)))) (\<lambda>prefix.
     gbind (glift (ParseCIDR (in_parse6 i) prefix)) (\<lambda>n.
     gbind (glift (zones_value config)) (\<lambda>zones.
     let spp = p_ServicePrincipalProfile (doc_properties d); lbIP = ip_String (in_show6 i) (load_balancer_ip n) in
     gbind (in_ObjectID i (spp_ClientID spp) (spp_ClientSecret spp) (spp_TenantID spp)) (\<lambda>objectID.
     gbind (glift (nonnil objectID)) (\<lambda>objectID.
     gbind (glift (nonnil (p_Install (doc_properties d)))) (\<lambda>ins.
     gbind (deploy_arm i (cluster_group d)
              (resources_template \<lparr>ti_config = config, ti_oc = doc_OpenShiftCluster d, ti_vnetID = vnetID, ti_lbIP = lbIP,
                 ti_srvRecords = srv_records config, ti_zones = zones, ti_objectID = objectID, ti_masterData = in_base64 i master,
                 ti_subscriptionID = in_subscriptionID i\<rparr>)
              (sas_parameters i (ins_Now ins))) (\<lambda>_.
     greturn lbIP))))))))))))"

definition installResources :: "('c, 'n, 'w) installer \<Rightarrow> OpenShiftClusterDocument \<Rightarrow> ('w, OpenShiftClusterDocument) go" where
  "installResources i d =
     gbind (deploy_resources i d) (\<lambda>lbIP.
     gbind (pe_Create (in_privateendpoint i) d) (\<lambda>_.
     gbind (if ap_Visibility (p_APIServerProfile (doc_properties d)) = VisibilityPublic
            then gbind (in_publicIP i (cluster_group d) ''aro-pip'') (\<lambda>ip. glift (nonnil ip))
            else greturn lbIP) (\<lambda>ipAddress.
     gbind (dns_Update (in_dns i) (doc_OpenShiftCluster d) ipAddress) (\<lambda>_.
     gbind (GetIP (in_privateendpoint i) d) (\<lambda>privateEndpointIP.
     gbind (patch_lease (in_db i) (doc_Key d) (\<lambda>d. greturn (record_addresses privateEndpointIP ipAddress d))) (\<lambda>d.
     gbind (RestConfig (in_kube i) (doc_OpenShiftCluster d)) (\<lambda>restConfig.
     gbind (in_kubernetes i restConfig) (\<lambda>cli.
     gbind (WaitFor (in_ticks i) (bootstrap_complete cli)) (\<lambda>_.
     greturn d)))))))))"

section \<open>Phase 2: removal of the bootstrap node\<close>

definition version_available :: "'w config_client \<Rightarrow> ('w, bool) go" where
  "version_available cli =
     on_error (gbind (cc_Get cli ''version'') (\<lambda>cv. greturn ((''Available'', ''True'') \<in> set (cv_Conditions cv)))) (\<lambda>_. greturn False)"

definition clear_upstream :: "'w config_client \<Rightarrow> ('w, unit) go" where
  "clear_upstream cli =
     gbind (cc_Get cli ''version'') (\<lambda>cv. cc_Update cli (cv\<lparr>cv_Upstream := [], cv_Channel := []\<rparr>))"

definition record_urls :: "install_config \<Rightarrow> string \<Rightarrow> string \<Rightarrow> OpenShiftClusterDocument \<Rightarrow> OpenShiftClusterDocument result" where
  "record_urls c routerIP password d =
     (case p_IngressProfiles (doc_properties d) of
        Some (ip # ips) \<Rightarrow> Ok (map_properties (\<lambda>p. p\<lparr>
          p_APIServerProfile := (p_APIServerProfile p)\<lparr>ap_URL := ''https://api.'' @ ic_Name c @ ''.'' @ ic_BaseDomain c @ '':6443/''\<rparr>,
          p_IngressProfiles := Some (ip\<lparr>ip_IP := routerIP\<rparr> # ips),
          p_ConsoleProfile := (p_ConsoleProfile p)\<lparr>con_URL := ''https://console-openshift-console.apps.'' @ ic_Name c @ ''.'' @ ic_BaseDomain c @ ''/''\<rparr>,
          p_KubeadminPassword := password\<rparr>) d)
      | _ \<Rightarrow> Panic ''index out of range'')"

definition removeBootstrap :: "('c, 'n, 'w) installer \<Rightarrow> OpenShiftClusterDocument \<Rightarrow> ('w, OpenShiftClusterDocument) go" where
  "removeBootstrap i d =
     gbind (getGraph i d) (\<lambda>g.
     gbind (glift (asset_config g)) (\<lambda>config.
     gbind (glift (asset_password g)) (\<lambda>password.
     gbind (in_deleteVM i (cluster_group d) ''aro-bootstrap'') (\<lambda>_.
     gbind (in_deleteDisk i (cluster_group d) ''aro-bootstrap_OSDisk'') (\<lambda>_.
     gbind (in_deleteNic i (cluster_group d) ''aro-bootstrap-nic'') (\<lambda>_.
     gbind (RestConfig (in_kube i) (doc_OpenShiftCluster d)) (\<lambda>restConfig.
     gbind (in_configclient i restConfig) (\<lambda>cli.
     gbind (WaitFor (in_ticks i) (version_available cli)) (\<lambda>_.
     gbind (RetryOnConflict (cc_IsConflict cli) (clear_upstream cli)) (\<lambda>_.
     gbind (in_kubernetes i restConfig) (\<lambda>kube.
     gbind (kc_ServiceIngress kube ''openshift-ingress'' ''router-default'') (\<lambda>ingress.
     gbind (glift (case ingress of [] \<Rightarrow> Err (ErrorfErr (Fmt ''routerIP not found'' [])) | ip # _ \<Rightarrow> Ok ip)) (\<lambda>routerIP.
     gbind (dns_CreateOrUpdateRouter (in_dns i) (doc_OpenShiftCluster d) routerIP) (\<lambda>_.
     patch_lease (in_db i) (doc_Key d) (\<lambda>d. glift (record_urls config routerIP password d))))))))))))))))"

section \<open>The loop\<close>

definition unfinished :: string where
  "unfinished = ''unfinished''"

definition start_install :: "OpenShiftClusterDocument \<Rightarrow> OpenShiftClusterDocument" where
  "start_install d =
     (if p_Install (doc_properties d) = None
      then map_properties (\<lambda>p. p\<lparr>p_Install := Some \<lparr>ins_MissingFields = None, ins_Now = 0, ins_Phase = 0\<rparr>\<rparr>) d
      else d)"

definition next_phase :: "OpenShiftClusterDocument \<Rightarrow> OpenShiftClusterDocument result" where
  "next_phase d =
     rbind (nonnil (p_Install (doc_properties d))) (\<lambda>ins.
     Ok (map_properties (\<lambda>p. p\<lparr>p_Install := Some (ins\<lparr>ins_Phase := ins_Phase ins + 1\<rparr>)\<rparr>) d))"

definition end_install :: "OpenShiftClusterDocument \<Rightarrow> OpenShiftClusterDocument" where
  "end_install = map_properties (\<lambda>p. p\<lparr>p_Install := None\<rparr>)"

type_synonym 'w phase = "OpenShiftClusterDocument \<Rightarrow> ('w, OpenShiftClusterDocument) go"

text \<open>The loop, for the patch and the three phases of an installer.\<close>

primrec install_loop :: "((OpenShiftClusterDocument \<Rightarrow> OpenShiftClusterDocument result) \<Rightarrow> 'w phase) \<Rightarrow>
    'w phase \<Rightarrow> 'w phase \<Rightarrow> 'w phase \<Rightarrow> nat \<Rightarrow> OpenShiftClusterDocument \<Rightarrow> ('w, unit) go" where
  "install_loop patch storage resources bootstrap 0 d = glift (Panic unfinished)"
| "install_loop patch storage resources bootstrap (Suc n) d =
     gbind (glift (nonnil (p_Install (doc_properties d)))) (\<lambda>ins.
     if ins_Phase ins = InstallPhaseDeployStorage then
       gbind (storage d) (\<lambda>d. gbind (patch next_phase d) (install_loop patch storage resources bootstrap n))
     else if ins_Phase ins = InstallPhaseDeployResources then
       gbind (resources d) (\<lambda>d. gbind (patch next_phase d) (install_loop patch storage resources bootstrap n))
     else if ins_Phase ins = InstallPhaseRemoveBootstrap then
       gbind (bootstrap d) (\<lambda>d. gbind (patch (\<lambda>d. Ok (end_install d)) d) (\<lambda>_. greturn ()))
     else glift (Err (ErrorfErr (Fmt ''unrecognised phase %s'' [AStr (InstallPhase_String (ins_Phase ins))]))))"

definition installer_patch :: "'w openShiftClusters \<Rightarrow> (OpenShiftClusterDocument \<Rightarrow> OpenShiftClusterDocument result) \<Rightarrow> 'w phase" where
  "installer_patch c f d = patch_lease c (doc_Key d) (\<lambda>d. glift (f d))"

definition install_phases :: nat where
  "install_phases = 3"

definition run_install :: "((OpenShiftClusterDocument \<Rightarrow> OpenShiftClusterDocument result) \<Rightarrow> 'w phase) \<Rightarrow>
    'w phase \<Rightarrow> 'w phase \<Rightarrow> 'w phase \<Rightarrow> OpenShiftClusterDocument \<Rightarrow> ('w, unit) go" where
  "run_install patch storage resources bootstrap d =
     gbind (patch (\<lambda>d. Ok (start_install d)) d) (install_loop patch storage resources bootstrap install_phases)"

definition Installer_Install ::
    "('c, 'n, 'w) installer \<Rightarrow> install_config \<Rightarrow> platform_creds \<Rightarrow> string \<Rightarrow> OpenShiftClusterDocument \<Rightarrow> ('w, unit) go" where
  "Installer_Install i config creds release =
     run_install (installer_patch (in_db i)) (installStorage i config creds release) (installResources i) (removeBootstrap i)"

end
