(* ===== verification/InstallSpec.thy ===== *)
theory InstallSpec
  imports Install World
begin

text \<open>
  The installation of a cluster over the provider's database. A \<open>leased_store\<close> is what the installer relies on: a document that this
  process has leased and that a patch replaces. The locale is interpreted on \<^verbatim>\<open>PatchWithLease\<close> over the database of
  \<open>World\<close>; in it the loop over the phases is shown to finish the installation from whatever phase was stored.
\<close>

section \<open>A leased document\<close>

text \<open>A phase that does its work: it keeps the lease and the stored phase.\<close>

definition works :: "('w \<Rightarrow> OpenShiftClusterDocument \<Rightarrow> bool) \<Rightarrow> 'w phase \<Rightarrow> bool" where
  "works held ph \<longleftrightarrow> (\<forall>w d ins. held w d \<longrightarrow> p_Install (doc_properties d) = Some ins \<longrightarrow>
     (\<exists>d' w' ins'. ph d w = (Ok d', w') \<and> held w' d' \<and> p_Install (doc_properties d') = Some ins' \<and> ins_Phase ins' = ins_Phase ins))"

text \<open>The phase at which an installation starts.\<close>

definition stored_phase :: "OpenShiftClusterDocument \<Rightarrow> int" where
  "stored_phase d = (case p_Install (doc_properties d) of None \<Rightarrow> 0 | Some ins \<Rightarrow> ins_Phase ins)"

locale leased_store =
  fixes patch :: "(OpenShiftClusterDocument \<Rightarrow> OpenShiftClusterDocument result) \<Rightarrow> 'w phase"
    and held :: "'w \<Rightarrow> OpenShiftClusterDocument \<Rightarrow> bool"
  assumes patch_ok:
    "held w d \<Longrightarrow> (\<And>d0. doc_OpenShiftCluster d0 = doc_OpenShiftCluster d \<Longrightarrow> f d0 = Ok (map_properties g d0)) \<Longrightarrow>
       \<exists>d' w'. patch f d w = (Ok d', w') \<and> held w' d' \<and> doc_properties d' = g (doc_properties d)"
begin

lemma worksE:
  assumes "works held ph" "held w d" "p_Install (doc_properties d) = Some ins"
  obtains d' w' ins' where "ph d w = (Ok d', w')" "held w' d'" "p_Install (doc_properties d') = Some ins'" "ins_Phase ins' = ins_Phase ins"
  using assms unfolding works_def by blast

lemma next_phase_ok:
  assumes "held w d" "p_Install (doc_properties d) = Some ins"
  obtains d' w' ins' where "patch next_phase d w = (Ok d', w')" "held w' d'" "p_Install (doc_properties d') = Some ins'"
    "ins_Phase ins' = ins_Phase ins + 1"
proof -
  let ?g = "\<lambda>p :: Properties. p\<lparr>p_Install := Some (ins\<lparr>ins_Phase := ins_Phase ins + 1\<rparr>)\<rparr>"
  have "next_phase d0 = Ok (map_properties ?g d0)" if "doc_OpenShiftCluster d0 = doc_OpenShiftCluster d" for d0
    using assms(2) that by (simp add: next_phase_def)
  from patch_ok [where f = next_phase and g = ?g, OF assms(1) this] that show ?thesis by fastforce
qed

lemma end_install_ok:
  assumes "held w d"
  obtains d' w' where "patch (\<lambda>d. Ok (end_install d)) d w = (Ok d', w')" "held w' d'" "p_Install (doc_properties d') = None"
proof -
  let ?g = "\<lambda>p :: Properties. p\<lparr>p_Install := None\<rparr>"
  have "Ok (end_install d0) = Ok (map_properties ?g d0)" for d0 by (simp add: end_install_def)
  from patch_ok [where f = "\<lambda>d. Ok (end_install d)" and g = ?g, OF assms this] that show ?thesis by fastforce
qed

lemma start_install_ok:
  assumes "held w d"
  obtains d' w' ins where "patch (\<lambda>d. Ok (start_install d)) d w = (Ok d', w')" "held w' d'" "p_Install (doc_properties d') = Some ins"
    "ins_Phase ins = stored_phase d"
proof -
  let ?g = "\<lambda>p :: Properties. if p_Install p = None then p\<lparr>p_Install := Some \<lparr>ins_MissingFields = None, ins_Now = 0, ins_Phase = 0\<rparr>\<rparr> else p"
  have "Ok (start_install d0) = Ok (map_properties ?g d0)" for d0 by (simp add: start_install_def map_properties_def)
  from patch_ok [where f = "\<lambda>d. Ok (start_install d)" and g = ?g, OF assms this]
  obtain d' w' where d': "patch (\<lambda>d. Ok (start_install d)) d w = (Ok d', w')" "held w' d'"
      "doc_properties d' = ?g (doc_properties d)" by blast
  show ?thesis
    by (cases "p_Install (doc_properties d)") (use d' that in \<open>auto simp: stored_phase_def\<close>)
qed

text \<open>One turn of the loop.\<close>

lemma loop_bootstrap:
  assumes "works held bootstrap" "held w d" "p_Install (doc_properties d) = Some ins" "ins_Phase ins = InstallPhaseRemoveBootstrap"
  shows "\<exists>d' w'. install_loop patch storage resources bootstrap (Suc n) d w = (Ok (), w') \<and> held w' d' \<and> p_Install (doc_properties d') = None"
proof -
  obtain d1 w1 where 1: "bootstrap d w = (Ok d1, w1)" "held w1 d1" using worksE [OF assms(1-3)] by metis
  obtain d2 w2 where "patch (\<lambda>d. Ok (end_install d)) d1 w1 = (Ok d2, w2)" "held w2 d2" "p_Install (doc_properties d2) = None"
    using end_install_ok [OF 1(2)] by metis
  with 1 assms(3,4) show ?thesis
    by (auto simp: InstallPhaseDeployStorage_def InstallPhaseDeployResources_def InstallPhaseRemoveBootstrap_def)
qed

lemma loop_next:
  assumes "works held ph" "held w d" "p_Install (doc_properties d) = Some ins"
  obtains d' w' ins' where "gbind (ph d) (\<lambda>d. gbind (patch next_phase d) k) w = k d' w'" "held w' d'"
    "p_Install (doc_properties d') = Some ins'" "ins_Phase ins' = ins_Phase ins + 1"
proof -
  obtain d1 w1 ins1 where 1: "ph d w = (Ok d1, w1)" "held w1 d1" "p_Install (doc_properties d1) = Some ins1" "ins_Phase ins1 = ins_Phase ins"
    using worksE [OF assms] by metis
  obtain d2 w2 ins2 where "patch next_phase d1 w1 = (Ok d2, w2)" "held w2 d2" "p_Install (doc_properties d2) = Some ins2"
      "ins_Phase ins2 = ins_Phase ins1 + 1"
    using next_phase_ok [OF 1(2,3)] by metis
  with 1 that show ?thesis by simp
qed

lemma loop_resources:
  assumes "works held resources" "works held bootstrap" "held w d" "p_Install (doc_properties d) = Some ins"
    "ins_Phase ins = InstallPhaseDeployResources"
  shows "\<exists>d' w'. install_loop patch storage resources bootstrap (Suc (Suc n)) d w = (Ok (), w') \<and> held w' d'
           \<and> p_Install (doc_properties d') = None"
proof -
  obtain d1 w1 ins1 where "gbind (resources d) (\<lambda>d. gbind (patch next_phase d)
        (install_loop patch storage resources bootstrap (Suc n))) w = install_loop patch storage resources bootstrap (Suc n) d1 w1"
      "held w1 d1" "p_Install (doc_properties d1) = Some ins1" "ins_Phase ins1 = InstallPhaseRemoveBootstrap"
    using loop_next [OF assms(1,3,4)] assms(5)
    by (metis InstallPhaseDeployResources_def InstallPhaseRemoveBootstrap_def one_add_one)
  with loop_bootstrap [OF assms(2), of w1 d1 ins1 storage resources n] assms(4,5) show ?thesis
    by (simp add: InstallPhaseDeployStorage_def InstallPhaseDeployResources_def
        install_loop.simps(2) [of patch storage resources bootstrap "Suc n"] del: install_loop.simps)
qed

text \<open>The installation finishes from whatever phase is stored; the phases before it are not needed again.\<close>

lemma install_completes:
  assumes "held w d" "p_Install (doc_properties d) = Some ins" "0 \<le> ins_Phase ins" "ins_Phase ins \<le> 2"
    "ins_Phase ins = 0 \<longrightarrow> works held storage" "ins_Phase ins \<le> 1 \<longrightarrow> works held resources" "works held bootstrap"
  shows "\<exists>d' w'. install_loop patch storage resources bootstrap install_phases d w = (Ok (), w') \<and> held w' d'
           \<and> p_Install (doc_properties d') = None"
proof -
  have three: "install_phases = Suc (Suc (Suc 0))" by (simp add: install_phases_def)
  consider "ins_Phase ins = InstallPhaseDeployStorage" | "ins_Phase ins = InstallPhaseDeployResources"
    | "ins_Phase ins = InstallPhaseRemoveBootstrap"
    using assms(3,4)
    unfolding InstallPhaseDeployStorage_def InstallPhaseDeployResources_def InstallPhaseRemoveBootstrap_def by linarith
  then show ?thesis
  proof cases
    case 1
    then have ok: "works held storage" "works held resources" using assms(5,6) by (simp_all add: InstallPhaseDeployStorage_def)
    obtain d1 w1 ins1 where "gbind (storage d) (\<lambda>d. gbind (patch next_phase d)
          (install_loop patch storage resources bootstrap (Suc (Suc 0)))) w = install_loop patch storage resources bootstrap (Suc (Suc 0)) d1 w1"
        "held w1 d1" "p_Install (doc_properties d1) = Some ins1" "ins_Phase ins1 = InstallPhaseDeployResources"
      using loop_next [OF ok(1) assms(1,2)] 1
      by (metis InstallPhaseDeployStorage_def InstallPhaseDeployResources_def add_0)
    with loop_resources [OF ok(2) assms(7), of w1 d1 ins1 storage 0] assms(2) 1 show ?thesis
      by (simp add: three InstallPhaseDeployStorage_def
          install_loop.simps(2) [of patch storage resources bootstrap "Suc (Suc 0)"] del: install_loop.simps)
  next
    case 2
    then have "works held resources" using assms(6) by (simp add: InstallPhaseDeployResources_def)
    from loop_resources [OF this assms(7,1,2) 2] show ?thesis unfolding three .
  next
    case 3
    from loop_bootstrap [OF assms(7,1,2) 3] show ?thesis unfolding three .
  qed
qed

lemma run_install_completes:
  assumes "held w d" "0 \<le> stored_phase d" "stored_phase d \<le> 2"
    "stored_phase d = 0 \<longrightarrow> works held storage" "stored_phase d \<le> 1 \<longrightarrow> works held resources" "works held bootstrap"
  shows "\<exists>d' w'. run_install patch storage resources bootstrap d w = (Ok (), w') \<and> held w' d' \<and> p_Install (doc_properties d') = None"
proof -
  obtain d1 w1 ins where "patch (\<lambda>d. Ok (start_install d)) d w = (Ok d1, w1)" "held w1 d1" "p_Install (doc_properties d1) = Some ins"
      "ins_Phase ins = stored_phase d"
    using start_install_ok [OF assms(1)] .
  with install_completes [of w1 d1 ins storage resources bootstrap] assms(2-) show ?thesis by (simp add: run_install_def)
qed

end

section \<open>The lease over the database\<close>

lemma filter_single: "distinct xs \<Longrightarrow> x \<in> set xs \<Longrightarrow> P x \<Longrightarrow> (\<And>y. y \<in> set xs \<Longrightarrow> P y \<Longrightarrow> y = x) \<Longrightarrow> filter P xs = [x]"
proof (induction xs)
  case (Cons a xs)
  show ?case
  proof (cases "a = x")
    case True
    have "\<not> P y" if "y \<in> set xs" for y
      using Cons.prems(4) [of y] Cons.prems(1) True that by (metis distinct.simps(2) list.set_intros(2))
    then have "filter P xs = []" by (simp add: filter_empty_conv)
    with True Cons.prems(3) show ?thesis by simp
  next
    case False
    with Cons.prems(4) [of a] have "\<not> P a" by (metis list.set_intros(1))
    moreover have "filter P xs = [x]"
      using Cons.prems False by (intro Cons.IH) (simp, simp, simp, metis list.set_intros(2))
    ultimately show ?thesis by simp
  qed
qed simp

lemma select_filter:
  "account_select k s pk q = map snd (filter (\<lambda>((p, i), d). (pk = [] \<or> p = pk) \<and> sc_where k (ac_now s) q d) (ac_docs s))"
proof -
  have "[d. ((p, i), d) \<leftarrow> xs, pk = [] \<or> p = pk, sc_where k now q d] =
      map snd (filter (\<lambda>((p, i), d). (pk = [] \<or> p = pk) \<and> sc_where k now q d) xs)" for xs :: "((string \<times> string) \<times> 'a) list" and now
    by (induction xs) (auto split: if_splits)
  then show ?thesis by (simp add: account_select_def)
qed

text \<open>One document for a key, in terms of what is stored.\<close>

lemma only_cluster_iff:
  assumes "account_good cluster_schema s" "doc_PartitionKey d \<noteq> []" "doc_ID d = i"
  shows "account_select cluster_schema s (doc_PartitionKey d) (key_query key) = [d] \<and> account_stored s (doc_PartitionKey d, i) = Some d \<longleftrightarrow>
     account_stored s (doc_PartitionKey d, i) = Some d \<and> doc_Key d = key
       \<and> (\<forall>j d'. account_stored s (doc_PartitionKey d, j) = Some d' \<and> doc_Key d' = key \<longrightarrow> j = i)"
proof -
  let ?P = "\<lambda>((p, i), d'). (doc_PartitionKey d = [] \<or> p = doc_PartitionKey d) \<and> sc_where cluster_schema (ac_now s) (key_query key) d'"
  have P: "?P ((p, j), d') \<longleftrightarrow> p = doc_PartitionKey d \<and> doc_Key d' = key" for p j d'
    using assms(2) by (simp add: cluster_schema_def where_key)
  have dist: "distinct (map fst (ac_docs s))" using assms(1) by (simp add: account_good_def)
  then have mem: "account_stored s x = Some d' \<longleftrightarrow> (x, d') \<in> set (ac_docs s)" for x d'
    by (simp add: account_stored_def map_of_eq_Some_iff)
  show ?thesis
  proof (intro iffI conjI)
    assume L: "account_select cluster_schema s (doc_PartitionKey d) (key_query key) = [d] \<and> account_stored s (doc_PartitionKey d, i) = Some d"
    then have sel: "map snd (filter ?P (ac_docs s)) = [d]" by (simp add: select_filter)
    then obtain x where x: "filter ?P (ac_docs s) = [(x, d)]" by auto
    show st: "account_stored s (doc_PartitionKey d, i) = Some d" using L ..
    have "(x, d) \<in> set (filter ?P (ac_docs s))" by (simp add: x)
    then show "doc_Key d = key" using P by (cases x) auto
    with st have "((doc_PartitionKey d, i), d) \<in> set (filter ?P (ac_docs s))" using P mem by auto
    then have xi: "x = (doc_PartitionKey d, i)" by (simp add: x)
    show "\<forall>j d'. account_stored s (doc_PartitionKey d, j) = Some d' \<and> doc_Key d' = key \<longrightarrow> j = i"
    proof (intro allI impI)
      fix j d' assume "account_stored s (doc_PartitionKey d, j) = Some d' \<and> doc_Key d' = key"
      then have "((doc_PartitionKey d, j), d') \<in> set (filter ?P (ac_docs s))" using P mem by auto
      then show "j = i" by (simp add: x xi)
    qed
  next
    assume R: "account_stored s (doc_PartitionKey d, i) = Some d \<and> doc_Key d = key
       \<and> (\<forall>j d'. account_stored s (doc_PartitionKey d, j) = Some d' \<and> doc_Key d' = key \<longrightarrow> j = i)"
    have "filter ?P (ac_docs s) = [((doc_PartitionKey d, i), d)]"
    proof (rule filter_single)
      show "distinct (ac_docs s)" using dist by (simp add: distinct_map)
      show "((doc_PartitionKey d, i), d) \<in> set (ac_docs s)" using R mem by simp
      show "?P ((doc_PartitionKey d, i), d)" using R P by simp
      fix y assume y: "y \<in> set (ac_docs s)" "?P y"
      obtain p j d' where yy: "y = ((p, j), d')" by (metis surj_pair)
      with y P have "p = doc_PartitionKey d" "doc_Key d' = key" "account_stored s (p, j) = Some d'" using mem by auto
      with R show "y = ((doc_PartitionKey d, i), d)" by (auto simp: yy)
    qed
    then show "account_select cluster_schema s (doc_PartitionKey d) (key_query key) = [d]" by (simp add: select_filter)
    show "account_stored s (doc_PartitionKey d, i) = Some d" using R by simp
  qed
qed

lemma only_cluster_update:
  assumes "only_cluster s key d" "keeps_identity d d'" "account_good cluster_schema s'"
    "account_stored s' = (account_stored s)((doc_PartitionKey d, doc_ID d) \<mapsto> account_commit cluster_schema s ts d')"
  shows "only_cluster s' key (account_commit cluster_schema s ts d')"
proof -
  let ?c = "account_commit cluster_schema s ts d'"
  note st = only_clusterD [OF assms(1)]
  have id': "doc_ID ?c = doc_ID d"
    using account_goodD(1) [OF assms(3), of "doc_PartitionKey d" "doc_ID d" ?c] assms(4) by (simp add: cluster_schema_def)
  have pk: "doc_PartitionKey ?c = doc_PartitionKey d" "doc_Key ?c = key"
    using assms(2) st(2) by (simp_all add: keeps_identity_def)
  have good: "account_good cluster_schema s" "doc_PartitionKey d \<noteq> []" using assms(1) by (simp_all add: only_cluster_def)
  have "account_select cluster_schema s (doc_PartitionKey d) (key_query key) = [d]" using assms(1) by (simp add: only_cluster_def)
  then have "\<forall>j d2. account_stored s (doc_PartitionKey d, j) = Some d2 \<and> doc_Key d2 = key \<longrightarrow> j = doc_ID d"
    using only_cluster_iff [OF good refl, of key] st(1) by blast
  then have "account_select cluster_schema s' (doc_PartitionKey ?c) (key_query key) = [?c]"
    using only_cluster_iff [OF assms(3), of ?c "doc_ID d" key] good(2) id' pk by (simp add: assms(4))
  with assms(1,3) id' pk show ?thesis by (simp add: only_cluster_def)
qed

definition held :: "string \<Rightarrow> rp_world \<Rightarrow> OpenShiftClusterDocument \<Rightarrow> bool" where
  "held u w d \<longleftrightarrow> (\<exists>d0. only_cluster (w_clusters w) (doc_Key d) d0 \<and> doc_LeaseOwner d0 = u
     \<and> doc_OpenShiftCluster d0 = doc_OpenShiftCluster d)"

interpretation rp: leased_store "installer_patch (rp_clusters u)" "held u" for u
proof
  fix w d f g
  assume "held u w d" and f: "\<And>d0. doc_OpenShiftCluster d0 = doc_OpenShiftCluster d \<Longrightarrow> f d0 = Ok (map_properties g d0)"
  then obtain d0 where d0: "only_cluster (w_clusters w) (doc_Key d) d0" "doc_LeaseOwner d0 = u"
      "doc_OpenShiftCluster d0 = doc_OpenShiftCluster d" by (auto simp: held_def)
  let ?d = "map_properties g d0"
  have keep: "keeps_identity d0 ?d" by (simp add: keeps_identity_def map_properties_def)
  let ?c = "account_commit cluster_schema (w_clusters w) [] ?d"
  from rp_update_cluster [OF d0(1) keep plain_options_sources(1), of u] obtain s' where
    upd: "clusters_update (rp_clusters u) ?d None w = (Ok (Some ?c), put_clusters s' w)" "account_good cluster_schema s'"
      "account_stored s' = (account_stored (w_clusters w))((doc_PartitionKey d0, doc_ID d0) \<mapsto> ?c)"
    by (auto simp: triggers_of_def)
  have "clusters_PatchWithLease (rp_clusters u) (doc_Key d) (\<lambda>d. on_world (glift (f d))) ((), w) = (Ok (Some ?c), ((), put_clusters s' w))"
    unfolding clusters_PatchWithLease_def clusters_patchWithLease_def
    by (rule patch_once [OF rp_Get_cluster [OF d0(1)] _ upd(1)]) (simp add: d0(2) f [OF d0(3)])
  then have "installer_patch (rp_clusters u) f d w = (Ok ?c, put_clusters s' w)"
    by (simp add: installer_patch_def patch_lease_def)
  moreover have "held u (put_clusters s' w) ?c"
    using only_cluster_update [OF d0(1) keep upd(2,3)] d0(2) only_clusterD(2) [OF d0(1)]
    by (auto simp: held_def map_properties_def)
  moreover have "doc_properties ?c = g (doc_properties d)" using d0(3) by (simp add: map_properties_def)
  ultimately show "\<exists>d' w'. installer_patch (rp_clusters u) f d w = (Ok d', w') \<and> held u w' d' \<and> doc_properties d' = g (doc_properties d)"
    by blast
qed


text \<open>A leased cluster of which the first two phases are done.\<close>

definition installing_doc :: OpenShiftClusterDocument where
  "installing_doc = map_properties (\<lambda>p. p\<lparr>p_Install := Some \<lparr>ins_MissingFields = None, ins_Now = 0, ins_Phase = 2\<rparr>\<rparr>)
     (sample_doc\<lparr>doc_LeaseOwner := ''u'', doc_Dequeues := 1\<rparr>)"

definition installing_world :: rp_world where
  "installing_world = \<lparr>w_clusters = \<lparr>ac_docs = [((''s'', ''id''), installing_doc)], ac_next = ac_next leased_account, ac_now = 0\<rparr>,
     w_subs = \<lparr>ac_docs = [], ac_next = 0, ac_now = 0\<rparr>, w_async = \<lparr>ac_docs = [], ac_next = 0, ac_now = 0\<rparr>, w_random = 0\<rparr>"

lemma installing_held: "held ''u'' installing_world installing_doc"
proof -
  have "only_cluster (w_clusters installing_world) (doc_Key installing_doc) installing_doc"
    (is "only_cluster ?s ?key ?d")
  proof -
    have "account_good cluster_schema ?s" "good_id (doc_ID ?d)" "doc_PartitionKey ?d = ''s''"
        "clusters_partitionKey ?key = Ok ''s''" "?key = ToLower ?key"
      by code_simp+
    then show ?thesis
      by (simp add: only_cluster_def account_select_def installing_world_def cluster_schema_def where_key)
  qed
  then show ?thesis by (auto simp: held_def installing_doc_def map_properties_def)
qed


end
