(* ===== verification/Manager.thy ===== *)
theory Manager
  imports Install Backend StaticValidation
begin

text \<open>
  The manager of one cluster, \<^verbatim>\<open>src/pkg/backend/openshiftcluster\<close>: what the back end calls to create, update and delete the
  resources of a cluster. \<open>manager_env\<close> holds what the manager gets from its environment; \<open>NewManager\<close> builds the three operations
  that \<open>Backend\<close> takes as a \<^typ>\<open>'w manager\<close>.
\<close>

section \<open>Random text\<close>

fun randomString :: "(int \<Rightarrow> ('w, int) go) \<Rightarrow> string \<Rightarrow> nat \<Rightarrow> ('w, string) go" where
  "randomString rnd letterBytes 0 = greturn []"
| "randomString rnd letterBytes (Suc n) =
     gbind (rnd (int (length letterBytes))) (\<lambda>o'.
     gbind (glift (if 0 \<le> o' \<and> nat o' < length letterBytes then Ok (letterBytes ! nat o') else Panic ''index out of range'')) (\<lambda>c.
     gbind (randomString rnd letterBytes n) (\<lambda>s.
     greturn (c # s))))"

definition alphanumerics :: string where
  "alphanumerics = ''abcdefghijklmnopqrstuvwxyz0123456789''"

definition randomLowerCaseAlphanumericString :: "(int \<Rightarrow> ('w, int) go) \<Rightarrow> nat \<Rightarrow> ('w, string) go" where
  "randomLowerCaseAlphanumericString rnd n = randomString rnd alphanumerics n"

section \<open>The image of the nodes\<close>

text \<open>
  The pattern \<^verbatim>\<open>rhcos-((\d+)\.\d+\.\d{8})\d{4}\.\d+-azure\.x86_64\.vhd\<close>, searched for; a run of digits is the longest with which the rest matches.
\<close>

definition is_digit :: "char \<Rightarrow> bool" where
  "is_digit c = (let n = (of_char c :: int) in 48 \<le> n \<and> n \<le> 57)"

fun digits_greedy :: "'r cont \<Rightarrow> string \<Rightarrow> string \<Rightarrow> 'r option" where
  "digits_greedy k acc [] = k acc []"
| "digits_greedy k acc (c # s) =
     (if \<not> is_digit c then k acc (c # s)
      else case digits_greedy k (acc @ [c]) s of Some r \<Rightarrow> Some r | None \<Rightarrow> k acc (c # s))"

definition some_digits :: "'r cont \<Rightarrow> string \<Rightarrow> 'r option" where
  "some_digits k s = (case s of [] \<Rightarrow> None | c # t \<Rightarrow> if is_digit c then digits_greedy k [c] t else None)"

definition n_digits :: "nat \<Rightarrow> 'r cont \<Rightarrow> string \<Rightarrow> 'r option" where
  "n_digits n k s = (if n \<le> length s \<and> list_all is_digit (take n s) then k (take n s) (drop n s) else None)"

definition lit :: "string \<Rightarrow> (string \<Rightarrow> 'r option) \<Rightarrow> string \<Rightarrow> 'r option" where
  "lit p k s = (if HasPrefix s p then k (drop (length p) s) else None)"

definition rxRHCOS :: "string \<Rightarrow> (string \<times> string) option" where
  "rxRHCOS = search (lit ''rhcos-'' (some_digits (\<lambda>major. lit ''.'' (some_digits (\<lambda>minor. lit ''.'' (n_digits 8 (\<lambda>date.
     n_digits 4 (\<lambda>_. lit ''.'' (some_digits (\<lambda>_. lit ''-azure.x86_64.vhd'' (\<lambda>_.
       Some (major @ CHR ''.'' # minor @ CHR ''.'' # date, major))))))))))))"

definition getRHCOSImage :: "('w, string) go \<Rightarrow> ('w, rhcos_image) go" where
  "getRHCOSImage vhd =
     gbind vhd (\<lambda>osImage.
     glift (case rxRHCOS osImage of
        None \<Rightarrow> Err (ErrorfErr (Fmt ''couldn't match osImage %q'' [AStr osImage]))
      | Some (version, major) \<Rightarrow>
          Ok \<lparr>im_Publisher = ''azureopenshift'', im_Offer = ''aro4'', im_SKU = ''aro_'' @ major, im_Version = version\<rparr>))"

section \<open>The environment of a manager\<close>

record ('c, 'n, 'w) manager_env =
  me_db :: "'w openShiftClusters"
  me_env :: rp_env
  me_FPAuthorizer :: "string \<Rightarrow> string \<Rightarrow> ('w, unit) go"
  me_TenantID :: string
  me_installer :: "string \<Rightarrow> ('c, 'n, 'w) installer"
  me_DeleteGroup :: "string \<Rightarrow> ('w, unit) go"
  me_update :: "('c, 'n, 'w) update_env"
  me_GenerateKey :: "('w, string) go"
  me_rand :: "int \<Rightarrow> ('w, int) go"
  me_PublicKey :: "string \<Rightarrow> string result"
  me_Zones :: "string \<Rightarrow> string list result"
  me_parse6 :: "string \<Rightarrow> 128 word option"
  me_pullSecret :: string
  me_VHD :: "('w, string) go"
  me_Validate :: "install_config \<Rightarrow> unit result"

section \<open>Create\<close>

definition prepare_doc :: "('c, 'n, 'w) manager_env \<Rightarrow> OpenShiftClusterDocument \<Rightarrow> ('w, OpenShiftClusterDocument) go" where
  "prepare_doc e d =
     gbind (case p_SSHKey (doc_properties d) of
              None \<Rightarrow> gbind (me_GenerateKey e) (\<lambda>k. greturn (map_properties (\<lambda>p. p\<lparr>p_SSHKey := Some k\<rparr>) d))
            | Some k \<Rightarrow> greturn d) (\<lambda>d.
     if p_StorageSuffix (doc_properties d) = []
     then gbind (randomLowerCaseAlphanumericString (me_rand e) 5) (\<lambda>s. greturn (map_properties (\<lambda>p. p\<lparr>p_StorageSuffix := s\<rparr>) d))
     else greturn d)"

definition full_domain :: "rp_env \<Rightarrow> string \<Rightarrow> string" where
  "full_domain e domain = (if CHR ''.'' \<in> set domain then domain else domain @ CHR ''.'' # env_Domain e)"

text \<open>\<^verbatim>\<open>domain[:strings.IndexByte(domain, '.')]\<close> and what follows the dot.\<close>

definition domain_name :: "string \<Rightarrow> string" where
  "domain_name domain = takeWhile (\<lambda>c. c \<noteq> CHR ''.'') domain"

definition base_domain :: "string \<Rightarrow> string" where
  "base_domain domain = tl (dropWhile (\<lambda>c. c \<noteq> CHR ''.'') domain)"

text \<open>
  The zones of the two pools. A size without zones gives the list with one empty zone; for the workers the source sets the
  masters' list instead.
\<close>

definition pool_zones :: "('c, 'n, 'w) manager_env \<Rightarrow> string \<Rightarrow> string \<Rightarrow> (string list \<times> string list) result" where
  "pool_zones e masterSize workerSize =
     rbind (me_Zones e masterSize) (\<lambda>masterZones.
     let masterZones = (if masterZones = [] then [[]] else masterZones) in
     rbind (me_Zones e workerSize) (\<lambda>workerZones.
     Ok (if workerZones = [] then [[]] else masterZones, workerZones)))"

definition MustParseCIDR :: "(string \<Rightarrow> 128 word option) \<Rightarrow> string \<Rightarrow> unit result" where
  "MustParseCIDR p6 s = (case ParseCIDR p6 s of Ok _ \<Rightarrow> Ok () | _ \<Rightarrow> Panic ''invalid CIDR'')"

definition first_ingress :: "OpenShiftCluster \<Rightarrow> IngressProfile result" where
  "first_ingress oc = (case p_IngressProfiles (oc_Properties oc) of Some (x # _) \<Rightarrow> Ok x | _ \<Rightarrow> Panic ''index out of range'')"

definition image_sources :: "(string \<times> string list) list" where
  "image_sources = [
     (''quay.io/openshift-release-dev/ocp-release-nightly'', [''arosvc.azurecr.io/openshift-release-dev/ocp-release-nightly'']),
     (''quay.io/openshift-release-dev/ocp-v4.0-art-dev'', [''arosvc.azurecr.io/openshift-release-dev/ocp-v4.0-art-dev''])]"

text \<open>The configuration for the OpenShift installer, without the image of the nodes.\<close>

definition make_config :: "('c, 'n, 'w) manager_env \<Rightarrow> OpenShiftClusterDocument \<Rightarrow> (Resource \<times> install_config) result" where
  "make_config e d =
     (let p = doc_properties d in
      rbind (ParseResourceID (oc_ID (doc_OpenShiftCluster d))) (\<lambda>r.
      rbind (subnet_Split (mp_SubnetID (p_MasterProfile p))) (\<lambda>(_, masterSubnetName).
      rbind (first_worker (doc_OpenShiftCluster d)) (\<lambda>wp.
      rbind (subnet_Split (wp_SubnetID wp)) (\<lambda>(vnetID, workerSubnetName).
      rbind (ParseResourceID vnetID) (\<lambda>vnetr.
      rbind (nonnil (p_SSHKey p)) (\<lambda>key.
      rbind (me_PublicKey e key) (\<lambda>sshkey.
      let domain = full_domain (me_env e) (cp_Domain (p_ClusterProfile p)) in
      rbind (pool_zones e (mp_VMSize (p_MasterProfile p)) (wp_VMSize wp)) (\<lambda>(masterZones, workerZones).
      rbind (MustParseCIDR (me_parse6 e) (np_PodCIDR (p_NetworkProfile p))) (\<lambda>_.
      rbind (MustParseCIDR (me_parse6 e) (np_ServiceCIDR (p_NetworkProfile p))) (\<lambda>_.
      rbind (first_ingress (doc_OpenShiftCluster d)) (\<lambda>ingress.
      Ok (r, \<lparr>ic_Name = domain_name domain, ic_SSHKey = sshkey, ic_BaseDomain = base_domain domain, ic_MachineCIDR = ''127.0.0.0/8'',
        ic_NetworkType = ''OpenShiftSDN'', ic_ClusterNetwork = [(np_PodCIDR (p_NetworkProfile p), 23)],
        ic_ServiceNetwork = [np_ServiceCIDR (p_NetworkProfile p)],
        ic_ControlPlane = \<lparr>mpl_Name = ''master'', mpl_Replicas = 3, mpl_Zones = masterZones,
          mpl_InstanceType = mp_VMSize (p_MasterProfile p), mpl_DiskSizeGB = 0, mpl_Hyperthreading = ''Enabled''\<rparr>,
        ic_Compute = [\<lparr>mpl_Name = wp_Name wp, mpl_Replicas = wp_Count wp, mpl_Zones = workerZones,
          mpl_InstanceType = wp_VMSize wp, mpl_DiskSizeGB = wrap32 (wp_DiskSizeGB wp), mpl_Hyperthreading = ''Enabled''\<rparr>],
        ic_Region = oc_Location (doc_OpenShiftCluster d), ic_ResourceGroupName = cluster_group d,
        ic_NetworkResourceGroupName = r_ResourceGroup vnetr, ic_VirtualNetwork = r_ResourceName vnetr,
        ic_ControlPlaneSubnet = masterSubnetName, ic_ComputeSubnet = workerSubnetName, ic_ARO = True,
        ic_PullSecret = me_pullSecret e, ic_ImageContentSources = image_sources,
        ic_Publish = (if ip_Visibility ingress = VisibilityPrivate then ''Internal'' else ''External''),
        ic_Image = \<lparr>im_Publisher = [], im_Offer = [], im_SKU = [], im_Version = []\<rparr>\<rparr>)))))))))))))"

definition release_image :: "string \<Rightarrow> string result" where
  "release_image version =
     (if version = ''4.3.0-0.nightly-2019-12-05-001549''
      then Ok ''arosvc.azurecr.io/openshift-release-dev/ocp-release-nightly@sha256:5f1ff5e767acd58445532222c38e643069fdb9fdf0bb176ced48bc2eb1032f2a''
      else Err (ErrorfErr (Fmt ''unimplemented version %q'' [AStr version])))"

text \<open>\<^verbatim>\<open>install.NewInstaller\<close>, with the authorisers it needs.\<close>

definition NewInstaller :: "('c, 'n, 'w) manager_env \<Rightarrow> OpenShiftClusterDocument \<Rightarrow> ('w, ('c, 'n, 'w) installer) go" where
  "NewInstaller e d =
     gbind (glift (ParseResourceID (oc_ID (doc_OpenShiftCluster d)))) (\<lambda>r.
     gbind (me_FPAuthorizer e (me_TenantID e) ResourceManagerEndpoint) (\<lambda>_.
     gbind (me_FPAuthorizer e (spp_TenantID (p_ServicePrincipalProfile (doc_properties d))) ResourceManagerEndpoint) (\<lambda>_.
     greturn (me_installer e (r_SubscriptionID r)))))"

definition Manager_Create :: "('c, 'n, 'w) manager_env \<Rightarrow> OpenShiftClusterDocument \<Rightarrow> ('w, unit) go" where
  "Manager_Create e doc =
     gbind (patch_lease (me_db e) (doc_Key doc) (prepare_doc e)) (\<lambda>d.
     gbind (glift (make_config e d)) (\<lambda>(r, config).
     gbind (getRHCOSImage (me_VHD e)) (\<lambda>nodes.
     let config = config\<lparr>ic_Image := nodes, ic_ResourceGroupName := cluster_group doc\<rparr>;
         spp = p_ServicePrincipalProfile (doc_properties d);
         creds = \<lparr>crd_TenantID = spp_TenantID spp, crd_ClientID = spp_ClientID spp, crd_ClientSecret = spp_ClientSecret spp,
                   crd_SubscriptionID = r_SubscriptionID r\<rparr> in
     gbind (glift (release_image (cp_Version (p_ClusterProfile (doc_properties d))))) (\<lambda>release.
     gbind (glift (me_Validate e config)) (\<lambda>_.
     gbind (NewInstaller e d) (\<lambda>i.
     Installer_Install i config creds release d))))))"

section \<open>Delete\<close>

text \<open>The network security group is taken off a subnet if it is the cluster's; an error is logged and the next subnet is tried.\<close>

definition detach_nsg :: "'w subnets_client \<Rightarrow> OpenShiftCluster \<Rightarrow> string \<Rightarrow> ('w, unit) go" where
  "detach_nsg subnets oc subnetID =
     on_error
       (gbind (subnets_Get subnets subnetID) (\<lambda>s.
        gbind (glift (NetworkSecurityGroupID oc subnetID)) (\<lambda>nsgID.
        case sn_Properties s of
          None \<Rightarrow> greturn ()
        | Some p \<Rightarrow>
            (case sn_NetworkSecurityGroup p of
               None \<Rightarrow> greturn ()
             | Some nsg \<Rightarrow>
                 gbind (glift (nonnil nsg)) (\<lambda>id'.
                 if \<not> EqualFold id' nsgID then greturn ()
                 else subnets_CreateOrUpdate subnets subnetID (s\<lparr>sn_Properties := Some (p\<lparr>sn_NetworkSecurityGroup := None\<rparr>)\<rparr>))))))
       (\<lambda>_. greturn ())"

definition Manager_Delete ::
    "'w dns_manager \<Rightarrow> 'w subnets_client \<Rightarrow> 'w pe_manager \<Rightarrow> (string \<Rightarrow> ('w, unit) go) \<Rightarrow> OpenShiftClusterDocument \<Rightarrow> ('w, unit) go" where
  "Manager_Delete dns subnets pe deleteGroup doc =
     gbind (dns_Delete dns (doc_OpenShiftCluster doc)) (\<lambda>_.
     gbind (glift (first_worker (doc_OpenShiftCluster doc))) (\<lambda>wp.
     gbind (detach_nsg subnets (doc_OpenShiftCluster doc) (mp_SubnetID (p_MasterProfile (doc_properties doc)))) (\<lambda>_.
     gbind (detach_nsg subnets (doc_OpenShiftCluster doc) (wp_SubnetID wp)) (\<lambda>_.
     gbind (pe_Delete pe doc) (\<lambda>_.
     on_error (deleteGroup (cluster_group doc)) (\<lambda>e. if is_detailed 403 e then greturn () else glift (Err e)))))))"

section \<open>The manager\<close>

definition NewManager :: "('c, 'n, 'w) manager_env \<Rightarrow> OpenShiftClusterDocument \<Rightarrow> ('w, 'w manager) go" where
  "NewManager e doc =
     gbind (NewInstaller e doc) (\<lambda>i.
     greturn \<lparr>m_Create = Manager_Create e doc, m_Update = Manager_Update (me_update e) doc,
       m_Delete = Manager_Delete (in_dns i) (in_subnets i) (in_privateendpoint i) (me_DeleteGroup e) doc\<rparr>)"

section \<open>What a manager promises\<close>

lemma worker_zones_reset_masters:
  assumes "me_Zones e masterSize = Ok masterZones" and "me_Zones e workerSize = Ok []"
  shows "pool_zones e masterSize workerSize = Ok ([[]], [])"
  using assms by (simp add: pool_zones_def Let_def)

lemma getRHCOSImage_documented:
  "getRHCOSImage (greturn ''https://rhcos.blob.core.windows.net/imagebucket/rhcos-43.81.201911221453.0-azure.x86_64.vhd'') w =
   (Ok \<lparr>im_Publisher = ''azureopenshift'', im_Offer = ''aro4'', im_SKU = ''aro_43'', im_Version = ''43.81.20191122''\<rparr>, w)"
proof -
  have "rxRHCOS ''https://rhcos.blob.core.windows.net/imagebucket/rhcos-43.81.201911221453.0-azure.x86_64.vhd'' =
      Some (''43.81.20191122'', ''43'')"
    by code_simp
  then show ?thesis by (simp add: getRHCOSImage_def gbind_def greturn_def glift_def)
qed

text \<open>\<^verbatim>\<open>rand.Int\<close> gives a number below its bound, or an error of the reader.\<close>

definition random_below :: "(int \<Rightarrow> ('w, int) go) \<Rightarrow> bool" where
  "random_below rnd \<longleftrightarrow> (\<forall>n>0. \<forall>w. case rnd n w of (Ok k, w') \<Rightarrow> 0 \<le> k \<and> k < n | (Err e, w') \<Rightarrow> True | (Panic p, w') \<Rightarrow> False)"

lemma random_belowE:
  assumes "random_below rnd" and "0 < n"
  obtains k w' where "rnd n w = (Ok k, w')" "0 \<le> k" "k < n" | e w' where "rnd n w = (Err e, w')"
proof -
  have "case rnd n w of (Ok k, w') \<Rightarrow> 0 \<le> k \<and> k < n | (Err e, w') \<Rightarrow> True | (Panic p, w') \<Rightarrow> False"
    using assms unfolding random_below_def by simp
  with that show thesis by (cases "rnd n w"; cases "fst (rnd n w)") auto
qed

lemma randomString_alphabet:
  assumes "random_below rnd" and "letters \<noteq> []"
  shows "case randomString rnd letters n w of
    (Ok s, w') \<Rightarrow> length s = n \<and> set s \<subseteq> set letters | (Err e, w') \<Rightarrow> True | (Panic p, w') \<Rightarrow> False"
proof (induction n arbitrary: w)
  case (Suc n)
  from assms(2) have "0 < int (length letters)" by simp
  from assms(1) this show ?case
  proof (cases rule: random_belowE [where w = w])
    case (1 k w')
    then have "nat k < length letters" by linarith
    with 1 Suc.IH [of w'] show ?thesis
      by (auto simp: gbind_def glift_def greturn_def split: prod.splits result.splits)
  qed (simp add: gbind_def)
qed (simp add: greturn_def)

lemma prepared_suffix:
  assumes "random_below (me_rand e)" and "p_StorageSuffix (doc_properties d0) = []" and "prepare_doc e d0 w = (Ok d, w')"
  shows "length (p_StorageSuffix (doc_properties d)) = 5" "set (p_StorageSuffix (doc_properties d)) \<subseteq> set alphanumerics"
    "cp_Domain (p_ClusterProfile (doc_properties d)) = cp_Domain (p_ClusterProfile (doc_properties d0))"
proof -
  have "alphanumerics \<noteq> []" by (simp add: alphanumerics_def)
  from randomString_alphabet [OF assms(1) this, where n = 5] assms(2, 3)
  show "length (p_StorageSuffix (doc_properties d)) = 5" "set (p_StorageSuffix (doc_properties d)) \<subseteq> set alphanumerics"
      "cp_Domain (p_ClusterProfile (doc_properties d)) = cp_Domain (p_ClusterProfile (doc_properties d0))"
    by (fastforce simp: prepare_doc_def randomLowerCaseAlphanumericString_def gbind_def greturn_def map_properties_def
        split: option.splits prod.splits result.splits if_splits)+
qed

lemma full_domain_split: "domain_name (full_domain e s) @ CHR ''.'' # base_domain (full_domain e s) = full_domain e s"
proof -
  have "CHR ''.'' \<in> set (full_domain e s)" by (simp add: full_domain_def)
  then obtain ys zs where "full_domain e s = ys @ CHR ''.'' # zs" "CHR ''.'' \<notin> set ys" using split_list_first by metis
  then show ?thesis by (auto simp: domain_name_def base_domain_def takeWhile_append dropWhile_append)
qed

lemma full_domain_managed:
  assumes "CHR ''.'' \<notin> set m" and "domain = m \<or> domain = m @ CHR ''.'' # env_Domain e"
  shows "full_domain e domain = m @ CHR ''.'' # env_Domain e"
  using assms by (auto simp: full_domain_def)

lemma make_config_domain:
  assumes "make_config e d = Ok (r, c)"
  shows "ic_Name c = domain_name (full_domain (me_env e) (cp_Domain (p_ClusterProfile (doc_properties d))))"
    "ic_BaseDomain c = base_domain (full_domain (me_env e) (cp_Domain (p_ClusterProfile (doc_properties d))))"
  using assms by (auto simp: make_config_def Let_def)

lemma dns_label_char: "dns_label s \<Longrightarrow> c \<in> set s \<Longrightarrow> c \<noteq> CHR ''/'' \<and> c \<noteq> CHR ''[''"
proof -
  have "\<not> label_class CHR ''/''" "\<not> label_class CHR ''[''" by code_simp+
  then show "dns_label s \<Longrightarrow> c \<in> set s \<Longrightarrow> c \<noteq> CHR ''/'' \<and> c \<noteq> CHR ''[''" by (auto simp: dns_label_def list_all_iff)
qed

lemma set_Join: "c \<in> set (Join sep xs) \<Longrightarrow> c = sep \<or> (\<exists>x\<in>set xs. c \<in> set x)"
  by (induction sep xs rule: Join.induct) auto

lemma valid_domain:
  assumes "rx_match rxDomainName s"
  shows "s \<noteq> []" "hd s \<noteq> CHR ''.''" "c \<in> set s \<Longrightarrow> c \<noteq> CHR ''/'' \<and> c \<noteq> CHR ''[''"
proof -
  from assms have labels: "list_all dns_label (Split CHR ''.'' s)" by (simp add: domain_name_labels)
  moreover obtain l ls where ls: "Split CHR ''.'' s = l # ls" by (cases "Split CHR ''.'' s") (simp_all add: Split_not_Nil)
  ultimately have l: "l \<noteq> []" "CHR ''.'' \<notin> set l" using label_no_dot by (auto simp: dns_label_def)
  have s: "s = Join CHR ''.'' (l # ls)" using Join_Split [of "CHR ''.''" s] ls by simp
  show "s \<noteq> []" "hd s \<noteq> CHR ''.''" using l s by (cases l; cases ls; auto)+
  show "c \<in> set s \<Longrightarrow> c \<noteq> CHR ''/'' \<and> c \<noteq> CHR ''[''"
    using set_Join [of c "CHR ''.''" "l # ls"] labels ls s dns_label_char by (fastforce simp: list_all_iff)
qed

lemma config_names_plain:
  assumes c: "make_config e d = Ok (r, c)" and dom: "rx_match rxDomainName (cp_Domain (p_ClusterProfile (doc_properties d)))"
    and env: "CHR ''/'' \<notin> set (env_Domain (me_env e))"
  shows "plain_name (ic_Name c)" "CHR ''/'' \<notin> set (ic_BaseDomain c)"
proof -
  let ?s = "cp_Domain (p_ClusterProfile (doc_properties d))"
  let ?f = "full_domain (me_env e) ?s"
  have f: "?f = ic_Name c @ CHR ''.'' # ic_BaseDomain c"
    using full_domain_split [of "me_env e" ?s] make_config_domain [OF c] by simp
  have "CHR ''/'' \<notin> set ?f" using valid_domain(3) [OF dom] env by (auto simp: full_domain_def)
  moreover have "hd ?f = hd ?s" using valid_domain(1) [OF dom] by (simp add: full_domain_def)
  ultimately show "plain_name (ic_Name c)" "CHR ''/'' \<notin> set (ic_BaseDomain c)"
    using f valid_domain(1, 2) [OF dom] valid_domain(3) [OF dom, of "hd ?s"] by (cases "ic_Name c"; auto simp: plain_name_def)+
qed

lemma alphanumerics_plain: "set s \<subseteq> set alphanumerics \<Longrightarrow> s \<noteq> [] \<Longrightarrow> plain_name s"
proof -
  have "CHR ''/'' \<notin> set alphanumerics" "CHR ''['' \<notin> set alphanumerics" by code_simp+
  then show "set s \<subseteq> set alphanumerics \<Longrightarrow> s \<noteq> [] \<Longrightarrow> plain_name s" by (cases s) (auto simp: plain_name_def)
qed

text \<open>
  C26. What creating a cluster deploys can be deployed. For a cluster whose domain passed static validation, the manager picks a
  storage suffix of five lower-case letters and digits, and both templates that the installer then builds name every resource
  once and have resources that can be put into an order in which each depends only on resources before it.
\<close>
theorem created_cluster_deployable:
  assumes "random_below (me_rand e)" and "CHR ''/'' \<notin> set (env_Domain (me_env e))"
    and "rx_match rxDomainName (cp_Domain (p_ClusterProfile (doc_properties d0)))" and "p_StorageSuffix (doc_properties d0) = []"
    and "prepare_doc e d0 w = (Ok d, w')" and "make_config e d = Ok (r, c)"
    and "ti_config i = c\<lparr>ic_Image := im, ic_ResourceGroupName := g\<rparr>"
  shows "length (p_StorageSuffix (doc_properties d)) = 5 \<and> set (p_StorageSuffix (doc_properties d)) \<subseteq> set alphanumerics
    \<and> deployable (storage_template (p_StorageSuffix (doc_properties d)) region) \<and> deployable (resources_template i)"
proof -
  note suffix = prepared_suffix [OF assms(1, 4, 5)]
  have "plain_name (p_StorageSuffix (doc_properties d))" using suffix by (intro alphanumerics_plain) auto
  moreover have "plain_name (ic_Name (ti_config i))" "CHR ''/'' \<notin> set (ic_BaseDomain (ti_config i))"
    using config_names_plain [OF assms(6) _ assms(2)] assms(3, 7) suffix(3) by simp_all
  ultimately show ?thesis using suffix by (simp add: storage_deployable resources_deployable)
qed

text \<open>
  C27. The name under which a cluster is installed is the name under which it is registered. When the resource provider manages the
  domain of a cluster, the installer's cluster name and base domain are the name of the DNS records that the provider
  creates and the provider's own zone; otherwise the two joined by a dot are the domain of the cluster.
\<close>
theorem installed_domain_registered:
  assumes "make_config e d = Ok (r, c)" and "cluster_domain (doc_OpenShiftCluster d) = domain"
  shows "ic_Name c @ CHR ''.'' # ic_BaseDomain c = full_domain (me_env e) domain
    \<and> (managedDomain (me_env e) domain \<noteq> [] \<longrightarrow>
         ic_Name c = managedDomain (me_env e) domain \<and> ic_BaseDomain c = env_Domain (me_env e))"
proof -
  let ?m = "managedDomain (me_env e) domain"
  have dom: "cp_Domain (p_ClusterProfile (doc_properties d)) = domain"
    using assms(2) by simp
  have "ic_Name c = ?m \<and> ic_BaseDomain c = env_Domain (me_env e)" if "?m \<noteq> []"
  proof -
    from that have m: "CHR ''.'' \<notin> set ?m" "domain = ?m \<or> domain = ?m @ CHR ''.'' # env_Domain (me_env e)"
      using managedDomain_iff [of "me_env e" domain ?m] by auto
    with full_domain_managed [OF m] make_config_domain [OF assms(1)] dom show ?thesis
      by (auto simp: domain_name_def base_domain_def takeWhile_append dropWhile_append)
  qed
  with full_domain_split [of "me_env e" domain] make_config_domain [OF assms(1)] dom show ?thesis by simp
qed

text \<open>
  C28. A subnet with a network security group of somebody else keeps it. When a cluster is installed into such a subnet the
  installation stops with an error, and when a cluster is deleted the subnet is passed over; neither writes to the subnet.
\<close>
theorem foreign_nsg_untouched:
  assumes "subnets_Get subnets subnetID w = (Ok s, w')"
    and "sn_Properties s = Some p" and "sn_NetworkSecurityGroup p = Some (Some nsg)"
    and "NetworkSecurityGroupID (doc_OpenShiftCluster d) subnetID = Ok own" and "\<not> EqualFold nsg own"
  shows "detach_nsg subnets (doc_OpenShiftCluster d) subnetID w = (Ok (), w')
    \<and> (in_subnets i = subnets \<longrightarrow> (\<exists>e. attach_nsg i d subnetID w = (Err e, w')))"
  using assms by (simp add: detach_nsg_def attach_nsg_def on_error_def gbind_def glift_def greturn_def rguard_def nonnil_def Let_def)

section \<open>A cluster that is created\<close>

definition sample_manager_env :: "('c, 'n, 'w) manager_env \<Rightarrow> ('c, 'n, 'w) manager_env" where
  "sample_manager_env e = e\<lparr>me_env := \<lparr>env_SubscriptionID = ''rp'', env_ResourceGroup = ''rp'', env_Domain = ''location.aroapp.io''\<rparr>,
     me_GenerateKey := greturn ''key'', me_rand := (\<lambda>n. greturn (n - 1)), me_PublicKey := (\<lambda>k. Ok (''ssh-rsa '' @ k)),
     me_Zones := (\<lambda>_. Ok [''1'', ''2'', ''3'']), me_parse6 := (\<lambda>_. None)\<rparr>"

definition created_doc :: OpenShiftClusterDocument where
  "created_doc = zero_OpenShiftClusterDocument\<lparr>doc_OpenShiftCluster := (ToInternal sample_cluster zero_OpenShiftCluster)\<lparr>oc_ID := sample_resourceID\<rparr>\<rparr>"

definition prepared_doc :: OpenShiftClusterDocument where
  "prepared_doc = map_properties (\<lambda>p. p\<lparr>p_SSHKey := Some ''key'', p_StorageSuffix := ''99999''\<rparr>) created_doc"

lemma sample_random_below: "random_below (me_rand (sample_manager_env e))"
  by (simp add: random_below_def sample_manager_env_def greturn_def)

lemma created_doc_prepared: "prepare_doc (sample_manager_env e) created_doc w = (Ok prepared_doc, w)"
proof -
  have "randomString (\<lambda>n. greturn (n - 1)) alphanumerics 5 w = (Ok ''99999'', w)"
    by (simp add: eval_nat_numeral gbind_def greturn_def glift_def alphanumerics_def)
  moreover have "p_SSHKey (doc_properties created_doc) = None" "p_StorageSuffix (doc_properties created_doc) = []" by code_simp+
  ultimately show ?thesis
    by (simp add: prepare_doc_def sample_manager_env_def randomLowerCaseAlphanumericString_def prepared_doc_def map_properties_def
        gbind_def greturn_def)
qed

definition sample_parts :: "(Resource \<times> string \<times> WorkerProfile \<times> (string \<times> string) \<times> Resource \<times> IngressProfile) result" where
  "sample_parts = 
      rbind (ParseResourceID (oc_ID (doc_OpenShiftCluster prepared_doc))) (\<lambda>r.
      rbind (subnet_Split (mp_SubnetID (p_MasterProfile (doc_properties prepared_doc)))) (\<lambda>(_, masterSubnetName).
      rbind (first_worker (doc_OpenShiftCluster prepared_doc)) (\<lambda>wp.
      rbind (subnet_Split (wp_SubnetID wp)) (\<lambda>(vnetID, workerSubnetName).
      rbind (ParseResourceID vnetID) (\<lambda>vnetr.
      rbind (MustParseCIDR (\<lambda>_. None) (np_PodCIDR (p_NetworkProfile (doc_properties prepared_doc)))) (\<lambda>_.
      rbind (MustParseCIDR (\<lambda>_. None) (np_ServiceCIDR (p_NetworkProfile (doc_properties prepared_doc)))) (\<lambda>_.
      rbind (first_ingress (doc_OpenShiftCluster prepared_doc)) (\<lambda>ingress. Ok (r, masterSubnetName, wp, (vnetID, workerSubnetName), vnetr, ingress)))))))))"

lemma prepared_config: "\<exists>r c. make_config (sample_manager_env e) prepared_doc = Ok (r, c)"
proof -
  have "case sample_parts of Ok _ \<Rightarrow> True | _ \<Rightarrow> False" by code_simp
  then obtain x where "sample_parts = Ok x" by (auto split: result.splits)
  then obtain r m wp v s vr i j where "ParseResourceID (oc_ID (doc_OpenShiftCluster prepared_doc)) = Ok r"
      "subnet_Split (mp_SubnetID (p_MasterProfile (doc_properties prepared_doc))) = Ok (m, j)"
      "first_worker (doc_OpenShiftCluster prepared_doc) = Ok wp" "subnet_Split (wp_SubnetID wp) = Ok (v, s)"
      "ParseResourceID v = Ok vr" "first_ingress (doc_OpenShiftCluster prepared_doc) = Ok i"
      "MustParseCIDR (\<lambda>_. None) (np_PodCIDR (p_NetworkProfile (doc_properties prepared_doc))) = Ok ()"
      "MustParseCIDR (\<lambda>_. None) (np_ServiceCIDR (p_NetworkProfile (doc_properties prepared_doc))) = Ok ()"
    by (auto simp: sample_parts_def)
  moreover have "p_SSHKey (doc_properties prepared_doc) = Some ''key''" by code_simp
  ultimately show ?thesis
    by (simp add: make_config_def sample_manager_env_def pool_zones_def nonnil_def Let_def)
qed

definition prepared_input :: "install_config \<Rightarrow> template_input" where
  "prepared_input c = \<lparr>ti_config = c, ti_oc = doc_OpenShiftCluster prepared_doc, ti_vnetID = ''/vnet'', ti_lbIP = ''10.0.0.253'',
     ti_srvRecords = srv_records c, ti_zones = Nil, ti_objectID = [], ti_masterData = [], ti_subscriptionID = []\<rparr>"

theorem created_cluster_deployable_witness:
  "\<forall>e :: (unit, unit, nat) manager_env. \<exists>r c. make_config (sample_manager_env e) prepared_doc = Ok (r, c)
     \<and> length (p_StorageSuffix (doc_properties prepared_doc)) = 5 \<and> set (p_StorageSuffix (doc_properties prepared_doc)) \<subseteq> set alphanumerics
     \<and> deployable (storage_template (p_StorageSuffix (doc_properties prepared_doc)) ''location'')
     \<and> deployable (resources_template (prepared_input c))"
proof
  fix e :: "(unit, unit, nat) manager_env"
  obtain r c where c: "make_config (sample_manager_env e) prepared_doc = Ok (r, c)" using prepared_config by blast
  have dom: "rx_match rxDomainName (cp_Domain (p_ClusterProfile (doc_properties created_doc)))"
      "p_StorageSuffix (doc_properties created_doc) = []"
    by code_simp+
  have env: "CHR ''/'' \<notin> set (env_Domain (me_env (sample_manager_env e)))" by (simp add: sample_manager_env_def)
  have "ti_config (prepared_input c) = c\<lparr>ic_Image := ic_Image c, ic_ResourceGroupName := ic_ResourceGroupName c\<rparr>"
    by (simp add: prepared_input_def)
  from created_cluster_deployable [OF sample_random_below env dom created_doc_prepared c this] c
  show "\<exists>r c. make_config (sample_manager_env e) prepared_doc = Ok (r, c)
     \<and> length (p_StorageSuffix (doc_properties prepared_doc)) = 5 \<and> set (p_StorageSuffix (doc_properties prepared_doc)) \<subseteq> set alphanumerics
     \<and> deployable (storage_template (p_StorageSuffix (doc_properties prepared_doc)) ''location'')
     \<and> deployable (resources_template (prepared_input c))"
    by blast
qed

theorem installed_domain_registered_witness:
  "\<forall>e :: (unit, unit, nat) manager_env. \<exists>r c. make_config (sample_manager_env e) prepared_doc = Ok (r, c) \<and> ic_Name c = ''cluster'' \<and> ic_BaseDomain c = ''location.aroapp.io''"
proof
  fix e :: "(unit, unit, nat) manager_env"
  obtain r c where c: "make_config (sample_manager_env e) prepared_doc = Ok (r, c)" using prepared_config by blast
  have "cluster_domain (doc_OpenShiftCluster prepared_doc) = ''cluster.location.aroapp.io''" by code_simp
  moreover have "managedDomain (me_env (sample_manager_env e)) ''cluster.location.aroapp.io'' = ''cluster''"
      "env_Domain (me_env (sample_manager_env e)) = ''location.aroapp.io''"
    by (simp_all add: sample_manager_env_def) code_simp
  ultimately show "\<exists>r c. make_config (sample_manager_env e) prepared_doc = Ok (r, c) \<and> ic_Name c = ''cluster'' \<and> ic_BaseDomain c = ''location.aroapp.io''"
    using installed_domain_registered [OF c] c by auto
qed

definition guarded_subnets :: "nat subnets_client" where
  "guarded_subnets = \<lparr>
     sc_Get = (\<lambda>_ _ _ w. (Ok \<lparr>sn_ID = None, sn_Properties = Some \<lparr>sn_AddressPrefix = Some ''10.0.0.0/24'', sn_NetworkSecurityGroup = Some (Some ''/nsg''),
       sn_ServiceEndpoints = None, sn_PrivateLinkServiceNetworkPolicies = None, sn_Other = []\<rparr>\<rparr>, w)),
     sc_CreateOrUpdateAndWait = (\<lambda>_ _ _ _ w. (Ok (), w + 1))\<rparr>"

lemma guarded_subnets_Get:
  obtains s p where "subnets_Get guarded_subnets (sample_vnet @ ''/subnets/master'') 0 = (Ok s, 0)" "sn_Properties s = Some p"
    "sn_NetworkSecurityGroup p = Some (Some ''/nsg'')"
proof -
  have "subnet_Split (sample_vnet @ ''/subnets/master'') = Ok (sample_vnet, ''master'')" by code_simp
  moreover have "case ParseResourceID sample_vnet of Ok _ \<Rightarrow> True | _ \<Rightarrow> False" by code_simp
  then obtain r where "ParseResourceID sample_vnet = Ok r" by (auto split: result.splits)
  ultimately show thesis
    using that by (simp add: subnets_Get_def guarded_subnets_def gbind_def glift_def)
qed

theorem foreign_nsg_untouched_witness:
  "detach_nsg guarded_subnets (doc_OpenShiftCluster prepared_doc) (sample_vnet @ ''/subnets/master'') 0 = (Ok (), 0)"
proof -
  let ?id = "sample_vnet @ ''/subnets/master''"
  have nsg: "NetworkSecurityGroupID (doc_OpenShiftCluster prepared_doc) ?id =
      Ok ''/subscriptions/01234567-89ab-cdef-0123-456789abcdef/resourceGroups/crg/providers/Microsoft.Network/networkSecurityGroups/aro-controlplane-nsg''"
    by code_simp
  have ne: "\<not> EqualFold ''/nsg'' ''/subscriptions/01234567-89ab-cdef-0123-456789abcdef/resourceGroups/crg/providers/Microsoft.Network/networkSecurityGroups/aro-controlplane-nsg''"
    by code_simp
  obtain s p where "subnets_Get guarded_subnets ?id 0 = (Ok s, 0)" "sn_Properties s = Some p" "sn_NetworkSecurityGroup p = Some (Some ''/nsg'')"
    by (rule guarded_subnets_Get)
  from foreign_nsg_untouched [OF this nsg ne] show ?thesis by blast
qed

end
