(* ===== verification/Deploy.thy ===== *)
theory Deploy
  imports Arm
begin

text \<open>
  The templates that deploy the resource provider itself, \<^verbatim>\<open>src/pkg/deploy\<close>: one definition per resource, the templates that put them
  together, and the functions that write the template files. A method of \<^verbatim>\<open>generator\<close> takes its field \<open>production\<close> as an argument.
  The library's \<^verbatim>\<open>json.MarshalIndent\<close> on the types of the Azure SDK is a parameter of the functions that write files.
\<close>

section \<open>Text\<close>

abbreviation newline :: char where
  "newline \<equiv> CHR 0x0A"

definition to_upper_char :: "char \<Rightarrow> char" where
  "to_upper_char c = (let n = (of_char c :: nat) in if 97 \<le> n \<and> n \<le> 122 then char_of (n - 32) else c)"

definition ToUpper :: "string \<Rightarrow> string" where
  "ToUpper s = map to_upper_char s"

text \<open>\<^verbatim>\<open>base64.StdEncoding\<close>.\<close>

definition base64_char :: "nat \<Rightarrow> char" where
  "base64_char n = ''ABCDEFGHIJKLMNOPQRSTUVWXYZabcdefghijklmnopqrstuvwxyz0123456789+/'' ! n"

fun base64_Encode :: "string \<Rightarrow> string" where
  "base64_Encode [] = []"
| "base64_Encode [x] =
     (let a = (of_char x :: nat) in [base64_char (a div 4), base64_char (a mod 4 * 16), CHR ''='', CHR ''=''])"
| "base64_Encode [x, y] =
     (let a = (of_char x :: nat); b = (of_char y :: nat) in
      [base64_char (a div 4), base64_char (a mod 4 * 16 + b div 16), base64_char (b mod 16 * 4), CHR ''=''])"
| "base64_Encode (x # y # z # s) =
     (let a = (of_char x :: nat); b = (of_char y :: nat); c = (of_char z :: nat) in
      base64_char (a div 4) # base64_char (a mod 4 * 16 + b div 16) # base64_char (b mod 16 * 4 + c div 64) # base64_char (c mod 64)
      # base64_Encode s)"

text \<open>\<^verbatim>\<open>bytes.ReplaceAll\<close> for a text that is not empty.\<close>

function ReplaceAll :: "string \<Rightarrow> string \<Rightarrow> string \<Rightarrow> string" where
  "ReplaceAll s old new =
     (if old \<noteq> [] \<and> HasPrefix s old then new @ ReplaceAll (drop (length old) s) old new
      else case s of [] \<Rightarrow> [] | c # t \<Rightarrow> c # ReplaceAll t old new)"
  by pat_completeness auto
termination
proof (relation "measure (\<lambda>(s, _, _). length s)")
  fix s old new :: string
  assume "old \<noteq> [] \<and> HasPrefix s old"
  then show "((drop (length old) s, old, new), s, old, new) \<in> measure (\<lambda>(s, _, _). length s)"
    by (cases s; cases old) auto
qed auto

declare ReplaceAll.simps [simp del]

section \<open>The resources of the provider\<close>

definition deploy_apiVersions :: "string \<Rightarrow> string" where
  "deploy_apiVersions k =
     (if k = ''authorization'' then ''2018-09-01-preview''
      else if k = ''compute'' then ''2019-03-01''
      else if k = ''dns'' then ''2018-05-01''
      else if k = ''documentdb'' then ''2019-08-01''
      else if k = ''keyvault'' then ''2016-10-01''
      else if k = ''msi'' then ''2018-11-30''
      else if k = ''network'' then ''2019-07-01''
      else [])"

definition tenantIDHack :: string where
  "tenantIDHack = ''13805ec3-a223-47ad-ad65-8b2baf92c0fb''"

definition deploy_subnet :: "bool \<Rightarrow> val" where
  "deploy_subnet production =
     Obj ''mgmtnetwork.Subnet'' [
      (''SubnetPropertiesFormat'', Obj ''mgmtnetwork.SubnetPropertiesFormat'' ([
        (''AddressPrefix'', Str ''10.0.0.0/24''),
        (''NetworkSecurityGroup'', Obj ''mgmtnetwork.SecurityGroup'' [(''ID'', Str (''[resourceId('Microsoft.Network/networkSecurityGroups', 'rp-nsg')]''))])] @
     (if production then [
          (''ServiceEndpoints'', Arr [
            Obj ''mgmtnetwork.ServiceEndpointPropertiesFormat'' [(''Service'', Str ''Microsoft.KeyVault''), (''Locations'', Arr [Str ''*''])],
            Obj ''mgmtnetwork.ServiceEndpointPropertiesFormat'' [(''Service'', Str ''Microsoft.AzureCosmosDB''), (''Locations'', Arr [Str ''*''])]])] else []))),
      (''Name'', Str ''rp-subnet'')]"

definition deploy_vnet :: "bool \<Rightarrow> arm_Resource" where
  "deploy_vnet production =
     (resource (Obj ''mgmtnetwork.VirtualNetwork'' [
      (''VirtualNetworkPropertiesFormat'', Obj ''mgmtnetwork.VirtualNetworkPropertiesFormat'' [
        (''AddressSpace'', Obj ''mgmtnetwork.AddressSpace'' [(''AddressPrefixes'', Arr [Str ''10.0.0.0/8''])]),
        (''Subnets'', Arr [
          deploy_subnet production,
          Obj ''mgmtnetwork.Subnet'' [
            (''SubnetPropertiesFormat'', Obj ''mgmtnetwork.SubnetPropertiesFormat'' [
              (''AddressPrefix'', Str ''10.1.0.0/16''),
              (''NetworkSecurityGroup'', Obj ''mgmtnetwork.SecurityGroup'' [
                (''ID'', Str (''[resourceId('Microsoft.Network/networkSecurityGroups', 'rp-pe-nsg')]''))]),
              (''PrivateEndpointNetworkPolicies'', Str ''Disabled'')]),
            (''Name'', Str ''rp-pe-subnet'')]])]),
      (''Name'', Str ''rp-vnet''),
      (''Type'', Str ''Microsoft.Network/virtualNetworks''),
      (''Location'', Str ''[resourceGroup().location]'')])
     (deploy_apiVersions ''network''))"

definition deploy_pip :: "arm_Resource" where
  "deploy_pip =
     (resource (Obj ''mgmtnetwork.PublicIPAddress'' [
      (''Sku'', Obj ''mgmtnetwork.PublicIPAddressSku'' [(''Name'', Str ''Standard'')]),
      (''PublicIPAddressPropertiesFormat'', Obj ''mgmtnetwork.PublicIPAddressPropertiesFormat'' [(''PublicIPAllocationMethod'', Str ''Static'')]),
      (''Name'', Str ''rp-pip''),
      (''Type'', Str ''Microsoft.Network/publicIPAddresses''),
      (''Location'', Str ''[resourceGroup().location]'')])
     (deploy_apiVersions ''network''))"

definition deploy_lb :: "arm_Resource" where
  "deploy_lb =
     (resource (Obj ''mgmtnetwork.LoadBalancer'' [
      (''Sku'', Obj ''mgmtnetwork.LoadBalancerSku'' [(''Name'', Str ''Standard'')]),
      (''LoadBalancerPropertiesFormat'', Obj ''mgmtnetwork.LoadBalancerPropertiesFormat'' [
        (''FrontendIPConfigurations'', Arr [
          Obj ''mgmtnetwork.FrontendIPConfiguration'' [
            (''FrontendIPConfigurationPropertiesFormat'', Obj ''mgmtnetwork.FrontendIPConfigurationPropertiesFormat'' [
              (''PublicIPAddress'', Obj ''mgmtnetwork.PublicIPAddress'' [
                (''ID'', Str (''[resourceId('Microsoft.Network/publicIPAddresses', 'rp-pip')]''))])]),
            (''Name'', Str ''rp-frontend'')]]),
        (''BackendAddressPools'', Arr [Obj ''mgmtnetwork.BackendAddressPool'' [(''Name'', Str ''rp-backend'')]]),
        (''LoadBalancingRules'', Arr [
          Obj ''mgmtnetwork.LoadBalancingRule'' [
            (''LoadBalancingRulePropertiesFormat'', Obj ''mgmtnetwork.LoadBalancingRulePropertiesFormat'' [
              (''FrontendIPConfiguration'', Obj ''mgmtnetwork.SubResource'' [
                (''ID'', Str (''[resourceId('Microsoft.Network/loadBalancers/frontendIPConfigurations', 'rp-lb', 'rp-frontend')]''))]),
              (''BackendAddressPool'', Obj ''mgmtnetwork.SubResource'' [
                (''ID'', Str (''[resourceId('Microsoft.Network/loadBalancers/backendAddressPools', 'rp-lb', 'rp-backend')]''))]),
              (''Probe'', Obj ''mgmtnetwork.SubResource'' [
                (''ID'', Str (''[resourceId('Microsoft.Network/loadBalancers/probes', 'rp-lb', 'rp-probe')]''))]),
              (''Protocol'', Str ''Tcp''),
              (''LoadDistribution'', Str ''Default''),
              (''FrontendPort'', Num 443),
              (''BackendPort'', Num 443)]),
            (''Name'', Str ''rp-lbrule'')]]),
        (''Probes'', Arr [
          Obj ''mgmtnetwork.Probe'' [
            (''ProbePropertiesFormat'', Obj ''mgmtnetwork.ProbePropertiesFormat'' [
              (''Protocol'', Str ''Https''),
              (''Port'', Num 443),
              (''NumberOfProbes'', Num 2),
              (''RequestPath'', Str ''/healthz/ready'')]),
            (''Name'', Str ''rp-probe'')]])]),
      (''Name'', Str ''rp-lb''),
      (''Type'', Str ''Microsoft.Network/loadBalancers''),
      (''Location'', Str ''[resourceGroup().location]'')])
     (deploy_apiVersions ''network''))\<lparr>ar_DependsOn := [''[resourceId('Microsoft.Network/publicIPAddresses', 'rp-pip')]'']\<rparr>"

definition vmss_trailer :: string where
  "vmss_trailer = Join newline [
     ''systemctl stop arorp.service || true'',
     [],
     ''yum -y update -x WALinuxAgent'',
     [],
     ''rpm --import https://dl.fedoraproject.org/pub/epel/RPM-GPG-KEY-EPEL-8'',
     [],
     ''yum -y install https://dl.fedoraproject.org/pub/epel/epel-release-latest-8.noarch.rpm || true'',
     [],
     ''cat >/etc/yum.repos.d/azure-cli.repo <<'EOF'' @ sq,
     ''[azurecore]'',
     ''name=azurecore'',
     ''baseurl=https://packages.microsoft.com/yumrepos/azurecore'',
     ''enabled=yes'',
     ''gpgcheck=no'',
     ''EOF'',
     [],
     ''yum -y install azsec-clamav azsec-monitor azure-mdsd azure-security podman-docker'',
     [],
     ''firewall-cmd --add-port=443/tcp --permanent'',
     [],
     ''if [[ -n '' @ [CHR 0x22] @ ''$RPIMAGEAUTH'' @ [CHR 0x22] @ '' ]]; then'',
     ''  mkdir -p /root/.docker'',
     [],
     ''  cat >/root/.docker/config.json <<EOF'',
     ''{'',
     [CHR 0x09] @ [CHR 0x22] @ ''auths'' @ [CHR 0x22] @ '': {'',
     [CHR 0x09] @ [CHR 0x09] @ [CHR 0x22] @ ''${RPIMAGE%%/*}'' @ [CHR 0x22] @ '': {'',
     [CHR 0x09] @ [CHR 0x09] @ [CHR 0x09] @ [CHR 0x22] @ ''auth'' @ [CHR 0x22] @ '': '' @ [CHR 0x22] @ ''$RPIMAGEAUTH'' @ [CHR 0x22],
     [CHR 0x09] @ [CHR 0x09] @ ''}'',
     [CHR 0x09] @ ''}'',
     ''}'',
     ''EOF'',
     [],
     ''else'',
     ''  rm -rf /root/.docker'',
     ''fi'',
     [],
     ''mkdir -p /etc/mdm'',
     ''echo '' @ [CHR 0x22] @ ''$MDMCERTIFICATE'' @ [CHR 0x22] @ '' >/etc/mdm/cert.pem'',
     ''echo '' @ [CHR 0x22] @ ''$MDMPRIVATEKEY'' @ [CHR 0x22] @ '' >/etc/mdm/key.pem'',
     ''chown -R 1000:1000 /etc/mdm'',
     ''chmod 0600 /etc/mdm/key.pem'',
     [],
     ''cat >/etc/sysconfig/mdm <<EOF'',
     ''MDMIMAGE='arosvc.azurecr.io/mdm:2019.801.1228-66cac1'' @ sq,
     ''EOF'',
     [],
     ''cat >/etc/sysconfig/arorp <<EOF'',
     ''PULL_SECRET='$PULLSECRET'' @ sq,
     ''RPIMAGE='$RPIMAGE'' @ sq,
     ''EOF'',
     [],
     ''cat >/etc/systemd/system/mdm.service <<EOF'',
     ''[Unit]'',
     ''After=network-online.target'',
     [],
     ''[Service]'',
     ''EnvironmentFile=/etc/sysconfig/mdm'',
     ''ExecStartPre=-/usr/bin/docker rm -f %N'',
     ''ExecStartPre=/usr/bin/docker pull '' @ [CHR 0x5C] @ ''$MDMIMAGE'',
     ''ExecStart=/usr/bin/docker run '' @ [CHR 0x5C],
     ''  --hostname %H '' @ [CHR 0x5C],
     ''  --name %N '' @ [CHR 0x5C],
     ''  --rm '' @ [CHR 0x5C],
     ''  -v /etc/mdm:/etc/mdm '' @ [CHR 0x5C],
     ''  -v /var/etw:/var/etw '' @ [CHR 0x5C],
     ''  '' @ [CHR 0x5C] @ ''$MDMIMAGE '' @ [CHR 0x5C],
     ''  -FrontEndUrl '' @ [CHR 0x5C] @ ''$MDMFRONTENDURL '' @ [CHR 0x5C],
     ''  -MonitoringAccount '' @ [CHR 0x5C] @ ''$MDMMONITORINGACCOUNT '' @ [CHR 0x5C],
     ''  -MetricNamespace '' @ [CHR 0x5C] @ ''$MDMMETRICNAMESPACE '' @ [CHR 0x5C],
     ''  -CertFile /etc/mdm/cert.pem '' @ [CHR 0x5C],
     ''  -PrivateKeyFile /etc/mdm/key.pem'',
     ''ExecStop=/usr/bin/docker stop %N'',
     ''Restart=always'',
     [],
     ''[Install]'',
     ''WantedBy=multi-user.target'',
     ''EOF'',
     [],
     ''cat >/etc/systemd/system/arorp.service <<EOF'',
     ''[Unit]'',
     ''After=network-online.target'',
     [],
     ''[Service]'',
     ''EnvironmentFile=/etc/sysconfig/arorp'',
     ''ExecStartPre=-/usr/bin/docker rm -f %N'',
     ''ExecStartPre=/usr/bin/docker pull '' @ [CHR 0x5C] @ ''$RPIMAGE'',
     ''ExecStart=/usr/bin/docker run '' @ [CHR 0x5C],
     ''  --hostname %H '' @ [CHR 0x5C],
     ''  --name %N '' @ [CHR 0x5C],
     ''  --rm '' @ [CHR 0x5C],
     ''  -e PULL_SECRET '' @ [CHR 0x5C],
     ''  -p 443:8443 '' @ [CHR 0x5C],
     ''  '' @ [CHR 0x5C] @ ''$RPIMAGE '' @ [CHR 0x5C],
     ''  rp'',
     ''ExecStop=/usr/bin/docker stop -t 90 %N'',
     ''Restart=always'',
     [],
     ''[Install]'',
     ''WantedBy=multi-user.target'',
     ''EOF'',
     [],
     ''for service in arorp chronyd; do'',
     ''  systemctl enable $service.service'',
     ''done'',
     [],
     ''chcon -R system_u:object_r:var_log_t:s0 /var/opt/microsoft/linuxmonagent'',
     [],
     ''for service in auoms azsecd azsecmond mdsd; do'',
     ''  systemctl disable $service.service'',
     ''  systemctl mask $service.service'',
     ''done'',
     [],
     ''rm /etc/rsyslog.d/10-mdsd.conf'',
     [],
     ''rm /etc/motd.d/*'',
     ''>/etc/containers/nodocker'',
     [],
     ''(sleep 30; reboot) &'',
     []]"

definition variable_parts :: "string \<Rightarrow> string list" where
  "variable_parts variable = [
     sq @ ToUpper variable @ ''=$(base64 -d <<<'' @ sq @ sq @ sq,
     ''base64(parameters('' @ sq @ variable @ sq @ ''))'',
     sq @ sq @ sq @ '')'' @ [newline] @ sq]"

definition base64ToString :: "string \<Rightarrow> string" where
  "base64ToString s = ''base64ToString('' @ sq @ base64_Encode s @ sq @ '')''"

definition vmss_script :: string where
  "vmss_script =
     (let parts = [base64ToString (''set -ex'' @ [newline, newline])]
        @ concat (map variable_parts [''mdmCertificate'', ''mdmFrontendUrl'', ''mdmMetricNamespace'', ''mdmMonitoringAccount'', ''mdmPrivateKey'',
            ''pullSecret'', ''rpImage'', ''rpImageAuth''])
        @ [sq @ [newline] @ sq, base64ToString vmss_trailer] in
      ''[base64(concat('' @ Join CHR '','' parts @ ''))]'')"

definition vmss_resource :: "string \<Rightarrow> arm_Resource" where
  "vmss_resource script =
     (resource (Obj ''mgmtcompute.VirtualMachineScaleSet'' [
      (''Sku'', Obj ''mgmtcompute.Sku'' [
        (''Name'', Str ''Standard_D2s_v3''),
        (''Tier'', Str ''Standard''),
        (''Capacity'', Num 3)]),
      (''VirtualMachineScaleSetProperties'', Obj ''mgmtcompute.VirtualMachineScaleSetProperties'' [
        (''UpgradePolicy'', Obj ''mgmtcompute.UpgradePolicy'' [(''Mode'', Str ''Manual'')]),
        (''VirtualMachineProfile'', Obj ''mgmtcompute.VirtualMachineScaleSetVMProfile'' [
          (''OsProfile'', Obj ''mgmtcompute.VirtualMachineScaleSetOSProfile'' [
            (''ComputerNamePrefix'', Str ''rp-''),
            (''AdminUsername'', Str ''cloud-user''),
            (''LinuxConfiguration'', Obj ''mgmtcompute.LinuxConfiguration'' [
              (''DisablePasswordAuthentication'', Bool True),
              (''SSH'', Obj ''mgmtcompute.SSHConfiguration'' [
                (''PublicKeys'', Arr [
                  Obj ''mgmtcompute.SSHPublicKey'' [
                    (''Path'', Str ''/home/cloud-user/.ssh/authorized_keys''),
                    (''KeyData'', Str (''[parameters('sshPublicKey')]''))]])])])]),
          (''StorageProfile'', Obj ''mgmtcompute.VirtualMachineScaleSetStorageProfile'' [
            (''ImageReference'', Obj ''mgmtcompute.ImageReference'' [
              (''Publisher'', Str ''RedHat''),
              (''Offer'', Str ''RHEL''),
              (''Sku'', Str ''8''),
              (''Version'', Str ''latest'')]),
            (''OsDisk'', Obj ''mgmtcompute.VirtualMachineScaleSetOSDisk'' [
              (''CreateOption'', Str ''FromImage''),
              (''ManagedDisk'', Obj ''mgmtcompute.VirtualMachineScaleSetManagedDiskParameters'' [(''StorageAccountType'', Str ''Premium_LRS'')])])]),
          (''NetworkProfile'', Obj ''mgmtcompute.VirtualMachineScaleSetNetworkProfile'' [
            (''HealthProbe'', Obj ''mgmtcompute.APIEntityReference'' [
              (''ID'', Str (''[resourceId('Microsoft.Network/loadBalancers/probes', 'rp-lb', 'rp-probe')]''))]),
            (''NetworkInterfaceConfigurations'', Arr [
              Obj ''mgmtcompute.VirtualMachineScaleSetNetworkConfiguration'' [
                (''Name'', Str ''rp-vmss-nic''),
                (''VirtualMachineScaleSetNetworkConfigurationProperties'', Obj ''mgmtcompute.VirtualMachineScaleSetNetworkConfigurationProperties'' [
                  (''Primary'', Bool True),
                  (''IPConfigurations'', Arr [
                    Obj ''mgmtcompute.VirtualMachineScaleSetIPConfiguration'' [
                      (''Name'', Str ''rp-vmss-ipconfig''),
                      (''VirtualMachineScaleSetIPConfigurationProperties'', Obj ''mgmtcompute.VirtualMachineScaleSetIPConfigurationProperties'' [
                        (''Subnet'', Obj ''mgmtcompute.APIEntityReference'' [
                          (''ID'', Str (''[resourceId('Microsoft.Network/virtualNetworks/subnets', 'rp-vnet', 'rp-subnet')]''))]),
                        (''Primary'', Bool True),
                        (''PublicIPAddressConfiguration'', Obj ''mgmtcompute.VirtualMachineScaleSetPublicIPAddressConfiguration'' [
                          (''Name'', Str ''rp-vmss-pip''),
                          (''VirtualMachineScaleSetPublicIPAddressConfigurationProperties'', Obj ''mgmtcompute.VirtualMachineScaleSetPublicIPAddressConfigurationProperties'' [
                            (''DNSSettings'', Obj ''mgmtcompute.VirtualMachineScaleSetPublicIPAddressConfigurationDNSSettings'' [
                              (''DomainNameLabel'', Str (''[parameters('vmssDomainNameLabel')]''))])])]),
                        (''LoadBalancerBackendAddressPools'', Arr [
                          Obj ''mgmtcompute.SubResource'' [
                            (''ID'', Str (''[resourceId('Microsoft.Network/loadBalancers/backendAddressPools', 'rp-lb', 'rp-backend')]''))]])])]])])]])]),
          (''ExtensionProfile'', Obj ''mgmtcompute.VirtualMachineScaleSetExtensionProfile'' [
            (''Extensions'', Arr [
              Obj ''mgmtcompute.VirtualMachineScaleSetExtension'' [
                (''Name'', Str ''rp-vmss-cse''),
                (''VirtualMachineScaleSetExtensionProperties'', Obj ''mgmtcompute.VirtualMachineScaleSetExtensionProperties'' [
                  (''Publisher'', Str ''Microsoft.Azure.Extensions''),
                  (''Type'', Str ''CustomScript''),
                  (''TypeHandlerVersion'', Str ''2.0''),
                  (''AutoUpgradeMinorVersion'', Bool True),
                  (''Settings'', Obj ''map'' []),
                  (''ProtectedSettings'', Obj ''map'' [(''script'', Str script)])])]])])]),
        (''Overprovision'', Bool False)]),
      (''Identity'', Obj ''mgmtcompute.VirtualMachineScaleSetIdentity'' [
        (''Type'', Str ''UserAssigned''),
        (''UserAssignedIdentities'', Obj ''map'' [
          (''[resourceId('Microsoft.ManagedIdentity/userAssignedIdentities', 'rp-identity')]'', Obj ''mgmtcompute.VirtualMachineScaleSetIdentityUserAssignedIdentitiesValue'' [])])]),
      (''Name'', Str ''rp-vmss''),
      (''Type'', Str ''Microsoft.Compute/virtualMachineScaleSets''),
      (''Location'', Str ''[resourceGroup().location]'')])
     (deploy_apiVersions ''compute''))\<lparr>ar_DependsOn := [''[resourceId('Microsoft.Network/virtualNetworks', 'rp-vnet')]'', ''[resourceId('Microsoft.Network/loadBalancers', 'rp-lb')]'']\<rparr>"

definition deploy_vmss :: arm_Resource where
  "deploy_vmss = vmss_resource vmss_script"

definition deploy_zone :: "arm_Resource" where
  "deploy_zone =
     (resource (Obj ''mgmtdns.Zone'' [
      (''ZoneProperties'', Obj ''mgmtdns.ZoneProperties'' []),
      (''Name'', Str (''[parameters('domainName')]'')),
      (''Type'', Str ''Microsoft.Network/dnsZones''),
      (''Location'', Str ''global'')])
     (deploy_apiVersions ''dns''))"

definition accessPolicyEntry :: val where
  "accessPolicyEntry =
     Obj ''mgmtkeyvault.AccessPolicyEntry'' [
      (''TenantID'', Str tenantIDHack),
      (''ObjectID'', Str (''[parameters('rpServicePrincipalId')]'')),
      (''Permissions'', Obj ''mgmtkeyvault.Permissions'' [(''Secrets'', Arr [Str ''get''])])]"

definition deploy_vault :: "bool \<Rightarrow> arm_Resource" where
  "deploy_vault production =
     resource (Obj ''mgmtkeyvault.Vault'' [
      (''Properties'', Obj ''mgmtkeyvault.VaultProperties'' [
        (''TenantID'', Str tenantIDHack),
        (''Sku'', Obj ''mgmtkeyvault.Sku'' [(''Name'', Str ''standard''), (''Family'', Str ''A'')]),
        (''AccessPolicies'', (if production then Arr [] else Arr [
            accessPolicyEntry,
            Obj ''mgmtkeyvault.AccessPolicyEntry'' [
              (''TenantID'', Str tenantIDHack),
              (''ObjectID'', Str (''[parameters('adminObjectId')]'')),
              (''Permissions'', Obj ''mgmtkeyvault.Permissions'' [
                (''Certificates'', Arr [
                  Str ''create'',
                  Str ''delete'',
                  Str ''deleteissuers'',
                  Str ''get'',
                  Str ''getissuers'',
                  Str ''import'',
                  Str ''list'',
                  Str ''listissuers'',
                  Str ''managecontacts'',
                  Str ''manageissuers'',
                  Str ''purge'',
                  Str ''recover'',
                  Str ''setissuers'',
                  Str ''update''])])]]))]),
      (''Name'', Str (''[parameters('keyvaultName')]'')),
      (''Type'', Str ''Microsoft.KeyVault/vaults''),
      (''Location'', Str ''[resourceGroup().location]'')])
     (deploy_apiVersions ''keyvault'')"

definition deploy_cosmosdb_account :: "bool \<Rightarrow> arm_Resource" where
  "deploy_cosmosdb_account production =
     (resource (Obj ''mgmtdocumentdb.DatabaseAccountCreateUpdateParameters'' [
      (''Kind'', Str ''GlobalDocumentDB''),
      (''DatabaseAccountCreateUpdateProperties'', Obj ''mgmtdocumentdb.DatabaseAccountCreateUpdateProperties'' ([
        (''ConsistencyPolicy'', Obj ''mgmtdocumentdb.ConsistencyPolicy'' [(''DefaultConsistencyLevel'', Str ''Strong'')]),
        (''Locations'', Arr [
          Obj ''mgmtdocumentdb.Location'' [(''LocationName'', Str ''[resourceGroup().location]'')]]),
        (''DatabaseAccountOfferType'', Str ''Standard'')] @
     (if production then [
          (''IPRangeFilter'', Str (''[concat('104.42.195.92,40.76.54.131,52.176.6.30,52.169.50.45,52.187.184.26', if(equals(parameters('extraCosmosDBIPs'), '' @ sq @ sq @ ''), '' @ sq @ sq @ '', ','), parameters('extraCosmosDBIPs'))]'')),
          (''IsVirtualNetworkFilterEnabled'', Bool True),
          (''VirtualNetworkRules'', Arr [
            Obj ''mgmtdocumentdb.VirtualNetworkRule'' [
              (''ID'', Str (''[resourceId('Microsoft.Network/virtualNetworks/subnets', 'rp-vnet', 'rp-subnet')]''))]]),
          (''DisableKeyBasedMetadataWriteAccess'', Bool True)] else []))),
      (''Name'', Str (''[parameters('databaseAccountName')]'')),
      (''Type'', Str ''Microsoft.DocumentDB/databaseAccounts''),
      (''Location'', Str ''[resourceGroup().location]''),
      (''Tags'', Obj ''map'' [(''defaultExperience'', Str ''Core (SQL)'')])])
     (deploy_apiVersions ''documentdb''))\<lparr>ar_DependsOn :=
       (if production then [''[resourceId('Microsoft.Network/virtualNetworks', 'rp-vnet')]''] else [])\<rparr>"

definition database_resource :: "string \<Rightarrow> arm_Resource" where
  "database_resource databaseName =
     (resource (Obj ''mgmtdocumentdb.SQLDatabaseCreateUpdateParameters'' [
      (''SQLDatabaseCreateUpdateProperties'', Obj ''mgmtdocumentdb.SQLDatabaseCreateUpdateProperties'' [
        (''Resource'', Obj ''mgmtdocumentdb.SQLDatabaseResource'' [(''ID'', Str (''['' @ databaseName @ '']''))]),
        (''Options'', Obj ''map'' [(''x-ms-offer-throughput'', Str ''400'')])]),
      (''Name'', Str (''[concat(parameters('databaseAccountName'), '/', '' @ databaseName @ '')]'')),
      (''Type'', Str ''Microsoft.DocumentDB/databaseAccounts/sqlDatabases''),
      (''Location'', Str ''[resourceGroup().location]'')])
     (deploy_apiVersions ''documentdb''))"

definition asyncoperations_container :: "string \<Rightarrow> arm_Resource" where
  "asyncoperations_container databaseName =
     (resource (Obj ''mgmtdocumentdb.SQLContainerCreateUpdateParameters'' [
      (''SQLContainerCreateUpdateProperties'', Obj ''mgmtdocumentdb.SQLContainerCreateUpdateProperties'' [
        (''Resource'', Obj ''mgmtdocumentdb.SQLContainerResource'' [
          (''ID'', Str ''AsyncOperations''),
          (''PartitionKey'', Obj ''mgmtdocumentdb.ContainerPartitionKey'' [(''Paths'', Arr [Str ''/id'']), (''Kind'', Str ''Hash'')]),
          (''DefaultTTL'', Num (7 * 86400))]),
        (''Options'', Obj ''map'' [])]),
      (''Name'', Str (''[concat(parameters('databaseAccountName'), '/', '' @ databaseName @ '', '/AsyncOperations')]'')),
      (''Type'', Str ''Microsoft.DocumentDB/databaseAccounts/sqlDatabases/containers''),
      (''Location'', Str ''[resourceGroup().location]'')])
     (deploy_apiVersions ''documentdb''))\<lparr>ar_DependsOn := [''[resourceId('Microsoft.DocumentDB/databaseAccounts/sqlDatabases', parameters('databaseAccountName'), '' @ databaseName @ '')]'']\<rparr>"

definition openshiftclusters_container :: "string \<Rightarrow> arm_Resource" where
  "openshiftclusters_container databaseName =
     (resource (Obj ''mgmtdocumentdb.SQLContainerCreateUpdateParameters'' [
      (''SQLContainerCreateUpdateProperties'', Obj ''mgmtdocumentdb.SQLContainerCreateUpdateProperties'' [
        (''Resource'', Obj ''mgmtdocumentdb.SQLContainerResource'' [
          (''ID'', Str ''OpenShiftClusters''),
          (''PartitionKey'', Obj ''mgmtdocumentdb.ContainerPartitionKey'' [(''Paths'', Arr [Str ''/partitionKey'']), (''Kind'', Str ''Hash'')]),
          (''UniqueKeyPolicy'', Obj ''mgmtdocumentdb.UniqueKeyPolicy'' [
            (''UniqueKeys'', Arr [
              Obj ''mgmtdocumentdb.UniqueKey'' [(''Paths'', Arr [Str ''/key''])],
              Obj ''mgmtdocumentdb.UniqueKey'' [(''Paths'', Arr [Str ''/clusterResourceGroupIdKey''])]])])]),
        (''Options'', Obj ''map'' [])]),
      (''Name'', Str (''[concat(parameters('databaseAccountName'), '/', '' @ databaseName @ '', '/OpenShiftClusters')]'')),
      (''Type'', Str ''Microsoft.DocumentDB/databaseAccounts/sqlDatabases/containers''),
      (''Location'', Str ''[resourceGroup().location]'')])
     (deploy_apiVersions ''documentdb''))\<lparr>ar_DependsOn := [''[resourceId('Microsoft.DocumentDB/databaseAccounts/sqlDatabases', parameters('databaseAccountName'), '' @ databaseName @ '')]'']\<rparr>"

definition subscriptions_container :: "string \<Rightarrow> arm_Resource" where
  "subscriptions_container databaseName =
     (resource (Obj ''mgmtdocumentdb.SQLContainerCreateUpdateParameters'' [
      (''SQLContainerCreateUpdateProperties'', Obj ''mgmtdocumentdb.SQLContainerCreateUpdateProperties'' [
        (''Resource'', Obj ''mgmtdocumentdb.SQLContainerResource'' [
          (''ID'', Str ''Subscriptions''),
          (''PartitionKey'', Obj ''mgmtdocumentdb.ContainerPartitionKey'' [(''Paths'', Arr [Str ''/id'']), (''Kind'', Str ''Hash'')])]),
        (''Options'', Obj ''map'' [])]),
      (''Name'', Str (''[concat(parameters('databaseAccountName'), '/', '' @ databaseName @ '', '/Subscriptions')]'')),
      (''Type'', Str ''Microsoft.DocumentDB/databaseAccounts/sqlDatabases/containers''),
      (''Location'', Str ''[resourceGroup().location]'')])
     (deploy_apiVersions ''documentdb''))\<lparr>ar_DependsOn := [''[resourceId('Microsoft.DocumentDB/databaseAccounts/sqlDatabases', parameters('databaseAccountName'), '' @ databaseName @ '')]'']\<rparr>"

definition deploy_database :: "string \<Rightarrow> bool \<Rightarrow> arm_Resource list" where
  "deploy_database databaseName addDependsOn =
     (let rs = [database_resource databaseName, asyncoperations_container databaseName, openshiftclusters_container databaseName,
        subscriptions_container databaseName] in
      if addDependsOn
      then map (\<lambda>r. r\<lparr>ar_DependsOn := ar_DependsOn r @ [''[resourceId('Microsoft.DocumentDB/databaseAccounts', parameters('databaseAccountName'))]'']\<rparr>) rs
      else rs)"

definition deploy_cosmosdb :: "bool \<Rightarrow> string \<Rightarrow> arm_Resource list" where
  "deploy_cosmosdb production databaseName =
     deploy_cosmosdb_account production # (if production then deploy_database databaseName True else [])"

definition rp_reader :: arm_Resource where
  "rp_reader =
     (resource (Obj ''mgmtauthorization.RoleAssignment'' [
      (''Name'', Str (''[guid(resourceGroup().id, 'RP / Reader')]'')),
      (''Type'', Str ''Microsoft.Authorization/roleAssignments''),
      (''RoleAssignmentPropertiesWithScope'', Obj ''mgmtauthorization.RoleAssignmentPropertiesWithScope'' [
        (''Scope'', Str ''[resourceGroup().id]''),
        (''RoleDefinitionID'', Str (''[subscriptionResourceId('Microsoft.Authorization/roleDefinitions', 'acdd72a7-3385-48ef-bd42-f606fba81ae7')]'')),
        (''PrincipalID'', Str (''[parameters('rpServicePrincipalId')]'')),
        (''PrincipalType'', Str ''ServicePrincipal'')])])
     (deploy_apiVersions ''authorization''))"

definition fp_network_contributor :: arm_Resource where
  "fp_network_contributor =
     (resource (Obj ''mgmtauthorization.RoleAssignment'' [
      (''Name'', Str (''[guid(resourceGroup().id, 'FP / Network Contributor')]'')),
      (''Type'', Str ''Microsoft.Authorization/roleAssignments''),
      (''RoleAssignmentPropertiesWithScope'', Obj ''mgmtauthorization.RoleAssignmentPropertiesWithScope'' [
        (''Scope'', Str ''[resourceGroup().id]''),
        (''RoleDefinitionID'', Str (''[subscriptionResourceId('Microsoft.Authorization/roleDefinitions', '4d97b98b-1d4f-4787-a291-c67834d212e7')]'')),
        (''PrincipalID'', Str (''[parameters('fpServicePrincipalId')]'')),
        (''PrincipalType'', Str ''ServicePrincipal'')])])
     (deploy_apiVersions ''authorization''))"

definition rp_documentdb_contributor :: arm_Resource where
  "rp_documentdb_contributor =
     (resource (Obj ''mgmtauthorization.RoleAssignment'' [
      (''Name'', Str (''[concat(parameters('databaseAccountName'), '/Microsoft.Authorization/', guid(resourceId('Microsoft.DocumentDB/databaseAccounts', parameters('databaseAccountName')), 'RP / DocumentDB Account Contributor'))]'')),
      (''Type'', Str ''Microsoft.DocumentDB/databaseAccounts/providers/roleAssignments''),
      (''RoleAssignmentPropertiesWithScope'', Obj ''mgmtauthorization.RoleAssignmentPropertiesWithScope'' [
        (''Scope'', Str (''[resourceId('Microsoft.DocumentDB/databaseAccounts', parameters('databaseAccountName'))]'')),
        (''RoleDefinitionID'', Str (''[subscriptionResourceId('Microsoft.Authorization/roleDefinitions', '5bd9cd88-fe45-4216-938b-f97437e15450')]'')),
        (''PrincipalID'', Str (''[parameters('rpServicePrincipalId')]'')),
        (''PrincipalType'', Str ''ServicePrincipal'')])])
     (deploy_apiVersions ''authorization''))\<lparr>ar_DependsOn := [''[resourceId('Microsoft.DocumentDB/databaseAccounts', parameters('databaseAccountName'))]'']\<rparr>"

definition fp_dns_contributor :: arm_Resource where
  "fp_dns_contributor =
     (resource (Obj ''mgmtauthorization.RoleAssignment'' [
      (''Name'', Str (''[concat(parameters('domainName'), '/Microsoft.Authorization/', guid(resourceId('Microsoft.Network/dnsZones', parameters('domainName')), 'FP / DNS Zone Contributor'))]'')),
      (''Type'', Str ''Microsoft.Network/dnsZones/providers/roleAssignments''),
      (''RoleAssignmentPropertiesWithScope'', Obj ''mgmtauthorization.RoleAssignmentPropertiesWithScope'' [
        (''Scope'', Str (''[resourceId('Microsoft.Network/dnsZones', parameters('domainName'))]'')),
        (''RoleDefinitionID'', Str (''[subscriptionResourceId('Microsoft.Authorization/roleDefinitions', 'befefa01-2a29-4197-83a8-272ff33ce314')]'')),
        (''PrincipalID'', Str (''[parameters('fpServicePrincipalId')]'')),
        (''PrincipalType'', Str ''ServicePrincipal'')])])
     (deploy_apiVersions ''authorization''))\<lparr>ar_DependsOn := [''[resourceId('Microsoft.Network/dnsZones', parameters('domainName'))]'']\<rparr>"

definition deploy_rbac :: "arm_Resource list" where
  "deploy_rbac = [rp_reader, fp_network_contributor, rp_documentdb_contributor, fp_dns_contributor]"

definition deploy_nsg :: "bool \<Rightarrow> arm_Resource" where
  "deploy_nsg production =
     resource (Obj ''mgmtnetwork.SecurityGroup'' [
      (''SecurityGroupPropertiesFormat'', Obj ''mgmtnetwork.SecurityGroupPropertiesFormat'' [
        (''SecurityRules'', Arr ([Obj ''mgmtnetwork.SecurityRule'' [
            (''SecurityRulePropertiesFormat'', Obj ''mgmtnetwork.SecurityRulePropertiesFormat'' [
              (''Protocol'', Str ''Tcp''),
              (''SourcePortRange'', Str ''*''),
              (''DestinationPortRange'', Str ''443''),
              (''SourceAddressPrefix'', Str ''*''),
              (''DestinationAddressPrefix'', Str ''*''),
              (''Access'', Str ''Allow''),
              (''Priority'', Num 120),
              (''Direction'', Str ''Inbound'')]),
            (''Name'', Str ''rp_in'')]] @
     (if production then [] else [Obj ''mgmtnetwork.SecurityRule'' [
            (''SecurityRulePropertiesFormat'', Obj ''mgmtnetwork.SecurityRulePropertiesFormat'' [
              (''Protocol'', Str ''Tcp''),
              (''SourcePortRange'', Str ''*''),
              (''DestinationPortRange'', Str ''22''),
              (''SourceAddressPrefix'', Str ''*''),
              (''DestinationAddressPrefix'', Str ''*''),
              (''Access'', Str ''Allow''),
              (''Priority'', Num 100),
              (''Direction'', Str ''Inbound'')]),
            (''Name'', Str ''ssh_in'')]])))]),
      (''Name'', Str ''rp-nsg''),
      (''Type'', Str ''Microsoft.Network/networkSecurityGroups''),
      (''Location'', Str ''[resourceGroup().location]'')])
     (deploy_apiVersions ''network'')"

definition deploy_pe_nsg :: arm_Resource where
  "deploy_pe_nsg =
     (resource (Obj ''mgmtnetwork.SecurityGroup'' [
      (''SecurityGroupPropertiesFormat'', Obj ''mgmtnetwork.SecurityGroupPropertiesFormat'' []),
      (''Name'', Str ''rp-pe-nsg''),
      (''Type'', Str ''Microsoft.Network/networkSecurityGroups''),
      (''Location'', Str ''[resourceGroup().location]'')])
     (deploy_apiVersions ''network''))"

definition deploy_identity :: arm_Resource where
  "deploy_identity =
     (resource (Obj ''mgmtmsi.Identity'' [
      (''Name'', Str ''rp-identity''),
      (''Location'', Str ''[resourceGroup().location]''),
      (''Type'', Str ''Microsoft.ManagedIdentity/userAssignedIdentities'')])
     (deploy_apiVersions ''msi''))"

definition proxy_trailer :: string where
  "proxy_trailer = Join newline [
     ''yum -y update -x WALinuxAgent'',
     [],
     ''yum -y install docker'',
     [],
     ''firewall-cmd --add-port=443/tcp --permanent'',
     [],
     ''mkdir /root/.docker'',
     ''cat >/root/.docker/config.json <<EOF'',
     ''{'',
     [CHR 0x09] @ [CHR 0x22] @ ''auths'' @ [CHR 0x22] @ '': {'',
     [CHR 0x09] @ [CHR 0x09] @ [CHR 0x22] @ ''${PROXYIMAGE%%/*}'' @ [CHR 0x22] @ '': {'',
     [CHR 0x09] @ [CHR 0x09] @ [CHR 0x09] @ [CHR 0x22] @ ''auth'' @ [CHR 0x22] @ '': '' @ [CHR 0x22] @ ''$PROXYIMAGEAUTH'' @ [CHR 0x22],
     [CHR 0x09] @ [CHR 0x09] @ ''}'',
     [CHR 0x09] @ ''}'',
     ''}'',
     ''EOF'',
     [],
     ''mkdir /etc/proxy'',
     ''base64 -d <<<'' @ [CHR 0x22] @ ''$PROXYCERT'' @ [CHR 0x22] @ '' >/etc/proxy/proxy.crt'',
     ''base64 -d <<<'' @ [CHR 0x22] @ ''$PROXYKEY'' @ [CHR 0x22] @ '' >/etc/proxy/proxy.key'',
     ''base64 -d <<<'' @ [CHR 0x22] @ ''$PROXYCLIENTCERT'' @ [CHR 0x22] @ '' >/etc/proxy/proxy-client.crt'',
     ''chown -R 1000:1000 /etc/proxy'',
     ''chmod 0600 /etc/proxy/proxy.key'',
     [],
     ''cat >/etc/sysconfig/proxy <<EOF'',
     ''PROXY_IMAGE='$PROXYIMAGE'' @ sq,
     ''EOF'',
     [],
     ''cat >/etc/systemd/system/proxy.service <<EOF'',
     ''[Unit]'',
     ''After=docker.service'',
     ''Requires=docker.service'',
     [],
     ''[Service]'',
     ''EnvironmentFile=/etc/sysconfig/proxy'',
     ''ExecStartPre=-/usr/bin/docker rm -f %n'',
     ''ExecStartPre=/usr/bin/docker pull '' @ [CHR 0x5C] @ ''$PROXY_IMAGE'',
     ''ExecStart=/usr/bin/docker run --rm --name %n -p 443:8443 -v /etc/proxy:/secrets '' @ [CHR 0x5C] @ ''$PROXY_IMAGE'',
     ''ExecStop=/usr/bin/docker stop %n'',
     ''Restart=always'',
     [],
     ''[Install]'',
     ''WantedBy=multi-user.target'',
     ''EOF'',
     [],
     ''systemctl enable proxy.service'',
     [],
     ''(sleep 30; reboot) &'',
     []]"

definition proxy_script :: string where
  "proxy_script =
     (let parts = [base64ToString (''set -ex'' @ [newline, newline])]
        @ concat (map variable_parts [''proxyImage'', ''proxyImageAuth''])
        @ concat (map (\<lambda>variable. [sq @ ToUpper variable @ ''='' @ sq @ sq @ sq, ''parameters('' @ sq @ variable @ sq @ '')'', sq @ sq @ sq @ [newline] @ sq])
            [''proxyCert'', ''proxyClientCert'', ''proxyKey''])
        @ [sq @ [newline] @ sq, base64ToString proxy_trailer] in
      ''[base64(concat('' @ Join CHR '','' parts @ ''))]'')"

definition proxy_resource :: "string \<Rightarrow> arm_Resource" where
  "proxy_resource script =
     (resource (Obj ''mgmtcompute.VirtualMachineScaleSet'' [
      (''Sku'', Obj ''mgmtcompute.Sku'' [
        (''Name'', Str ''Standard_D2s_v3''),
        (''Tier'', Str ''Standard''),
        (''Capacity'', Num 1)]),
      (''VirtualMachineScaleSetProperties'', Obj ''mgmtcompute.VirtualMachineScaleSetProperties'' [
        (''UpgradePolicy'', Obj ''mgmtcompute.UpgradePolicy'' [(''Mode'', Str ''Manual'')]),
        (''VirtualMachineProfile'', Obj ''mgmtcompute.VirtualMachineScaleSetVMProfile'' [
          (''OsProfile'', Obj ''mgmtcompute.VirtualMachineScaleSetOSProfile'' [
            (''ComputerNamePrefix'', Str ''dev-proxy-''),
            (''AdminUsername'', Str ''cloud-user''),
            (''LinuxConfiguration'', Obj ''mgmtcompute.LinuxConfiguration'' [
              (''DisablePasswordAuthentication'', Bool True),
              (''SSH'', Obj ''mgmtcompute.SSHConfiguration'' [
                (''PublicKeys'', Arr [
                  Obj ''mgmtcompute.SSHPublicKey'' [
                    (''Path'', Str ''/home/cloud-user/.ssh/authorized_keys''),
                    (''KeyData'', Str (''[parameters('sshPublicKey')]''))]])])])]),
          (''StorageProfile'', Obj ''mgmtcompute.VirtualMachineScaleSetStorageProfile'' [
            (''ImageReference'', Obj ''mgmtcompute.ImageReference'' [
              (''Publisher'', Str ''RedHat''),
              (''Offer'', Str ''RHEL''),
              (''Sku'', Str ''7-RAW''),
              (''Version'', Str ''latest'')]),
            (''OsDisk'', Obj ''mgmtcompute.VirtualMachineScaleSetOSDisk'' [
              (''CreateOption'', Str ''FromImage''),
              (''ManagedDisk'', Obj ''mgmtcompute.VirtualMachineScaleSetManagedDiskParameters'' [(''StorageAccountType'', Str ''Premium_LRS'')])])]),
          (''NetworkProfile'', Obj ''mgmtcompute.VirtualMachineScaleSetNetworkProfile'' [
            (''NetworkInterfaceConfigurations'', Arr [
              Obj ''mgmtcompute.VirtualMachineScaleSetNetworkConfiguration'' [
                (''Name'', Str ''dev-proxy-vmss-nic''),
                (''VirtualMachineScaleSetNetworkConfigurationProperties'', Obj ''mgmtcompute.VirtualMachineScaleSetNetworkConfigurationProperties'' [
                  (''Primary'', Bool True),
                  (''IPConfigurations'', Arr [
                    Obj ''mgmtcompute.VirtualMachineScaleSetIPConfiguration'' [
                      (''Name'', Str ''dev-proxy-vmss-ipconfig''),
                      (''VirtualMachineScaleSetIPConfigurationProperties'', Obj ''mgmtcompute.VirtualMachineScaleSetIPConfigurationProperties'' [
                        (''Subnet'', Obj ''mgmtcompute.APIEntityReference'' [
                          (''ID'', Str (''[resourceId('Microsoft.Network/virtualNetworks/subnets', 'rp-vnet', 'rp-subnet')]''))]),
                        (''Primary'', Bool True),
                        (''PublicIPAddressConfiguration'', Obj ''mgmtcompute.VirtualMachineScaleSetPublicIPAddressConfiguration'' [
                          (''Name'', Str ''dev-proxy-vmss-pip''),
                          (''VirtualMachineScaleSetPublicIPAddressConfigurationProperties'', Obj ''mgmtcompute.VirtualMachineScaleSetPublicIPAddressConfigurationProperties'' [
                            (''DNSSettings'', Obj ''mgmtcompute.VirtualMachineScaleSetPublicIPAddressConfigurationDNSSettings'' [
                              (''DomainNameLabel'', Str (''[parameters('proxyDomainNameLabel')]''))])])])])]])])]])]),
          (''ExtensionProfile'', Obj ''mgmtcompute.VirtualMachineScaleSetExtensionProfile'' [
            (''Extensions'', Arr [
              Obj ''mgmtcompute.VirtualMachineScaleSetExtension'' [
                (''Name'', Str ''dev-proxy-vmss-cse''),
                (''VirtualMachineScaleSetExtensionProperties'', Obj ''mgmtcompute.VirtualMachineScaleSetExtensionProperties'' [
                  (''Publisher'', Str ''Microsoft.Azure.Extensions''),
                  (''Type'', Str ''CustomScript''),
                  (''TypeHandlerVersion'', Str ''2.0''),
                  (''AutoUpgradeMinorVersion'', Bool True),
                  (''Settings'', Obj ''map'' []),
                  (''ProtectedSettings'', Obj ''map'' [(''script'', Str script)])])]])])]),
        (''Overprovision'', Bool False)]),
      (''Name'', Str ''dev-proxy-vmss''),
      (''Type'', Str ''Microsoft.Compute/virtualMachineScaleSets''),
      (''Location'', Str ''[resourceGroup().location]'')])
     (deploy_apiVersions ''compute''))"

definition proxyVmss :: arm_Resource where
  "proxyVmss = proxy_resource proxy_script"

definition dev_vpn_pip :: arm_Resource where
  "dev_vpn_pip =
     (resource (Obj ''mgmtnetwork.PublicIPAddress'' [
      (''Sku'', Obj ''mgmtnetwork.PublicIPAddressSku'' [(''Name'', Str (''[parameters('publicIPAddressSkuName')]''))]),
      (''PublicIPAddressPropertiesFormat'', Obj ''mgmtnetwork.PublicIPAddressPropertiesFormat'' [
        (''PublicIPAllocationMethod'', Str (''[parameters('publicIPAddressAllocationMethod')]''))]),
      (''Name'', Str ''dev-vpn-pip''),
      (''Type'', Str ''Microsoft.Network/publicIPAddresses''),
      (''Location'', Str ''[resourceGroup().location]'')])
     (deploy_apiVersions ''network''))"

definition dev_vnet :: arm_Resource where
  "dev_vnet =
     (resource (Obj ''mgmtnetwork.VirtualNetwork'' [
      (''VirtualNetworkPropertiesFormat'', Obj ''mgmtnetwork.VirtualNetworkPropertiesFormat'' [
        (''AddressSpace'', Obj ''mgmtnetwork.AddressSpace'' [(''AddressPrefixes'', Arr [Str ''10.0.0.0/9''])]),
        (''Subnets'', Arr [
          Obj ''mgmtnetwork.Subnet'' [
            (''SubnetPropertiesFormat'', Obj ''mgmtnetwork.SubnetPropertiesFormat'' [(''AddressPrefix'', Str ''10.0.0.0/24'')]),
            (''Name'', Str ''GatewaySubnet'')]])]),
      (''Name'', Str ''dev-vnet''),
      (''Type'', Str ''Microsoft.Network/virtualNetworks''),
      (''Location'', Str ''[resourceGroup().location]'')])
     (deploy_apiVersions ''network''))"

definition dev_vpn :: arm_Resource where
  "dev_vpn =
     (resource (Obj ''mgmtnetwork.VirtualNetworkGateway'' [
      (''VirtualNetworkGatewayPropertiesFormat'', Obj ''mgmtnetwork.VirtualNetworkGatewayPropertiesFormat'' [
        (''IPConfigurations'', Arr [
          Obj ''mgmtnetwork.VirtualNetworkGatewayIPConfiguration'' [
            (''VirtualNetworkGatewayIPConfigurationPropertiesFormat'', Obj ''mgmtnetwork.VirtualNetworkGatewayIPConfigurationPropertiesFormat'' [
              (''Subnet'', Obj ''mgmtnetwork.SubResource'' [
                (''ID'', Str (''[resourceId('Microsoft.Network/virtualNetworks/subnets', 'dev-vnet', 'GatewaySubnet')]''))]),
              (''PublicIPAddress'', Obj ''mgmtnetwork.SubResource'' [
                (''ID'', Str (''[resourceId('Microsoft.Network/publicIPAddresses', 'dev-vpn-pip')]''))])]),
            (''Name'', Str ''default'')]]),
        (''VpnType'', Str ''RouteBased''),
        (''Sku'', Obj ''mgmtnetwork.VirtualNetworkGatewaySku'' [(''Name'', Str ''VpnGw1''), (''Tier'', Str ''VpnGw1'')]),
        (''VpnClientConfiguration'', Obj ''mgmtnetwork.VpnClientConfiguration'' [
          (''VpnClientAddressPool'', Obj ''mgmtnetwork.AddressSpace'' [(''AddressPrefixes'', Arr [Str ''192.168.255.0/24''])]),
          (''VpnClientRootCertificates'', Arr [
            Obj ''mgmtnetwork.VpnClientRootCertificate'' [
              (''VpnClientRootCertificatePropertiesFormat'', Obj ''mgmtnetwork.VpnClientRootCertificatePropertiesFormat'' [(''PublicCertData'', Str (''[parameters('vpnCACertificate')]''))]),
              (''Name'', Str ''dev-vpn-ca'')]]),
          (''VpnClientProtocols'', Arr [Str ''OpenVPN''])])]),
      (''Name'', Str ''dev-vpn''),
      (''Type'', Str ''Microsoft.Network/virtualNetworkGateways''),
      (''Location'', Str ''[resourceGroup().location]'')])
     (deploy_apiVersions ''network''))\<lparr>ar_DependsOn := [''[resourceId('Microsoft.Network/publicIPAddresses', 'dev-vpn-pip')]'', ''[resourceId('Microsoft.Network/virtualNetworks', 'dev-vnet')]'']\<rparr>"

section \<open>The templates\<close>

definition param_type :: "string \<Rightarrow> string" where
  "param_type param = (if param \<in> {''mdmPrivateKey'', ''pullSecret'', ''rpImageAuth''} then ''securestring'' else ''string'')"

definition deploy_params :: "bool \<Rightarrow> string list" where
  "deploy_params production =
     [''databaseAccountName'', ''domainName'', ''fpServicePrincipalId'', ''keyvaultName'', ''rpServicePrincipalId'']
     @ (if production
        then [''mdmCertificate'', ''mdmFrontendUrl'', ''mdmMetricNamespace'', ''mdmMonitoringAccount'', ''mdmPrivateKey'', ''pullSecret'',
              ''rpImage'', ''rpImageAuth'', ''sshPublicKey'', ''vmssDomainNameLabel'']
        else [''adminObjectId''])"

definition deploy_template :: "bool \<Rightarrow> Template" where
  "deploy_template production =
     (template_of
       ((if production then [deploy_pip, deploy_lb, deploy_vmss] else [])
        @ [deploy_zone, deploy_vault production, deploy_vnet production]
        @ deploy_cosmosdb production (if production then sq @ ''ARO'' @ sq else ''parameters('' @ sq @ ''databaseName'' @ sq @ '')'')
        @ deploy_rbac))
     \<lparr>t_Variables := (if production then [(''keyvaultAccessPolicies'', Arr [accessPolicyEntry])] else []),
      t_Parameters := map (\<lambda>p. (p, zero_TemplateParameter\<lparr>tp_Type := param_type p\<rparr>)) (deploy_params production)
        @ (if production
           then [(''extraCosmosDBIPs'', zero_TemplateParameter\<lparr>tp_Type := ''string'', tp_DefaultValue := Str []\<rparr>),
                 (''extraKeyvaultAccessPolicies'', zero_TemplateParameter\<lparr>tp_Type := ''array'', tp_DefaultValue := Arr []\<rparr>)]
           else [])\<rparr>"

definition databases_template :: Template where
  "databases_template =
     (template_of (deploy_database (''parameters('' @ sq @ ''databaseName'' @ sq @ '')'') False))
     \<lparr>t_Parameters := map (\<lambda>p. (p, zero_TemplateParameter\<lparr>tp_Type := ''string''\<rparr>)) [''databaseAccountName'', ''databaseName'']\<rparr>"

definition nsg_template :: "bool \<Rightarrow> Template" where
  "nsg_template production =
     (template_of ([deploy_nsg production, deploy_pe_nsg] @ (if production then [deploy_identity] else [])))
     \<lparr>t_Outputs := (if production
        then [(''rpServicePrincipalId'', \<lparr>ou_Condition = False, ou_Type = ''string'',
                ou_Value = Str (''[reference(resourceId('' @ sq @ ''Microsoft.ManagedIdentity/userAssignedIdentities'' @ sq @ '', '' @ sq
                  @ ''rp-identity'' @ sq @ ''), '' @ sq @ ''2018-11-30'' @ sq @ '').principalId]'')\<rparr>)]
        else [])\<rparr>"

definition development_param :: "string \<Rightarrow> TemplateParameter" where
  "development_param param =
     zero_TemplateParameter\<lparr>
       tp_Type := (if param \<in> {''proxyImageAuth'', ''proxyKey''} then ''securestring'' else ''string''),
       tp_DefaultValue := (if param = ''publicIPAddressAllocationMethod'' then Str ''Static''
                           else if param = ''publicIPAddressSkuName'' then Str ''Standard'' else Nil)\<rparr>"

definition development_params :: "string list" where
  "development_params =
     [''proxyCert'', ''proxyClientCert'', ''proxyDomainNameLabel'', ''proxyImage'', ''proxyImageAuth'', ''proxyKey'',
      ''publicIPAddressAllocationMethod'', ''publicIPAddressSkuName'', ''sshPublicKey'', ''vpnCACertificate'']"

definition development_template :: Template where
  "development_template =
     (template_of [dev_vpn_pip, dev_vnet, dev_vpn, proxyVmss])
     \<lparr>t_Parameters := map (\<lambda>p. (p, development_param p)) development_params\<rparr>"

definition parameters_template :: Parameters where
  "parameters_template = \<lparr>pa_Schema = ''https://schema.management.azure.com/schemas/2015-01-01/deploymentParameters.json#'',
     pa_ContentVersion = ''1.0.0.0'',
     pa_Parameters = map (\<lambda>(name, tp). (name, \<lparr>pp_Ref = [],
       pp_Value = (if tp_DefaultValue tp = Nil then Str [] else tp_DefaultValue tp), pp_Metadata = []\<rparr>))
       (t_Parameters (deploy_template True))\<rparr>"

section \<open>The files\<close>

text \<open>\<open>marshal\<close> is \<^verbatim>\<open>json.MarshalIndent\<close> and \<open>write\<close> is \<^verbatim>\<open>ioutil.WriteFile\<close>.\<close>

definition hack_policies :: "string \<Rightarrow> string" where
  "hack_policies b =
     (let dq = [CHR 0x22]; b = ReplaceAll b tenantIDHack ''[subscription().tenantId]'' in
      ReplaceAll b (dq @ ''accessPolicies'' @ dq @ '': []'')
        (dq @ ''accessPolicies'' @ dq @ '': '' @ dq @ ''[concat(variables('' @ sq @ ''keyvaultAccessPolicies'' @ sq @ ''), parameters('' @ sq
          @ ''extraKeyvaultAccessPolicies'' @ sq @ ''))]'' @ dq))"

definition write_json :: "('t \<Rightarrow> string result) \<Rightarrow> (string \<Rightarrow> string \<Rightarrow> ('w, unit) go) \<Rightarrow> (string \<Rightarrow> string) \<Rightarrow> string \<Rightarrow> 't \<Rightarrow> ('w, unit) go" where
  "write_json marshal write' hack file t = gbind (glift (marshal t)) (\<lambda>b. write' file (hack b @ [newline]))"

definition GenerateRPTemplates :: "(Template \<Rightarrow> string result) \<Rightarrow> (string \<Rightarrow> string \<Rightarrow> ('w, unit) go) \<Rightarrow> ('w, unit) go" where
  "GenerateRPTemplates marshal write' =
     gbind (write_json marshal write' hack_policies ''rp-development.json'' (deploy_template False)) (\<lambda>_.
     gbind (write_json marshal write' hack_policies ''rp-production.json'' (deploy_template True)) (\<lambda>_.
     write_json marshal write' id ''databases-development.json'' databases_template))"

definition GenerateRPParameterTemplate :: "(Parameters \<Rightarrow> string result) \<Rightarrow> (string \<Rightarrow> string \<Rightarrow> ('w, unit) go) \<Rightarrow> ('w, unit) go" where
  "GenerateRPParameterTemplate marshal write' = write_json marshal write' id ''rp-production-parameters.json'' parameters_template"

definition GenerateNSGTemplates :: "(Template \<Rightarrow> string result) \<Rightarrow> (string \<Rightarrow> string \<Rightarrow> ('w, unit) go) \<Rightarrow> ('w, unit) go" where
  "GenerateNSGTemplates marshal write' =
     gbind (write_json marshal write' id ''rp-development-nsg.json'' (nsg_template False)) (\<lambda>_.
     write_json marshal write' id ''rp-production-nsg.json'' (nsg_template True))"

definition GenerateDevelopmentTemplate :: "(Template \<Rightarrow> string result) \<Rightarrow> (string \<Rightarrow> string \<Rightarrow> ('w, unit) go) \<Rightarrow> ('w, unit) go" where
  "GenerateDevelopmentTemplate marshal write' = write_json marshal write' id ''env-development.json'' development_template"

end
