(* ===== verification/DeploySpec.thy ===== *)
theory DeploySpec
  imports Deploy
begin

text \<open>
  The templates of \<open>Deploy\<close> are complete: they declare the parameters they use, their resources can be deployed in an order that respects
  their dependencies, and they refer only to resources that they or the templates deployed before them contain. The start-up scripts of the
  two scale sets are long base64 texts; that no expression hides in them is shown for every text, the rest by evaluation.
\<close>

section \<open>Scripts\<close>

lemma base64_char_plain: "n < 64 \<Longrightarrow> base64_char n \<in> set ''ABCDEFGHIJKLMNOPQRSTUVWXYZabcdefghijklmnopqrstuvwxyz0123456789+/''"
  unfolding base64_char_def by (intro nth_mem) simp

lemma base64_no_paren: "CHR ''('' \<notin> set (base64_Encode s)"
proof -
  have ne: "base64_char n \<noteq> CHR ''(''" if "n < 64" for n
    using base64_char_plain [OF that] by auto
  have lt: "(of_char c :: nat) < 256" for c :: char by (rule nat_of_char_less_256) 
  show ?thesis
  proof (induction s rule: base64_Encode.induct)
    case (2 x)
    have "of_char x div 4 < (64::nat)" using lt [of x] by linarith
    then show ?case using ne [of "of_char x div 4"] ne [of "of_char x mod 4 * 16"] by (simp add: Let_def)
  next
    case (3 x y)
    have "of_char x div 4 < (64::nat)" "of_char x mod 4 * 16 + of_char y div 16 < (64::nat)" using lt [of x] lt [of y] by linarith+
    then show ?case using ne [of "of_char x div 4"] ne [of "of_char x mod 4 * 16 + of_char y div 16"] ne [of "of_char y mod 16 * 4"]
      by (simp add: Let_def)
  next
    case (4 x y z s)
    have "of_char x div 4 < (64::nat)" "of_char x mod 4 * 16 + of_char y div 16 < (64::nat)" "of_char y mod 16 * 4 + of_char z div 64 < (64::nat)"
      using lt [of x] lt [of y] lt [of z] by linarith+
    then show ?case using 4 ne [of "of_char x div 4"] ne [of "of_char x mod 4 * 16 + of_char y div 16"]
        ne [of "of_char y mod 16 * 4 + of_char z div 64"] ne [of "of_char z mod 64"] by (simp add: Let_def)
  qed simp
qed

declare base64_Encode.simps [simp del]

text \<open>No occurrence of a pattern begins in the text before and ends in a text that breaks it.\<close>

definition breaks :: "string \<Rightarrow> string \<Rightarrow> bool" where
  "breaks p t \<longleftrightarrow> list_all (\<lambda>n. \<not> HasPrefix t (drop n p)) [1..<length p]"

lemma HasPrefix_append_breaks:
  assumes "breaks p t" and "a \<noteq> []"
  shows "HasPrefix (a @ t) p \<longleftrightarrow> HasPrefix a p"
proof
  assume "HasPrefix (a @ t) p"
  then obtain r where r: "a @ t = p @ r" by (auto simp: HasPrefix_split)
  show "HasPrefix a p"
  proof (cases "length p \<le> length a")
    case True
    with r have "a = p @ drop (length p) a" by (metis append_eq_append_conv_if append_take_drop_id)
    then show ?thesis by (auto simp: HasPrefix_split)
  next
    case False
    with r have "p = a @ drop (length a) p" "t = drop (length a) p @ r"
      by (simp_all add: append_eq_append_conv_if) (metis append_take_drop_id)+
    then have "HasPrefix t (drop (length a) p)" using HasPrefix_split by blast
    moreover have "length a \<in> {1..<length p}" using False assms(2) by (cases a) auto
    ultimately show ?thesis using assms(1) by (auto simp: breaks_def list_all_iff)
  qed
qed (auto simp: HasPrefix_split)

lemma after_each_append:
  assumes "breaks p t" and "p \<noteq> []"
  shows "after_each p (a @ t) = map (\<lambda>x. x @ t) (after_each p a) @ after_each p t"
proof (induction a)
  case (Cons x a)
  have "HasPrefix ((x # a) @ t) p \<longleftrightarrow> HasPrefix (x # a) p" using HasPrefix_append_breaks [OF assms(1)] by blast
  moreover have "drop (length p) ((x # a) @ t) = drop (length p) (x # a) @ t" if "HasPrefix (x # a) p"
  proof -
    from that obtain r where r: "x # a = p @ r" by (auto simp: HasPrefix_split)
    then have "(x # a) @ t = p @ r @ t" by (metis append.assoc)
    with r show ?thesis by simp
  qed
  ultimately show ?case using Cons by simp
qed simp

text \<open>A name in quotes from a list of names.\<close>

definition quoted_name :: "string list \<Rightarrow> string \<Rightarrow> bool" where
  "quoted_name names x \<longleftrightarrow> CHR 0x27 \<in> set x \<and> unquoted x \<in> set names"

lemma quoted_name_append: "quoted_name names x \<Longrightarrow> quoted_name names (x @ y)"
  by (auto simp: quoted_name_def unquoted_def)

lemma names_Join:
  assumes "\<And>t. breaks p (c # t)" and "p \<noteq> []" and "\<And>t. \<not> HasPrefix (c # t) p"
    and "list_all (\<lambda>a. list_all (quoted_name names) (after_each p a)) parts"
  shows "list_all (quoted_name names) (after_each p (Join c parts))"
  using assms(4)
proof (induction parts rule: induct_list012)
  case (3 x y xs)
  then have "list_all (quoted_name names) (after_each p (c # Join c (y # xs)))" "list_all (quoted_name names) (after_each p x)"
    using assms(3) by simp_all
  then show ?case
    using after_each_append [OF assms(1, 2), of x "Join c (y # xs)"]
    by (auto simp: list_all_iff intro: quoted_name_append)
qed auto

lemma vmss_strings:
  assumes "P []" "P script" "list_all P (resource_strings (vmss_resource []))"
  shows "list_all P (resource_strings (vmss_resource script))"
  using assms
  by (simp add: resource_strings_def vmss_resource_def resource_def arm_MarshalJSON_def combine_def outer_fields_def deploy_apiVersions_def Let_def)



lemma breaks_comma: "breaks parameter_call (CHR '','' # t)" "breaks reference_call (CHR '','' # t)"
  by (simp_all add: breaks_def parameter_call_def reference_call_def upt_rec)

lemma breaks_end: "breaks parameter_call ''))]''" "breaks reference_call ''))]''"
  by (simp_all add: breaks_def parameter_call_def reference_call_def upt_rec)

lemma base64_silent [simp]:
  "after_each parameter_call (base64ToString s) = []" "after_each reference_call (base64ToString s) = []"
  using after_each_skip [of "CHR ''(''" "base64_Encode s" "CHR 0x27" "''parameters''" sq "'')''"]
    after_each_skip [of "CHR ''(''" "base64_Encode s" "CHR 0x27" "''resourceId''" sq "'')''"] base64_no_paren [of s]
  by (simp_all add: base64ToString_def parameter_call_def reference_call_def)

lemma newline_silent [simp]:
  "after_each parameter_call (CHR 0x27 # newline # sq) = []" "after_each reference_call (CHR 0x27 # newline # sq) = []"
  by (simp_all add: parameter_call_def reference_call_def)

lemma script_names:
  assumes "p \<in> {parameter_call, reference_call}"
    and "list_all (\<lambda>a. list_all (quoted_name names) (after_each p a)) parts"
  shows "list_all (quoted_name names) (after_each p (''[base64(concat('' @ Join CHR '','' parts @ ''))]''))"
proof -
  have p: "\<And>t. breaks p (CHR '','' # t)" "p \<noteq> []" "\<And>t. \<not> HasPrefix (CHR '','' # t) p" "breaks p ''))]''"
    using assms(1) breaks_comma breaks_end by (auto simp: parameter_call_def reference_call_def)
  have "list_all (quoted_name names) (after_each p (Join CHR '','' parts))"
    by (rule names_Join [OF p(1-3) assms(2)])
  moreover have "after_each p ''))]'' = []" using assms(1) by (auto simp: parameter_call_def reference_call_def)
  ultimately have "list_all (quoted_name names) (after_each p (Join CHR '','' parts @ ''))]''))"
    using after_each_append [OF p(4, 2)] by (auto simp: list_all_iff intro: quoted_name_append)
  moreover have "after_each p (''[base64(concat('' @ Join CHR '','' parts @ ''))]'') = after_each p (Join CHR '','' parts @ ''))]'')"
    using assms(1) by (auto simp: parameter_call_def reference_call_def)
  ultimately show ?thesis by simp
qed

lemma vmss_script_parameters: "list_all (quoted_name (deploy_params True)) (after_each parameter_call vmss_script)"
proof -
  have "list_all (\<lambda>v. list_all (\<lambda>a. list_all (quoted_name (deploy_params True)) (after_each parameter_call a)) (variable_parts v))
      [''mdmCertificate'', ''mdmFrontendUrl'', ''mdmMetricNamespace'', ''mdmMonitoringAccount'', ''mdmPrivateKey'', ''pullSecret'', ''rpImage'',
       ''rpImageAuth'']"
    by code_simp
  then show ?thesis
    unfolding vmss_script_def Let_def by (intro script_names) (simp_all del: after_each.simps)
qed

lemma vmss_script_references: "after_each reference_call vmss_script = []"
proof -
  have "list_all (\<lambda>v. list_all (\<lambda>a. list_all (quoted_name []) (after_each reference_call a)) (variable_parts v))
      [''mdmCertificate'', ''mdmFrontendUrl'', ''mdmMetricNamespace'', ''mdmMonitoringAccount'', ''mdmPrivateKey'', ''pullSecret'', ''rpImage'',
       ''rpImageAuth'']"
    by code_simp
  then have "list_all (quoted_name []) (after_each reference_call vmss_script)"
    unfolding vmss_script_def Let_def by (intro script_names) (simp_all del: after_each.simps)
  then show ?thesis by (simp add: list_all_iff quoted_name_def)
qed

lemma proxy_script_parameters:
  "list_all (quoted_name development_params) (after_each parameter_call proxy_script)"
proof -
  let ?P = "\<lambda>a. list_all (quoted_name development_params) (after_each parameter_call a)"
  have "list_all (\<lambda>v. list_all ?P (variable_parts v)) [''proxyImage'', ''proxyImageAuth'']"
    by code_simp
  moreover have "list_all (\<lambda>v. list_all ?P [sq @ ToUpper v @ ''='' @ sq @ sq @ sq, ''parameters('' @ sq @ v @ sq @ '')'', sq @ sq @ sq @ [newline] @ sq])
      [''proxyCert'', ''proxyClientCert'', ''proxyKey'']"
    by code_simp
  ultimately show ?thesis
    unfolding proxy_script_def Let_def by (intro script_names) (simp_all del: after_each.simps)
qed
lemma proxy_script_references: "after_each reference_call proxy_script = []"
proof -
  let ?P = "\<lambda>a. list_all (quoted_name []) (after_each reference_call a)"
  have "list_all (\<lambda>v. list_all ?P (variable_parts v)) [''proxyImage'', ''proxyImageAuth'']"
    "list_all (\<lambda>v. list_all ?P [sq @ ToUpper v @ ''='' @ sq @ sq @ sq, ''parameters('' @ sq @ v @ sq @ '')'', sq @ sq @ sq @ [newline] @ sq])
      [''proxyCert'', ''proxyClientCert'', ''proxyKey'']"
    by code_simp+
  then have "list_all (quoted_name []) (after_each reference_call proxy_script)"
    unfolding proxy_script_def Let_def by (intro script_names) (simp_all del: after_each.simps)
  then show ?thesis by (simp add: list_all_iff quoted_name_def)
qed

lemma proxy_strings:
  assumes "P []" "P script" "list_all P (resource_strings (proxy_resource []))"
  shows "list_all P (resource_strings (proxy_resource script))"
  using assms
  by (simp add: resource_strings_def proxy_resource_def resource_def arm_MarshalJSON_def combine_def outer_fields_def deploy_apiVersions_def Let_def)

lemma names_of_quoted: "list_all (quoted_name names) xs \<Longrightarrow> list_all (\<lambda>x. unquoted x \<in> set (names @ others)) xs"
  by (auto simp: list_all_iff quoted_name_def)

definition production_names :: "string list" where
  "production_names = deploy_params True @ [''extraCosmosDBIPs'', ''extraKeyvaultAccessPolicies'']"

lemma production_parameters: "parameters_declared (deploy_template True)"
proof -
  let ?F = "\<lambda>r. follows parameter_call (\<lambda>x. unquoted x \<in> set production_names) (resource_strings r)"
  have names: "map fst (t_Parameters (deploy_template True)) = production_names"
    by (simp add: deploy_template_def production_names_def o_def)
  have "list_all (\<lambda>x. unquoted x \<in> set production_names) (after_each parameter_call vmss_script)"
    unfolding production_names_def by (rule names_of_quoted [OF vmss_script_parameters])
  then have "?F deploy_vmss" unfolding deploy_vmss_def follows_def
    by (rule vmss_strings [rotated]) code_simp+
  moreover have "list_all ?F ([deploy_pip, deploy_lb] @ [deploy_zone, deploy_vault True, deploy_vnet True] @ deploy_cosmosdb True (sq @ ''ARO'' @ sq) @ deploy_rbac)"
    by code_simp
  ultimately show ?thesis
    unfolding parameters_declared_def names Let_def by (simp add: deploy_template_def template_of_def)
qed

lemma development_parameters: "parameters_declared (deploy_template False)" "parameters_declared databases_template"
  by code_simp+

lemma environment_parameters: "parameters_declared development_template"
proof -
  let ?F = "\<lambda>r. follows parameter_call (\<lambda>x. unquoted x \<in> set development_params) (resource_strings r)"
  have names: "map fst (t_Parameters development_template) = development_params"
    by (simp add: development_template_def o_def)
  have "list_all (\<lambda>x. unquoted x \<in> set development_params) (after_each parameter_call proxy_script)"
    using names_of_quoted [OF proxy_script_parameters, of "[]"] by simp
  then have "?F proxyVmss" unfolding proxyVmss_def follows_def
    by (rule proxy_strings [rotated]) code_simp+
  moreover have "list_all ?F [dev_vpn_pip, dev_vnet, dev_vpn]" by code_simp
  ultimately show ?thesis
    unfolding parameters_declared_def names Let_def by (simp add: development_template_def template_of_def)
qed

lemma field_vmss: "ar_field ''Name'' (vmss_resource script) = ''rp-vmss''" "ar_field ''Type'' (vmss_resource script) = ''Microsoft.Compute/virtualMachineScaleSets''"
  by (simp_all add: ar_field_def vmss_resource_def resource_def arm_MarshalJSON_def combine_def outer_fields_def deploy_apiVersions_def Let_def)

lemma field_proxy: "ar_field ''Name'' (proxy_resource script) = ''dev-proxy-vmss''" "ar_field ''Type'' (proxy_resource script) = ''Microsoft.Compute/virtualMachineScaleSets''"
  by (simp_all add: ar_field_def proxy_resource_def resource_def arm_MarshalJSON_def combine_def outer_fields_def deploy_apiVersions_def Let_def)

definition shared_roots :: "(string \<times> string) list" where
  "shared_roots = [(''Microsoft.Network/networkSecurityGroups'', sq @ ''rp-nsg''), (''Microsoft.Network/networkSecurityGroups'', sq @ ''rp-pe-nsg''),
     (''Microsoft.DocumentDB/databaseAccounts'', ''parameters('' @ sq @ ''databaseAccountName'' @ sq),
     (''Microsoft.Network/dnsZones'', ''parameters('' @ sq @ ''domainName'' @ sq)]"

definition production_roots :: "(string \<times> string) list" where
  "production_roots = shared_roots @ [(''Microsoft.Network/publicIPAddresses'', sq @ ''rp-pip''), (''Microsoft.Network/loadBalancers'', sq @ ''rp-lb''),
     (''Microsoft.Network/virtualNetworks'', sq @ ''rp-vnet''), (''Microsoft.ManagedIdentity/userAssignedIdentities'', sq @ ''rp-identity'')]"

abbreviation refers_to :: "(string \<times> string) list \<Rightarrow> arm_Resource \<Rightarrow> bool" where
  "refers_to roots r \<equiv> follows reference_call (\<lambda>x. root_of_reference x \<in> set roots) (resource_strings r)"

abbreviation production_rest :: "arm_Resource list" where
  "production_rest \<equiv> [deploy_zone, deploy_vault True, deploy_vnet True] @ deploy_cosmosdb True (sq @ ''ARO'' @ sq) @ deploy_rbac"

lemma production_references: "references_closed [nsg_template True] (deploy_template True)"
proof (rule references_closedI [of production_roots])
  have "list_all (refers_to production_roots) ([deploy_pip, deploy_lb] @ production_rest)"
    by code_simp
  moreover have "refers_to production_roots deploy_vmss"
    unfolding deploy_vmss_def follows_def
    by (rule vmss_strings) (simp, simp add: vmss_script_references, code_simp)
  ultimately show "list_all (refers_to production_roots) (t_Resources (deploy_template True))"
    by (simp add: deploy_template_def template_of_def)
  have "set production_roots \<subseteq> set (map root_of_resource ([deploy_pip, deploy_lb] @ production_rest @ t_Resources (nsg_template True)))"
    by code_simp
  then show "set production_roots \<subseteq> set (concat (map (\<lambda>t. map root_of_resource (t_Resources t)) [deploy_template True, nsg_template True]))"
    by (rule subset_trans) (auto simp: deploy_template_def template_of_def)
qed

lemma development_references:
  "references_closed [nsg_template False] (deploy_template False)" "references_closed [deploy_template False] databases_template"
  by code_simp+

lemma environment_references: "references_closed [deploy_template False] development_template"
proof -
  let ?roots = "[(''Microsoft.Network/publicIPAddresses'', sq @ ''dev-vpn-pip''), (''Microsoft.Network/virtualNetworks'', sq @ ''dev-vnet''),
    (''Microsoft.Network/virtualNetworks'', sq @ ''rp-vnet'')]"
  have "list_all (refers_to ?roots) [dev_vpn_pip, dev_vnet, dev_vpn]" by code_simp
  moreover have "refers_to ?roots proxyVmss"
    unfolding proxyVmss_def follows_def
    by (rule proxy_strings) (simp, simp add: proxy_script_references, code_simp)
  ultimately have "list_all (refers_to ?roots) (t_Resources development_template)"
    by (simp add: development_template_def template_of_def)
  moreover have "set ?roots \<subseteq> set (map root_of_resource [dev_vpn_pip, dev_vnet, dev_vpn, deploy_vnet False])"
    by code_simp
  then have "set ?roots \<subseteq> set (concat (map (\<lambda>t. map root_of_resource (t_Resources t)) [development_template, deploy_template False]))"
    by (rule subset_trans) (auto simp: development_template_def deploy_template_def template_of_def)
  ultimately show ?thesis by (rule references_closedI)
qed

lemma id_vmss: "arm_id deploy_vmss = ''Microsoft.Compute/virtualMachineScaleSets/rp-vmss''"
  "arm_id proxyVmss = ''Microsoft.Compute/virtualMachineScaleSets/dev-proxy-vmss''"
  by (simp_all add: arm_id_def deploy_vmss_def proxyVmss_def field_vmss field_proxy concat_prefix_def Let_def)

lemma depends_vmss: "ar_DependsOn deploy_vmss = [arm_reference (deploy_vnet True), arm_reference deploy_lb]" "ar_DependsOn proxyVmss = []"
proof -
  have "arm_reference (deploy_vnet True) = ''[resourceId('Microsoft.Network/virtualNetworks', 'rp-vnet')]''"
    "arm_reference deploy_lb = ''[resourceId('Microsoft.Network/loadBalancers', 'rp-lb')]''" by code_simp+
  then show "ar_DependsOn deploy_vmss = [arm_reference (deploy_vnet True), arm_reference deploy_lb]" "ar_DependsOn proxyVmss = []"
    by (simp_all add: deploy_vmss_def proxyVmss_def vmss_resource_def proxy_resource_def resource_def)
qed

lemma production_deployable: "deployable (deploy_template True)"
proof -
  let ?front = "[deploy_pip, deploy_lb, deploy_vnet True]"
  let ?rear = "[deploy_zone, deploy_vault True] @ deploy_cosmosdb True (sq @ ''ARO'' @ sq) @ deploy_rbac"
  let ?ids = "map arm_id ([deploy_pip, deploy_lb] @ production_rest)"
  have "in_order [] (?front @ ?rear)" by code_simp
  then have "in_order [] (?front @ deploy_vmss # ?rear)"
    by (rule in_order_insert) (auto simp: depends_vmss provides_def)
  moreover have "distinct (''Microsoft.Compute/virtualMachineScaleSets/rp-vmss'' # ?ids)" by code_simp
  then have "distinct (map arm_id (t_Resources (deploy_template True)))"
    by (auto simp: deploy_template_def template_of_def id_vmss)
  moreover have "set (?front @ deploy_vmss # ?rear) = set (t_Resources (deploy_template True))"
    "length (?front @ deploy_vmss # ?rear) = length (t_Resources (deploy_template True))"
    by (auto simp: deploy_template_def template_of_def)
  ultimately show ?thesis unfolding deployable_def by blast
qed

lemma deployableI: "in_order [] (t_Resources t) \<Longrightarrow> distinct (map arm_id (t_Resources t)) \<Longrightarrow> deployable t"
  unfolding deployable_def by blast

lemma development_deployable: "deployable (deploy_template False)" "deployable databases_template"
  by (rule deployableI; code_simp)+

lemma environment_deployable: "deployable development_template"
proof (rule deployableI)
  have "in_order [] ([dev_vpn_pip, dev_vnet, dev_vpn] @ [])" by code_simp
  then have "in_order [] ([dev_vpn_pip, dev_vnet, dev_vpn] @ proxyVmss # [])"
    by (rule in_order_insert) (simp add: depends_vmss)
  then show "in_order [] (t_Resources development_template)" by (simp add: development_template_def template_of_def)
  have "distinct (''Microsoft.Compute/virtualMachineScaleSets/dev-proxy-vmss'' # map arm_id [dev_vpn_pip, dev_vnet, dev_vpn])" by code_simp
  then show "distinct (map arm_id (t_Resources development_template))"
    by (auto simp: development_template_def template_of_def id_vmss)
qed


text \<open>
  The templates of a shared development environment, which are deployed after the provider's, are complete in the same sense.
\<close>

lemma development_templates_complete:
  "parameters_declared development_template \<and> deployable development_template
   \<and> references_closed [deploy_template False] development_template
   \<and> parameters_declared databases_template \<and> deployable databases_template \<and> references_closed [deploy_template False] databases_template"
  by (intro conjI environment_parameters environment_deployable environment_references development_parameters development_deployable
      development_references)

lemma parameters_file_complete: "map fst (pa_Parameters parameters_template) = map fst (t_Parameters (deploy_template True))"
  by (simp add: parameters_template_def o_def split_def)

end
