(* ===== verification/Authorizer.thy ===== *)
theory Authorizer
  imports Http
begin

text \<open>
  Who may talk to the provider, \<^verbatim>\<open>src/pkg/util/clientauthorizer\<close>, and where the provider runs, \<^verbatim>\<open>src/pkg/util/instancemetadata\<close>.

  In production a client is authorised by the certificates that Azure Resource Manager publishes; a goroutine refreshes them every hour.
  A time is a number of seconds since the zero \<^verbatim>\<open>time.Time\<close>. The state of a TLS connection is the list of the raw peer certificates, the leaf first, and
  \<open>None\<close> for a connection without TLS. The HTTP client and the JSON decoder are parameters; a decoded pointer is \<open>None\<close> for the document \<^verbatim>\<open>null\<close>.
\<close>

section \<open>Development: all and one\<close>

type_synonym connection_state = "string list option"

definition all_IsAuthorized :: "connection_state \<Rightarrow> bool" where
  "all_IsAuthorized cs = True"

definition all_IsReady :: bool where
  "all_IsReady = True"

record one =
  one_cert :: string

definition NewOne :: "string \<Rightarrow> one" where
  "NewOne cert = \<lparr>one_cert = cert\<rparr>"

definition one_IsAuthorized :: "one \<Rightarrow> connection_state \<Rightarrow> bool" where
  "one_IsAuthorized o' cs =
     (case cs of
        Some (raw # _) \<Rightarrow> one_cert o' = raw
      | _ \<Rightarrow> False)"

definition one_IsReady :: bool where
  "one_IsReady = True"

section \<open>Production: the certificates of Azure Resource Manager\<close>

record clientCertificate =
  cc_Thumbprint :: string
  cc_NotBefore :: int
  cc_NotAfter :: int
  cc_Certificate :: string

record metadata =
  md_ClientCertificates :: "clientCertificate list"

text \<open>The state that requests and the refreshing goroutine share under the lock.\<close>

record arm =
  ar_m :: metadata
  ar_lastSuccessfulRefresh :: int

definition NewARM :: arm where
  "NewARM = \<lparr>ar_m = \<lparr>md_ClientCertificates = []\<rparr>, ar_lastSuccessfulRefresh = 0\<rparr>"

record ('b, 'w) arm_env =
  ae_now :: "'w \<Rightarrow> int"
  ae_do :: "unit http_request \<Rightarrow> ('w, 'b http_response) go"
  ae_Decode :: "'b \<Rightarrow> metadata option result"

definition cert_current :: "int \<Rightarrow> clientCertificate \<Rightarrow> bool" where
  "cert_current now c \<longleftrightarrow> cc_NotBefore c < now \<and> now < cc_NotAfter c"

definition arm_IsAuthorized :: "int \<Rightarrow> arm \<Rightarrow> connection_state \<Rightarrow> bool" where
  "arm_IsAuthorized now a cs =
     (case cs of
        Some (raw # _) \<Rightarrow> list_ex (\<lambda>c. cert_current now c \<and> cc_Certificate c = raw) (md_ClientCertificates (ar_m a))
      | _ \<Rightarrow> False)"

definition metadata_request :: "unit http_request" where
  "metadata_request = \<lparr>rq_Method = MethodGet,
     rq_URL = ''https://management.azure.com:24582/metadata/authentication?api-version=2015-01-01'', rq_Header = [], rq_Body = None\<rparr>"

text \<open>\<^verbatim>\<open>strings.SplitN(s, ";", 2)[0]\<close>.\<close>

definition media_type :: "string \<Rightarrow> string" where
  "media_type s = takeWhile (\<lambda>c. c \<noteq> CHR '';'') s"

definition check_json :: "'b http_response \<Rightarrow> unit result" where
  "check_json resp =
     (if rs_StatusCode resp \<noteq> 200
      then Err (ErrorfErr (Fmt ''unexpected status code %d'' [AInt (rs_StatusCode resp)]))
      else if media_type (Header_Get (rs_Header resp) ''Content-Type'') \<noteq> ''application/json''
      then Err (ErrorfErr (Fmt ''unexpected content type %q'' [AStr (Header_Get (rs_Header resp) ''Content-Type'')]))
      else Ok ())"

definition received_metadata :: "('b, 'w) arm_env \<Rightarrow> int \<Rightarrow> 'b http_response \<Rightarrow> metadata result" where
  "received_metadata e now resp =
     rbind (check_json resp) (\<lambda>_.
     rbind (ae_Decode e (rs_Body resp)) (\<lambda>d.
     case d of
       None \<Rightarrow> Panic ''nil pointer dereference''
     | Some m \<Rightarrow>
         if list_ex (cert_current now) (md_ClientCertificates m) then Ok m
         else Err (ErrorfErr (Fmt ''did not receive current certificate'' []))))"

definition refreshOnce :: "('b, 'w) arm_env \<Rightarrow> (arm \<times> 'w, unit) go" where
  "refreshOnce e s =
     (case s of (a, w) \<Rightarrow>
        let now = ae_now e w in
        case gbind (ae_do e metadata_request) (\<lambda>resp. glift (received_metadata e now resp)) w of
          (Ok m, w') \<Rightarrow> (Ok (), (\<lparr>ar_m = m, ar_lastSuccessfulRefresh = now\<rparr>, w'))
        | (Err er, w') \<Rightarrow> (Err er, (a, w'))
        | (Panic p, w') \<Rightarrow> (Panic p, (a, w')))"

text \<open>
  The goroutine for a number of its turns, between which time passes. Errors are logged; a panic is recovered outside the loop, which
  it ends.
\<close>

fun refresh :: "('b, 'w) arm_env \<Rightarrow> ('w \<Rightarrow> 'w) list \<Rightarrow> arm \<times> 'w \<Rightarrow> arm \<times> 'w" where
  "refresh e [] s = s"
| "refresh e (hour # hours) s =
     (case refreshOnce e s of
        (Panic _, s') \<Rightarrow> s'
      | (_, (a, w)) \<Rightarrow> refresh e hours (a, hour w))"

definition arm_IsReady :: "int \<Rightarrow> arm \<Rightarrow> bool" where
  "arm_IsReady now a =
     (if ar_lastSuccessfulRefresh a + 24 * 60 * 60 < now then False
      else list_ex (cert_current now) (md_ClientCertificates (ar_m a)))"

section \<open>What an authorizer promises\<close>

text \<open>
  The contract of the two authorizers that look at certificates: a connection is authorised exactly by its leaf certificate, and
  \<open>trusts\<close> says by which.
\<close>

locale certificate_authorizer =
  fixes authorized :: "'s \<Rightarrow> connection_state \<Rightarrow> bool" and trusts :: "'s \<Rightarrow> string \<Rightarrow> bool"
  assumes no_tls: "\<not> authorized s None"
    and no_certificate: "\<not> authorized s (Some [])"
    and leaf: "authorized s (Some (raw # rest)) \<longleftrightarrow> trusts s raw"
begin

lemma authorized_iff: "authorized s cs \<longleftrightarrow> (\<exists>raw rest. cs = Some (raw # rest) \<and> trusts s raw)"
  by (cases cs rule: option.exhaust; cases "the cs") (auto simp: no_tls no_certificate leaf)

lemma only_leaf: "authorized s (Some (raw # rest)) \<longleftrightarrow> authorized s (Some (raw # rest'))"
  by (simp add: leaf)

end

definition arm_trusts :: "int \<Rightarrow> arm \<Rightarrow> string \<Rightarrow> bool" where
  "arm_trusts now a raw \<longleftrightarrow> (\<exists>c \<in> set (md_ClientCertificates (ar_m a)). cert_current now c \<and> cc_Certificate c = raw)"

interpretation one_authorizer: certificate_authorizer one_IsAuthorized "\<lambda>o' raw. one_cert o' = raw"
  by unfold_locales (simp_all add: one_IsAuthorized_def)

interpretation arm_authorizer: certificate_authorizer "arm_IsAuthorized now" "arm_trusts now" for now
  by unfold_locales (auto simp: arm_IsAuthorized_def arm_trusts_def list_ex_iff)

section \<open>Only what Azure Resource Manager published\<close>

text \<open>
  The metadata come from an answer of Azure Resource Manager: a JSON document with status 200 in which a certificate was current when it
  was received.
\<close>

definition published :: "('b, 'w) arm_env \<Rightarrow> arm \<Rightarrow> bool" where
  "published e a \<longleftrightarrow>
     a = NewARM
     \<or> (\<exists>w resp w'. ae_do e metadata_request w = (Ok resp, w') \<and> check_json resp = Ok ()
          \<and> ae_Decode e (rs_Body resp) = Ok (Some (ar_m a)) \<and> ar_lastSuccessfulRefresh a = ae_now e w
          \<and> list_ex (cert_current (ae_now e w)) (md_ClientCertificates (ar_m a)))"

lemma refreshOnce_published:
  assumes "refreshOnce e (a, w) = (r, (a', w'))" "published e a"
  shows "published e a'" "r \<noteq> Ok () \<Longrightarrow> a' = a"
proof -
  let ?now = "ae_now e w"
  obtain rr w1 where run: "ae_do e metadata_request w = (rr, w1)" by (cases "ae_do e metadata_request w")
  have "a' = a \<and> r \<noteq> Ok () \<or> (\<exists>resp. rr = Ok resp \<and> received_metadata e ?now resp = Ok (ar_m a') \<and> ar_lastSuccessfulRefresh a' = ?now \<and> r = Ok ())"
    using assms(1) run
    by (cases rr; cases "received_metadata e ?now (case rr of Ok x \<Rightarrow> x)") (auto simp: refreshOnce_def gbind_def Let_def)
  moreover have "published e a'" if "rr = Ok resp" "received_metadata e ?now resp = Ok (ar_m a')" "ar_lastSuccessfulRefresh a' = ?now" for resp
    using that run
    by (auto simp: published_def received_metadata_def split: option.splits if_splits)
      (metis list_ex_iff)
  ultimately show "published e a'" "r \<noteq> Ok () \<Longrightarrow> a' = a" using assms(2) by auto
qed

lemma refresh_published: "published e (fst s) \<Longrightarrow> published e (fst (refresh e hours s))"
proof (induction e hours s rule: refresh.induct)
  case (2 e hour hours s)
  obtain a w where s: "s = (a, w)" by (cases s)
  obtain r a' w' where run: "refreshOnce e (a, w) = (r, (a', w'))" by (metis prod_cases3)
  from refreshOnce_published(1) [OF run] "2.prems" s have "published e a'" by simp
  with 2 s run show ?case by (cases r) auto
qed simp


definition sample_certificate :: clientCertificate where
  "sample_certificate = \<lparr>cc_Thumbprint = [], cc_NotBefore = 10, cc_NotAfter = 100000, cc_Certificate = ''current''\<rparr>"

text \<open>A service that answers the first request only, and a clock.\<close>

definition sample_arm_env :: "(metadata option, int) arm_env" where
  "sample_arm_env = \<lparr>ae_now = (\<lambda>w. w),
     ae_do = (\<lambda>r w. if w < 100 then (Ok \<lparr>rs_StatusCode = 200, rs_Header = [(''Content-Type'', [''application/json; charset=utf-8''])],
         rs_Body = Some \<lparr>md_ClientCertificates = [sample_certificate]\<rparr>\<rparr>, w) else (Err (ExternalErr ''fake error''), w)),
     ae_Decode = Ok\<rparr>"


text \<open>
  The JSON document \<^verbatim>\<open>null\<close> as an answer is a nil pointer, and the panic ends the goroutine: the certificates are never refreshed again.
\<close>

lemma null_metadata_ends_refresh:
  assumes "ae_do e metadata_request w = (Ok resp, w')" "check_json resp = Ok ()" "ae_Decode e (rs_Body resp) = Ok None"
  shows "refresh e (hour # hours) (a, w) = (a, w')"
  using assms by (simp add: refreshOnce_def received_metadata_def Let_def gbind_def)

section \<open>Where the provider runs\<close>

record instanceMetadata =
  im_TenantID :: string
  im_SubscriptionID :: string
  im_Location :: string
  im_ResourceGroup :: string

definition im_NewDev :: "(string \<Rightarrow> string) \<Rightarrow> instanceMetadata" where
  "im_NewDev getenv = \<lparr>im_TenantID = getenv ''AZURE_TENANT_ID'', im_SubscriptionID = getenv ''AZURE_SUBSCRIPTION_ID'',
     im_Location = getenv ''LOCATION'', im_ResourceGroup = getenv ''RESOURCEGROUP''\<rparr>"

record compute_metadata =
  cm_Location :: string
  cm_ResourceGroupName :: string
  cm_SubscriptionID :: string

text \<open>The identity of the virtual machine: its token endpoint, tokens of the library, and the claims of a token, of which only the tenant is read.\<close>

record ('b, 't, 'w) im_env =
  ie_MSIVMEndpoint :: "string result"
  ie_TokenFromMSI :: "string \<Rightarrow> string \<Rightarrow> ('w, 't) go"
  ie_EnsureFresh :: "'t \<Rightarrow> ('w, unit) go"
  ie_TenantClaim :: "'t \<Rightarrow> string result"
  ie_Do :: "unit http_request \<Rightarrow> ('w, 'b http_response) go"
  ie_Decode :: "'b \<Rightarrow> compute_metadata option result"

definition populateTenantIDFromMSI :: "('b, 't, 'w) im_env \<Rightarrow> instanceMetadata \<Rightarrow> ('w, instanceMetadata) go" where
  "populateTenantIDFromMSI e im =
     gbind (glift (ie_MSIVMEndpoint e)) (\<lambda>endpoint.
     gbind (ie_TokenFromMSI e endpoint ''https://management.azure.com/'') (\<lambda>token.
     gbind (ie_EnsureFresh e token) (\<lambda>_.
     gbind (glift (ie_TenantClaim e token)) (\<lambda>tid.
     greturn (im\<lparr>im_TenantID := tid\<rparr>)))))"

definition compute_request :: "unit http_request" where
  "compute_request = \<lparr>rq_Method = MethodGet, rq_URL = ''http://169.254.169.254/metadata/instance/compute?api-version=2019-03-11'',
     rq_Header = Header_Set ''Metadata'' ''true'' [], rq_Body = None\<rparr>"

definition compute_status :: "'b http_response \<Rightarrow> unit result" where
  "compute_status resp =
     (if rs_StatusCode resp \<noteq> 200
      then Err (ErrorfErr (Fmt ''unexpected status code %q'' [AInt (rs_StatusCode resp)]))
      else check_json resp)"

definition populateInstanceMetadata :: "('b, 't, 'w) im_env \<Rightarrow> instanceMetadata \<Rightarrow> ('w, instanceMetadata) go" where
  "populateInstanceMetadata e im =
     gbind (ie_Do e compute_request) (\<lambda>resp.
     gbind (glift (compute_status resp)) (\<lambda>_.
     gbind (glift (ie_Decode e (rs_Body resp))) (\<lambda>d.
     case d of
       None \<Rightarrow> glift (Panic ''nil pointer dereference'')
     | Some m \<Rightarrow> greturn (im\<lparr>im_SubscriptionID := cm_SubscriptionID m, im_Location := cm_Location m,
                         im_ResourceGroup := cm_ResourceGroupName m\<rparr>))))"

definition im_NewProd :: "('b, 't, 'w) im_env \<Rightarrow> ('w, instanceMetadata) go" where
  "im_NewProd e =
     gbind (populateTenantIDFromMSI e \<lparr>im_TenantID = [], im_SubscriptionID = [], im_Location = [], im_ResourceGroup = []\<rparr>)
       (populateInstanceMetadata e)"

text \<open>In production nothing of the identity comes from the process environment: the tenant is the token's, the rest the instance's.\<close>

lemma im_NewProd_sources:
  assumes "im_NewProd e w = (Ok im, w')"
  shows "\<exists>token w1 w2 resp m. ie_TenantClaim e token = Ok (im_TenantID im) \<and> ie_Do e compute_request w1 = (Ok resp, w2)
    \<and> rs_StatusCode resp = 200 \<and> ie_Decode e (rs_Body resp) = Ok (Some m)
    \<and> im = \<lparr>im_TenantID = im_TenantID im, im_SubscriptionID = cm_SubscriptionID m, im_Location = cm_Location m,
         im_ResourceGroup = cm_ResourceGroupName m\<rparr>"
proof -
  from assms obtain token w1 tid where "ie_TenantClaim e token = Ok tid"
      and p: "populateInstanceMetadata e \<lparr>im_TenantID = tid, im_SubscriptionID = [], im_Location = [], im_ResourceGroup = []\<rparr> w1 = (Ok im, w')"
    by (auto simp: im_NewProd_def populateTenantIDFromMSI_def gbind_eq_Ok)
  moreover from p obtain resp w2 m where "ie_Do e compute_request w1 = (Ok resp, w2)" "rs_StatusCode resp = 200" "ie_Decode e (rs_Body resp) = Ok (Some m)"
      "im = \<lparr>im_TenantID = tid, im_SubscriptionID = cm_SubscriptionID m, im_Location = cm_Location m, im_ResourceGroup = cm_ResourceGroupName m\<rparr>"
    by (auto simp: populateInstanceMetadata_def gbind_eq_Ok compute_status_def split: option.splits if_splits)
  ultimately show ?thesis by auto
qed

end
