(* ===== verification/Env.thy ===== *)
theory Env
  imports Authorizer Azure
begin

text \<open>
  The environment of the provider, \<^verbatim>\<open>src/pkg/env\<close>: what it finds out about itself when it starts (its database, its domain, its vault, the zones of
  its region), its secrets, and in development the proxy through which it reaches the clusters.

  The clients of Azure, the authorizers and the decoders of PEM blocks, keys and certificates are parameters. Fields that are pointers are options.
\<close>

section \<open>Production\<close>

record Sku =
  sku_Locations :: "string list option"
  sku_ResourceType :: "string option"
  sku_Name :: "string option"
  sku_LocationInfo :: "string list option list option"

record ('a, 'k, 'c, 'w) prod_env =
  pe_LookupEnv :: "string \<Rightarrow> string option"
  pe_AuthorizerWithResource :: "string \<Rightarrow> 'a result"
  pe_Authorizer :: "'a result"
  pe_ListDatabaseAccounts :: "'a \<Rightarrow> string \<Rightarrow> string \<Rightarrow> ('w, string option list option) go"
  pe_ListKeys :: "'a \<Rightarrow> string \<Rightarrow> string \<Rightarrow> string \<Rightarrow> ('w, string option) go"
  pe_ListZones :: "'a \<Rightarrow> string \<Rightarrow> string \<Rightarrow> ('w, string option list) go"
  pe_ListVaults :: "'a \<Rightarrow> string \<Rightarrow> string \<Rightarrow> ('w, string option option list) go"
  pe_ListSkus :: "'a \<Rightarrow> string \<Rightarrow> ('w, Sku list) go"
  pe_GetSecret :: "'a \<Rightarrow> string \<Rightarrow> string \<Rightarrow> ('w, string option) go"
  pe_pem_Decode :: "string \<Rightarrow> (string \<times> string \<times> string) option"
  pe_ParsePKCS8PrivateKey :: "string \<Rightarrow> 'k option result"
  pe_ParseCertificate :: "string \<Rightarrow> 'c result"

record ('a, 'k, 'c) prod =
  pr_metadata :: instanceMetadata
  pr_keyvault :: 'a
  pr_cosmosDBAccountName :: string
  pr_cosmosDBPrimaryMasterKey :: string
  pr_domain :: string
  pr_vaultURI :: string
  pr_zones :: "string \<rightharpoonup> string list"
  pr_fpCertificate :: "'c option"
  pr_fpPrivateKey :: "'k option"

definition expected_one :: "string \<Rightarrow> 'x list \<Rightarrow> 'x result" where
  "expected_one what xs =
     (case xs of [x] \<Rightarrow> Ok x
      | _ \<Rightarrow> Err (ErrorfErr (Fmt (''found %d '' @ what @ '', expected 1'') [AInt (int (length xs))])))"

definition populateCosmosDB :: "('a, 'k, 'c, 'w) prod_env \<Rightarrow> 'a \<Rightarrow> ('a, 'k, 'c) prod \<Rightarrow> ('w, ('a, 'k, 'c) prod) go" where
  "populateCosmosDB e rpAuthorizer p =
     (let sub = im_SubscriptionID (pr_metadata p); rg = im_ResourceGroup (pr_metadata p) in
      gbind (pe_ListDatabaseAccounts e rpAuthorizer sub rg) (\<lambda>accts.
      gbind (glift (nonnil accts)) (\<lambda>accts.
      gbind (glift (expected_one ''database accounts'' accts)) (\<lambda>acct.
      gbind (glift (nonnil acct)) (\<lambda>name.
      gbind (pe_ListKeys e rpAuthorizer sub rg name) (\<lambda>key.
      gbind (glift (nonnil key)) (\<lambda>key.
      greturn (p\<lparr>pr_cosmosDBAccountName := name, pr_cosmosDBPrimaryMasterKey := key\<rparr>))))))))"

definition populateDomain :: "('a, 'k, 'c, 'w) prod_env \<Rightarrow> 'a \<Rightarrow> ('a, 'k, 'c) prod \<Rightarrow> ('w, ('a, 'k, 'c) prod) go" where
  "populateDomain e rpAuthorizer p =
     gbind (pe_ListZones e rpAuthorizer (im_SubscriptionID (pr_metadata p)) (im_ResourceGroup (pr_metadata p))) (\<lambda>zs.
     gbind (glift (expected_one ''zones'' zs)) (\<lambda>z.
     gbind (glift (nonnil z)) (\<lambda>name.
     greturn (p\<lparr>pr_domain := name\<rparr>))))"

definition populateVaultURI :: "('a, 'k, 'c, 'w) prod_env \<Rightarrow> 'a \<Rightarrow> ('a, 'k, 'c) prod \<Rightarrow> ('w, ('a, 'k, 'c) prod) go" where
  "populateVaultURI e rpAuthorizer p =
     gbind (pe_ListVaults e rpAuthorizer (im_SubscriptionID (pr_metadata p)) (im_ResourceGroup (pr_metadata p))) (\<lambda>vs.
     gbind (glift (expected_one ''vaults'' vs)) (\<lambda>v.
     gbind (glift (nonnil v)) (\<lambda>properties.
     gbind (glift (nonnil properties)) (\<lambda>uri.
     greturn (p\<lparr>pr_vaultURI := uri\<rparr>)))))"

definition first_of :: "'x list option \<Rightarrow> 'x result" where
  "first_of xs = rbind (nonnil xs) (\<lambda>xs. case xs of [] \<Rightarrow> Panic ''index out of range'' | x # _ \<Rightarrow> Ok x)"

text \<open>One item of the list of SKUs; the resource type is read only for an item of the location.\<close>

definition sku_zones :: "string \<Rightarrow> Sku \<Rightarrow> (string \<rightharpoonup> string list) \<Rightarrow> (string \<rightharpoonup> string list) result" where
  "sku_zones location sku zones =
     rbind (first_of (sku_Locations sku)) (\<lambda>l.
     if \<not> EqualFold l location then Ok zones
     else rbind (nonnil (sku_ResourceType sku)) (\<lambda>t.
       if t \<noteq> ''virtualMachines'' then Ok zones
       else rbind (nonnil (sku_Name sku)) (\<lambda>name.
         rbind (first_of (sku_LocationInfo sku)) (\<lambda>info.
         rbind (nonnil info) (\<lambda>zs. Ok (zones(name \<mapsto> zs)))))))"

fun all_sku_zones :: "string \<Rightarrow> Sku list \<Rightarrow> (string \<rightharpoonup> string list) \<Rightarrow> (string \<rightharpoonup> string list) result" where
  "all_sku_zones location [] zones = Ok zones"
| "all_sku_zones location (sku # skus) zones = rbind (sku_zones location sku zones) (all_sku_zones location skus)"

definition populateZones :: "('a, 'k, 'c, 'w) prod_env \<Rightarrow> 'a \<Rightarrow> ('a, 'k, 'c) prod \<Rightarrow> ('w, ('a, 'k, 'c) prod) go" where
  "populateZones e rpAuthorizer p =
     gbind (pe_ListSkus e rpAuthorizer (im_SubscriptionID (pr_metadata p))) (\<lambda>skus.
     gbind (glift (all_sku_zones (im_Location (pr_metadata p)) skus Map.empty)) (\<lambda>zones.
     greturn (p\<lparr>pr_zones := zones\<rparr>)))"

definition env_Zones :: "('a, 'k, 'c) prod \<Rightarrow> string \<Rightarrow> string list result" where
  "env_Zones p vmSize =
     (case pr_zones p vmSize of
        None \<Rightarrow> Err (ErrorfErr (Fmt ''zone information not found for vm size %q'' [AStr vmSize]))
      | Some zones \<Rightarrow> Ok zones)"

subsection \<open>Secrets\<close>

text \<open>
  The loop of \<^verbatim>\<open>GetSecret\<close> over the PEM blocks of a secret. The last private key counts; certificates are kept in order. The number of turns is bounded
  by the length of the secret, which is enough if every block is longer than nothing.
\<close>

fun secret_loop :: "('a, 'k, 'c, 'w) prod_env \<Rightarrow> nat \<Rightarrow> string \<Rightarrow> 'k option \<Rightarrow> 'c list \<Rightarrow> ('k option \<times> 'c list) result" where
  "secret_loop e 0 b key certs = Panic ''unfinished''"
| "secret_loop e (Suc n) b key certs =
     (case pe_pem_Decode e b of
        None \<Rightarrow> Ok (key, certs)
      | Some (type, bytes, rest) \<Rightarrow>
          if type = ''PRIVATE KEY'' then
            rbind (pe_ParsePKCS8PrivateKey e bytes) (\<lambda>k.
            case k of
              None \<Rightarrow> Err (ErrorfErr (Fmt ''found unimplemented private key type %T in PKCS#8 wrapping'' []))
            | Some k \<Rightarrow> secret_loop e n rest (Some k) certs)
          else if type = ''CERTIFICATE'' then
            rbind (pe_ParseCertificate e bytes) (\<lambda>c. secret_loop e n rest key (certs @ [c]))
          else secret_loop e n rest key certs)"

definition parse_secret :: "('a, 'k, 'c, 'w) prod_env \<Rightarrow> string \<Rightarrow> ('k \<times> 'c list) result" where
  "parse_secret e b =
     rbind (secret_loop e (Suc (length b)) b None []) (\<lambda>(key, certs).
     case key of
       None \<Rightarrow> Err (ErrorfErr (Fmt ''no private key found'' []))
     | Some k \<Rightarrow>
         if certs = [] then Err (ErrorfErr (Fmt ''no certificate found'' [])) else Ok (k, certs))"

definition env_GetSecret :: "('a, 'k, 'c, 'w) prod_env \<Rightarrow> ('a, 'k, 'c) prod \<Rightarrow> string \<Rightarrow> ('w, 'k \<times> 'c list) go" where
  "env_GetSecret e p secretName =
     gbind (pe_GetSecret e (pr_keyvault p) (pr_vaultURI p) secretName) (\<lambda>value.
     gbind (glift (nonnil value)) (\<lambda>b. glift (parse_secret e b)))"

subsection \<open>The start\<close>

fun require_env :: "(string \<Rightarrow> string option) \<Rightarrow> string list \<Rightarrow> unit result" where
  "require_env lookup [] = Ok ()"
| "require_env lookup (key # keys) =
     (if lookup key = None then Err (ErrorfErr (Fmt ''environment variable %q unset'' [AStr key])) else require_env lookup keys)"

definition newProd :: "('a, 'k, 'c, 'w) prod_env \<Rightarrow> instanceMetadata \<Rightarrow> ('w, ('a, 'k, 'c) prod) go" where
  "newProd e im =
     gbind (glift (require_env (pe_LookupEnv e) [''PULL_SECRET''])) (\<lambda>_.
     gbind (glift (pe_AuthorizerWithResource e ''https://vault.azure.net'')) (\<lambda>kvAuthorizer.
     gbind (glift (pe_Authorizer e)) (\<lambda>rpAuthorizer.
     let p = \<lparr>pr_metadata = im, pr_keyvault = kvAuthorizer, pr_cosmosDBAccountName = [], pr_cosmosDBPrimaryMasterKey = [],
               pr_domain = [], pr_vaultURI = [], pr_zones = Map.empty, pr_fpCertificate = None, pr_fpPrivateKey = None\<rparr> in
     gbind (populateCosmosDB e rpAuthorizer p) (\<lambda>p.
     gbind (populateDomain e rpAuthorizer p) (\<lambda>p.
     gbind (populateVaultURI e rpAuthorizer p) (\<lambda>p.
     gbind (populateZones e rpAuthorizer p) (\<lambda>p.
     gbind (env_GetSecret e p ''rp-firstparty'') (\<lambda>(key, certs).
     greturn (p\<lparr>pr_fpPrivateKey := Some key, pr_fpCertificate := Some (hd certs)\<rparr>)))))))))"

definition prod_DatabaseName :: string where
  "prod_DatabaseName = ''ARO''"

definition prod_Listen :: string where
  "prod_Listen = '':8443''"

text \<open>The first party application of the provider: a token for a tenant and a resource, from the certificate.\<close>

definition prod_FPAuthorizer ::
    "(string \<Rightarrow> string \<Rightarrow> 'o result) \<Rightarrow> ('o \<Rightarrow> string \<Rightarrow> 'c option \<Rightarrow> 'k option \<Rightarrow> string \<Rightarrow> 't result) \<Rightarrow>
     ('a, 'k, 'c) prod \<Rightarrow> string \<Rightarrow> string \<Rightarrow> 't result" where
  "prod_FPAuthorizer newOAuthConfig newToken p tenantID resource =
     rbind (newOAuthConfig ''https://login.microsoftonline.com/'' tenantID) (\<lambda>oauthConfig.
     newToken oauthConfig ''f1dd0a37-89c6-4e07-bcd1-ffd3d43d8875'' (pr_fpCertificate p) (pr_fpPrivateKey p) resource)"

section \<open>Development\<close>

definition dev_variables :: "string list" where
  "dev_variables = [''AZURE_ARM_CLIENT_ID'', ''AZURE_ARM_CLIENT_SECRET'', ''AZURE_FP_CLIENT_ID'', ''AZURE_SUBSCRIPTION_ID'', ''AZURE_TENANT_ID'',
     ''DATABASE_NAME'', ''LOCATION'', ''PROXY_HOSTNAME'', ''PULL_SECRET'', ''RESOURCEGROUP'']"

text \<open>
  What development needs besides: credentials for Azure Resource Manager, tokens of the first party application (\<open>'t\<close>) that can be refreshed, files, PKCS\#1 keys, and the
  clients for role assignments, applications and deployments. \<open>de_IsRoleAssignmentExists\<close> and \<open>de_IsAuthorizationFailed\<close> are the tests of an error's dynamic
  type and service code.
\<close>

record ('a, 'k, 'c, 't, 'w) dev_env =
  de_Credentials :: "string \<Rightarrow> string \<Rightarrow> string \<Rightarrow> 'a result"
  de_FPToken :: "string \<Rightarrow> string \<Rightarrow> string \<Rightarrow> 'c option \<Rightarrow> 'k option \<Rightarrow> string \<Rightarrow> 't result"
  de_ReadFile :: "string \<Rightarrow> string result"
  de_ParsePKCS1PrivateKey :: "string \<Rightarrow> 'k result"
  de_ServicePrincipalID :: "string \<times> 't \<Rightarrow> string \<Rightarrow> ('w, string option) go"
  de_CreateRoleAssignment :: "string \<times> 'a \<Rightarrow> string \<Rightarrow> string \<Rightarrow> string \<Rightarrow> string option \<Rightarrow> ('w, unit) go"
  de_IsRoleAssignmentExists :: "error \<Rightarrow> bool"
  de_Refresh :: "'t \<Rightarrow> ('w, unit) go"
  de_GetDeployment :: "string \<times> 't \<Rightarrow> string \<Rightarrow> string \<Rightarrow> ('w, unit) go"
  de_IsAuthorizationFailed :: "error \<Rightarrow> bool"
  de_newUUID :: "'w \<Rightarrow> string \<times> 'w"
  de_ticks :: nat

text \<open>A client is the pair of what it was made with: the subscription or tenant, and the authorizer.\<close>

record ('a, 'k, 'c, 't) dev =
  dv_prod :: "('a, 'k, 'c) prod"
  dv_permissions :: "string \<times> 't"
  dv_roleassignments :: "string \<times> 'a"
  dv_applications :: "string \<times> 't"
  dv_deployments :: "string \<times> 't"
  dv_proxyPool :: "'c list"
  dv_proxyClientCert :: string
  dv_proxyClientKey :: 'k

definition getenv :: "(string \<Rightarrow> string option) \<Rightarrow> string \<Rightarrow> string" where
  "getenv lookup key = (case lookup key of None \<Rightarrow> [] | Some v \<Rightarrow> v)"

definition dev_FPAuthorizer ::
    "('a, 'k, 'c, 't, 'w) dev_env \<Rightarrow> (string \<Rightarrow> string option) \<Rightarrow> ('a, 'k, 'c) prod \<Rightarrow> string \<Rightarrow> string \<Rightarrow> 't result" where
  "dev_FPAuthorizer e lookup p tenantID resource =
     de_FPToken e ''https://login.microsoftonline.com/'' tenantID (getenv lookup ''AZURE_FP_CLIENT_ID'') (pr_fpCertificate p) (pr_fpPrivateKey p) resource"

definition newDev ::
    "('a, 'k, 'c, 'w) prod_env \<Rightarrow> ('a, 'k, 'c, 't, 'w) dev_env \<Rightarrow> instanceMetadata \<Rightarrow> ('w, ('a, 'k, 'c, 't) dev) go" where
  "newDev pe de im =
     (let lookup = pe_LookupEnv pe in
      gbind (glift (require_env lookup dev_variables)) (\<lambda>_.
      gbind (glift (de_Credentials de (getenv lookup ''AZURE_ARM_CLIENT_ID'') (getenv lookup ''AZURE_ARM_CLIENT_SECRET'') (im_TenantID im))) (\<lambda>armAuthorizer.
      gbind (newProd pe im) (\<lambda>p.
      gbind (glift (dev_FPAuthorizer de lookup p (im_TenantID im) ''https://graph.windows.net/'')) (\<lambda>fpGraphAuthorizer.
      gbind (glift (dev_FPAuthorizer de lookup p (im_TenantID im) ''https://management.azure.com/'')) (\<lambda>fpAuthorizer.
      gbind (glift (de_ReadFile de ''secrets/proxy.crt'')) (\<lambda>b.
      gbind (glift (pe_ParseCertificate pe b)) (\<lambda>cert.
      gbind (glift (de_ReadFile de ''secrets/proxy-client.crt'')) (\<lambda>clientCert.
      gbind (glift (de_ReadFile de ''secrets/proxy-client.key'')) (\<lambda>b.
      gbind (glift (de_ParsePKCS1PrivateKey de b)) (\<lambda>clientKey.
      greturn \<lparr>dv_prod = p, dv_permissions = (im_SubscriptionID im, fpAuthorizer), dv_roleassignments = (im_SubscriptionID im, armAuthorizer),
        dv_applications = (im_TenantID im, fpGraphAuthorizer), dv_deployments = (im_TenantID im, fpAuthorizer), dv_proxyPool = [cert], dv_proxyClientCert = clientCert, dv_proxyClientKey = clientKey\<rparr>)))))))))))"

definition dev_DatabaseName :: "(string \<Rightarrow> string option) \<Rightarrow> string" where
  "dev_DatabaseName lookup = getenv lookup ''DATABASE_NAME''"

definition dev_Listen :: string where
  "dev_Listen = ''localhost:8443''"

subsection \<open>The proxy\<close>

text \<open>The operations on a connection \<open>'n\<close>: TLS on top of it, and an HTTP \<^verbatim>\<open>CONNECT\<close> request for an address on top of that.\<close>

record ('n, 'w) dialer =
  dl_Dial :: "string \<Rightarrow> string \<Rightarrow> ('w, 'n) go"
  dl_Handshake :: "'n \<Rightarrow> ('w, unit) go"
  dl_WriteConnect :: "'n \<Rightarrow> string \<Rightarrow> ('w, unit) go"
  dl_ReadResponse :: "'n \<Rightarrow> ('w, int) go"
  dl_Close :: "'n \<Rightarrow> 'w \<Rightarrow> 'w"

definition or_close :: "('n, 'w) dialer \<Rightarrow> 'n \<Rightarrow> ('w, 'x) go \<Rightarrow> ('w, 'x) go" where
  "or_close d c m w = (case m w of (Err e, w') \<Rightarrow> (Err e, dl_Close d c w') | r \<Rightarrow> r)"

definition dev_DialContext :: "('n, 'w) dialer \<Rightarrow> (string \<Rightarrow> string option) \<Rightarrow> string \<Rightarrow> string \<Rightarrow> ('w, 'n) go" where
  "dev_DialContext d lookup network address =
     (if network \<noteq> ''tcp'' then glift (Err (ErrorfErr (Fmt ''unimplemented network %q'' [AStr network])))
      else gbind (dl_Dial d network (getenv lookup ''PROXY_HOSTNAME'' @ '':443'')) (\<lambda>c.
        gbind (or_close d c (dl_Handshake d c)) (\<lambda>_.
        gbind (or_close d c (dl_WriteConnect d c address)) (\<lambda>_.
        gbind (or_close d c (dl_ReadResponse d c)) (\<lambda>status.
        gbind (or_close d c (glift (if status \<noteq> 200 then Err (ErrorfErr (Fmt ''unexpected status code %d'' [AInt status])) else Ok ()))) (\<lambda>_.
        greturn c))))))"

subsection \<open>The role of the provider on a resource group\<close>

definition access_propagated :: "('a, 'k, 'c, 't, 'w) dev_env \<Rightarrow> string \<times> 't \<Rightarrow> string \<Rightarrow> ('w, bool) go" where
  "access_propagated e t resourceGroup w =
     (case de_GetDeployment e t resourceGroup ''dummy'' w of
        (Err er, w') \<Rightarrow> (Ok (\<not> de_IsAuthorizationFailed e er), w')
      | (Panic p, w') \<Rightarrow> (Panic p, w')
      | (Ok _, w') \<Rightarrow> (Ok True, w'))"

definition CreateARMResourceGroupRoleAssignment ::
    "('a, 'k, 'c, 't, 'w) dev_env \<Rightarrow> (string \<Rightarrow> string option) \<Rightarrow> ('a, 'k, 'c, 't) dev \<Rightarrow> 't \<Rightarrow> string \<Rightarrow> ('w, unit) go" where
  "CreateARMResourceGroupRoleAssignment e lookup d fpAuthorizer resourceGroup =
     (let sub = im_SubscriptionID (pr_metadata (dv_prod d)) in
      gbind (de_ServicePrincipalID e (dv_applications d) (getenv lookup ''AZURE_FP_CLIENT_ID'')) (\<lambda>principal.
      gbind (\<lambda>w. case de_newUUID e w of (i, w) \<Rightarrow>
          on_error (de_CreateRoleAssignment e (dv_roleassignments d) (''/subscriptions/'' @ sub @ ''/resourceGroups/'' @ resourceGroup) i
              (''/subscriptions/'' @ sub @ ''/providers/Microsoft.Authorization/roleDefinitions/c95361b8-cf7c-40a1-ad0a-df9f39a30225'') principal)
            (\<lambda>er. glift (if de_IsRoleAssignmentExists e er then Ok () else Err er)) w) (\<lambda>_.
      gbind (de_Refresh e fpAuthorizer) (\<lambda>_.
      WaitFor (de_ticks e) (access_propagated e (dv_deployments d) resourceGroup)))))"

section \<open>Which environment\<close>

datatype ('a, 'k, 'c, 't) env = EDev "('a, 'k, 'c, 't) dev" | EProd "('a, 'k, 'c) prod" arm

definition NewEnv ::
    "('a, 'k, 'c, 'w) prod_env \<Rightarrow> ('a, 'k, 'c, 't, 'w) dev_env \<Rightarrow> ('b, 's, 'w) im_env \<Rightarrow> ('w, ('a, 'k, 'c, 't) env) go" where
  "NewEnv pe de ie =
     (if ToLower (getenv (pe_LookupEnv pe) ''RP_MODE'') = ''development''
      then gbind (newDev pe de (im_NewDev (getenv (pe_LookupEnv pe)))) (\<lambda>d. greturn (EDev d))
      else gbind (im_NewProd ie) (\<lambda>im. gbind (newProd pe im) (\<lambda>p. greturn (EProd p NewARM))))"

definition env_IsAuthorized :: "int \<Rightarrow> ('a, 'k, 'c, 't) env \<Rightarrow> connection_state \<Rightarrow> bool" where
  "env_IsAuthorized now e cs = (case e of EDev _ \<Rightarrow> all_IsAuthorized cs | EProd _ a \<Rightarrow> arm_IsAuthorized now a cs)"

definition env_Listen :: "('a, 'k, 'c, 't) env \<Rightarrow> string" where
  "env_Listen e = (case e of EDev _ \<Rightarrow> dev_Listen | EProd _ _ \<Rightarrow> prod_Listen)"

section \<open>What holds of it\<close>

text \<open>A provider that authorises everybody listens to its own host only; in production nobody is authorised before the first refresh.\<close>

lemma unauthenticated_is_local:
  assumes "NewEnv pe de ie w = (Ok e, w')" "env_IsAuthorized now e None \<or> (\<exists>raw rest. env_IsAuthorized now e (Some (raw # rest)))"
  shows "env_Listen e = ''localhost:8443'' \<and> ToLower (getenv (pe_LookupEnv pe) ''RP_MODE'') = ''development''"
  using assms
  by (auto simp: NewEnv_def gbind_eq_Ok env_IsAuthorized_def arm_IsAuthorized_def NewARM_def env_Listen_def dev_Listen_def split: if_splits)

text \<open>The blocks of a secret, as the PEM decoder gives them.\<close>

inductive decodes :: "('a, 'k, 'c, 'w) prod_env \<Rightarrow> string \<Rightarrow> (string \<times> string) list \<Rightarrow> bool" for e where
  decodes_end: "pe_pem_Decode e b = None \<Longrightarrow> decodes e b []"
| decodes_block: "pe_pem_Decode e b = Some (t, x, rest) \<Longrightarrow> decodes e rest bs \<Longrightarrow> decodes e b ((t, x) # bs)"

lemma decodes_shrinking:
  assumes "\<forall>b t x rest. pe_pem_Decode e b = Some (t, x, rest) \<longrightarrow> length rest < length b"
  shows "\<exists>bs. decodes e b bs \<and> length bs \<le> length b"
proof (induction "length b" arbitrary: b rule: less_induct)
  case less
  show ?case
  proof (cases "pe_pem_Decode e b")
    case None
    then show ?thesis by (auto intro: decodes_end)
  next
    case (Some y)
    then obtain t x rest where y: "pe_pem_Decode e b = Some (t, x, rest)" by (cases y) auto
    with assms have "length rest < length b" by blast
    with less [of rest] obtain bs where "decodes e rest bs" "length bs \<le> length rest" by auto
    with y \<open>length rest < length b\<close> show ?thesis by (intro exI [of _ "(t, x) # bs"]) (auto intro: decodes_block)
  qed
qed

definition parses :: "('a, 'k, 'c, 'w) prod_env \<Rightarrow> string \<times> string \<Rightarrow> bool" where
  "parses e blk = (case blk of (t, x) \<Rightarrow>
     (t = ''PRIVATE KEY'' \<longrightarrow> (\<exists>k. pe_ParsePKCS8PrivateKey e x = Ok (Some k))) \<and> (t = ''CERTIFICATE'' \<longrightarrow> (\<exists>c. pe_ParseCertificate e x = Ok c)))"

definition keys_of :: "('a, 'k, 'c, 'w) prod_env \<Rightarrow> (string \<times> string) list \<Rightarrow> 'k list" where
  "keys_of e bs = List.map_filter (\<lambda>(t, x). if t = ''PRIVATE KEY'' then (case pe_ParsePKCS8PrivateKey e x of Ok k \<Rightarrow> k | _ \<Rightarrow> None) else None) bs"

definition certs_of :: "('a, 'k, 'c, 'w) prod_env \<Rightarrow> (string \<times> string) list \<Rightarrow> 'c list" where
  "certs_of e bs = List.map_filter (\<lambda>(t, x). if t = ''CERTIFICATE'' then (case pe_ParseCertificate e x of Ok c \<Rightarrow> Some c | _ \<Rightarrow> None) else None) bs"

lemma secret_loop_blocks:
  assumes "decodes e b bs" "list_all (parses e) bs" "length bs < n"
  shows "secret_loop e n b key certs = Ok (if keys_of e bs = [] then key else Some (last (keys_of e bs)), certs @ certs_of e bs)"
  using assms
proof (induction arbitrary: n key certs rule: decodes.induct)
  case (decodes_end b)
  then show ?case by (cases n) (simp_all add: keys_of_def certs_of_def map_filter_def)
next
  case (decodes_block b t x rest bs)
  then obtain m where n: "n = Suc m" by (cases n) auto
  note IH = decodes_block.IH [of m]
  have p: "parses e (t, x)" "list_all (parses e) bs" "length bs < m" using decodes_block.prems n by auto
  show ?case
  proof (cases "t = ''PRIVATE KEY''")
    case True
    with p(1) obtain k where "pe_ParsePKCS8PrivateKey e x = Ok (Some k)" by (auto simp: parses_def)
    with True IH p decodes_block.hyps(1) show ?thesis by (simp add: n keys_of_def certs_of_def map_filter_simps)
  next
    case False
    show ?thesis
    proof (cases "t = ''CERTIFICATE''")
      case True
      with p(1) obtain c where "pe_ParseCertificate e x = Ok c" by (auto simp: parses_def)
      with True IH p decodes_block.hyps(1) show ?thesis by (simp add: n keys_of_def certs_of_def map_filter_simps)
    next
      case False': False
      with False IH p decodes_block.hyps(1) show ?thesis by (simp add: n keys_of_def certs_of_def map_filter_simps)
    qed
  qed
qed

text \<open>A secret whose blocks can be parsed gives its last key and all its certificates in order, and the loop ends.\<close>

lemma parse_secret_complete:
  assumes "\<forall>b t x rest. pe_pem_Decode e b = Some (t, x, rest) \<longrightarrow> length rest < length b"
  obtains bs where "decodes e b bs"
    "list_all (parses e) bs \<Longrightarrow> keys_of e bs \<noteq> [] \<Longrightarrow> certs_of e bs \<noteq> [] \<Longrightarrow> parse_secret e b = Ok (last (keys_of e bs), certs_of e bs)"
proof -
  from decodes_shrinking [OF assms] obtain bs where bs: "decodes e b bs" "length bs \<le> length b" by blast
  with secret_loop_blocks [OF bs(1), of "Suc (length b)" None "[]"] show ?thesis
    by (intro that [OF bs(1)]) (simp add: parse_secret_def del: secret_loop.simps)
qed

lemma gbind_eq_Err:
  "gbind m f w = (Err e, w') \<longleftrightarrow> m w = (Err e, w') \<or> (\<exists>x w1. m w = (Ok x, w1) \<and> f x w1 = (Err e, w'))"
  by (auto simp: gbind_def split: Product_Type.prod.splits result.splits)

lemma or_close_Err: "or_close d c m w = (Err e, w') \<Longrightarrow> \<exists>w2. w' = dl_Close d c w2"
  by (auto simp: or_close_def split: Product_Type.prod.splits result.splits)

text \<open>A connection to the proxy is closed on every way out that does not return it.\<close>

lemma dial_closes:
  assumes "dl_Dial d network (getenv lookup ''PROXY_HOSTNAME'' @ '':443'') w = (Ok c, w1)" "network = ''tcp''"
    and "dev_DialContext d lookup network address w = (Err er, w')"
  shows "\<exists>w2. w' = dl_Close d c w2"
  using assms by (auto simp: dev_DialContext_def gbind_eq_Err dest: or_close_Err)

text \<open>The zones of a size of virtual machine are those of a SKU of that name in the provider's region.\<close>

definition offers :: "string \<Rightarrow> Sku \<Rightarrow> string \<Rightarrow> string list \<Rightarrow> bool" where
  "offers location sku name zs \<longleftrightarrow>
     (\<exists>l ls infos. sku_Locations sku = Some (l # ls) \<and> EqualFold l location \<and> sku_ResourceType sku = Some ''virtualMachines''
        \<and> sku_Name sku = Some name \<and> sku_LocationInfo sku = Some (Some zs # infos))"

lemma sku_zones_offers:
  "sku_zones location sku zones = Ok zones' \<Longrightarrow> zones' = zones \<or> (\<exists>name zs. offers location sku name zs \<and> zones' = zones(name \<mapsto> zs))"
  by (auto simp: sku_zones_def first_of_def offers_def split: list.splits if_splits)

lemma all_sku_zones_offers:
  "all_sku_zones location skus zones = Ok zones' \<Longrightarrow> zones' name = Some zs \<Longrightarrow>
   zones name = Some zs \<or> (\<exists>sku \<in> set skus. offers location sku name zs)"
proof (induction skus arbitrary: zones)
  case (Cons sku skus)
  from Cons.prems obtain zones1 where "sku_zones location sku zones = Ok zones1" "all_sku_zones location skus zones1 = Ok zones'" by auto
  with Cons.IH Cons.prems(2) sku_zones_offers show ?case by (fastforce split: if_splits)
qed simp

lemma env_Zones_offered:
  assumes "populateZones e rpAuthorizer p w = (Ok p', w')" "env_Zones p' vmSize = Ok zs"
  shows "\<exists>skus sku. pe_ListSkus e rpAuthorizer (im_SubscriptionID (pr_metadata p)) w = (Ok skus, w') \<and> sku \<in> set skus
    \<and> offers (im_Location (pr_metadata p)) sku vmSize zs"
  using assms all_sku_zones_offers by (fastforce simp: populateZones_def env_Zones_def gbind_eq_Ok split: option.splits)

text \<open>
  The client that tries out the provider's new role is made for the tenant and not for the subscription, so that what it is answered says nothing of the
  subscription's resource group; an answer other than a denial ends the wait at once.
\<close>

lemma newDev_deployments_tenant:
  assumes "newDev pe de im w = (Ok d, w')"
  shows "fst (dv_deployments d) = im_TenantID im" "fst (dv_roleassignments d) = im_SubscriptionID im"
  using assms by (auto simp: newDev_def Let_def gbind_eq_Ok)

end
