(* ===== verification/Mirror.thy ===== *)
theory Mirror
  imports Env GoNet "HOL-Library.Word" "HOL-Library.Multiset"
begin

text \<open>
  The image mirror, \<^verbatim>\<open>src/pkg/mirror\<close> and \<^verbatim>\<open>src/cmd/aro/mirror.go\<close>: it reads the releases of OpenShift from the upgrade graph, reads from each release the images
  it consists of, and copies them to the provider's registry with ten workers.

  The registries, the archive formats and the decoders of JSON and base64 are parameters. Strings are taken to be ASCII, so that a white space is one byte; closing
  a reader has no result and is left out.
\<close>

section \<open>Versions\<close>

type_synonym Version = "8 word \<times> 8 word \<times> 8 word"

text \<open>
  What \<^verbatim>\<open>fmt.Sscanf\<close> does for the format \<^verbatim>\<open>%d.%d.%d\<close> and pointers to bytes: before each number white space is skipped, but a newline is refused; a number is a longest
  non-empty run of digits and has to fit its operand; input after the last number is not looked at.
\<close>

definition scan_digit :: "char \<Rightarrow> bool" where
  "scan_digit c \<longleftrightarrow> c \<in> set ''0123456789''"

fun SkipSpace :: "string \<Rightarrow> string result" where
  "SkipSpace [] = Ok []"
| "SkipSpace (c # s) =
     (if c = CHR 0x0A then Err (ExternalErr ''unexpected newline'')
      else if c \<in> {CHR '' '', CHR 0x09, CHR 0x0B, CHR 0x0C, CHR 0x0D} then SkipSpace s
      else Ok (c # s))"

definition scan_value :: "string \<Rightarrow> nat" where
  "scan_value s = foldl (\<lambda>n c. 10 * n + (of_char c - 48)) 0 s"

definition scanUint8 :: "string \<Rightarrow> (8 word \<times> string) result" where
  "scanUint8 s =
     rbind (SkipSpace s) (\<lambda>s.
     let tok = takeWhile scan_digit s in
     if s = [] then Err (ExternalErr ''unexpected EOF'')
     else if tok = [] then Err (ExternalErr ''expected integer'')
     else if scan_value tok \<ge> 2 ^ 64 then Err (ExternalErr ''value out of range'')
     else if scan_value tok \<ge> 2 ^ 8 then Err (ExternalErr (''unsigned integer overflow on token '' @ tok))
     else Ok (word_of_nat (scan_value tok), dropWhile scan_digit s))"

definition scan_literal :: "char \<Rightarrow> string \<Rightarrow> string result" where
  "scan_literal l s =
     (case s of
        [] \<Rightarrow> Err (ExternalErr ''unexpected EOF'')
      | c # s \<Rightarrow> if c = l then Ok s else Err (ExternalErr ''input does not match format''))"

definition newVersion :: "string \<Rightarrow> Version result" where
  "newVersion vsn =
     rbind (scanUint8 vsn) (\<lambda>(a, s).
     rbind (scan_literal CHR ''.'' s) (\<lambda>s.
     rbind (scanUint8 s) (\<lambda>(b, s).
     rbind (scan_literal CHR ''.'' s) (\<lambda>s.
     rbind (scanUint8 s) (\<lambda>(c, s). Ok (a, b, c))))))"

definition Lt :: "Version \<Rightarrow> Version \<Rightarrow> bool" where
  "Lt v w \<longleftrightarrow> fst v < fst w \<or> fst (snd v) < fst (snd w) \<or> snd (snd v) < snd (snd w)"

section \<open>The upgrade graph\<close>

record node =
  nd_Version :: string
  nd_Payload :: string

text \<open>The body is decoded into a pointer, which the JSON value \<^verbatim>\<open>null\<close> leaves nil. A request is its address, its query and its header.\<close>

record 'w graph_env =
  gr_Do :: "string \<Rightarrow> (string \<times> string) list \<Rightarrow> header \<Rightarrow> ('w, string http_response) go"
  gr_Decode :: "string \<Rightarrow> node list option result"

fun releases_from :: "Version \<Rightarrow> node list \<Rightarrow> string list result" where
  "releases_from least [] = Ok []"
| "releases_from least (n # ns) =
     rbind (newVersion (nd_Version n)) (\<lambda>version.
     rbind (releases_from least ns) (\<lambda>releases.
     Ok (if Lt version least then releases else nd_Payload n # releases)))"

definition AddFromGraph :: "'w graph_env \<Rightarrow> string \<Rightarrow> Version \<Rightarrow> ('w, string list) go" where
  "AddFromGraph e channel least =
     gbind (gr_Do e ''https://api.openshift.com/api/upgrades_info/v1/graph''
         [(''channel'', channel @ ''-'' @ utoa (unat (fst least)) @ ''.'' @ utoa (unat (fst (snd least))))]
         (Header_Set ''Accept'' ''application/json'' [])) (\<lambda>resp.
     if rs_StatusCode resp \<noteq> 200
     then glift (Err (ErrorfErr (Fmt ''unexpected status code %d'' [AInt (rs_StatusCode resp)])))
     else if Header_Get (rs_Header resp) ''Content-Type'' \<noteq> ''application/json''
     then glift (Err (ErrorfErr (Fmt ''unexpected content type %q'' [AStr (Header_Get (rs_Header resp) ''Content-Type'')])))
     else gbind (glift (gr_Decode e (rs_Body resp))) (\<lambda>g.
       gbind (glift (nonnil g)) (\<lambda>nodes. glift (releases_from least nodes))))"

section \<open>The images of a release\<close>

record DockerAuthConfig =
  da_Username :: string
  da_Password :: string

record TagReference =
  tr_Name :: string
  tr_From :: "string option"

text \<open>
  A registry: references \<open>'r\<close>, layers \<open>'l\<close> and sources \<open>'s\<close> of images. An archive is the list of its entries and how it ends, orderly or with an error.
\<close>

record ('r, 'l, 's, 'w) registry =
  rg_ParseReference :: "string \<Rightarrow> 'r result"
  rg_NewImage :: "'r \<Rightarrow> DockerAuthConfig \<Rightarrow> ('w, 'l list) go"
  rg_NewImageSource :: "'r \<Rightarrow> DockerAuthConfig \<Rightarrow> ('w, 's) go"
  rg_GetBlob :: "'s \<Rightarrow> 'l \<Rightarrow> ('w, string) go"
  rg_gunzip :: "string \<Rightarrow> string result"
  rg_tar :: "string \<Rightarrow> (string \<times> string) list \<times> error option"
  rg_Decode :: "string \<Rightarrow> TagReference list option result"
  rg_NewPolicyContext :: "unit result"
  rg_copy_Image :: "'r \<Rightarrow> 'r \<Rightarrow> DockerAuthConfig \<Rightarrow> DockerAuthConfig \<Rightarrow> ('w, unit) go"

fun tar_loop :: "(string \<Rightarrow> 'x result) \<Rightarrow> (string \<times> string) list \<Rightarrow> error option \<Rightarrow> 'x option result" where
  "tar_loop decode [] ending = (case ending of None \<Rightarrow> Ok None | Some er \<Rightarrow> Err er)"
| "tar_loop decode ((name, content) # entries) ending =
     (if name = ''release-manifests/image-references'' then rbind (decode content) (\<lambda>x. Ok (Some x)) else tar_loop decode entries ending)"

definition layer_entries :: "('r, 'l, 's, 'w) registry \<Rightarrow> string \<Rightarrow> ((string \<times> string) list \<times> error option) result" where
  "layer_entries e blob =
     (if length blob < 2 then Err (ExternalErr ''EOF'')
      else rbind (if take 2 blob = [CHR 0x1F, CHR 0x8B] then rg_gunzip e blob else Ok blob) (\<lambda>b. Ok (rg_tar e b)))"

fun layer_loop :: "('r, 'l, 's, 'w) registry \<Rightarrow> 's \<Rightarrow> 'l list \<Rightarrow> ('w, TagReference list option) go" where
  "layer_loop e src [] = glift (Err (ErrorfErr (Fmt ''image references not found'' [])))"
| "layer_loop e src (l # ls) =
     gbind (rg_GetBlob e src l) (\<lambda>blob.
     gbind (glift (layer_entries e blob)) (\<lambda>(entries, ending).
     gbind (glift (tar_loop (rg_Decode e) entries ending)) (\<lambda>found.
     case found of Some is \<Rightarrow> greturn is | None \<Rightarrow> layer_loop e src ls)))"

definition getReleaseImageStream :: "('r, 'l, 's, 'w) registry \<Rightarrow> string \<Rightarrow> DockerAuthConfig \<Rightarrow> ('w, TagReference list option) go" where
  "getReleaseImageStream e reference auth =
     gbind (glift (rg_ParseReference e (''//'' @ reference))) (\<lambda>ref.
     gbind (rg_NewImage e ref auth) (\<lambda>layerInfos.
     gbind (rg_NewImageSource e ref auth) (\<lambda>src.
     layer_loop e src (rev layerInfos))))"

section \<open>Copying\<close>

definition copyImage ::
    "('r, 'l, 's, 'w) registry \<Rightarrow> string \<Rightarrow> string \<Rightarrow> DockerAuthConfig \<Rightarrow> DockerAuthConfig \<Rightarrow> ('w, unit) go" where
  "copyImage e dstreference srcreference dstauth srcauth =
     gbind (glift (rg_NewPolicyContext e)) (\<lambda>_.
     gbind (glift (rg_ParseReference e (''//'' @ srcreference))) (\<lambda>src.
     gbind (glift (rg_ParseReference e (''//'' @ dstreference))) (\<lambda>dst.
     rg_copy_Image e dst src dstauth srcauth)))"

text \<open>The reference in the provider's registry; a reference without a slash has index -1, at which it cannot be sliced.\<close>

definition mirror_dst :: "string \<Rightarrow> string \<Rightarrow> string result" where
  "mirror_dst repo reference =
     (if CHR ''/'' \<in> set reference then Ok (repo @ dropWhile (\<lambda>c. c \<noteq> CHR ''/'') reference) else Panic ''slice bounds out of range'')"

record work =
  wk_tag :: string
  wk_dstreference :: string
  wk_srcreference :: string
  wk_dstauth :: DockerAuthConfig
  wk_srcauth :: DockerAuthConfig

definition work_for :: "string \<Rightarrow> DockerAuthConfig \<Rightarrow> DockerAuthConfig \<Rightarrow> string \<Rightarrow> string option \<Rightarrow> work result" where
  "work_for dstrepo dstauth srcauth tag reference =
     rbind (nonnil reference) (\<lambda>src.
     rbind (mirror_dst dstrepo src) (\<lambda>dst.
     Ok \<lparr>wk_tag = tag, wk_dstreference = dst, wk_srcreference = src, wk_dstauth = dstauth, wk_srcauth = srcauth\<rparr>))"

definition image_works :: "string \<Rightarrow> DockerAuthConfig \<Rightarrow> DockerAuthConfig \<Rightarrow> string \<Rightarrow> TagReference list \<Rightarrow> work result list" where
  "image_works dstrepo dstauth srcauth srcrelease tags =
     work_for dstrepo dstauth srcauth ''release'' (Some srcrelease)
     # map (\<lambda>t. work_for dstrepo dstauth srcauth (tr_Name t) (tr_From t)) tags"

subsection \<open>The workers\<close>

text \<open>
  The state of the pool: what the producer has still to put on the channel, what the workers hold (an unbuffered channel, so that a piece of work is taken by an idle
  worker or not at all), the copies made with their outcomes, in the order they ended, and the flag \<^verbatim>\<open>errorOccurred\<close>. A panic of a goroutine ends the process.
\<close>

record 'w pool =
  pl_pending :: "work result list"
  pl_running :: "work list"
  pl_done :: "(work \<times> unit result) list"
  pl_errorOccurred :: bool
  pl_panic :: "string option"
  pl_world :: 'w

definition workers :: nat where
  "workers = 10"

definition pool_start :: "work result list \<Rightarrow> 'w \<Rightarrow> 'w pool" where
  "pool_start xs w = \<lparr>pl_pending = xs, pl_running = [], pl_done = [], pl_errorOccurred = False, pl_panic = None, pl_world = w\<rparr>"

definition pool_send :: "'w pool \<Rightarrow> 'w pool" where
  "pool_send p =
     (case pl_pending p of
        [] \<Rightarrow> p
      | Ok x # xs \<Rightarrow> p\<lparr>pl_pending := xs, pl_running := pl_running p @ [x]\<rparr>
      | Panic m # xs \<Rightarrow> p\<lparr>pl_panic := Some m\<rparr>
      | Err _ # xs \<Rightarrow> p\<lparr>pl_panic := Some []\<rparr>)"

definition pool_finish :: "('r, 'l, 's, 'w) registry \<Rightarrow> nat \<Rightarrow> 'w pool \<Rightarrow> 'w pool" where
  "pool_finish e i p =
     (let x = pl_running p ! i in
      case copyImage e (wk_dstreference x) (wk_srcreference x) (wk_dstauth x) (wk_srcauth x) (pl_world p) of
        (Panic m, w) \<Rightarrow> p\<lparr>pl_panic := Some m, pl_world := w\<rparr>
      | (r, w) \<Rightarrow> p\<lparr>pl_running := take i (pl_running p) @ drop (Suc i) (pl_running p), pl_done := pl_done p @ [(x, r)],
                   pl_errorOccurred := (pl_errorOccurred p \<or> r \<noteq> Ok ()), pl_world := w\<rparr>)"

text \<open>
  The producer evaluates the piece of work before it waits for a worker, so that a panic does not wait. One step, by the scheduler's choice: 0 lets the producer go on if it can, \<open>i + 1\<close> lets the \<open>i\<close>-th copy end; where the choice is not possible another one
  is made, so that every order of steps is some sequence of choices.
\<close>

definition can_send :: "'w pool \<Rightarrow> bool" where
  "can_send p \<longleftrightarrow> (case pl_pending p of [] \<Rightarrow> False | Ok _ # _ \<Rightarrow> length (pl_running p) < workers | _ \<Rightarrow> True)"

definition pool_step :: "('r, 'l, 's, 'w) registry \<Rightarrow> nat \<Rightarrow> 'w pool \<Rightarrow> 'w pool" where
  "pool_step e choice p =
     (if can_send p \<and> (choice = 0 \<or> pl_running p = []) then pool_send p
      else pool_finish e ((choice - 1) mod length (pl_running p)) p)"

definition pool_over :: "'w pool \<Rightarrow> bool" where
  "pool_over p \<longleftrightarrow> pl_panic p \<noteq> None \<or> (pl_pending p = [] \<and> pl_running p = [])"

definition pool_size :: "'w pool \<Rightarrow> nat" where
  "pool_size p = (if pl_panic p \<noteq> None then 0 else Suc (2 * length (pl_pending p) + length (pl_running p)))"

lemma pool_step_cases:
  assumes "\<not> pool_over p"
  obtains (send) "can_send p" "pool_step e choice p = pool_send p"
    | (finish) i where "i < length (pl_running p)" "pool_step e choice p = pool_finish e i p"
proof (cases "can_send p \<and> (choice = 0 \<or> pl_running p = [])")
  case True
  then show ?thesis using send by (simp add: pool_step_def)
next
  case False
  with assms have "pl_running p \<noteq> []"
    by (auto simp: pool_over_def can_send_def workers_def split: list.splits result.splits)
  then have "(choice - 1) mod length (pl_running p) < length (pl_running p)" by simp
  moreover have "pool_step e choice p = pool_finish e ((choice - 1) mod length (pl_running p)) p"
    using False unfolding pool_step_def by (rule if_not_P)
  ultimately show ?thesis by (rule finish)
qed

lemma pool_step_smaller:
  assumes "\<not> pool_over p"
  shows "pool_size (pool_step e choice p) < pool_size p"
  using assms
proof (cases rule: pool_step_cases [where e = e and choice = choice])
  case send
  then show ?thesis using assms
    by (auto simp: pool_send_def can_send_def pool_size_def pool_over_def split: list.splits result.splits)
next
  case (finish i)
  then show ?thesis using assms
    by (auto simp: pool_finish_def pool_size_def pool_over_def Let_def split: Product_Type.prod.splits result.splits)
qed

function pool_run :: "('r, 'l, 's, 'w) registry \<Rightarrow> nat list \<Rightarrow> 'w pool \<Rightarrow> 'w pool" where
  "pool_run e choices p =
     (if pool_over p then p else pool_run e (tl choices) (pool_step e (case choices of [] \<Rightarrow> 0 | c # _ \<Rightarrow> c) p))"
  by auto
termination by (relation "measure (\<lambda>(e, choices, p). pool_size p)") (auto intro: pool_step_smaller)

declare pool_run.simps [simp del]

definition Mirror ::
    "('r, 'l, 's, 'w) registry \<Rightarrow> nat list \<Rightarrow> string \<Rightarrow> string \<Rightarrow> DockerAuthConfig \<Rightarrow> DockerAuthConfig \<Rightarrow> ('w, unit) go" where
  "Mirror e choices dstrepo srcrelease dstauth srcauth =
     gbind (getReleaseImageStream e srcrelease srcauth) (\<lambda>is.
     gbind (glift (nonnil is)) (\<lambda>tags w.
     let p = pool_run e choices (pool_start (image_works dstrepo dstauth srcauth srcrelease tags) w) in
     (case pl_panic p of
        Some m \<Rightarrow> Panic m
      | None \<Rightarrow> if pl_errorOccurred p then Err (ErrorfErr (Fmt ''an error occurred'' [])) else Ok (), pl_world p)))"

section \<open>The command\<close>

definition getAuth :: "(string \<Rightarrow> string result) \<Rightarrow> (string \<Rightarrow> string option) \<Rightarrow> string \<Rightarrow> DockerAuthConfig result" where
  "getAuth base64 lookup key =
     rbind (base64 (getenv lookup key)) (\<lambda>b.
     if CHR '':'' \<in> set b
     then Ok \<lparr>da_Username = takeWhile (\<lambda>c. c \<noteq> CHR '':'') b, da_Password = tl (dropWhile (\<lambda>c. c \<noteq> CHR '':'') b)\<rparr>
     else Panic ''slice bounds out of range'')"

fun mirror_releases ::
    "('r, 'l, 's, 'w) registry \<Rightarrow> (string \<Rightarrow> nat list) \<Rightarrow> DockerAuthConfig \<Rightarrow> DockerAuthConfig \<Rightarrow> string list \<Rightarrow> bool \<Rightarrow> ('w, bool) go" where
  "mirror_releases e choices dstauth srcauth [] errorOccurred = greturn errorOccurred"
| "mirror_releases e choices dstauth srcauth (r # rs) errorOccurred =
     (\<lambda>w. case Mirror e (choices r) ''arosvc.azurecr.io'' r dstauth srcauth w of
        (Ok _, w) \<Rightarrow> mirror_releases e choices dstauth srcauth rs errorOccurred w
      | (Err _, w) \<Rightarrow> mirror_releases e choices dstauth srcauth rs True w
      | (Panic m, w) \<Rightarrow> (Panic m, w))"

definition nightly :: string where
  "nightly = ''quay.io/openshift-release-dev/ocp-release-nightly@sha256:5f1ff5e767acd58445532222c38e643069fdb9fdf0bb176ced48bc2eb1032f2a''"

definition mirror ::
    "('r, 'l, 's, 'w) registry \<Rightarrow> 'w graph_env \<Rightarrow> (string \<Rightarrow> string result) \<Rightarrow> (string \<Rightarrow> string option) \<Rightarrow> (string \<Rightarrow> nat list) \<Rightarrow> ('w, unit) go" where
  "mirror e g base64 lookup choices =
     gbind (glift (require_env lookup [''DST_AUTH'', ''SRC_AUTH''])) (\<lambda>_.
     gbind (glift (getAuth base64 lookup ''DST_AUTH'')) (\<lambda>dstauth.
     gbind (glift (getAuth base64 lookup ''SRC_AUTH'')) (\<lambda>srcauth.
     gbind (AddFromGraph g ''stable'' (4, 3, 0)) (\<lambda>releases.
     gbind (mirror_releases e choices dstauth srcauth (releases @ [nightly]) False) (\<lambda>errorOccurred.
     glift (if errorOccurred then Err (ErrorfErr (Fmt ''an error occurred'' [])) else Ok ()))))))"

section \<open>What holds of versions\<close>

lemma scan_digit_digit_char: "d < 10 \<Longrightarrow> scan_digit (digit_char d) \<and> of_char (digit_char d) - 48 = d"
proof -
  assume "d < 10"
  then have "d \<in> {0, 1, 2, 3, 4, 5, 6, 7, 8, 9}" by auto
  then show ?thesis by (elim insertE emptyE; hypsubst; code_simp)
qed

lemma scan_value_snoc: "scan_value (s @ [c]) = 10 * scan_value s + (of_char c - 48)"
  by (simp add: scan_value_def)

lemma utoa_digits: "list_all scan_digit (utoa n) \<and> scan_value (utoa n) = n \<and> utoa n \<noteq> []"
proof (induction n rule: utoa.induct)
  case (1 n)
  show ?case
  proof (cases "n < 10")
    case True
    then have "utoa n = [digit_char n]" by (subst utoa.simps) simp
    then show ?thesis using scan_digit_digit_char [OF True] by (simp add: scan_value_def)
  next
    case False
    then have u: "utoa n = utoa (n div 10) @ [digit_char (n mod 10)]" by (subst utoa.simps) simp
    show ?thesis using 1 False scan_digit_digit_char [of "n mod 10"] unfolding u by (simp add: scan_value_snoc)
  qed
qed

lemma takeWhile_number:
  assumes "list_all P xs" "rest = [] \<or> \<not> P (hd rest)"
  shows "takeWhile P (xs @ rest) = xs \<and> dropWhile P (xs @ rest) = rest"
proof -
  from assms(2) have "takeWhile P rest = []" "dropWhile P rest = rest" by (cases rest; auto)+
  moreover from assms(1) have "\<forall>x \<in> set xs. P x" by (simp add: list_all_iff)
  ultimately show ?thesis by (simp add: takeWhile_append dropWhile_append)
qed

lemma SkipSpace_number: "xs \<noteq> [] \<Longrightarrow> list_all scan_digit xs \<Longrightarrow> SkipSpace (xs @ rest) = Ok (xs @ rest)"
  by (cases xs) (auto simp: scan_digit_def)

lemma scanUint8_utoa:
  assumes "rest = [] \<or> \<not> scan_digit (hd rest)"
  shows "n < 256 \<Longrightarrow> scanUint8 (utoa n @ rest) = Ok (word_of_nat n, rest)"
    and "256 \<le> n \<Longrightarrow> \<exists>er. scanUint8 (utoa n @ rest) = Err er"
  using utoa_digits [of n] takeWhile_number [where P = scan_digit and xs = "utoa n", OF _ assms] SkipSpace_number [of "utoa n" rest]
  by (auto simp: scanUint8_def Let_def)

text \<open>
  A version is read as it is written: three numbers below 256 with dots between them give back the three bytes, whatever follows that is not a digit (a
  pre-release, as in the nightly builds, is ignored).
\<close>

lemma newVersion_round_trip:
  assumes "a < 256" "b < 256" "c < 256" and "rest = [] \<or> \<not> scan_digit (hd rest)"
  shows "newVersion (utoa a @ ''.'' @ utoa b @ ''.'' @ utoa c @ rest) = Ok (word_of_nat a, word_of_nat b, word_of_nat c)"
proof -
  have "\<not> scan_digit CHR ''.''" by (simp add: scan_digit_def)
  then show ?thesis using assms by (simp add: newVersion_def scanUint8_utoa scan_literal_def)
qed

lemma newVersion_nightly:
  "newVersion (utoa 4 @ ''.'' @ utoa 3 @ ''.'' @ utoa 0 @ ''-0.nightly-2019-12-05-001549'') = Ok (4, 3, 0)"
  using newVersion_round_trip [of 4 3 0 "''-0.nightly-2019-12-05-001549''"] by (simp add: scan_digit_def)

text \<open>
  The comparison is of the components one by one: it agrees with the order of versions where the majors are the same and the bound has no patch level, as it is called
  with; it is not an order, and a later major with a smaller minor is taken to be older.
\<close>

definition older :: "Version \<Rightarrow> Version \<Rightarrow> bool" where
  "older v w \<longleftrightarrow> fst v < fst w \<or> fst v = fst w \<and> (fst (snd v) < fst (snd w) \<or> fst (snd v) = fst (snd w) \<and> snd (snd v) < snd (snd w))"

lemma Lt_older: "fst v = fst w \<Longrightarrow> snd (snd w) = 0 \<Longrightarrow> Lt v w \<longleftrightarrow> older v w"
  by (auto simp: Lt_def older_def)

lemma older_Lt: "older v w \<Longrightarrow> Lt v w"
  by (auto simp: Lt_def older_def)

lemma Lt_not_an_order: "Lt (5, 0, 0) (4, 3, 0) \<and> Lt (4, 3, 0) (5, 0, 0)"
  by (simp add: Lt_def)

lemma releases_from_Ok:
  "releases_from least ns = Ok rs \<Longrightarrow>
   (\<forall>n \<in> set ns. \<exists>v. newVersion (nd_Version n) = Ok v)
   \<and> rs = map nd_Payload (filter (\<lambda>n. \<exists>v. newVersion (nd_Version n) = Ok v \<and> \<not> Lt v least) ns)"
  by (induction ns arbitrary: rs) auto

section \<open>What holds of the workers\<close>

definition pool_inv :: "('r, 'l, 's, 'w) registry \<Rightarrow> work result list \<Rightarrow> 'w pool \<Rightarrow> bool" where
  "pool_inv e xs p \<longleftrightarrow>
     mset (map Ok (map fst (pl_done p) @ pl_running p) @ pl_pending p) = mset xs
     \<and> (pl_errorOccurred p \<longleftrightarrow> (\<exists>x r. (x, r) \<in> set (pl_done p) \<and> r \<noteq> Ok ()))
     \<and> length (pl_running p) \<le> workers
     \<and> (\<forall>(x, r) \<in> set (pl_done p). \<exists>w w'. copyImage e (wk_dstreference x) (wk_srcreference x) (wk_dstauth x) (wk_srcauth x) w = (r, w'))"

lemma pool_inv_start: "pool_inv e xs (pool_start xs w)"
  by (simp add: pool_inv_def pool_start_def)

lemma pool_inv_send: "pool_inv e xs p \<Longrightarrow> can_send p \<Longrightarrow> pool_inv e xs (pool_send p)"
  by (auto simp: pool_inv_def can_send_def pool_send_def split: list.splits result.splits)

lemma mset_take_drop: "i < length ys \<Longrightarrow> add_mset (ys ! i) (mset (take i ys) + mset (drop (Suc i) ys)) = mset ys"
  by (metis id_take_nth_drop mset.simps(2) mset_append union_mset_add_mset_right)

lemma pool_inv_finish:
  assumes "pool_inv e xs p" "i < length (pl_running p)"
  shows "pool_inv e xs (pool_finish e i p)"
proof -
  let ?x = "pl_running p ! i"
  obtain r w where c: "copyImage e (wk_dstreference ?x) (wk_srcreference ?x) (wk_dstauth ?x) (wk_srcauth ?x) (pl_world p) = (r, w)" by fastforce
  have "image_mset Ok (mset (pl_running p)) = image_mset Ok (add_mset ?x (mset (take i (pl_running p)) + mset (drop (Suc i) (pl_running p))))"
    using mset_take_drop [OF assms(2)] by simp
  moreover have "length (take i (pl_running p) @ drop (Suc i) (pl_running p)) \<le> workers"
    using assms by (auto simp: pool_inv_def)
  moreover have "\<exists>w w'. copyImage e (wk_dstreference ?x) (wk_srcreference ?x) (wk_dstauth ?x) (wk_srcauth ?x) w = (r, w')" using c by blast
  ultimately show ?thesis using assms(1) c
    by (cases r) (auto simp: pool_inv_def pool_finish_def Let_def ac_simps)
qed

lemma pool_inv_step: "pool_inv e xs p \<Longrightarrow> \<not> pool_over p \<Longrightarrow> pool_inv e xs (pool_step e choice p)"
  by (erule pool_step_cases [where e = e and choice = choice]) (simp_all add: pool_inv_send pool_inv_finish)

lemma pool_inv_run: "pool_inv e xs p \<Longrightarrow> pool_inv e xs (pool_run e choices p) \<and> pool_over (pool_run e choices p)"
proof (induction e choices p rule: pool_run.induct)
  case (1 e choices p)
  show ?case
  proof (cases "pool_over p")
    case True
    with 1(2) show ?thesis by (simp add: pool_run.simps [of e choices p])
  next
    case False
    from pool_inv_step [OF 1(2) False] 1(1) [OF False] show ?thesis unfolding pool_run.simps [of e choices p] if_not_P [OF False] by blast
  qed
qed

lemma pool_run_start:
  "pool_inv e xs (pool_run e choices (pool_start xs w)) \<and> pool_over (pool_run e choices (pool_start xs w))"
  by (rule pool_inv_run [OF pool_inv_start])


text \<open>It does succeed when the references can be rewritten and no copy fails.\<close>

definition copies_well :: "('r, 'l, 's, 'w) registry \<Rightarrow> work \<Rightarrow> bool" where
  "copies_well e x \<longleftrightarrow> (\<forall>w. \<exists>w'. copyImage e (wk_dstreference x) (wk_srcreference x) (wk_dstauth x) (wk_srcauth x) w = (Ok (), w'))"

definition pool_calm :: "('r, 'l, 's, 'w) registry \<Rightarrow> 'w pool \<Rightarrow> bool" where
  "pool_calm e p \<longleftrightarrow> pl_panic p = None \<and> \<not> pl_errorOccurred p \<and> list_all (copies_well e) (pl_running p)
     \<and> (\<forall>r \<in> set (pl_pending p). \<exists>x. r = Ok x \<and> copies_well e x)"

lemma pool_calm_finish:
  assumes "pool_calm e p" "i < length (pl_running p)"
  shows "pool_calm e (pool_finish e i p)"
proof -
  let ?x = "pl_running p ! i"
  from assms have "copies_well e ?x" by (simp add: pool_calm_def list_all_length)
  then obtain w' where "copyImage e (wk_dstreference ?x) (wk_srcreference ?x) (wk_dstauth ?x) (wk_srcauth ?x) (pl_world p) = (Ok (), w')"
    unfolding copies_well_def by blast
  then show ?thesis using assms by (auto simp: pool_calm_def pool_finish_def Let_def list_all_iff dest: in_set_takeD in_set_dropD)
qed

lemma pool_calm_send: "pool_calm e p \<Longrightarrow> can_send p \<Longrightarrow> pool_calm e (pool_send p)"
  by (auto simp: pool_calm_def pool_send_def can_send_def split: list.splits result.splits)

lemma pool_calm_step: "pool_calm e p \<Longrightarrow> \<not> pool_over p \<Longrightarrow> pool_calm e (pool_step e choice p)"
  by (erule pool_step_cases [where e = e and choice = choice]) (simp_all add: pool_calm_send pool_calm_finish)

lemma pool_calm_run: "pool_calm e p \<Longrightarrow> pool_calm e (pool_run e choices p)"
proof (induction e choices p rule: pool_run.induct)
  case (1 e choices p)
  show ?case
  proof (cases "pool_over p")
    case True
    with 1(2) show ?thesis by (simp add: pool_run.simps [of e choices p])
  next
    case False
    from pool_calm_step [OF 1(2) False] 1(1) [OF False] show ?thesis unfolding pool_run.simps [of e choices p] if_not_P [OF False] by blast
  qed
qed

lemma mirror_succeeds:
  assumes "getReleaseImageStream e srcrelease srcauth w = (Ok (Some tags), w1)"
    and "\<forall>r \<in> set (image_works dstrepo dstauth srcauth srcrelease tags). \<exists>x. r = Ok x \<and> copies_well e x"
  shows "\<exists>w'. Mirror e choices dstrepo srcrelease dstauth srcauth w = (Ok (), w')"
proof -
  have "pool_calm e (pool_start (image_works dstrepo dstauth srcauth srcrelease tags) w1)" using assms(2) by (simp add: pool_calm_def pool_start_def)
  then have "pool_calm e (pool_run e choices (pool_start (image_works dstrepo dstauth srcauth srcrelease tags) w1))" by (rule pool_calm_run)
  then show ?thesis using assms(1) by (simp add: Mirror_def Let_def pool_calm_def)
qed

text \<open>A release is left out by its major or its minor alone; a fifth major would not be mirrored before its third minor.\<close>

lemma mirrored_releases: "\<not> Lt v (4, 3, 0) \<longleftrightarrow> 4 \<le> fst v \<and> 3 \<le> fst (snd v)"
  by (auto simp: Lt_def not_less)

subsection \<open>A registry\<close>

text \<open>A registry of one layer, whose world is the list of the references written to.\<close>

definition small_registry :: "(string, unit, unit, string list) registry" where
  "small_registry = \<lparr>rg_ParseReference = Ok, rg_NewImage = (\<lambda>_ _. greturn [()]), rg_NewImageSource = (\<lambda>_ _. greturn ()),
     rg_GetBlob = (\<lambda>_ _. greturn ''tar''), rg_gunzip = Ok, rg_tar = (\<lambda>_. ([(''release-manifests/image-references'', [])], None)),
     rg_Decode = (\<lambda>_. Ok (Some [\<lparr>tr_Name = ''cli'', tr_From = Some ''quay.io/a/b''\<rparr>, \<lparr>tr_Name = ''etcd'', tr_From = Some ''quay.io/a/c''\<rparr>])),
     rg_NewPolicyContext = Ok (), rg_copy_Image = (\<lambda>dst _ _ _ w. (Ok (), w @ [dst]))\<rparr>"

definition nobody :: DockerAuthConfig where
  "nobody = \<lparr>da_Username = [], da_Password = []\<rparr>"

lemma small_mirror:
  "Mirror small_registry [0, 0, 2, 0, 2] ''arosvc.azurecr.io'' ''quay.io/r'' nobody nobody []
   = (Ok (), [''//arosvc.azurecr.io/a/b'', ''//arosvc.azurecr.io/a/c'', ''//arosvc.azurecr.io/r''])"
  by code_simp


end
