(* ===== verification/TypeWalker.thy ===== *)
theory TypeWalker
  imports V20191231preview Http
begin

text \<open>
  The type walker of the Swagger generator, \<^verbatim>\<open>src/pkg/swagger/typewalker.go\<close>: it reads the declarations of a Go package and turns the types reachable from
  some names into the definitions of a Swagger document.

  A package is what \<^verbatim>\<open>go/packages\<close> loads of it: its scope, in the order of the names. A struct tag is the list of its keys and values. A Go map is iterated
  in no fixed order, so the order in which dependencies are visited is a parameter; recursion has the depth of the stack as its first argument, as in \<open>Graph\<close>.
\<close>

section \<open>Go types and schemas\<close>

type_synonym named = "string \<times> string"

datatype const_value = CInt int | CString string | COther

text \<open>The syntax of a field (its tag, if it has one, and its comment) is known only if the field is declared in the package.\<close>

datatype go_type =
    is_TBasic: TBasic string
  | TMap go_type
  | TNamed named
  | TPointer go_type
  | TSlice go_type
  | TStruct "go_field list"
  | TOther string
and go_field = Field (f_node: "((string \<times> string) list option \<times> string) option") (f_Type: go_type)

datatype scope_object =
    OConst go_type const_value
  | OType go_type string
  | OOther

record package =
  pk_Path :: string
  pk_Scope :: "(string \<times> scope_object) list"

text \<open>A schema, with the fields the generator sets. The others keep their zero value, which is left out of the document.\<close>

datatype Schema =
  Schema (sc_Ref: string) (sc_Description: string) (sc_Enum: "const_value list") (sc_Type: string) (sc_Items: "Schema option") (sc_AllOf: "Schema list")
    (sc_Properties: "(string \<times> Schema) list") (sc_AdditionalProperties: "Schema option") (sc_ClientFlatten: bool) (sc_Mutability: "string list")

definition zero_schema :: Schema where
  "zero_schema = Schema [] [] [] [] None [] [] None False []"

definition ref_schema :: "string \<Rightarrow> Schema" where
  "ref_schema r = Schema r [] [] [] None [] [] None False []"

definition type_schema :: "string \<Rightarrow> Schema" where
  "type_schema t = Schema [] [] [] t None [] [] None False []"

fun set_Description :: "string \<Rightarrow> Schema \<Rightarrow> Schema" where
  "set_Description d (Schema r _ e t i a p ap c m) = Schema r d e t i a p ap c m"

fun set_Enum :: "const_value list \<Rightarrow> Schema \<Rightarrow> Schema" where
  "set_Enum e (Schema r d _ t i a p ap c m) = Schema r d e t i a p ap c m"

text \<open>The references in a schema.\<close>

primrec refs_of :: "Schema \<Rightarrow> string list" where
  "refs_of (Schema r d e t i a p ap c m) =
     (if r = [] then [] else [r]) @ case_option [] id (map_option refs_of i) @ concat (map refs_of a)
     @ concat (map snd (map (map_prod id refs_of) p)) @ case_option [] id (map_option refs_of ap)"

section \<open>The walk\<close>

definition Trim_newlines :: "string \<Rightarrow> string" where
  "Trim_newlines s = rev (dropWhile (\<lambda>c. c = CHR 0x0A) (rev (dropWhile (\<lambda>c. c = CHR 0x0A) s)))"

definition tag_Get :: "(string \<times> string) list \<Rightarrow> string \<Rightarrow> string" where
  "tag_Get tag key = (case map_of tag key of None \<Rightarrow> [] | Some v \<Rightarrow> v)"

definition json_name :: "(string \<times> string) list \<Rightarrow> string" where
  "json_name tag = takeWhile (\<lambda>c. c \<noteq> CHR '','') (tag_Get tag ''json'')"

definition definitions_ref :: "string \<Rightarrow> string" where
  "definitions_ref n = ''#/definitions/'' @ n"

fun schemaFromType :: "go_type \<Rightarrow> (Schema \<times> named list) result"
and schemaFromFields :: "go_field list \<Rightarrow> ((string \<times> Schema) list \<times> named list) result" where
  "schemaFromType (TBasic k) =
     (if k = ''bool'' then Ok (type_schema ''boolean'', [])
      else if k = ''int'' then Ok (type_schema ''integer'', [])
      else if k = ''string'' then Ok (type_schema ''string'', [])
      else Panic k)"
| "schemaFromType (TMap t) =
     rbind (schemaFromType t) (\<lambda>(s, deps). Ok (Schema [] [] [] ''object'' None [] [] (Some s) False [], deps))"
| "schemaFromType (TNamed t) = Ok (ref_schema (definitions_ref (snd t)), [t])"
| "schemaFromType (TPointer t) = schemaFromType t"
| "schemaFromType (TSlice t) =
     (if is_TBasic t then Ok (if t = TBasic ''uint8'' then type_schema ''string'' else zero_schema, [])
      else rbind (schemaFromType t) (\<lambda>(s, deps). Ok (Schema [] [] [] ''array'' (Some s) [] [] None False [], deps)))"
| "schemaFromType (TStruct fs) =
     rbind (schemaFromFields fs) (\<lambda>(ps, deps). Ok (Schema [] [] [] [] None [] ps None False [], deps))"
| "schemaFromType (TOther n) = Panic n"
| "schemaFromFields [] = Ok ([], [])"
| "schemaFromFields (Field node t # fs) =
     (case node of
        None \<Rightarrow> Panic ''index out of range''
      | Some (None, _) \<Rightarrow> Panic ''nil pointer dereference''
      | Some (Some tag, doc) \<Rightarrow>
          if json_name tag = ''-'' then schemaFromFields fs
          else rbind (schemaFromType t) (\<lambda>(s, deps).
            rbind (schemaFromFields fs) (\<lambda>(ps, deps').
            Ok ((json_name tag, set_Description (Trim_newlines doc) s) # ps, deps @ deps'))))"

definition Exported :: "string \<Rightarrow> bool" where
  "Exported n \<longleftrightarrow> (case n of [] \<Rightarrow> False | c # _ \<Rightarrow> is_upper c)"

record typeWalker =
  tw_pkg :: package
  tw_enums :: "(go_type \<times> const_value) list"

fun populate_enums :: "(string \<times> scope_object) list \<Rightarrow> (go_type \<times> const_value) list result" where
  "populate_enums [] = Ok []"
| "populate_enums ((n, obj) # objs) =
     (case obj of
        OConst t v \<Rightarrow>
          if \<not> Exported n then populate_enums objs
          else if v = COther then Panic n
          else rbind (populate_enums objs) (\<lambda>es. Ok ((t, v) # es))
      | _ \<Rightarrow> populate_enums objs)"

definition newTypeWalker :: "(string \<Rightarrow> package list result) \<Rightarrow> string \<Rightarrow> typeWalker result" where
  "newTypeWalker load pkgname =
     rbind (load pkgname) (\<lambda>pkgs.
     case pkgs of
       [pkg] \<Rightarrow> rbind (populate_enums (pk_Scope pkg)) (\<lambda>es. Ok \<lparr>tw_pkg = pkg, tw_enums = es\<rparr>)
     | _ \<Rightarrow> Err (ErrorfErr (Fmt ''found %d packages, expected 1'' [AInt (int (length pkgs))])))"

definition enums_of :: "typeWalker \<Rightarrow> named \<Rightarrow> const_value list" where
  "enums_of tw t = map snd (filter (\<lambda>(t', v). t' = TNamed t) (tw_enums tw))"

text \<open>
  The schema of a named type and the types it refers to. Of a type of another package the syntax is not at hand, so that its comment, the last but one node of an empty
  path, cannot be read.
\<close>

definition definition_of :: "typeWalker \<Rightarrow> named \<Rightarrow> (Schema \<times> named list) result" where
  "definition_of tw t =
     (if fst t \<noteq> pk_Path (tw_pkg tw) then Panic ''index out of range''
      else case map_of (pk_Scope (tw_pkg tw)) (snd t) of
        Some (OType u doc) \<Rightarrow>
          rbind (schemaFromType u) (\<lambda>(s, deps). Ok (set_Enum (enums_of tw t) (set_Description (Trim_newlines doc) s), deps))
      | _ \<Rightarrow> Panic ''index out of range'')"

type_synonym Definitions = "string \<rightharpoonup> Schema"

fun define_deps :: "(Definitions \<Rightarrow> named \<Rightarrow> Definitions result) \<Rightarrow> named list \<Rightarrow> Definitions \<Rightarrow> Definitions result" where
  "define_deps f [] defs = Ok defs"
| "define_deps f (dep # deps) defs =
     (if defs (snd dep) = None then rbind (f defs dep) (define_deps f deps) else define_deps f deps defs)"

primrec define_type :: "nat \<Rightarrow> (named list \<Rightarrow> named list) \<Rightarrow> typeWalker \<Rightarrow> Definitions \<Rightarrow> named \<Rightarrow> Definitions result" where
  "define_type 0 ord tw defs t = Panic ''stack overflow''"
| "define_type (Suc depth) ord tw defs t =
     rbind (definition_of tw t) (\<lambda>(s, deps).
     define_deps (define_type depth ord tw) (ord (remdups deps)) (defs(snd t \<mapsto> s)))"

definition define_name :: "nat \<Rightarrow> (named list \<Rightarrow> named list) \<Rightarrow> typeWalker \<Rightarrow> Definitions \<Rightarrow> string \<Rightarrow> Definitions result" where
  "define_name depth ord tw defs name =
     (case map_of (pk_Scope (tw_pkg tw)) name of
        Some (OType _ _) \<Rightarrow> define_type depth ord tw defs (pk_Path (tw_pkg tw), name)
      | _ \<Rightarrow> Panic ''interface conversion'')"

fun define_names :: "nat \<Rightarrow> (named list \<Rightarrow> named list) \<Rightarrow> typeWalker \<Rightarrow> string list \<Rightarrow> Definitions \<Rightarrow> Definitions result" where
  "define_names depth ord tw [] defs = Ok defs"
| "define_names depth ord tw (n # ns) defs = rbind (define_name depth ord tw defs n) (define_names depth ord tw ns)"

definition define_package ::
    "nat \<Rightarrow> (named list \<Rightarrow> named list) \<Rightarrow> (string \<Rightarrow> package list result) \<Rightarrow> Definitions \<Rightarrow> string \<Rightarrow> string list \<Rightarrow> Definitions result" where
  "define_package depth ord load defs pkgname names =
     rbind (newTypeWalker load pkgname) (\<lambda>tw. define_names depth ord tw names defs)"

section \<open>The definitions are those of the reachable types\<close>

text \<open>The names of the package's types that are reachable from some names.\<close>

inductive reachable :: "typeWalker \<Rightarrow> string set \<Rightarrow> string \<Rightarrow> bool" for tw roots where
  reachable_root: "n \<in> roots \<Longrightarrow> reachable tw roots n"
| reachable_dep: "reachable tw roots n \<Longrightarrow> definition_of tw (pk_Path (tw_pkg tw), n) = Ok (s, deps) \<Longrightarrow> d \<in> set deps \<Longrightarrow> reachable tw roots (snd d)"

definition schema_of :: "typeWalker \<Rightarrow> string \<Rightarrow> Schema" where
  "schema_of tw n = (case definition_of tw (pk_Path (tw_pkg tw), n) of Ok (s, _) \<Rightarrow> s | _ \<Rightarrow> zero_schema)"

definition deps_of :: "typeWalker \<Rightarrow> string \<Rightarrow> named list" where
  "deps_of tw n = (case definition_of tw (pk_Path (tw_pkg tw), n) of Ok (_, ds) \<Rightarrow> ds | _ \<Rightarrow> [])"

text \<open>The generator supports a package from some names on if every type it reaches is one of the package's own and can be described.\<close>

definition supported :: "typeWalker \<Rightarrow> string set \<Rightarrow> bool" where
  "supported tw roots \<longleftrightarrow>
     (\<forall>n. reachable tw roots n \<longrightarrow>
        (\<exists>r. definition_of tw (pk_Path (tw_pkg tw), n) = Ok r \<and> (\<forall>d \<in> set (snd r). fst d = pk_Path (tw_pkg tw))))"

definition any_order :: "(named list \<Rightarrow> named list) \<Rightarrow> bool" where
  "any_order ord \<longleftrightarrow> (\<forall>xs. set (ord xs) = set xs)"

definition missing :: "typeWalker \<Rightarrow> Definitions \<Rightarrow> string set" where
  "missing tw defs = set (map fst (pk_Scope (tw_pkg tw))) - dom defs"

definition grow :: "typeWalker \<Rightarrow> string set \<Rightarrow> Definitions \<Rightarrow> Definitions \<Rightarrow> bool" where
  "grow tw roots defs defs' \<longleftrightarrow> defs \<subseteq>\<^sub>m defs'
     \<and> (\<forall>n \<in> dom defs' - dom defs. reachable tw roots n \<and> defs' n = Some (schema_of tw n) \<and> snd ` set (deps_of tw n) \<subseteq> dom defs')"

lemma grow_refl: "grow tw roots defs defs"
  by (simp add: grow_def)

lemma grow_dom: "grow tw roots a b \<Longrightarrow> dom a \<subseteq> dom b"
  by (simp add: grow_def map_le_implies_dom_le)

lemma grow_trans:
  assumes "grow tw roots a b" "grow tw roots b c"
  shows "grow tw roots a c"
  unfolding grow_def
proof (intro conjI ballI)
  have le: "a \<subseteq>\<^sub>m b" "b \<subseteq>\<^sub>m c" using assms by (simp_all add: grow_def)
  show "a \<subseteq>\<^sub>m c" using le by (rule map_le_trans)
  fix n assume n: "n \<in> dom c - dom a"
  have "reachable tw roots n \<and> c n = Some (schema_of tw n) \<and> snd ` set (deps_of tw n) \<subseteq> dom c"
  proof (cases "n \<in> dom b")
    case True
    with n assms(1) have "reachable tw roots n" "b n = Some (schema_of tw n)" "snd ` set (deps_of tw n) \<subseteq> dom b" by (auto simp: grow_def)
    moreover have "c n = b n" using le(2) True by (simp add: map_le_def)
    ultimately show ?thesis using grow_dom [OF assms(2)] by auto
  next
    case False
    with n assms(2) show ?thesis by (simp add: grow_def)
  qed
  then show "reachable tw roots n" "c n = Some (schema_of tw n)" "snd ` set (deps_of tw n) \<subseteq> dom c" by blast+
qed

lemma missing_grow: "grow tw roots a b \<Longrightarrow> missing tw b \<subseteq> missing tw a"
  using grow_dom [of tw roots a b] by (auto simp: missing_def)

lemma finite_missing [simp]: "finite (missing tw defs)"
  by (simp add: missing_def)

lemma definition_of_scope: "definition_of tw (p, n) = Ok r \<Longrightarrow> n \<in> set (map fst (pk_Scope (tw_pkg tw)))"
proof (cases "map_of (pk_Scope (tw_pkg tw)) n")
  case (Some obj)
  then have "(n, obj) \<in> set (pk_Scope (tw_pkg tw))" by (rule map_of_SomeD)
  then show ?thesis by force
qed (simp add: definition_of_def split: if_splits)

lemma define_deps_grow:
  assumes "\<And>d defs. d \<in> set ds \<Longrightarrow> defs (snd d) = None \<Longrightarrow> card (missing tw defs) \<le> k \<Longrightarrow>
      \<exists>defs'. f defs d = Ok defs' \<and> snd d \<in> dom defs' \<and> grow tw roots defs defs'"
    and "card (missing tw defs) \<le> k"
  shows "\<exists>defs'. define_deps f ds defs = Ok defs' \<and> snd ` set ds \<subseteq> dom defs' \<and> grow tw roots defs defs'"
  using assms
proof (induction ds arbitrary: defs)
  case Nil
  then show ?case by (simp add: grow_refl)
next
  case (Cons d ds)
  obtain defs1 where d1: "snd d \<in> dom defs1" "grow tw roots defs defs1"
    "define_deps f (d # ds) defs = define_deps f ds defs1"
  proof (cases "defs (snd d) = None")
    case True
    from Cons.prems(1) [OF list.set_intros(1) True Cons.prems(2)]
    obtain defs' where "f defs d = Ok defs'" "snd d \<in> dom defs'" "grow tw roots defs defs'" by blast
    with True show ?thesis by (intro that [of defs']) simp_all
  next
    case False
    then show ?thesis by (intro that [of defs]) (auto simp: grow_refl)
  qed
  have "card (missing tw defs1) \<le> k"
    using card_mono [OF finite_missing missing_grow [OF d1(2)]] Cons.prems(2) by linarith
  from Cons.IH [OF Cons.prems(1) this] obtain defs' where "define_deps f ds defs1 = Ok defs'" "snd ` set ds \<subseteq> dom defs'" "grow tw roots defs1 defs'"
    by (meson list.set_intros(2))
  moreover have "snd d \<in> dom defs'" using grow_dom [OF \<open>grow tw roots defs1 defs'\<close>] d1(1) by blast
  ultimately show ?case using d1(3) grow_trans [OF d1(2)] by auto
qed

lemma supported_dep:
  assumes "supported tw roots" "reachable tw roots n" "d \<in> set (deps_of tw n)"
  shows "d = (pk_Path (tw_pkg tw), snd d)" "reachable tw roots (snd d)" "snd d \<in> set (map fst (pk_Scope (tw_pkg tw)))"
proof -
  from assms(1,2) obtain r where r: "definition_of tw (pk_Path (tw_pkg tw), n) = Ok r" "\<forall>d \<in> set (snd r). fst d = pk_Path (tw_pkg tw)"
    unfolding supported_def by blast
  with assms(3) have d: "d \<in> set (snd r)" by (cases r) (simp add: deps_of_def)
  with r(2) show "d = (pk_Path (tw_pkg tw), snd d)" by (cases d) auto
  show reach: "reachable tw roots (snd d)" using reachable_dep [OF assms(2), of "fst r" "snd r" d] r(1) d by simp
  from assms(1) reach obtain r' where "definition_of tw (pk_Path (tw_pkg tw), snd d) = Ok r'" unfolding supported_def by blast
  then show "snd d \<in> set (map fst (pk_Scope (tw_pkg tw)))" by (rule definition_of_scope)
qed

lemma supported_definition:
  assumes "supported tw roots" "reachable tw roots n"
  shows "definition_of tw (pk_Path (tw_pkg tw), n) = Ok (schema_of tw n, deps_of tw n)"
proof -
  from assms obtain r where "definition_of tw (pk_Path (tw_pkg tw), n) = Ok r" unfolding supported_def by blast
  then show ?thesis by (cases r) (simp add: schema_of_def deps_of_def)
qed

lemma grow_step:
  assumes "reachable tw roots n" "defs n = None \<or> defs n = Some (schema_of tw n)"
    and "grow tw roots (defs(n \<mapsto> schema_of tw n)) defs'" "snd ` set (deps_of tw n) \<subseteq> dom defs'"
  shows "grow tw roots defs defs'"
proof -
  have le: "defs \<subseteq>\<^sub>m defs(n \<mapsto> schema_of tw n)" using assms(2) by (auto simp: map_le_def)
  have "defs' n = Some (schema_of tw n)" using assms(3) by (auto simp: grow_def map_le_def)
  moreover have "defs \<subseteq>\<^sub>m defs'" using le assms(3) map_le_trans unfolding grow_def by blast
  moreover have "x = n \<or> x \<in> dom defs' - dom (defs(n \<mapsto> schema_of tw n))" if "x \<in> dom defs' - dom defs" for x using that by auto
  ultimately show ?thesis using assms(1,3,4) unfolding grow_def by metis
qed

lemma grow_known:
  assumes "grow tw roots defs defs'" "defs n = None \<or> defs n = Some (schema_of tw n)"
  shows "defs' n = None \<or> defs' n = Some (schema_of tw n)"
proof (cases "n \<in> dom defs")
  case True
  then have "defs' n = defs n" using assms(1) by (simp add: grow_def map_le_def)
  with assms(2) show ?thesis by simp
next
  case False
  with assms(1) show ?thesis by (cases "n \<in> dom defs'") (auto simp: grow_def)
qed

lemma define_type_grow:
  assumes "supported tw roots" "any_order ord"
  shows "reachable tw roots n \<Longrightarrow> defs n = None \<or> defs n = Some (schema_of tw n) \<Longrightarrow> card (missing tw defs - {n}) < depth \<Longrightarrow>
    \<exists>defs'. define_type depth ord tw defs (pk_Path (tw_pkg tw), n) = Ok defs' \<and> n \<in> dom defs' \<and> snd ` set (deps_of tw n) \<subseteq> dom defs' \<and> grow tw roots defs defs'"
proof (induction depth arbitrary: defs n)
  case (Suc depth)
  let ?defs = "defs(n \<mapsto> schema_of tw n)"
  let ?ds = "ord (remdups (deps_of tw n))"
  have ds: "set ?ds = set (deps_of tw n)" using assms(2) by (simp add: any_order_def)
  have "missing tw ?defs = missing tw defs - {n}" by (auto simp: missing_def)
  with Suc.prems(3) have small: "card (missing tw ?defs) \<le> depth" by simp
  have "\<exists>defs'. define_type depth ord tw defs1 d = Ok defs' \<and> snd d \<in> dom defs' \<and> grow tw roots defs1 defs'"
    if d: "d \<in> set ?ds" and undefined: "defs1 (snd d) = None" and le: "card (missing tw defs1) \<le> depth" for d defs1
  proof -
    note dep = supported_dep [OF assms(1) Suc.prems(1), of d]
    from d ds have "d \<in> set (deps_of tw n)" by simp
    with dep undefined have "snd d \<in> missing tw defs1" by (auto simp: missing_def)
    with le have "card (missing tw defs1 - {snd d}) < depth" by (metis card_Diff1_less finite_missing order_less_le_trans)
    from Suc.IH [OF _ _ this] dep \<open>d \<in> set (deps_of tw n)\<close> undefined show ?thesis by (metis)
  qed
  from define_deps_grow [where f = "define_type depth ord tw", OF this small]
  obtain defs' where defs': "define_deps (define_type depth ord tw) ?ds ?defs = Ok defs'" "snd ` set ?ds \<subseteq> dom defs'" "grow tw roots ?defs defs'"
    by blast
  moreover have "n \<in> dom defs'" using grow_dom [OF defs'(3)] by auto
  moreover have "grow tw roots defs defs'" using grow_step [OF Suc.prems(1,2) defs'(3)] defs'(2) ds by simp
  ultimately show ?case using supported_definition [OF assms(1) Suc.prems(1)] ds by simp
qed simp

lemma define_names_grow:
  assumes "supported tw roots" "any_order ord" "set ns \<subseteq> roots" "length (pk_Scope (tw_pkg tw)) < depth"
  shows "\<forall>n. reachable tw roots n \<longrightarrow> defs n = None \<or> defs n = Some (schema_of tw n) \<Longrightarrow>
    \<exists>defs'. define_names depth ord tw ns defs = Ok defs' \<and> set ns \<subseteq> dom defs' \<and> grow tw roots defs defs'"
  using assms(3)
proof (induction ns arbitrary: defs)
  case Nil
  then show ?case by (simp add: grow_refl)
next
  case (Cons n ns)
  have reach: "reachable tw roots n" using Cons.prems(2) by (auto intro: reachable_root)
  then obtain r where r: "definition_of tw (pk_Path (tw_pkg tw), n) = Ok r" using supported_definition [OF assms(1)] by blast
  have "card (missing tw defs - {n}) \<le> card (set (map fst (pk_Scope (tw_pkg tw))))" by (intro card_mono) (auto simp: missing_def)
  also have "\<dots> \<le> length (map fst (pk_Scope (tw_pkg tw)))" by (rule card_length)
  finally have "card (missing tw defs - {n}) < depth" using assms(4) by simp
  from define_type_grow [OF assms(1,2) reach _ this] Cons.prems(1) reach obtain defs1 where
    d1: "define_type depth ord tw defs (pk_Path (tw_pkg tw), n) = Ok defs1" "n \<in> dom defs1" "grow tw roots defs defs1" by blast
  have "define_name depth ord tw defs n = Ok defs1"
    using r d1(1) by (auto simp: define_name_def definition_of_def split: option.splits scope_object.splits)
  moreover have "\<forall>n. reachable tw roots n \<longrightarrow> defs1 n = None \<or> defs1 n = Some (schema_of tw n)"
    using Cons.prems(1) grow_known [OF d1(3)] by blast
  from Cons.IH [OF this] Cons.prems(2) obtain defs' where "define_names depth ord tw ns defs1 = Ok defs'" "set ns \<subseteq> dom defs'" "grow tw roots defs1 defs'"
    by auto
  moreover have "n \<in> dom defs'" using grow_dom [OF \<open>grow tw roots defs1 defs'\<close>] d1(2) by blast
  ultimately show ?case using grow_trans [OF d1(3)] by auto
qed

lemma grow_reachable:
  assumes "grow tw roots defs defs'" "roots \<subseteq> dom defs'" "supported tw roots" "\<forall>n. reachable tw roots n \<longrightarrow> defs n = None" "reachable tw roots n"
  shows "defs' n = Some (schema_of tw n)"
proof -
  have new: "defs' n = Some (schema_of tw n) \<and> snd ` set (deps_of tw n) \<subseteq> dom defs'" if "reachable tw roots n" "n \<in> dom defs'" for n
  proof -
    have "n \<in> dom defs' - dom defs" using that assms(4) by auto
    then show ?thesis using assms(1) by (simp add: grow_def)
  qed
  from assms(5) have "n \<in> dom defs'"
  proof (induction rule: reachable.induct)
    case (reachable_dep n s deps d)
    then have "deps_of tw n = deps" by (simp add: deps_of_def)
    with new [OF reachable_dep(1) reachable_dep.IH] reachable_dep(3) show ?case by blast
  qed (use assms(2) in blast)
  with new assms(5) show ?thesis by blast
qed

lemma define_package_reachable:
  assumes "newTypeWalker load pkgname = Ok tw" "supported tw (set names)" "any_order ord" "length (pk_Scope (tw_pkg tw)) < depth"
    and "\<forall>n. reachable tw (set names) n \<longrightarrow> defs n = None"
  shows "define_package depth ord load defs pkgname names = Ok (\<lambda>n. if reachable tw (set names) n then Some (schema_of tw n) else defs n)"
proof -
  from define_names_grow [OF assms(2,3) subset_refl assms(4), of defs] assms(5)
  obtain defs' where d: "define_names depth ord tw names defs = Ok defs'" "set names \<subseteq> dom defs'" "grow tw (set names) defs defs'" by auto
  have "defs' n = (if reachable tw (set names) n then Some (schema_of tw n) else defs n)" for n
  proof (cases "reachable tw (set names) n")
    case True
    then show ?thesis using grow_reachable [OF d(3,2) assms(2,5)] by simp
  next
    case False
    with d(3) show ?thesis by (cases "n \<in> dom defs"; cases "n \<in> dom defs'") (auto simp: grow_def map_le_def)
  qed
  then have "defs' = (\<lambda>n. if reachable tw (set names) n then Some (schema_of tw n) else defs n)" by blast
  with d(1) assms(1) show ?thesis by (simp add: define_package_def)
qed

subsection \<open>Every reference is to a type that is defined\<close>

lemma refs_of_simple [simp]:
  "refs_of zero_schema = []" "refs_of (ref_schema r) = (if r = [] then [] else [r])" "refs_of (type_schema t) = []"
  by (simp_all add: zero_schema_def ref_schema_def type_schema_def)

lemma refs_of_set [simp]: "refs_of (set_Description d s) = refs_of s" "refs_of (set_Enum e s) = refs_of s"
  by (cases s; simp)+

definition dep_refs :: "named list \<Rightarrow> string set" where
  "dep_refs deps = definitions_ref ` snd ` set deps"

lemma dep_refs_simps [simp]:
  "dep_refs [] = {}" "dep_refs (d # ds) = insert (definitions_ref (snd d)) (dep_refs ds)" "dep_refs (xs @ ys) = dep_refs xs \<union> dep_refs ys"
  by (auto simp: dep_refs_def)

lemma schemaFromType_refs:
  "schemaFromType t = Ok (s, deps) \<Longrightarrow> set (refs_of s) = dep_refs deps"
  "schemaFromFields fs = Ok (ps, deps) \<Longrightarrow> (\<Union>p \<in> set ps. set (refs_of (snd p))) = dep_refs deps"
proof (induction t and fs arbitrary: s deps and ps deps rule: schemaFromType_schemaFromFields.induct)
  case (9 node t fs)
  then obtain tag doc where node: "node = Some (Some tag, doc)" by (auto split: option.splits)
  show ?case
  proof (cases "json_name tag = ''-''")
    case True
    with 9(1) [OF node _ refl True] 9(4) node show ?thesis by simp
  next
    case False
    with 9(4) node obtain s1 d1 ps1 d2 where t: "schemaFromType t = Ok (s1, d1)" "schemaFromFields fs = Ok (ps1, d2)"
      "ps = (json_name tag, set_Description (Trim_newlines doc) s1) # ps1" "deps = d1 @ d2" by auto
    from 9(2) [OF node _ refl False t(1)] 9(3) [OF node _ refl False t(2)] show ?thesis by (simp add: t)
  qed
qed (auto simp: definitions_ref_def split: if_splits)

lemma definition_of_refs: "definition_of tw t = Ok (s, deps) \<Longrightarrow> set (refs_of s) = dep_refs deps"
  by (auto simp: definition_of_def schemaFromType_refs(1) simp del: schemaFromType.simps split: if_splits option.splits scope_object.splits)

lemma schema_of_refs: "supported tw roots \<Longrightarrow> reachable tw roots n \<Longrightarrow> set (refs_of (schema_of tw n)) = dep_refs (deps_of tw n)"
  using definition_of_refs supported_definition by blast

lemma schema_refs_reachable:
  assumes "supported tw roots" "reachable tw roots n" "r \<in> set (refs_of (schema_of tw n))"
  shows "\<exists>m. r = definitions_ref m \<and> reachable tw roots m"
proof -
  from assms schema_of_refs obtain d where "d \<in> set (deps_of tw n)" "r = definitions_ref (snd d)" by (auto simp: dep_refs_def)
  with supported_dep(2) [OF assms(1,2)] show ?thesis by blast
qed

subsection \<open>Packages that are supported\<close>

definition closed_names :: "typeWalker \<Rightarrow> string list \<Rightarrow> string list \<Rightarrow> bool" where
  "closed_names tw roots ns \<longleftrightarrow> list_all (\<lambda>n. n \<in> set ns) roots
     \<and> list_all (\<lambda>n. case definition_of tw (pk_Path (tw_pkg tw), n) of
          Ok (s, ds) \<Rightarrow> list_all (\<lambda>d. fst d = pk_Path (tw_pkg tw) \<and> snd d \<in> set ns) ds
        | _ \<Rightarrow> False) ns"

lemma closed_names_at:
  assumes "closed_names tw roots ns" "n \<in> set ns"
  obtains s ds where "definition_of tw (pk_Path (tw_pkg tw), n) = Ok (s, ds)" "\<forall>d \<in> set ds. fst d = pk_Path (tw_pkg tw) \<and> snd d \<in> set ns"
  using assms unfolding closed_names_def list_all_iff by (fastforce split: result.splits)

lemma closed_names_reachable:
  assumes "closed_names tw roots ns"
  shows "reachable tw (set roots) n \<Longrightarrow> n \<in> set ns"
proof (induction rule: reachable.induct)
  case (reachable_root n)
  with assms show ?case by (simp add: closed_names_def list_all_iff)
next
  case (reachable_dep n s deps d)
  from closed_names_at [OF assms reachable_dep.IH] reachable_dep(2,3) show ?case by (metis Pair_inject result.inject(1))
qed

lemma closed_names_supported: "closed_names tw roots ns \<Longrightarrow> supported tw (set roots)"
  unfolding supported_def by (metis closed_names_at closed_names_reachable snd_conv)

lemma reachable_scope: "supported tw roots \<Longrightarrow> reachable tw roots n \<Longrightarrow> n \<in> set (map fst (pk_Scope (tw_pkg tw)))"
  using supported_definition definition_of_scope by blast

text \<open>A slice of a basic type other than bytes gets a schema that says nothing.\<close>

lemma slice_of_basic: "k \<noteq> ''uint8'' \<Longrightarrow> schemaFromType (TSlice (TBasic k)) = Ok (zero_schema, [])"
  by simp

end
