(* ===== verification/Swagger.thy ===== *)
theory Swagger
  imports TypeWalker Azure "HOL-Library.Multiset"
begin

text \<open>
  The Swagger generator, \<^verbatim>\<open>src/pkg/swagger\<close>: the document that describes the provider's API, with its paths, its definitions (\<open>TypeWalker\<close>) and its examples.

  Of the Swagger objects the fields are kept that the generator sets; the others have their zero value and are left out of the document. The encoding to JSON and the file
  system are parameters. A Go map is an association list without order; where one is iterated with an effect, the order is a parameter.
\<close>

section \<open>Documents\<close>

record sw_Parameter =
  pa_Name :: string
  pa_In :: string
  pa_Description :: string
  pa_Required :: bool
  pa_Schema :: "Schema option"
  pa_Type :: string

datatype sw_parameter = SReference string | SParameter sw_Parameter

record sw_Response =
  rsp_Description :: string
  rsp_Schema :: "Schema option"

record sw_Operation =
  op_Tags :: "string list"
  op_Summary :: string
  op_Description :: string
  op_OperationID :: string
  op_Parameters :: "sw_parameter list"
  op_Responses :: "(string \<times> sw_Response) list"
  op_LongRunningOperation :: bool
  op_Examples :: "(string \<times> string) list"

record PathItem =
  pi_Get :: "sw_Operation option"
  pi_Put :: "sw_Operation option"
  pi_Post :: "sw_Operation option"
  pi_Delete :: "sw_Operation option"
  pi_Options :: "sw_Operation option"
  pi_Head :: "sw_Operation option"
  pi_Patch :: "sw_Operation option"

type_synonym Paths = "(string \<times> PathItem) list"

record Info =
  in_Title :: string
  in_Description :: string
  in_Version :: string

record SecurityScheme =
  ss_Type :: string
  ss_Description :: string
  ss_Flow :: string
  ss_AuthorizationURL :: string
  ss_Scopes :: "(string \<times> string) list"

record Swagger =
  sw_Swagger :: string
  sw_Info :: "Info option"
  sw_Host :: string
  sw_Schemes :: "string list"
  sw_Consumes :: "string list"
  sw_Produces :: "string list"
  sw_Paths :: Paths
  sw_Definitions :: Definitions
  sw_SecurityDefinitions :: "(string \<times> SecurityScheme) list"
  sw_Security :: "(string \<times> string list) list list"

section \<open>Paths\<close>

definition types_json :: string where
  "types_json = ''../../../../../common-types/resource-management/v1/types.json#''"

definition populateParameters :: "int \<Rightarrow> string \<Rightarrow> string \<Rightarrow> sw_parameter list" where
  "populateParameters n typ friendlyName =
     [SReference (types_json @ ''/parameters/ApiVersionParameter'')]
     @ (if n > 0 then [SReference (types_json @ ''/parameters/SubscriptionIdParameter'')] else [])
     @ (if n > 1 then [SReference (types_json @ ''/parameters/ResourceGroupNameParameter'')] else [])
     @ (if n > 2 then [SParameter \<lparr>pa_Name = ''resourceName'', pa_In = ''path'', pa_Description = ''The name of the '' @ friendlyName @ '' resource.'',
          pa_Required = True, pa_Schema = None, pa_Type = ''string''\<rparr>] else [])
     @ (if n > 3 then [SParameter \<lparr>pa_Name = ''parameters'', pa_In = ''body'', pa_Description = ''The '' @ friendlyName @ '' resource.'',
          pa_Required = True, pa_Schema = Some (ref_schema (''#/definitions/'' @ typ)), pa_Type = []\<rparr>] else [])"

definition StatusText :: "int \<Rightarrow> string" where
  "StatusText c =
     (if c = 200 then ''OK'' else if c = 201 then ''Created'' else if c = 202 then ''Accepted'' else if c = 204 then ''No Content'' else [])"

definition populateResponses :: "string \<Rightarrow> bool \<Rightarrow> int list \<Rightarrow> (string \<times> sw_Response) list" where
  "populateResponses typ isDelete statusCodes =
     foldl (\<lambda>rs c. AList.update (Itoa c)
         \<lparr>rsp_Description = StatusText c,
          rsp_Schema = (if \<not> isDelete \<and> (c = 200 \<or> c = 201) then Some (ref_schema (''#/definitions/'' @ typ)) else None)\<rparr> rs)
       [(''default'', \<lparr>rsp_Description = ''Error response describing why the operation failed.  If the resource doesn't exist, 404 (Not Found) is returned.  If any of the input parameters is wrong, 400 (Bad Request) is returned.'',
          rsp_Schema = Some (ref_schema ''#/definitions/CloudError'')\<rparr>)] statusCodes"

definition is_separator :: "char \<Rightarrow> bool" where
  "is_separator c = (let n = (of_char c :: nat) in
     \<not> (48 \<le> n \<and> n \<le> 57) \<and> \<not> (97 \<le> n \<and> n \<le> 122) \<and> \<not> (65 \<le> n \<and> n \<le> 90) \<and> n \<noteq> 95)"

fun title_from :: "bool \<Rightarrow> string \<Rightarrow> string" where
  "title_from start [] = []"
| "title_from start (c # s) = (if start then to_upper_char c else c) # title_from (is_separator c) s"

definition Title :: "string \<Rightarrow> string" where
  "Title s = title_from True s"

definition no_operations :: PathItem where
  "no_operations = \<lparr>pi_Get = None, pi_Put = None, pi_Post = None, pi_Delete = None, pi_Options = None, pi_Head = None, pi_Patch = None\<rparr>"

definition sw_operation ::
    "string \<Rightarrow> string \<Rightarrow> string \<Rightarrow> string \<Rightarrow> sw_parameter list \<Rightarrow> (string \<times> sw_Response) list \<Rightarrow> bool \<Rightarrow> sw_Operation option" where
  "sw_operation tag summary description i parameters responses longRunning =
     Some \<lparr>op_Tags = [tag], op_Summary = summary, op_Description = description, op_OperationID = i, op_Parameters = parameters, op_Responses = responses,
       op_LongRunningOperation = longRunning, op_Examples = []\<rparr>"

definition populateTopLevelPaths :: "string \<Rightarrow> string \<Rightarrow> string \<Rightarrow> Paths" where
  "populateTopLevelPaths resourceProviderNamespace resourceType friendlyName =
     (let tag = Title resourceType @ ''s''; typ = Title resourceType;
          specified = '' with the specified subscription, resource group and resource name.'';
          returns = ''  The operation returns properties of a '' @ friendlyName @ ''.'';
          returns_each = ''  The operation returns properties of each '' @ friendlyName @ ''.'' in
      [(''/subscriptions/{subscriptionId}/providers/'' @ resourceProviderNamespace @ ''/'' @ resourceType @ ''s'',
        no_operations\<lparr>pi_Get := sw_operation tag (''Lists '' @ friendlyName @ ''s in the specified subscription.'')
          (''Lists '' @ friendlyName @ ''s in the specified subscription.'' @ returns_each) (tag @ ''_List'')
          (populateParameters 1 typ friendlyName) (populateResponses (typ @ ''List'') False [200]) False\<rparr>),
       (''/subscriptions/{subscriptionId}/resourceGroups/{resourceGroupName}/providers/'' @ resourceProviderNamespace @ ''/'' @ resourceType @ ''s'',
        no_operations\<lparr>pi_Get := sw_operation tag (''Lists '' @ friendlyName @ ''s in the specified subscription and resource group.'')
          (''Lists '' @ friendlyName @ ''s in the specified subscription and resource group.'' @ returns_each) (tag @ ''_ListByResourceGroup'')
          (populateParameters 2 typ friendlyName) (populateResponses (typ @ ''List'') False [200]) False\<rparr>),
       (''/subscriptions/{subscriptionId}/resourceGroups/{resourceGroupName}/providers/'' @ resourceProviderNamespace @ ''/'' @ resourceType @ ''s/{resourceName}'',
        no_operations\<lparr>
          pi_Get := sw_operation tag (''Gets a '' @ friendlyName @ specified) (''Gets a '' @ friendlyName @ specified @ returns) (tag @ ''_Get'')
            (populateParameters 3 typ friendlyName) (populateResponses typ False [200]) False,
          pi_Put := sw_operation tag (''Creates or updates a '' @ friendlyName @ specified) (''Creates or updates a '' @ friendlyName @ specified @ returns)
            (tag @ ''_CreateOrUpdate'') (populateParameters 4 typ friendlyName) (populateResponses typ False [200, 201]) True,
          pi_Delete := sw_operation tag (''Deletes a '' @ friendlyName @ specified) (''Deletes a '' @ friendlyName @ specified @ ''  The operation returns nothing.'')
            (tag @ ''_Delete'') (populateParameters 3 typ friendlyName) (populateResponses typ True [202, 204]) True,
          pi_Patch := sw_operation tag (''Creates or updates a '' @ friendlyName @ specified) (''Creates or updates a '' @ friendlyName @ specified @ returns)
            (tag @ ''_Update'') (populateParameters 4 typ friendlyName) (populateResponses typ False [200, 201]) True\<rparr>)])"

definition operations_of :: "PathItem \<Rightarrow> sw_Operation list" where
  "operations_of p =
     List.map_filter id [pi_Get p, pi_Put p, pi_Post p, pi_Delete p, pi_Options p, pi_Head p, pi_Patch p]"

definition example_ref :: "sw_Operation \<Rightarrow> string" where
  "example_ref op1 = ''./examples/'' @ op_OperationID op1 @ ''.json''"

definition with_example :: "sw_Operation \<Rightarrow> sw_Operation" where
  "with_example op1 = op1\<lparr>op_Examples := [(op_Summary op1, example_ref op1)]\<rparr>"

definition populateExamples :: "Paths \<Rightarrow> Paths" where
  "populateExamples ps = map (\<lambda>(p, i). (p, i\<lparr>
     pi_Get := map_option with_example (pi_Get i), pi_Put := map_option with_example (pi_Put i), pi_Post := map_option with_example (pi_Post i),
     pi_Delete := map_option with_example (pi_Delete i), pi_Options := map_option with_example (pi_Options i),
     pi_Head := map_option with_example (pi_Head i), pi_Patch := map_option with_example (pi_Patch i)\<rparr>)) ps"

section \<open>Examples\<close>

datatype example_value = EString string | ECluster xOpenShiftCluster

datatype example_body =
    ECluster_body xOpenShiftCluster
  | ECredentials xOpenShiftClusterCredentials
  | EClusterList xOpenShiftClusterList
  | EOperations OperationList

record example =
  ex_Parameters :: "(string \<times> example_value) list"
  ex_Responses :: "(string \<times> example_body option) list"

definition example_parameter :: "sw_parameter \<Rightarrow> (string \<times> example_value) list result" where
  "example_parameter param =
     (case param of
        SReference ref \<Rightarrow> Ok (
          if ref = types_json @ ''/parameters/ApiVersionParameter'' then [(''api-version'', EString ''2019-12-31-preview'')]
          else if ref = types_json @ ''/parameters/SubscriptionIdParameter'' then [(''subscriptionId'', EString ''subscriptionId'')]
          else if ref = types_json @ ''/parameters/ResourceGroupNameParameter'' then [(''resourceGroupName'', EString ''resourceGroup'')]
          else [])
      | SParameter p \<Rightarrow>
          if pa_Name p = ''resourceName'' then Ok [(''resourceName'', EString ''resourceName'')]
          else if pa_Name p = ''parameters'' then
            rbind (nonnil (pa_Schema p)) (\<lambda>s.
            Ok (if sc_Ref s = ''#/definitions/OpenShiftCluster'' then [(''parameters'', ECluster ExampleOpenShiftClusterParameter)] else []))
          else Ok [])"

fun example_parameters :: "sw_parameter list \<Rightarrow> (string \<times> example_value) list result" where
  "example_parameters [] = Ok []"
| "example_parameters (p # ps) = rbind (example_parameter p) (\<lambda>x. rbind (example_parameters ps) (\<lambda>xs. Ok (x @ xs)))"

definition example_response :: "sw_Response \<Rightarrow> example_body option" where
  "example_response response =
     (case rsp_Schema response of
        None \<Rightarrow> None
      | Some s \<Rightarrow>
          if sc_Ref s = ''#/definitions/OpenShiftCluster'' then Some (ECluster_body ExampleOpenShiftClusterResponse)
          else if sc_Ref s = ''#/definitions/OpenShiftClusterCredentials'' then Some (ECredentials ExampleOpenShiftClusterCredentialsResponse)
          else if sc_Ref s = ''#/definitions/OpenShiftClusterList'' then Some (EClusterList ExampleOpenShiftClusterListResponse)
          else if sc_Ref s = ''#/definitions/OperationList'' then Some (EOperations ExampleOperationListResponse)
          else None)"

definition example_of :: "sw_Operation \<Rightarrow> example result" where
  "example_of op1 =
     rbind (example_parameters (op_Parameters op1)) (\<lambda>ps.
     Ok \<lparr>ex_Parameters = ps,
        ex_Responses = map (\<lambda>(c, r). (c, example_response r)) (filter (\<lambda>(c, r). c \<noteq> ''default'') (op_Responses op1))\<rparr>)"

record 'w generator_env =
  ge_RemoveAll :: "string \<Rightarrow> ('w, unit) go"
  ge_MkdirAll :: "string \<Rightarrow> ('w, unit) go"
  ge_WriteFile :: "string \<Rightarrow> string \<Rightarrow> ('w, unit) go"
  ge_MarshalExample :: "example \<Rightarrow> string result"
  ge_MarshalSwagger :: "Swagger \<Rightarrow> string result"
  ge_Load :: "string \<Rightarrow> package list result"
  ge_dep_order :: "named list \<Rightarrow> named list"
  ge_path_order :: "Paths \<Rightarrow> Paths"
  ge_depth :: nat

fun write_examples :: "'w generator_env \<Rightarrow> string \<Rightarrow> sw_Operation list \<Rightarrow> ('w, unit) go" where
  "write_examples e outputDir [] = greturn ()"
| "write_examples e outputDir (op1 # ops) =
     gbind (glift (example_of op1)) (\<lambda>ex.
     gbind (glift (ge_MarshalExample e ex)) (\<lambda>b.
     gbind (ge_WriteFile e (outputDir @ ''/examples/'' @ op_OperationID op1 @ ''.json'') (b @ [CHR 0x0A])) (\<lambda>_.
     write_examples e outputDir ops)))"

definition generateExamples :: "'w generator_env \<Rightarrow> string \<Rightarrow> Swagger \<Rightarrow> ('w, unit) go" where
  "generateExamples e outputDir s =
     gbind (ge_RemoveAll e (outputDir @ ''/examples'')) (\<lambda>_.
     gbind (ge_MkdirAll e (outputDir @ ''/examples'')) (\<lambda>_.
     write_examples e outputDir (concat (map (operations_of \<circ> snd) (ge_path_order e (sw_Paths s))))))"

section \<open>The document\<close>

definition v20191231preview_path :: string where
  "v20191231preview_path = ''github.com/Azure/ARO-RP/pkg/api/v20191231preview''"

definition api_path :: string where
  "api_path = ''github.com/Azure/ARO-RP/pkg/api''"

definition swagger_paths :: Paths where
  "swagger_paths =
     (let ps = populateTopLevelPaths ''Microsoft.RedHatOpenShift'' ''openShiftCluster'' ''OpenShift cluster'';
          credentials = ''Lists credentials of an OpenShift cluster with the specified subscription, resource group and resource name.'';
          ps = AList.update ''/subscriptions/{subscriptionId}/resourceGroups/{resourceGroupName}/providers/Microsoft.RedHatOpenShift/openShiftClusters/{resourceName}/listCredentials''
            (no_operations\<lparr>pi_Post := sw_operation ''OpenShiftClusters'' credentials (credentials @ ''  The operation returns the credentials.'')
              ''OpenShiftClusters_ListCredentials'' (populateParameters 3 ''OpenShiftCluster'' ''OpenShift cluster'')
              (populateResponses ''OpenShiftClusterCredentials'' False [200]) False\<rparr>) ps;
          ps = AList.update ''/providers/Microsoft.RedHatOpenShift/operations''
            (no_operations\<lparr>pi_Get := sw_operation ''Operations'' ''Lists all of the available RP operations.''
              ''Lists all of the available RP operations.  The operation returns the operations.'' ''Operations_List''
              (populateParameters 0 ''Operation'' ''Operation'') (populateResponses ''OperationList'' False [200]) False\<rparr>) ps in
      populateExamples ps)"

fun set_ClientFlatten :: "Schema \<Rightarrow> Schema" where
  "set_ClientFlatten (Schema r d e t i a p ap _ m) = Schema r d e t i a p ap True m"

fun set_AllOf :: "Schema list \<Rightarrow> Schema \<Rightarrow> Schema" where
  "set_AllOf a (Schema r d e t i _ p ap c m) = Schema r d e t i a p ap c m"

fun set_Properties :: "(string \<times> Schema) list \<Rightarrow> Schema \<Rightarrow> Schema" where
  "set_Properties p (Schema r d e t i a _ ap c m) = Schema r d e t i a p ap c m"

definition arm_properties :: "(string \<times> Schema) list" where
  "arm_properties =
     [(''tags'', Schema [] ''Resource tags.'' [] ''object'' None [] [] (Some (type_schema ''string'')) False [''read'', ''create'', ''update'']),
      (''location'', Schema [] ''The geo-location where the resource lives'' [] ''string'' None [] [] None False [''read'', ''create''])]"

definition azure_resource :: "string \<Rightarrow> Definitions \<Rightarrow> Definitions result" where
  "azure_resource azureResource defs =
     rbind (nonnil (defs azureResource)) (\<lambda>s.
     Ok (defs(azureResource \<mapsto>
       set_Properties (arm_properties @ map (\<lambda>(n, p). (n, set_ClientFlatten p)) (filter (\<lambda>(n, p). n = ''properties'') (sc_Properties s)))
         (set_AllOf [ref_schema (types_json @ ''/definitions/Resource'')] s))))"

definition swagger_definitions :: "nat \<Rightarrow> (named list \<Rightarrow> named list) \<Rightarrow> (string \<Rightarrow> package list result) \<Rightarrow> Definitions result" where
  "swagger_definitions depth ord load =
     rbind (define_package depth ord load Map.empty v20191231preview_path [''OpenShiftClusterList'', ''OpenShiftClusterCredentials'']) (\<lambda>defs.
     rbind (define_package depth ord load defs api_path [''CloudError'', ''OperationList'']) (\<lambda>defs.
     rbind (azure_resource ''OpenShiftCluster'' defs) (\<lambda>defs.
     Ok (defs(''Tags'' := None)))))"

definition swagger_document :: "Definitions \<Rightarrow> Swagger" where
  "swagger_document defs =
     \<lparr>sw_Swagger = ''2.0'',
      sw_Info = Some \<lparr>in_Title = ''Azure Red Hat OpenShift Client'', in_Description = ''Rest API for Azure Red Hat OpenShift'', in_Version = ''2019-12-31-preview''\<rparr>,
      sw_Host = ''management.azure.com'', sw_Schemes = [''https''], sw_Consumes = [''application/json''], sw_Produces = [''application/json''],
      sw_Paths = swagger_paths, sw_Definitions = defs,
      sw_SecurityDefinitions = [(''azure_auth'', \<lparr>ss_Type = ''oauth2'', ss_Description = ''Azure Active Directory OAuth2 Flow'', ss_Flow = ''implicit'',
        ss_AuthorizationURL = ''https://login.microsoftonline.com/common/oauth2/authorize'', ss_Scopes = [(''user_impersonation'', ''impersonate your user account'')]\<rparr>)],
      sw_Security = [[(''azure_auth'', [''user_impersonation''])]]\<rparr>"

definition swagger_Run :: "'w generator_env \<Rightarrow> string \<Rightarrow> ('w, unit) go" where
  "swagger_Run e outputDir =
     gbind (glift (swagger_definitions (ge_depth e) (ge_dep_order e) (ge_Load e))) (\<lambda>defs.
     let s = swagger_document defs in
     gbind (glift (ge_MarshalSwagger e s)) (\<lambda>b.
     gbind (generateExamples e outputDir s) (\<lambda>_.
     ge_WriteFile e (outputDir @ ''/redhatopenshift.json'') (b @ [CHR 0x0A]))))"

section \<open>The packages of the API\<close>

text \<open>
  The scope of \<^verbatim>\<open>v20191231preview\<close>, as far as it is exported, and of \<^verbatim>\<open>api\<close> what the document is about. A comment is read with the newline at its end.
\<close>

definition comment :: "string \<Rightarrow> string" where
  "comment d = (if d = [] then [] else d @ [CHR 0x0A])"

definition field :: "(string \<times> string) list \<Rightarrow> string \<Rightarrow> go_type \<Rightarrow> go_field" where
  "field tag doc t = Field (Some (Some tag, comment doc)) t"

definition v20191231preview_scope :: "(string \<times> scope_object) list" where
  "v20191231preview_scope = [
    (''APIServerProfile'', OType (TStruct [
     field [(''json'', ''visibility,omitempty'')] ''API server visibility (immutable).'' (TNamed (v20191231preview_path, ''Visibility'')),
     field [(''json'', ''url,omitempty'')] ''The URL to access the cluster API server (immutable).'' (TBasic ''string''),
     field [(''json'', ''ip,omitempty'')] ''The IP of the cluster API server (immutable).'' (TBasic ''string'')]) (comment ''APIServerProfile represents an API server profile.'')),
    (''ClusterProfile'', OType (TStruct [
     field [(''json'', ''domain,omitempty'')] ''The domain for the cluster (immutable).'' (TBasic ''string''),
     field [(''json'', ''version,omitempty'')] ''The version of the cluster (immutable).'' (TBasic ''string''),
     field [(''json'', ''resourceGroupId,omitempty'')] ''The ID of the cluster resource group (immutable).'' (TBasic ''string'')]) (comment '''')),
    (''ConsoleProfile'', OType (TStruct [
     field [(''json'', ''url,omitempty'')] ''The URL to access the cluster console (immutable).'' (TBasic ''string'')]) (comment '''')),
    (''IngressProfile'', OType (TStruct [
     field [(''json'', ''name,omitempty'')] ''The ingress profile name.  Must be \"default\" (immutable).'' (TBasic ''string''),
     field [(''json'', ''visibility,omitempty'')] ''Ingress visibility (immutable).'' (TNamed (v20191231preview_path, ''Visibility'')),
     field [(''json'', ''ip,omitempty'')] ''The IP of the ingress (immutable).'' (TBasic ''string'')]) (comment ''IngressProfile represents an ingress profile.'')),
    (''MasterProfile'', OType (TStruct [
     field [(''json'', ''vmSize,omitempty'')] ''The size of the master VMs (immutable).'' (TNamed (v20191231preview_path, ''VMSize'')),
     field [(''json'', ''subnetId,omitempty'')] ''The Azure resource ID of the master subnet (immutable).'' (TBasic ''string'')]) (comment ''MasterProfile represents a master profile.'')),
    (''NetworkProfile'', OType (TStruct [
     field [(''json'', ''podCidr,omitempty'')] ''The CIDR used for OpenShift/Kubernetes Pods (immutable).'' (TBasic ''string''),
     field [(''json'', ''serviceCidr,omitempty'')] ''The CIDR used for OpenShift/Kubernetes Services (immutable).'' (TBasic ''string'')]) (comment ''NetworkProfile represents a network profile.'')),
    (''OpenShiftCluster'', OType (TStruct [
     field [(''json'', ''id,omitempty''), (''mutable'', ''case'')] ''The resource ID (immutable).'' (TBasic ''string''),
     field [(''json'', ''name,omitempty''), (''mutable'', ''case'')] ''The resource name (immutable).'' (TBasic ''string''),
     field [(''json'', ''type,omitempty''), (''mutable'', ''case'')] ''The resource type (immutable).'' (TBasic ''string''),
     field [(''json'', ''location,omitempty'')] ''The resource location (immutable).'' (TBasic ''string''),
     field [(''json'', ''tags,omitempty''), (''mutable'', ''true'')] ''The resource tags.'' (TNamed (v20191231preview_path, ''Tags'')),
     field [(''json'', ''properties,omitempty'')] ''The cluster properties.'' (TNamed (v20191231preview_path, ''Properties''))]) (comment ''OpenShiftCluster represents an Azure Red Hat OpenShift cluster.'')),
    (''OpenShiftClusterCredentials'', OType (TStruct [
     field [(''json'', ''kubeadminUsername,omitempty'')] ''The username for the kubeadmin user'' (TBasic ''string''),
     field [(''json'', ''kubeadminPassword,omitempty'')] ''The password for the kubeadmin user'' (TBasic ''string'')]) (comment ''OpenShiftClusterCredentials represents an OpenShift cluster's credentials'')),
    (''OpenShiftClusterList'', OType (TStruct [
     field [(''json'', ''value'')] ''The list of OpenShift clusters.'' (TSlice (TPointer (TNamed (v20191231preview_path, ''OpenShiftCluster''))))]) (comment ''OpenShiftClusterList represents a list of OpenShift clusters.'')),
    (''Properties'', OType (TStruct [
     field [(''json'', ''provisioningState,omitempty'')] ''The cluster provisioning state (immutable).'' (TNamed (v20191231preview_path, ''ProvisioningState'')),
     field [(''json'', ''clusterProfile,omitempty'')] ''The cluster profile.'' (TNamed (v20191231preview_path, ''ClusterProfile'')),
     field [(''json'', ''consoleProfile,omitempty'')] ''The console profile.'' (TNamed (v20191231preview_path, ''ConsoleProfile'')),
     field [(''json'', ''servicePrincipalProfile,omitempty'')] ''The cluster service principal profile.'' (TNamed (v20191231preview_path, ''ServicePrincipalProfile'')),
     field [(''json'', ''networkProfile,omitempty'')] ''The cluster network profile.'' (TNamed (v20191231preview_path, ''NetworkProfile'')),
     field [(''json'', ''masterProfile,omitempty'')] ''The cluster master profile.'' (TNamed (v20191231preview_path, ''MasterProfile'')),
     field [(''json'', ''workerProfiles,omitempty'')] ''The cluster worker profiles.'' (TSlice (TNamed (v20191231preview_path, ''WorkerProfile''))),
     field [(''json'', ''apiserverProfile,omitempty'')] ''The cluster API server profile.'' (TNamed (v20191231preview_path, ''APIServerProfile'')),
     field [(''json'', ''ingressProfiles,omitempty'')] ''The cluster ingress profiles.'' (TSlice (TNamed (v20191231preview_path, ''IngressProfile'')))]) (comment ''Properties represents an OpenShift cluster's properties.'')),
    (''ProvisioningState'', OType (TBasic ''string'') (comment ''ProvisioningState represents a provisioning state.'')),
    (''ProvisioningStateCreating'', OConst (TNamed (v20191231preview_path, ''ProvisioningState'')) (CString ''Creating'')),
    (''ProvisioningStateDeleting'', OConst (TNamed (v20191231preview_path, ''ProvisioningState'')) (CString ''Deleting'')),
    (''ProvisioningStateFailed'', OConst (TNamed (v20191231preview_path, ''ProvisioningState'')) (CString ''Failed'')),
    (''ProvisioningStateSucceeded'', OConst (TNamed (v20191231preview_path, ''ProvisioningState'')) (CString ''Succeeded'')),
    (''ProvisioningStateUpdating'', OConst (TNamed (v20191231preview_path, ''ProvisioningState'')) (CString ''Updating'')),
    (''ServicePrincipalProfile'', OType (TStruct [
     field [(''json'', ''clientId,omitempty'')] ''The client ID used for the cluster (immutable).'' (TBasic ''string''),
     field [(''json'', ''clientSecret,omitempty'')] ''The client secret used for the cluster (immutable).'' (TBasic ''string'')]) (comment ''ServicePrincipalProfile represents a service principal profile.'')),
    (''Tags'', OType (TMap (TBasic ''string'')) (comment ''Tags represents an OpenShift cluster's tags.'')),
    (''VMSize'', OType (TBasic ''string'') (comment ''VMSize represents a VM size.'')),
    (''VMSizeStandardD2sV3'', OConst (TNamed (v20191231preview_path, ''VMSize'')) (CString ''Standard_D2s_v3'')),
    (''VMSizeStandardD4sV3'', OConst (TNamed (v20191231preview_path, ''VMSize'')) (CString ''Standard_D4s_v3'')),
    (''VMSizeStandardD8sV3'', OConst (TNamed (v20191231preview_path, ''VMSize'')) (CString ''Standard_D8s_v3'')),
    (''Visibility'', OType (TBasic ''string'') (comment ''Visibility represents visibility.'')),
    (''VisibilityPrivate'', OConst (TNamed (v20191231preview_path, ''Visibility'')) (CString ''Private'')),
    (''VisibilityPublic'', OConst (TNamed (v20191231preview_path, ''Visibility'')) (CString ''Public'')),
    (''WorkerProfile'', OType (TStruct [
     field [(''json'', ''name,omitempty'')] ''The worker profile name.  Must be \"worker\" (immutable).'' (TBasic ''string''),
     field [(''json'', ''vmSize,omitempty'')] ''The size of the worker VMs (immutable).'' (TNamed (v20191231preview_path, ''VMSize'')),
     field [(''json'', ''diskSizeGB,omitempty'')] ''The disk size of the worker VMs.  Must be 128 or greater (immutable).'' (TBasic ''int''),
     field [(''json'', ''subnetId,omitempty'')] ''The Azure resource ID of the worker subnet (immutable).'' (TBasic ''string''),
     field [(''json'', ''count,omitempty''), (''mutable'', ''true'')] ''The number of worker VMs.  Must be between 3 and 20.'' (TBasic ''int'')]) (comment ''WorkerProfile represents a worker profile.''))]"

definition api_scope :: "(string \<times> scope_object) list" where
  "api_scope = [
    (''CloudError'', OType (TStruct [
     field [(''json'', ''-'')] ''The status code.'' (TBasic ''int''),
     field [(''json'', ''error,omitempty'')] ''An error response from the service.'' (TPointer (TNamed (api_path, ''CloudErrorBody'')))]) (comment ''CloudError represents a cloud error.'')),
    (''CloudErrorBody'', OType (TStruct [
     field [(''json'', ''code,omitempty'')] ''An identifier for the error. Codes are invariant and are intended to be consumed programmatically.'' (TBasic ''string''),
     field [(''json'', ''message,omitempty'')] ''A message describing the error, intended to be suitable for display in a user interface.'' (TBasic ''string''),
     field [(''json'', ''target,omitempty'')] ''The target of the particular error. For example, the name of the property in error.'' (TBasic ''string''),
     field [(''json'', ''details,omitempty'')] ''A list of additional details about the error.'' (TSlice (TNamed (api_path, ''CloudErrorBody'')))]) (comment ''CloudErrorBody represents the body of a cloud error.'')),
    (''Display'', OType (TStruct [
     field [(''json'', ''provider,omitempty'')] ''Friendly name of the resource provider.'' (TBasic ''string''),
     field [(''json'', ''resource,omitempty'')] ''Resource type on which the operation is performed.'' (TBasic ''string''),
     field [(''json'', ''operation,omitempty'')] ''Operation type: read, write, delete, listKeys/action, etc.'' (TBasic ''string''),
     field [(''json'', ''description,omitempty'')] ''Friendly name of the operation.'' (TBasic ''string'')]) (comment ''Display represents the display details of an operation.'')),
    (''Operation'', OType (TStruct [
     field [(''json'', ''name,omitempty'')] ''Operation name: {provider}/{resource}/{operation}.'' (TBasic ''string''),
     field [(''json'', ''display,omitempty'')] ''The object that describes the operation.'' (TNamed (api_path, ''Display''))]) (comment ''Operation represents an operation.'')),
    (''OperationList'', OType (TStruct [
     field [(''json'', ''value'')] ''List of operations supported by the resource provider.'' (TSlice (TNamed (api_path, ''Operation'')))]) (comment ''OperationList represents an operation list.''))]"

definition load_packages :: "string \<Rightarrow> package list result" where
  "load_packages p =
     (if p = v20191231preview_path then Ok [\<lparr>pk_Path = p, pk_Scope = v20191231preview_scope\<rparr>]
      else if p = api_path then Ok [\<lparr>pk_Path = p, pk_Scope = api_scope\<rparr>]
      else Err (ExternalErr ''no such package''))"

definition walker :: "string \<Rightarrow> typeWalker" where
  "walker p = (case newTypeWalker load_packages p of Ok tw \<Rightarrow> tw | _ \<Rightarrow> undefined)"

definition cluster_names :: "string list" where
  "cluster_names = [''OpenShiftClusterList'', ''OpenShiftClusterCredentials'', ''OpenShiftCluster'', ''Tags'', ''Properties'', ''ProvisioningState'', ''ClusterProfile'',
     ''ConsoleProfile'', ''ServicePrincipalProfile'', ''NetworkProfile'', ''MasterProfile'', ''VMSize'', ''WorkerProfile'', ''APIServerProfile'', ''Visibility'', ''IngressProfile'']"

definition api_names :: "string list" where
  "api_names = [''CloudError'', ''CloudErrorBody'', ''OperationList'', ''Operation'', ''Display'']"

lemma walkers:
  "newTypeWalker load_packages v20191231preview_path = Ok (walker v20191231preview_path)"
  "newTypeWalker load_packages api_path = Ok (walker api_path)"
  by code_simp+

lemma walkers_closed:
  "closed_names (walker v20191231preview_path) [''OpenShiftClusterList'', ''OpenShiftClusterCredentials''] cluster_names"
  "closed_names (walker api_path) [''CloudError'', ''OperationList''] api_names"
  by code_simp+

lemma walker_scopes:
  "pk_Scope (tw_pkg (walker v20191231preview_path)) = v20191231preview_scope" "pk_Scope (tw_pkg (walker api_path)) = api_scope"
  by code_simp+

lemma scope_lengths: "length v20191231preview_scope = 26" "length api_scope = 5"
  by code_simp+

section \<open>The document is closed\<close>

text \<open>A reference of the document is resolved if it is to a definition of the document or to the common types of Azure Resource Manager.\<close>

definition resolved :: "Definitions \<Rightarrow> string \<Rightarrow> bool" where
  "resolved defs r \<longleftrightarrow> (if HasPrefix r ''#/definitions/'' then defs (drop 14 r) \<noteq> None else HasPrefix r types_json)"

definition parameter_refs :: "sw_parameter \<Rightarrow> string list" where
  "parameter_refs p = (case p of SReference r \<Rightarrow> [r] | SParameter p \<Rightarrow> case_option [] refs_of (pa_Schema p))"

definition operation_refs :: "sw_Operation \<Rightarrow> string list" where
  "operation_refs op1 = concat (map parameter_refs (op_Parameters op1)) @ concat (map (\<lambda>(c, r). case_option [] refs_of (rsp_Schema r)) (op_Responses op1))"

definition path_refs :: "Paths \<Rightarrow> string list" where
  "path_refs ps = concat (map operation_refs (concat (map (operations_of \<circ> snd) ps)))"

definition known_names :: "string list" where
  "known_names = cluster_names @ api_names"

lemma any_order_id: "any_order id"
  by (simp add: any_order_def)

abbreviation cluster_roots :: "string list" where
  "cluster_roots \<equiv> [''OpenShiftClusterList'', ''OpenShiftClusterCredentials'']"

abbreviation api_roots :: "string list" where
  "api_roots \<equiv> [''CloudError'', ''OperationList'']"

abbreviation cluster_definitions :: Definitions where
  "cluster_definitions \<equiv> \<lambda>n. if reachable (walker v20191231preview_path) (set cluster_roots) n then Some (schema_of (walker v20191231preview_path) n) else None"

lemma known_names_distinct: "list_all (\<lambda>n. n \<notin> set cluster_names) api_names"
  by code_simp

lemma cluster_definitions_api: "\<forall>n. reachable (walker api_path) (set api_roots) n \<longrightarrow> cluster_definitions n = None"
proof (intro allI impI)
  fix n assume "reachable (walker api_path) (set api_roots) n"
  then have "n \<in> set api_names" by (rule closed_names_reachable [OF walkers_closed(2)])
  with known_names_distinct have "n \<notin> set cluster_names" unfolding list_all_iff by blast
  then have "\<not> reachable (walker v20191231preview_path) (set cluster_roots) n" using closed_names_reachable [OF walkers_closed(1)] by blast
  then show "cluster_definitions n = None" by (rule if_not_P)
qed

lemma define_clusters:
  assumes "any_order ord" "40 \<le> depth"
  shows "define_package depth ord load_packages Map.empty v20191231preview_path cluster_roots = Ok cluster_definitions"
proof -
  have "length (pk_Scope (tw_pkg (walker v20191231preview_path))) < depth" using assms(2) unfolding walker_scopes scope_lengths by simp
  moreover have "\<forall>n. reachable (walker v20191231preview_path) (set cluster_roots) n \<longrightarrow> Map.empty n = None" by (rule allI, rule impI, rule refl)
  ultimately show ?thesis by (rule define_package_reachable [OF walkers(1) closed_names_supported [OF walkers_closed(1)] assms(1)])
qed

lemma define_api:
  assumes "any_order ord" "40 \<le> depth"
  shows "define_package depth ord load_packages cluster_definitions api_path api_roots
    = Ok (\<lambda>n. if reachable (walker api_path) (set api_roots) n then Some (schema_of (walker api_path) n) else cluster_definitions n)"
proof -
  have "length (pk_Scope (tw_pkg (walker api_path))) < depth" using assms(2) unfolding walker_scopes scope_lengths by simp
  from define_package_reachable [OF walkers(2) closed_names_supported [OF walkers_closed(2)] assms(1) this cluster_definitions_api] show ?thesis .
qed

abbreviation all_definitions :: Definitions where
  "all_definitions \<equiv> \<lambda>n. if reachable (walker api_path) (set api_roots) n then Some (schema_of (walker api_path) n) else cluster_definitions n"

lemma swagger_definitions_eq:
  assumes "any_order ord" "40 \<le> depth"
  shows "swagger_definitions depth ord load_packages = rbind (azure_resource ''OpenShiftCluster'' all_definitions) (\<lambda>defs. Ok (defs(''Tags'' := None)))"
  unfolding swagger_definitions_def define_clusters [OF assms] rbind_simps define_api [OF assms] ..

lemma all_definitions_known: "all_definitions n \<noteq> None \<Longrightarrow> n \<in> set known_names"
proof -
  assume n: "all_definitions n \<noteq> None"
  have "n \<in> set api_names \<or> n \<in> set cluster_names"
  proof (cases "reachable (walker api_path) (set api_roots) n")
    case True
    then show ?thesis using closed_names_reachable [OF walkers_closed(2)] by blast
  next
    case False
    with n have "cluster_definitions n \<noteq> None" by presburger
    then have "reachable (walker v20191231preview_path) (set cluster_roots) n" by presburger
    then show ?thesis using closed_names_reachable [OF walkers_closed(1)] by blast
  qed
  then show ?thesis unfolding known_names_def set_append by blast
qed

lemma azure_resource_dom: "azure_resource a defs = Ok defs' \<Longrightarrow> dom defs' = dom defs"
  by (auto simp: azure_resource_def nonnil_def split: option.splits if_splits)

lemma swagger_definitions_dom:
  assumes "swagger_definitions 40 id load_packages = Ok defs" "defs n \<noteq> None"
  shows "n \<in> set known_names"
proof -
  from assms(1) obtain defs1 where d: "azure_resource ''OpenShiftCluster'' all_definitions = Ok defs1" "defs = defs1(''Tags'' := None)"
    unfolding swagger_definitions_eq [OF any_order_id order_refl] rbind_eq_Ok result.inject by metis
  from assms(2) d(2) have "n \<in> dom defs1" by (auto split: if_splits)
  then have "all_definitions n \<noteq> None" unfolding azure_resource_dom [OF d(1)] by blast
  then show ?thesis by (rule all_definitions_known)
qed

lemma swagger_resolved_check:
  "case swagger_definitions 40 id load_packages of
     Ok defs \<Rightarrow> list_all (resolved defs) (path_refs swagger_paths)
       \<and> list_all (\<lambda>n. case defs n of None \<Rightarrow> True | Some s \<Rightarrow> list_all (resolved defs) (refs_of s)) known_names
   | _ \<Rightarrow> False"
  by code_simp

text \<open>
  C40. The walk ends, and whatever the order in which a Go map is iterated the definitions it adds are those of the types reachable from the given names, neither more nor
  less, each with the schema of its type; definitions of other names are kept. As deep a stack as the package has declarations is enough, also for types that refer to
  themselves.
\<close>
theorem define_exactly_reachable:
  assumes "newTypeWalker load pkgname = Ok tw" "supported tw (set names)" "any_order ord" "length (pk_Scope (tw_pkg tw)) < depth"
    and "\<forall>n. reachable tw (set names) n \<longrightarrow> defs n = None"
  shows "define_package depth ord load defs pkgname names = Ok (\<lambda>n. if reachable tw (set names) n then Some (schema_of tw n) else defs n)"
  using assms by (rule define_package_reachable)

lemma api_depth: "length (pk_Scope (tw_pkg (walker api_path))) < 6"
  unfolding walker_scopes scope_lengths by simp

theorem define_exactly_reachable_witness:
  "define_package 6 rev load_packages Map.empty api_path api_roots
   = Ok (\<lambda>n. if reachable (walker api_path) (set api_roots) n then Some (schema_of (walker api_path) n) else None)"
proof -
  have "any_order rev" by (simp add: any_order_def)
  moreover have "\<forall>n. reachable (walker api_path) (set api_roots) n \<longrightarrow> Map.empty n = None" by (rule allI, rule impI, rule refl)
  ultimately show ?thesis by (intro define_exactly_reachable [OF walkers(2) closed_names_supported [OF walkers_closed(2)] _ api_depth])
qed

text \<open>
  C39. The generated document is closed: in whatever order Go iterates its maps, the generator finds definitions for the API's types, and every reference in a definition,
  in a parameter or in a response of an operation is to a definition of the document or to the common types of Azure Resource Manager. Dropping the definition of the tags
  leaves no reference to it.
\<close>
theorem swagger_closed:
  assumes "any_order ord" "40 \<le> depth"
  shows "\<exists>defs. swagger_definitions depth ord load_packages = Ok defs
    \<and> (\<forall>r \<in> set (path_refs (sw_Paths (swagger_document defs))). resolved defs r)
    \<and> (\<forall>n s r. defs n = Some s \<longrightarrow> r \<in> set (refs_of s) \<longrightarrow> resolved defs r)"
proof -
  have same: "swagger_definitions depth ord load_packages = swagger_definitions 40 id load_packages"
    unfolding swagger_definitions_eq [OF assms] swagger_definitions_eq [OF any_order_id order_refl] ..
  from swagger_resolved_check obtain defs where defs: "swagger_definitions 40 id load_packages = Ok defs"
    and paths: "list_all (resolved defs) (path_refs swagger_paths)"
    and names: "list_all (\<lambda>n. case defs n of None \<Rightarrow> True | Some s \<Rightarrow> list_all (resolved defs) (refs_of s)) known_names"
    by (cases "swagger_definitions 40 id load_packages") simp_all
  have "resolved defs r" if "defs n = Some s" "r \<in> set (refs_of s)" for n s r
  proof -
    have "n \<in> set known_names" using swagger_definitions_dom [OF defs] that(1) by simp
    with names that show ?thesis by (auto simp: list_all_iff)
  qed
  then show ?thesis using same defs paths by (auto simp: swagger_document_def list_all_iff)
qed

theorem swagger_closed_witness:
  "\<exists>defs. swagger_definitions 40 rev load_packages = Ok defs
    \<and> (\<forall>r \<in> set (path_refs (sw_Paths (swagger_document defs))). resolved defs r)
    \<and> (\<forall>n s r. defs n = Some s \<longrightarrow> r \<in> set (refs_of s) \<longrightarrow> resolved defs r)"
  by (rule swagger_closed) (simp_all add: any_order_def)

section \<open>Every example that is referred to is written\<close>

text \<open>A file system, as the map of the files in it.\<close>

definition writes :: "(string \<rightharpoonup> string) generator_env \<Rightarrow> bool" where
  "writes e \<longleftrightarrow> (\<forall>p b w. ge_WriteFile e p b w = (Ok (), w(p \<mapsto> b)))"

definition example_file :: "string \<Rightarrow> sw_Operation \<Rightarrow> string" where
  "example_file outputDir op1 = outputDir @ ''/examples/'' @ op_OperationID op1 @ ''.json''"

lemma write_examples_kept:
  assumes "writes e" "write_examples e outputDir ops w = (Ok (), w')" "\<forall>op1 \<in> set ops. f \<noteq> example_file outputDir op1"
  shows "w' f = w f"
  using assms(2,3)
  by (induction ops arbitrary: w) (use assms(1) in \<open>auto simp: writes_def gbind_eq_Ok example_file_def\<close>)

lemma write_examples_written:
  assumes "writes e" "write_examples e outputDir ops w = (Ok (), w')" "distinct (map op_OperationID ops)" "op1 \<in> set ops"
  shows "\<exists>ex b. example_of op1 = Ok ex \<and> ge_MarshalExample e ex = Ok b \<and> w' (example_file outputDir op1) = Some (b @ [CHR 0x0A])"
  using assms(2-)
proof (induction ops arbitrary: w)
  case (Cons x ops)
  from Cons.prems(1) assms(1) obtain ex b where x: "example_of x = Ok ex" "ge_MarshalExample e ex = Ok b"
    and rest: "write_examples e outputDir ops (w(example_file outputDir x \<mapsto> b @ [CHR 0x0A])) = (Ok (), w')"
    by (auto simp: writes_def gbind_eq_Ok example_file_def)
  show ?case
  proof (cases "op1 \<in> set ops")
    case True
    with Cons.IH [OF rest] Cons.prems(2) show ?thesis by simp
  next
    case False
    with Cons.prems(3) have "op1 = x" by simp
    moreover have "\<forall>y \<in> set ops. example_file outputDir x \<noteq> example_file outputDir y" using Cons.prems(2) by (auto simp: example_file_def)
    ultimately show ?thesis using x write_examples_kept [OF assms(1) rest] by simp
  qed
qed simp

definition document_operations :: "Paths \<Rightarrow> sw_Operation list" where
  "document_operations ps = concat (map (operations_of \<circ> snd) ps)"

lemma document_operations_mset: "mset (document_operations ps) = sum_mset (image_mset (\<lambda>p. mset (operations_of (snd p))) (mset ps))"
  by (induction ps) (simp_all add: document_operations_def)

lemma document_operations_order: "mset ps = mset ps' \<Longrightarrow> mset (document_operations ps) = mset (document_operations ps')"
  by (simp add: document_operations_mset)

lemma document_operations_distinct: "distinct (map op_OperationID (document_operations swagger_paths))"
  by code_simp

lemma document_examples: "list_all (\<lambda>op1. op_Examples op1 = [(op_Summary op1, example_ref op1)]) (document_operations swagger_paths)"
  by code_simp

lemma generateExamples_written:
  assumes "writes e" "mset (ge_path_order e swagger_paths) = mset swagger_paths"
    and "generateExamples e outputDir (swagger_document defs) w = (Ok (), w')" "op1 \<in> set (document_operations swagger_paths)"
  shows "\<exists>ex b. example_of op1 = Ok ex \<and> ge_MarshalExample e ex = Ok b \<and> w' (example_file outputDir op1) = Some (b @ [CHR 0x0A])"
proof -
  note same = document_operations_order [OF assms(2)]
  have "sw_Paths (swagger_document defs) = swagger_paths" by (simp add: swagger_document_def)
  with assms(3) obtain w1 where run: "write_examples e outputDir (document_operations (ge_path_order e swagger_paths)) w1 = (Ok (), w')"
    unfolding generateExamples_def gbind_eq_Ok document_operations_def by metis
  have "mset (map op_OperationID (document_operations (ge_path_order e swagger_paths))) = mset (map op_OperationID (document_operations swagger_paths))"
    using same by simp
  then have "distinct (map op_OperationID (document_operations (ge_path_order e swagger_paths)))"
    using document_operations_distinct mset_eq_imp_distinct_iff by blast
  moreover have "op1 \<in> set (document_operations (ge_path_order e swagger_paths))" using assms(4) mset_eq_setD [OF same] by simp
  ultimately show ?thesis by (rule write_examples_written [OF assms(1) run])
qed

lemma swagger_Run_examples:
  assumes "writes e" "mset (ge_path_order e swagger_paths) = mset swagger_paths"
    and "swagger_Run e outputDir w = (Ok (), w')" "op1 \<in> set (document_operations swagger_paths)"
  shows "op_Examples op1 = [(op_Summary op1, ''./examples/'' @ op_OperationID op1 @ ''.json'')]"
    and "\<exists>ex b. example_of op1 = Ok ex \<and> ge_MarshalExample e ex = Ok b
      \<and> w' (outputDir @ ''/examples/'' @ op_OperationID op1 @ ''.json'') = Some (b @ [CHR 0x0A])"
proof -
  show "op_Examples op1 = [(op_Summary op1, ''./examples/'' @ op_OperationID op1 @ ''.json'')]"
    using document_examples assms(4) unfolding list_all_iff example_ref_def by blast
  from assms(3) obtain defs w1 b where g: "generateExamples e outputDir (swagger_document defs) w = (Ok (), w1)"
    and "ge_WriteFile e (outputDir @ ''/redhatopenshift.json'') b w1 = (Ok (), w')"
    by (auto simp: swagger_Run_def gbind_eq_Ok Let_def)
  with assms(1) have "w' = w1(outputDir @ ''/redhatopenshift.json'' \<mapsto> b)" by (simp add: writes_def)
  moreover have "example_file outputDir op1 \<noteq> outputDir @ ''/redhatopenshift.json''" by (simp add: example_file_def)
  ultimately have "w' (example_file outputDir op1) = w1 (example_file outputDir op1)" by simp
  then show "\<exists>ex b. example_of op1 = Ok ex \<and> ge_MarshalExample e ex = Ok b
      \<and> w' (outputDir @ ''/examples/'' @ op_OperationID op1 @ ''.json'') = Some (b @ [CHR 0x0A])"
    using generateExamples_written [OF assms(1,2) g assms(4)] by (simp add: example_file_def)
qed

end
