(* ===== verification/AzureClient.thy ===== *)
theory AzureClient
  imports Azure
begin

text \<open>
  What the provider adds to the clients of the Azure SDK, the files \<^verbatim>\<open>*_addons.go\<close> under \<^verbatim>\<open>src/pkg/util/azureclient\<close>: methods that read all pages of a listing, that start a long
  operation and wait for its end, and the one that waits for a deployment somebody else started. The requests behind them are parameters; a page is as the SDK in \<^verbatim>\<open>src/vendor\<close>
  has it.
\<close>

section \<open>Pages\<close>

text \<open>The result of one list request, and the page that holds it. The SDK regards a page without values as the end.\<close>

record 'a list_result =
  lr_Value :: "'a list option"
  lr_NextLink :: "string option"

definition zero_list_result :: "'a list_result" where
  "zero_list_result = \<lparr>lr_Value = None, lr_NextLink = None\<rparr>"

definition IsEmpty :: "'a list_result \<Rightarrow> bool" where
  "IsEmpty r = (case lr_Value r of None \<Rightarrow> True | Some xs \<Rightarrow> xs = [])"

definition NotDone :: "'a list_result \<Rightarrow> bool" where
  "NotDone page = (\<not> IsEmpty page)"

definition page_Values :: "'a list_result \<Rightarrow> 'a list" where
  "page_Values page = (case lr_Value page of None \<Rightarrow> [] | Some xs \<Rightarrow> xs)"

definition next_link :: "'a list_result \<Rightarrow> string" where
  "next_link r = (case lr_NextLink r of None \<Rightarrow> [] | Some l \<Rightarrow> l)"

definition listNextResults :: "(string \<Rightarrow> ('w, 'a list_result) go) \<Rightarrow> 'a list_result \<Rightarrow> ('w, 'a list_result) go" where
  "listNextResults send lastResults =
     (if next_link lastResults = [] then greturn zero_list_result else send (next_link lastResults))"

text \<open>
  The two loops over the pages: one asks whether the page is done before it takes the values, the other one after. Running out of fuel stands for a loop that is still running: a service may
  link pages without end.
\<close>

fun while_pages :: "(string \<Rightarrow> ('w, 'a list_result) go) \<Rightarrow> nat \<Rightarrow> 'a list \<Rightarrow> 'a list_result \<Rightarrow> ('w, 'a list) go" where
  "while_pages send 0 acc page w = (Panic ''still running'', w)"
| "while_pages send (Suc fuel) acc page w =
     (if NotDone page then gbind (listNextResults send page) (while_pages send fuel (acc @ page_Values page)) w
      else (Ok acc, w))"

fun until_pages :: "(string \<Rightarrow> ('w, 'a list_result) go) \<Rightarrow> nat \<Rightarrow> 'a list \<Rightarrow> 'a list_result \<Rightarrow> ('w, 'a list) go" where
  "until_pages send 0 acc page w = (Panic ''still running'', w)"
| "until_pages send (Suc fuel) acc page w =
     gbind (listNextResults send page) (\<lambda>page'. if NotDone page' then until_pages send fuel (acc @ page_Values page) page' else greturn (acc @ page_Values page)) w"

text \<open>The listings. A client gives the first request of a listing, which has its arguments, and the request for a link.\<close>

record ('p, 'a, 'w) list_client =
  lc_List :: "'p \<Rightarrow> ('w, 'a list_result) go"
  lc_send :: "string \<Rightarrow> ('w, 'a list_result) go"

record ('a, 'w) permissions_client =
  pc_ListForResource :: "string \<times> string \<times> string \<times> string \<times> string \<Rightarrow> ('w, 'a list_result) go"
  pc_ListForResourceGroup :: "string \<Rightarrow> ('w, 'a list_result) go"
  pc_send :: "string \<Rightarrow> ('w, 'a list_result) go"

definition ListForResource ::
    "nat \<Rightarrow> ('a, 'w) permissions_client \<Rightarrow> string \<Rightarrow> string \<Rightarrow> string \<Rightarrow> string \<Rightarrow> string \<Rightarrow> ('w, 'a list) go" where
  "ListForResource fuel c resourceGroupName resourceProviderNamespace parentResourcePath resourceType resourceName =
     gbind (pc_ListForResource c (resourceGroupName, resourceProviderNamespace, parentResourcePath, resourceType, resourceName)) (until_pages (pc_send c) fuel [])"

definition ListForResourceGroup :: "nat \<Rightarrow> ('a, 'w) permissions_client \<Rightarrow> string \<Rightarrow> ('w, 'a list) go" where
  "ListForResourceGroup fuel c resourceGroupName = gbind (pc_ListForResourceGroup c resourceGroupName) (until_pages (pc_send c) fuel [])"

definition resourceSkus_List :: "nat \<Rightarrow> (string, 'a, 'w) list_client \<Rightarrow> string \<Rightarrow> ('w, 'a list) go" where
  "resourceSkus_List fuel c flt = gbind (lc_List c flt) (while_pages (lc_send c) fuel [])"

definition zones_ListByResourceGroup :: "nat \<Rightarrow> (string \<times> int option, 'a, 'w) list_client \<Rightarrow> string \<Rightarrow> int option \<Rightarrow> ('w, 'a list) go" where
  "zones_ListByResourceGroup fuel c resourceGroupName top1 = gbind (lc_List c (resourceGroupName, top1)) (while_pages (lc_send c) fuel [])"

definition vaults_ListByResourceGroup :: "nat \<Rightarrow> (string \<times> int option, 'a, 'w) list_client \<Rightarrow> string \<Rightarrow> int option \<Rightarrow> ('w, 'a list) go" where
  "vaults_ListByResourceGroup fuel c resourceGroupName top1 = gbind (lc_List c (resourceGroupName, top1)) (while_pages (lc_send c) fuel [])"

definition publicIPAddresses_List :: "nat \<Rightarrow> (string, 'a, 'w) list_client \<Rightarrow> string \<Rightarrow> ('w, 'a list) go" where
  "publicIPAddresses_List fuel c resourceGroupName = gbind (lc_List c resourceGroupName) (while_pages (lc_send c) fuel [])"

section \<open>Long operations\<close>

text \<open>A client of a kind of resources whose operations return a future, and the wait for a future.\<close>

record ('p, 'fu, 'w) lro_client =
  lo_CreateOrUpdate :: "string \<Rightarrow> string \<Rightarrow> 'p \<Rightarrow> ('w, 'fu) go"
  lo_Delete :: "string \<Rightarrow> string \<Rightarrow> ('w, 'fu) go"
  lo_WaitForCompletionRef :: "'fu \<Rightarrow> ('w, unit) go"

definition disks_DeleteAndWait :: "('p, 'fu, 'w) lro_client \<Rightarrow> string \<Rightarrow> string \<Rightarrow> ('w, unit) go" where
  "disks_DeleteAndWait c resourceGroupName diskName = gbind (lo_Delete c resourceGroupName diskName) (lo_WaitForCompletionRef c)"

definition virtualMachines_CreateOrUpdateAndWait :: "('p, 'fu, 'w) lro_client \<Rightarrow> string \<Rightarrow> string \<Rightarrow> 'p \<Rightarrow> ('w, unit) go" where
  "virtualMachines_CreateOrUpdateAndWait c resourceGroupName VMName parameters = gbind (lo_CreateOrUpdate c resourceGroupName VMName parameters) (lo_WaitForCompletionRef c)"

definition virtualMachines_DeleteAndWait :: "('p, 'fu, 'w) lro_client \<Rightarrow> string \<Rightarrow> string \<Rightarrow> ('w, unit) go" where
  "virtualMachines_DeleteAndWait c resourceGroupName VMName = gbind (lo_Delete c resourceGroupName VMName) (lo_WaitForCompletionRef c)"

definition interfaces_DeleteAndWait :: "('p, 'fu, 'w) lro_client \<Rightarrow> string \<Rightarrow> string \<Rightarrow> ('w, unit) go" where
  "interfaces_DeleteAndWait c resourceGroupName networkInterfaceName = gbind (lo_Delete c resourceGroupName networkInterfaceName) (lo_WaitForCompletionRef c)"

definition privateEndpoints_CreateOrUpdateAndWait :: "('p, 'fu, 'w) lro_client \<Rightarrow> string \<Rightarrow> string \<Rightarrow> 'p \<Rightarrow> ('w, unit) go" where
  "privateEndpoints_CreateOrUpdateAndWait c resourceGroupName privateEndpointName parameters =
     gbind (lo_CreateOrUpdate c resourceGroupName privateEndpointName parameters) (lo_WaitForCompletionRef c)"

definition privateEndpoints_DeleteAndWait :: "('p, 'fu, 'w) lro_client \<Rightarrow> string \<Rightarrow> string \<Rightarrow> ('w, unit) go" where
  "privateEndpoints_DeleteAndWait c resourceGroupName publicIPAddressName = gbind (lo_Delete c resourceGroupName publicIPAddressName) (lo_WaitForCompletionRef c)"

definition publicIPAddresses_DeleteAndWait :: "('p, 'fu, 'w) lro_client \<Rightarrow> string \<Rightarrow> string \<Rightarrow> ('w, unit) go" where
  "publicIPAddresses_DeleteAndWait c resourceGroupName publicIPAddressName = gbind (lo_Delete c resourceGroupName publicIPAddressName) (lo_WaitForCompletionRef c)"

text \<open>The client of the subnets has the virtual network for an argument, too; that of the groups has only the group.\<close>

definition subnets_CreateOrUpdateAndWait ::
    "(string \<Rightarrow> string \<Rightarrow> string \<Rightarrow> 'p \<Rightarrow> ('w, 'fu) go) \<Rightarrow> ('fu \<Rightarrow> ('w, unit) go) \<Rightarrow> string \<Rightarrow> string \<Rightarrow> string \<Rightarrow> 'p \<Rightarrow> ('w, unit) go" where
  "subnets_CreateOrUpdateAndWait CreateOrUpdate WaitForCompletionRef resourceGroupName virtualNetworkName subnetName subnetParameters =
     gbind (CreateOrUpdate resourceGroupName virtualNetworkName subnetName subnetParameters) WaitForCompletionRef"

definition groups_DeleteAndWait :: "(string \<Rightarrow> ('w, 'fu) go) \<Rightarrow> ('fu \<Rightarrow> ('w, unit) go) \<Rightarrow> string \<Rightarrow> ('w, unit) go" where
  "groups_DeleteAndWait Delete WaitForCompletionRef resourceGroupName = gbind (Delete resourceGroupName) WaitForCompletionRef"

definition accounts_CreateAndWait :: "('p, 'fu, 'w) lro_client \<Rightarrow> string \<Rightarrow> string \<Rightarrow> 'p \<Rightarrow> ('w, unit) go" where
  "accounts_CreateAndWait c resourceGroupName accountName parameters = gbind (lo_CreateOrUpdate c resourceGroupName accountName parameters) (lo_WaitForCompletionRef c)"

definition deployments_CreateOrUpdateAndWait :: "('p, 'fu, 'w) lro_client \<Rightarrow> string \<Rightarrow> string \<Rightarrow> 'p \<Rightarrow> ('w, unit) go" where
  "deployments_CreateOrUpdateAndWait c resourceGroupName deploymentName parameters =
     gbind (lo_CreateOrUpdate c resourceGroupName deploymentName parameters) (lo_WaitForCompletionRef c)"

text \<open>
  Waiting for a deployment somebody else started. A deployment comes with optional properties, these with an optional provisioning state. \<open>ticks\<close> is the number of polls
  before the time-out.
\<close>

definition deployment_done :: "string option option \<Rightarrow> bool result" where
  "deployment_done properties =
     (case properties of
        None \<Rightarrow> Panic ''nil pointer dereference''
      | Some None \<Rightarrow> Panic ''nil pointer dereference''
      | Some (Some s) \<Rightarrow>
          if s \<in> {''Canceled'', ''Failed''} then Err (ErrorfErr (Fmt ''got provisioningState %q'' [AStr s])) else Ok (s = ''Succeeded''))"

definition deployments_Wait :: "nat \<Rightarrow> (string \<Rightarrow> string \<Rightarrow> ('w, string option option) go) \<Rightarrow> string \<Rightarrow> string \<Rightarrow> ('w, unit) go" where
  "deployments_Wait ticks Get resourceGroupName deploymentName =
     WaitFor ticks (gbind (Get resourceGroupName deploymentName) (\<lambda>deployment. glift (deployment_done deployment)))"

section \<open>What a listing returns\<close>

text \<open>\<open>linked send r w rs w'\<close>: following the links from the result \<open>r\<close> gives the results \<open>rs\<close>, the last of which has no link.\<close>

inductive linked :: "(string \<Rightarrow> ('w, 'a list_result) go) \<Rightarrow> 'a list_result \<Rightarrow> 'w \<Rightarrow> 'a list_result list \<Rightarrow> 'w \<Rightarrow> bool" where
  linked_last: "next_link r = [] \<Longrightarrow> linked send r w [r] w"
| linked_more: "next_link r \<noteq> [] \<Longrightarrow> send (next_link r) w = (Ok r', w1) \<Longrightarrow> linked send r' w1 rs w' \<Longrightarrow> linked send r w (r # rs) w'"

inductive_cases linkedE: "linked send r w rs w'"

lemma linked_hd: "linked send r w rs w' \<Longrightarrow> \<exists>rs'. rs = r # rs'"
  by (erule linkedE) auto

lemma NotDone_zero [simp]: "\<not> NotDone zero_list_result"
  by (simp add: NotDone_def IsEmpty_def zero_list_result_def)

lemma Values_not_NotDone: "\<not> NotDone r \<Longrightarrow> page_Values r = []"
  by (auto simp: NotDone_def IsEmpty_def page_Values_def split: option.splits)

text \<open>
  What a listing returns: the values of the pages before the first one without values, in order. The loop that looks at the page after it took the values does not stop at a first page
  without values.
\<close>

lemma while_pages_linked:
  assumes "linked send r w rs w'" "length rs < fuel"
  shows "\<exists>w2. while_pages send fuel acc r w = (Ok (acc @ concat (map page_Values (takeWhile NotDone rs))), w2)"
  using assms
proof (induction arbitrary: fuel acc rule: linked.induct)
  case (linked_last r send w)
  then obtain n where "fuel = Suc (Suc n)" by (cases fuel; cases "fuel - 1") auto
  with linked_last show ?case by (simp add: listNextResults_def)
next
  case (linked_more r send w r' w1 rs w')
  then obtain n where "fuel = Suc n" "length rs < n" by (cases fuel) auto
  with linked_more.hyps linked_more.IH [of n "acc @ page_Values r"] show ?case by (simp add: listNextResults_def)
qed

lemma until_pages_linked:
  assumes "linked send r w rs w'" "length rs \<le> fuel"
  shows "\<exists>w2. until_pages send fuel acc r w = (Ok (acc @ page_Values r @ concat (map page_Values (takeWhile NotDone (tl rs)))), w2)"
  using assms
proof (induction arbitrary: fuel acc rule: linked.induct)
  case (linked_last r send w)
  then obtain n where "fuel = Suc n" by (cases fuel) auto
  with linked_last show ?case by (simp add: listNextResults_def)
next
  case (linked_more r send w r' w1 rs w')
  then obtain n where n: "fuel = Suc n" "length rs \<le> n" by (cases fuel) auto
  from linked_hd [OF linked_more.hyps(3)] obtain rs' where rs: "rs = r' # rs'" by blast
  show ?case
  proof (cases "NotDone r'")
    case True
    with linked_more.hyps linked_more.IH [OF n(2), of "acc @ page_Values r"] n(1) rs show ?thesis by (simp add: listNextResults_def)
  next
    case False
    with linked_more.hyps n(1) rs show ?thesis by (simp add: listNextResults_def)
  qed
qed

text \<open>
  So a listing is complete if no page but the last one is without values, and both loops agree on it; a page without values that has a link, which the interface of Azure allows, hides all that
  comes after it.
\<close>

lemma listing_complete:
  assumes "linked send r w rs w'" "\<forall>r \<in> set (butlast rs). NotDone r" "length rs < fuel"
  shows "\<exists>w2. while_pages send fuel [] r w = (Ok (concat (map page_Values rs)), w2)"
    and "\<exists>w2. until_pages send fuel [] r w = (Ok (concat (map page_Values rs)), w2)"
proof -
  have vals: "concat (map page_Values (takeWhile NotDone xs)) = concat (map page_Values xs)" if "\<forall>r \<in> set (butlast xs). NotDone r" for xs :: "'b list_result list"
    using that by (induction xs) (auto simp: Values_not_NotDone split: if_splits)
  from linked_hd [OF assms(1)] obtain rs' where rs: "rs = r # rs'" by blast
  have "\<forall>r \<in> set (butlast rs'). NotDone r" using assms(2) rs by (auto split: if_splits)
  from vals [OF this] until_pages_linked [OF assms(1), of fuel "[]"] assms(3) rs
  show "\<exists>w2. until_pages send fuel [] r w = (Ok (concat (map page_Values rs)), w2)" by simp
  from vals [OF assms(2)] while_pages_linked [OF assms(1,3), of "[]"]
  show "\<exists>w2. while_pages send fuel [] r w = (Ok (concat (map page_Values rs)), w2)" by simp
qed

lemma listing_loses_pages:
  assumes "\<not> NotDone r" "0 < fuel"
  shows "while_pages send fuel [] r w = (Ok [], w)"
  using assms by (cases fuel) simp_all

section \<open>What waiting shows\<close>

text \<open>Waiting ends well only if the last look at the deployment found that it had succeeded, and it never waits on a deployment that has failed.\<close>

lemma WaitFor_Ok: "WaitFor ticks condition w = (Ok (), w') \<Longrightarrow> \<exists>w1. condition w1 = (Ok True, w')"
  by (induction ticks arbitrary: w) (auto simp: gbind_eq_Ok split: if_splits)

lemma deployment_done_Ok: "deployment_done properties = Ok b \<longleftrightarrow> (\<exists>s. properties = Some (Some s) \<and> s \<notin> {''Canceled'', ''Failed''} \<and> b = (s = ''Succeeded''))"
  by (auto simp: deployment_done_def split: option.splits if_splits)

lemma deployments_Wait_Ok:
  assumes "deployments_Wait ticks Get rg name w = (Ok (), w')"
  shows "\<exists>w1. Get rg name w1 = (Ok (Some (Some ''Succeeded'')), w')"
  using WaitFor_Ok [OF assms [unfolded deployments_Wait_def]] by (auto simp: gbind_eq_Ok deployment_done_Ok)

lemma deployments_Wait_failed:
  assumes "Get rg name w = (Ok (Some (Some s)), w')" "s \<in> {''Canceled'', ''Failed''}"
  shows "deployments_Wait ticks Get rg name w = (Err (ErrorfErr (Fmt ''got provisioningState %q'' [AStr s])), w')"
  using assms by (cases ticks) (auto simp: deployments_Wait_def deployment_done_def gbind_def)

end
