(* ===== verification/OrderedMap.thy ===== *)
theory OrderedMap
  imports Prelude "HOL-Library.AList"
begin

text \<open>
  The JSON objects that keep the order of their members, \<^verbatim>\<open>src/pkg/util/orderedmap\<close>, which the Swagger generator writes its properties with. Of \<^verbatim>\<open>encoding/json\<close> the decoder's state
  within an object is modelled: which separators and tokens it takes where. The encodings of a key and of a value are parameters. A struct of key and value is a pair.
\<close>

section \<open>The decoder\<close>

datatype token_state = TopValue | ArrayStart | ObjectStart | ObjectKey | ObjectColon | ObjectValue | ObjectComma

datatype json_token = Delim char | StrTok string | OtherTok string

record 'v json_lib =
  jl_unquote :: "string \<Rightarrow> (string \<times> string) result"
  jl_value :: "string \<Rightarrow> ('v \<times> string) result"
  jl_token :: "string \<Rightarrow> (json_token \<times> string) result"
  jl_quote :: "string \<Rightarrow> string result"
  jl_encode :: "'v \<Rightarrow> string result"

definition json_error :: error where
  "json_error = ExternalErr ''json: syntax error''"

definition io_EOF :: error where
  "io_EOF = ExternalErr ''EOF''"

definition skip_ws :: "string \<Rightarrow> string" where
  "skip_ws s = dropWhile (\<lambda>c. c \<in> {CHR '' '', CHR 0x09, CHR 0x0A, CHR 0x0D}) s"

definition value_allowed :: "token_state \<Rightarrow> bool" where
  "value_allowed st \<longleftrightarrow> st \<in> {TopValue, ArrayStart, ObjectValue}"

definition token_at :: "'v json_lib \<Rightarrow> token_state \<Rightarrow> string \<Rightarrow> (json_token \<times> token_state \<times> string) result" where
  "token_at l st s =
     (case skip_ws s of
        [] \<Rightarrow> Err io_EOF
      | c # cs \<Rightarrow>
          if c = CHR '','' \<or> c = CHR '':'' then Err json_error
          else if c = CHR ''{'' \<and> value_allowed st then Ok (Delim c, ObjectStart, cs)
          else if c = CHR ''['' \<and> value_allowed st then Ok (Delim c, ArrayStart, cs)
          else if c = CHR ''}'' \<and> st \<in> {ObjectStart, ObjectComma} then Ok (Delim c, TopValue, cs)
          else if c = CHR 0x22 \<and> st \<in> {ObjectStart, ObjectKey} then rbind (jl_unquote l (c # cs)) (\<lambda>(k, rest). Ok (StrTok k, ObjectColon, rest))
          else if value_allowed st then rbind (jl_token l (c # cs)) (\<lambda>(t, rest). Ok (t, TopValue, rest))
          else Err json_error)"

definition Token :: "'v json_lib \<Rightarrow> token_state \<times> string \<Rightarrow> (json_token \<times> token_state \<times> string) result" where
  "Token l d =
     (case d of (st, s) \<Rightarrow>
        (case skip_ws s of
           c # cs \<Rightarrow>
             if c = CHR '','' then (if st = ObjectComma then token_at l ObjectKey cs else Err json_error)
             else if c = CHR '':'' then (if st = ObjectColon then token_at l ObjectValue cs else Err json_error)
             else token_at l st s
         | [] \<Rightarrow> token_at l st s))"

text \<open>\<^verbatim>\<open>Decode\<close> is called after a key.\<close>

definition Decode :: "'v json_lib \<Rightarrow> token_state \<times> string \<Rightarrow> ('v \<times> token_state \<times> string) result" where
  "Decode l d =
     (case d of (st, s) \<Rightarrow>
        if st \<noteq> ObjectColon then Err json_error
        else case skip_ws s of
          [] \<Rightarrow> Err io_EOF
        | c # cs \<Rightarrow> if c = CHR '':'' then rbind (jl_value l cs) (\<lambda>(v, rest). Ok (v, ObjectComma, rest)) else Err json_error)"

section \<open>Reading and writing\<close>

text \<open>The loop over the members; \<open>fuel\<close> bounds their number, running out of it stands for a loop that is still running.\<close>

fun unmarshal_members :: "'v json_lib \<Rightarrow> nat \<Rightarrow> (string \<rightharpoonup> nat) \<Rightarrow> (string \<times> 'v) list \<Rightarrow> token_state \<times> string \<Rightarrow> (string \<times> 'v) list result" where
  "unmarshal_members l 0 indexes xs d = Panic ''still running''"
| "unmarshal_members l (Suc fuel) indexes xs d =
     rbind (Token l d) (\<lambda>(tok, d).
     case tok of
       StrTok k \<Rightarrow>
         rbind (Decode l d) (\<lambda>(v, d).
         case indexes k of
           Some i \<Rightarrow> unmarshal_members l fuel indexes (xs[i := (k, v)]) d
         | None \<Rightarrow> unmarshal_members l fuel (indexes(k \<mapsto> length xs)) (xs @ [(k, v)]) d)
     | _ \<Rightarrow> if tok = Delim (CHR ''}'') then Ok xs else Err (ErrorfErr (Fmt ''unexpected token %v'' [])))"

definition UnmarshalJSON :: "'v json_lib \<Rightarrow> nat \<Rightarrow> string \<Rightarrow> (string \<times> 'v) list \<Rightarrow> (string \<times> 'v) list result" where
  "UnmarshalJSON l fuel b xs =
     rbind (Token l (TopValue, b)) (\<lambda>(tok, d).
     if tok \<noteq> Delim (CHR ''{'') then Err (ErrorfErr (Fmt ''unexpected token %v'' [])) else unmarshal_members l fuel Map.empty xs d)"

fun marshal_members :: "'v json_lib \<Rightarrow> (string \<times> 'v) list \<Rightarrow> string result" where
  "marshal_members l [] = Ok ''}''"
| "marshal_members l ((k, v) # xs) =
     rbind (jl_quote l k) (\<lambda>q. rbind (jl_encode l v) (\<lambda>b.
     rbind (marshal_members l xs) (\<lambda>rest. Ok (q @ '':'' @ b @ (if xs = [] then [] else '','') @ rest))))"

definition MarshalJSON :: "'v json_lib \<Rightarrow> (string \<times> 'v) list option \<Rightarrow> string result" where
  "MarshalJSON l i = (case i of None \<Rightarrow> Ok ''null'' | Some xs \<Rightarrow> rbind (marshal_members l xs) (\<lambda>b. Ok (''{'' @ b)))"

section \<open>The round trip\<close>

text \<open>The map of indexes: where a key is in the list.\<close>

definition indexes_of :: "(string \<rightharpoonup> nat) \<Rightarrow> (string \<times> 'v) list \<Rightarrow> bool" where
  "indexes_of indexes xs \<longleftrightarrow> (\<forall>k i. indexes k = Some i \<longleftrightarrow> i < length xs \<and> fst (xs ! i) = k)"

lemma alist_update_at: "distinct (map fst xs) \<Longrightarrow> i < length xs \<Longrightarrow> fst (xs ! i) = k \<Longrightarrow> AList.update k v xs = xs[i := (k, v)]"
proof (induction xs arbitrary: i)
  case (Cons x xs)
  show ?case
  proof (cases i)
    case 0
    with Cons.prems show ?thesis by (cases x) simp
  next
    case (Suc j)
    with Cons.prems have j: "j < length xs" "fst (xs ! j) = k" by simp_all
    then have "k \<in> fst ` set xs" using nth_mem by (metis image_eqI)
    with Cons.prems(1) have "fst x \<noteq> k" by auto
    with Cons.IH [OF _ j] Cons.prems(1) Suc show ?thesis by (cases x) simp
  qed
qed simp

lemma alist_update_new: "k \<notin> fst ` set xs \<Longrightarrow> AList.update k v xs = xs @ [(k, v)]"
  by (induction xs) auto

lemma indexes_of_update:
  assumes "indexes_of indexes xs" "distinct (map fst xs)"
  shows "indexes k = Some i \<Longrightarrow> xs[i := (k, v)] = AList.update k v xs \<and> indexes_of indexes (AList.update k v xs)"
    and "indexes k = None \<Longrightarrow> xs @ [(k, v)] = AList.update k v xs \<and> indexes_of (indexes(k \<mapsto> length xs)) (AList.update k v xs)"
proof -
  assume "indexes k = Some i"
  with assms have i: "i < length xs" "fst (xs ! i) = k" by (auto simp: indexes_of_def)
  with alist_update_at [OF assms(2) i, of v] assms(1) show "xs[i := (k, v)] = AList.update k v xs \<and> indexes_of indexes (AList.update k v xs)"
    by (auto simp: indexes_of_def nth_list_update)
next
  assume none: "indexes k = None"
  have "k \<notin> fst ` set xs"
  proof
    assume "k \<in> fst ` set xs"
    then obtain j where "j < length xs" "fst (xs ! j) = k" by (auto simp: in_set_conv_nth)
    with assms(1) none show False unfolding indexes_of_def by (metis option.distinct(1))
  qed
  from alist_update_new [OF this, of v] this assms(1) none
  show "xs @ [(k, v)] = AList.update k v xs \<and> indexes_of (indexes(k \<mapsto> length xs)) (AList.update k v xs)"
    by (auto simp: indexes_of_def nth_append less_Suc_eq split: if_splits)
qed

text \<open>What the round trip relies on: a key and a value that were encoded are read back, up to where they end.\<close>

definition member_law :: "'v json_lib \<Rightarrow> string \<Rightarrow> 'v \<Rightarrow> bool" where
  "member_law l k v \<longleftrightarrow>
     (\<exists>q b. jl_quote l k = Ok (CHR 0x22 # q) \<and> (\<forall>rest. jl_unquote l (CHR 0x22 # q @ rest) = Ok (k, rest))
        \<and> jl_encode l v = Ok b \<and> (\<forall>c rest. c \<in> {CHR '','', CHR ''}''} \<longrightarrow> jl_value l (b @ c # rest) = Ok (v, c # rest)))"

definition json_law :: "'v json_lib \<Rightarrow> (string \<times> 'v) list \<Rightarrow> bool" where
  "json_law l xs \<longleftrightarrow> (\<forall>(k, v) \<in> set xs. member_law l k v)"

lemma skip_ws_Cons: "c \<notin> {CHR '' '', CHR 0x09, CHR 0x0A, CHR 0x0D} \<Longrightarrow> skip_ws (c # cs) = c # cs"
  by (simp add: skip_ws_def)

lemma marshal_hd: "json_law l xs \<Longrightarrow> marshal_members l xs = Ok b \<Longrightarrow> \<exists>c cs. b = c # cs \<and> (xs = [] \<longrightarrow> c = CHR ''}'')"
  by (cases xs) (auto simp: json_law_def member_law_def rbind_eq_Ok)

lemma unmarshal_marshal_members:
  assumes "json_law l ys" "marshal_members l ys = Ok b" "length ys < fuel" "indexes_of indexes xs" "distinct (map fst xs)"
    and "st = ObjectStart \<and> s = b \<or> st = ObjectComma \<and> s = (if ys = [] then [] else '','') @ b"
  shows "unmarshal_members l fuel indexes xs (st, s) = Ok (fold (\<lambda>(k, v). AList.update k v) ys xs)"
  using assms
proof (induction ys arbitrary: fuel indexes xs st s b)
  case Nil
  then obtain n where "fuel = Suc n" by (cases fuel) auto
  with Nil show ?case by (auto simp: Token_def token_at_def skip_ws_Cons)
next
  case (Cons y ys)
  obtain k v where y: "y = (k, v)" by fastforce
  from Cons.prems(3) obtain n where n: "fuel = Suc n" "length ys < n" by (cases fuel) auto
  from Cons.prems(1) y have "member_law l k v" by (simp add: json_law_def)
  then obtain q e where qe: "jl_quote l k = Ok (CHR 0x22 # q)" "\<forall>rest. jl_unquote l (CHR 0x22 # q @ rest) = Ok (k, rest)"
    "jl_encode l v = Ok e" "\<forall>c rest. c \<in> {CHR '','', CHR ''}''} \<longrightarrow> jl_value l (e @ c # rest) = Ok (v, c # rest)"
    unfolding member_law_def by (elim exE conjE) (rule that)
  note q = qe(1) qe(2) [rule_format] and e = qe(3) qe(4) [rule_format]
  from Cons.prems(2) y q(1) e(1) obtain b' where b': "marshal_members l ys = Ok b'"
    and b: "b = CHR 0x22 # q @ CHR '':'' # e @ (if ys = [] then [] else '','') @ b'" by (auto simp: rbind_eq_Ok)
  let ?s' = "(if ys = [] then [] else '','') @ b'"
  have law: "json_law l ys" using Cons.prems(1) by (simp add: json_law_def)
  from marshal_hd [OF law b'] obtain c cs where s': "?s' = c # cs" "c \<in> {CHR '','', CHR ''}''}" by (cases "ys = []") auto
  have tok: "Token l (st, s) = Ok (StrTok k, ObjectColon, CHR '':'' # e @ ?s')"
    using Cons.prems(6) by (auto simp: Token_def token_at_def skip_ws_Cons b q(2))
  have dec: "Decode l (ObjectColon, CHR '':'' # e @ ?s') = Ok (v, ObjectComma, ?s')"
    using e(2) [OF s'(2), of cs] unfolding s'(1) by (simp add: Decode_def skip_ws_Cons)
  have next': "unmarshal_members l n i' (AList.update k v xs) (ObjectComma, ?s') = Ok (fold (\<lambda>(k, v). AList.update k v) (y # ys) xs)"
    if "indexes_of i' (AList.update k v xs)" for i'
    using Cons.IH [OF law b' n(2) that distinct_update [OF Cons.prems(5)], of ObjectComma] y by simp
  show ?case
  proof (cases "indexes k")
    case None
    from indexes_of_update(2) [OF Cons.prems(4,5) None, of v] have "xs @ [(k, v)] = AList.update k v xs"
      "indexes_of (indexes(k \<mapsto> length xs)) (AList.update k v xs)" by blast+
    with next' None show ?thesis by (simp add: n(1) tok dec del: fold_simps)
  next
    case (Some i)
    from indexes_of_update(1) [OF Cons.prems(4,5) Some, of v] have "xs[i := (k, v)] = AList.update k v xs" "indexes_of indexes (AList.update k v xs)" by blast+
    with next' Some show ?thesis by (simp add: n(1) tok dec del: fold_simps)
  qed
qed

text \<open>
  What was written is read back in the order it was written in; of several members with one key the place of the first and the value of the last is read.
\<close>

lemma orderedmap_roundtrip:
  assumes "json_law l ys" "MarshalJSON l (Some ys) = Ok b" "length ys < fuel"
  shows "UnmarshalJSON l fuel b [] = Ok (fold (\<lambda>(k, v). AList.update k v) ys [])"
proof -
  from assms(2) obtain b' where b': "marshal_members l ys = Ok b'" "b = CHR ''{'' # b'" by (auto simp: MarshalJSON_def)
  have "Token l (TopValue, b) = Ok (Delim (CHR ''{''), ObjectStart, b')" by (simp add: b'(2) Token_def token_at_def skip_ws_Cons value_allowed_def)
  moreover have "unmarshal_members l fuel Map.empty [] (ObjectStart, b') = Ok (fold (\<lambda>(k, v). AList.update k v) ys [])"
    by (rule unmarshal_marshal_members [OF assms(1) b'(1) assms(3)]) (simp_all add: indexes_of_def)
  ultimately show ?thesis by (simp add: UnmarshalJSON_def)
qed

lemma fold_update_distinct: "distinct (map fst (xs @ ys)) \<Longrightarrow> fold (\<lambda>(k, v). AList.update k v) ys xs = xs @ ys"
proof (induction ys arbitrary: xs)
  case (Cons y ys)
  then have "AList.update (fst y) (snd y) xs = xs @ [y]" by (simp add: alist_update_new)
  with Cons show ?case by (simp add: case_prod_beta)
qed simp

end
