(* ===== verification/Statsd.thy ===== *)
theory Statsd
  imports Env
begin

text \<open>
  The metrics of the provider, \<^verbatim>\<open>src/pkg/metrics\<close>: gauges and floats, written as lines to the socket of a statsd daemon, and the tracers of the clients for Azure and
  Kubernetes that emit them. The JSON encoder, the rendering of floats (\<open>'f\<close>) and of times, and the socket are parameters. A map of dimensions is an association list with one entry for a key.
\<close>

section \<open>Lines\<close>

record 'f statsd_metric =
  sm_metric :: string
  sm_account :: string
  sm_namespace :: string
  sm_dims :: "(string \<times> string) list option"
  sm_ts :: int
  sm_valueGauge :: "int option"
  sm_valueFloat :: "'f option"

text \<open>The fields of the JSON object, as \<^verbatim>\<open>MarshalJSON\<close> gives them to the encoder: account and namespace are left out if they are empty.\<close>

record statsd_object =
  so_Metric :: string
  so_Account :: string
  so_Namespace :: string
  so_Dims :: "(string \<times> string) list option"
  so_TS :: string

record ('f, 'w) statsd_env =
  sd_Encode :: "statsd_object \<Rightarrow> string result"
  sd_FormatTime :: "int \<Rightarrow> string"
  sd_FormatFloat :: "'f \<Rightarrow> string"
  sd_now :: "'w \<Rightarrow> int"
  sd_Write :: "string \<Rightarrow> ('w, int) go"

definition statsd_MarshalJSON :: "('f, 'w) statsd_env \<Rightarrow> 'f statsd_metric \<Rightarrow> string result" where
  "statsd_MarshalJSON e m =
     sd_Encode e \<lparr>so_Metric = sm_metric m, so_Account = sm_account m, so_Namespace = sm_namespace m, so_Dims = sm_dims m, so_TS = sd_FormatTime e (sm_ts m)\<rparr>"

text \<open>The encoder ends its output with a newline, which is cut off again.\<close>

definition marshalStatsd :: "('f, 'w) statsd_env \<Rightarrow> 'f statsd_metric \<Rightarrow> string result" where
  "marshalStatsd e m =
     rbind (statsd_MarshalJSON e m) (\<lambda>json.
     let buf = json @ [CHR 0x0A]; buf = (if length buf > 1 then butlast buf else buf) in
     case sm_valueFloat m of
       Some f \<Rightarrow> Ok (buf @ '':'' @ sd_FormatFloat e f @ ''|f'' @ [CHR 0x0A])
     | None \<Rightarrow>
         (case sm_valueGauge m of
            Some g \<Rightarrow> Ok (buf @ '':'' @ Itoa g @ ''|g'' @ [CHR 0x0A])
          | None \<Rightarrow> Panic ''nil pointer dereference''))"

section \<open>The client\<close>

record statsd =
  st_location :: string
  st_hostname :: string

datatype metrics_interface = Noop | Statsd statsd

record 'w metrics_env =
  me_Hostname :: "string result"
  me_Dial :: "string \<Rightarrow> ('w, unit) go"
  me_message :: "error \<Rightarrow> string"

definition statsd_New :: "'w metrics_env \<Rightarrow> (string \<Rightarrow> string option) \<Rightarrow> bool \<Rightarrow> string \<Rightarrow> ('w, metrics_interface) go" where
  "statsd_New e lookup is_dev location =
     (if getenv lookup ''FEATURE_METRICS'' = [] then greturn Noop
      else gbind (glift (me_Hostname e)) (\<lambda>hostname w.
        case me_Dial e ''mdm_statsd.socket'' w of
          (Ok _, w') \<Rightarrow> (Ok (Statsd \<lparr>st_location = location, st_hostname = hostname\<rparr>), w')
        | (Err er, w') \<Rightarrow>
            (if is_dev \<and> HasSuffix (me_message e er) ''connect: no such file or directory'' then Ok Noop else Err er, w')
        | (Panic p, w') \<Rightarrow> (Panic p, w')))"

text \<open>The dimensions of the caller, to which location and host name are added or which they replace.\<close>

definition with_dims :: "statsd \<Rightarrow> (string \<times> string) list option \<Rightarrow> (string \<times> string) list" where
  "with_dims s dims =
     AList.update ''hostname'' (st_hostname s) (AList.update ''location'' (st_location s) (case dims of None \<Rightarrow> [] | Some d \<Rightarrow> d))"

definition emitMetric :: "('f, 'w) statsd_env \<Rightarrow> statsd \<Rightarrow> 'f statsd_metric \<Rightarrow> ('w, unit) go" where
  "emitMetric e s m =
     (\<lambda>w. let m = m\<lparr>sm_account := ''*'', sm_namespace := ''*'', sm_dims := Some (with_dims s (sm_dims m)), sm_ts := sd_now e w\<rparr> in
       gbind (glift (marshalStatsd e m)) (\<lambda>b. gbind (sd_Write e b) (\<lambda>_. greturn ())) w)"

definition new_metric :: "string \<Rightarrow> (string \<times> string) list option \<Rightarrow> 'f statsd_metric" where
  "new_metric m dims = \<lparr>sm_metric = m, sm_account = [], sm_namespace = [], sm_dims = dims, sm_ts = 0, sm_valueGauge = None, sm_valueFloat = None\<rparr>"

definition EmitFloat :: "('f, 'w) statsd_env \<Rightarrow> metrics_interface \<Rightarrow> string \<Rightarrow> 'f \<Rightarrow> (string \<times> string) list option \<Rightarrow> ('w, unit) go" where
  "EmitFloat e i m value dims =
     (case i of Noop \<Rightarrow> greturn () | Statsd s \<Rightarrow> emitMetric e s ((new_metric m dims)\<lparr>sm_valueFloat := Some value\<rparr>))"

definition EmitGauge :: "('f, 'w) statsd_env \<Rightarrow> metrics_interface \<Rightarrow> string \<Rightarrow> int \<Rightarrow> (string \<times> string) list option \<Rightarrow> ('w, unit) go" where
  "EmitGauge e i m value dims =
     (case i of Noop \<Rightarrow> greturn () | Statsd s \<Rightarrow> emitMetric e s ((new_metric m dims)\<lparr>sm_valueGauge := Some value\<rparr>))"

section \<open>The tracers\<close>

text \<open>Errors of the metrics are not looked at. A span without a start is a failed type assertion.\<close>

record span =
  sp_t :: int
  sp_name :: string

definition StartSpan :: "('w \<Rightarrow> int) \<Rightarrow> string \<Rightarrow> 'w \<Rightarrow> span" where
  "StartSpan now name w = \<lparr>sp_t = now w, sp_name = name\<rparr>"

definition ignoring :: "('w, unit) go \<Rightarrow> ('w, unit) go" where
  "ignoring m w = (case m w of (Err _, w') \<Rightarrow> (Ok (), w') | r \<Rightarrow> r)"

definition EndSpan :: "('f, 'w) statsd_env \<Rightarrow> (int \<Rightarrow> 'f) \<Rightarrow> metrics_interface \<Rightarrow> span option \<Rightarrow> int \<Rightarrow> ('w, unit) go" where
  "EndSpan e seconds i ctx httpStatusCode =
     (case ctx of
        None \<Rightarrow> glift (Panic ''interface conversion'')
      | Some m \<Rightarrow>
          let dims = Some [(''client'', sp_name m), (''code'', Itoa httpStatusCode)] in
          gbind (\<lambda>w. ignoring (EmitFloat e i ''client.azure.duration'' (seconds (sd_now e w - sp_t m)) dims) w) (\<lambda>_.
          ignoring (EmitGauge e i ''client.azure.count'' 1 dims)))"

definition k8s_Observe :: "('f, 'w) statsd_env \<Rightarrow> (int \<Rightarrow> 'f) \<Rightarrow> metrics_interface \<Rightarrow> string \<Rightarrow> string \<Rightarrow> int \<Rightarrow> ('w, unit) go" where
  "k8s_Observe e seconds i verb path latency =
     ignoring (EmitFloat e i ''client.k8s.duration'' (seconds latency) (Some [(''path'', path), (''verb'', verb)]))"

definition k8s_Increment :: "('f, 'w) statsd_env \<Rightarrow> metrics_interface \<Rightarrow> string \<Rightarrow> string \<Rightarrow> ('w, unit) go" where
  "k8s_Increment e i code verb = ignoring (EmitGauge e i ''client.k8s.count'' 1 (Some [(''verb'', verb), (''code'', code)]))"

section \<open>What is written\<close>

lemma with_dims_lookup:
  "map_of (with_dims s dims) k =
     (if k = ''hostname'' then Some (st_hostname s) else if k = ''location'' then Some (st_location s) else map_of (case dims of None \<Rightarrow> [] | Some d \<Rightarrow> d) k)"
  by (simp add: with_dims_def update_conv')

text \<open>
  A gauge is written as one line: the JSON object of the metric, with the provider's location and host among its dimensions whatever the caller says of them, then its
  value. Emitting a gauge or a float never panics.
\<close>

lemma EmitGauge_line:
  assumes "EmitGauge e (Statsd s) m value dims w = (Ok (), w')"
  shows "\<exists>json n. sd_Encode e \<lparr>so_Metric = m, so_Account = ''*'', so_Namespace = ''*'', so_Dims = Some (with_dims s dims), so_TS = sd_FormatTime e (sd_now e w)\<rparr> = Ok json
    \<and> (json \<noteq> [] \<longrightarrow> sd_Write e (json @ '':'' @ Itoa value @ ''|g'' @ [CHR 0x0A]) w = (Ok n, w'))"
  using assms
  by (auto simp: EmitGauge_def emitMetric_def new_metric_def marshalStatsd_def statsd_MarshalJSON_def Let_def gbind_eq_Ok)

lemma marshalStatsd_not_Panic:
  assumes "\<And>o' p. sd_Encode e o' \<noteq> Panic p" "sm_valueFloat m \<noteq> None \<or> sm_valueGauge m \<noteq> None"
  shows "marshalStatsd e m \<noteq> Panic p"
  using assms by (auto simp: marshalStatsd_def statsd_MarshalJSON_def rbind_def Let_def split: result.splits option.splits)

end
