(* ===== verification/Startup.thy ===== *)
theory Startup
  imports Statsd Backend Frontend
begin

text \<open>
  The start and the end of the provider: the constructors of the database layer (\<^verbatim>\<open>NewDatabase\<close> and those of the three collections, which register their triggers), the
  start of the front end and its shutdown (\<^verbatim>\<open>src/pkg/frontend/frontend.go\<close>), and the process, \<^verbatim>\<open>src/cmd/aro/rp.go\<close>, in which front end and back end run side by side until a
  signal stops them.
\<close>

section \<open>The database\<close>

text \<open>The bodies of the triggers are JavaScript; a line ends with a newline.\<close>

definition trigger_lines :: "string \<Rightarrow> string" where
  "trigger_lines seconds = concat (map (\<lambda>l. l @ [CHR 0x0A])
     [''function trigger() {'', [CHR 0x09] @ ''var request = getContext().getRequest();'', [CHR 0x09] @ ''var body = request.getBody();'',
      [CHR 0x09] @ ''var date = new Date();'', [CHR 0x09] @ ''body[\"leaseExpires\"] = Math.floor(date.getTime() / 1000) + '' @ seconds @ '';'',
      [CHR 0x09] @ ''request.setBody(body);'']) @ ''}''"

definition renewLease_trigger :: Trigger where
  "renewLease_trigger = zero_Trigger\<lparr>tr_ID := ''renewLease'', tr_TriggerOperation := TriggerOperationAll, tr_TriggerType := TriggerTypePre, tr_Body := trigger_lines ''60''\<rparr>"

definition retryLater_trigger :: Trigger where
  "retryLater_trigger = zero_Trigger\<lparr>tr_ID := ''retryLater'', tr_TriggerOperation := TriggerOperationAll, tr_TriggerType := TriggerTypePre, tr_Body := trigger_lines ''600''\<rparr>"

fun create_triggers :: "('b, 'w) databaseClient \<Rightarrow> 'b trigger_codec \<Rightarrow> string \<Rightarrow> Trigger list \<Rightarrow> ('w, unit) go" where
  "create_triggers dbc tc path [] = greturn ()"
| "create_triggers dbc tc path (t # ts) =
     (\<lambda>w. case trigger_Create dbc tc path t w of
        (Err er, w') \<Rightarrow> if IsErrorStatusCode er 409 then create_triggers dbc tc path ts w' else (Err er, w')
      | (Panic p, w') \<Rightarrow> (Panic p, w')
      | (Ok _, w') \<Rightarrow> create_triggers dbc tc path ts w')"

definition new_collection :: "nat \<Rightarrow> ('b, 'w) databaseClient \<Rightarrow> ('b, 'd) codec \<Rightarrow> string \<Rightarrow> string \<Rightarrow> string \<Rightarrow> ('w, 'd) collection" where
  "new_collection fuel dbc cd uuid dbid collid =
     \<lparr>cl_c = client_docs fuel (NewDocumentClient dbc cd (collection_path dbid) collid), cl_uuid = uuid, cl_fuel = fuel\<rparr>"

definition NewAsyncOperations ::
    "nat \<Rightarrow> ('b, AsyncOperationDocument) codec \<Rightarrow> string \<Rightarrow> ('b, 'w) databaseClient \<Rightarrow> string \<Rightarrow> string \<Rightarrow> ('w, 'w asyncOperations) go" where
  "NewAsyncOperations fuel cd uuid dbc dbid collid = greturn (new_collection fuel dbc cd uuid dbid collid)"

definition NewOpenShiftClusters ::
    "nat \<Rightarrow> ('b, OpenShiftClusterDocument) codec \<Rightarrow> 'b trigger_codec \<Rightarrow> string \<Rightarrow> ('b, 'w) databaseClient \<Rightarrow> string \<Rightarrow> string \<Rightarrow> ('w, 'w openShiftClusters) go" where
  "NewOpenShiftClusters fuel cd tc uuid dbc dbid collid =
     gbind (create_triggers dbc tc (document_path (collection_path dbid) collid) [renewLease_trigger]) (\<lambda>_.
     greturn (new_collection fuel dbc cd uuid dbid collid))"

definition NewSubscriptions ::
    "nat \<Rightarrow> ('b, SubscriptionDocument) codec \<Rightarrow> 'b trigger_codec \<Rightarrow> string \<Rightarrow> ('b, 'w) databaseClient \<Rightarrow> string \<Rightarrow> string \<Rightarrow> ('w, 'w subscriptions) go" where
  "NewSubscriptions fuel cd tc uuid dbc dbid collid =
     gbind (create_triggers dbc tc (document_path (collection_path dbid) collid) [renewLease_trigger, retryLater_trigger]) (\<lambda>_.
     greturn (new_collection fuel dbc cd uuid dbid collid))"

text \<open>The codecs, whose extensions are registered first, the decoder of the key and the HTTP client are the library's.\<close>

record ('b, 'w) database_lib =
  dl_AddExtensions :: "unit result"
  dl_b64 :: "string \<Rightarrow> string result"
  dl_client :: "('b, 'w) databaseClient"
  dl_async :: "('b, AsyncOperationDocument) codec"
  dl_clusters :: "('b, OpenShiftClusterDocument) codec"
  dl_subscriptions :: "('b, SubscriptionDocument) codec"
  dl_triggers :: "'b trigger_codec"
  dl_fuel :: nat

definition NewDatabase :: "('b, 'w) database_lib \<Rightarrow> string \<times> string \<Rightarrow> string \<Rightarrow> string \<Rightarrow> ('w, 'w database) go" where
  "NewDatabase lib CosmosDB DatabaseName uuid =
     gbind (glift (dl_AddExtensions lib)) (\<lambda>_.
     gbind (glift (NewDatabaseClient (dl_b64 lib) (dl_client lib) (fst CosmosDB) (snd CosmosDB))) (\<lambda>dbc.
     gbind (NewAsyncOperations (dl_fuel lib) (dl_async lib) uuid dbc DatabaseName ''AsyncOperations'') (\<lambda>as.
     gbind (NewOpenShiftClusters (dl_fuel lib) (dl_clusters lib) (dl_triggers lib) uuid dbc DatabaseName ''OpenShiftClusters'') (\<lambda>cs.
     gbind (NewSubscriptions (dl_fuel lib) (dl_subscriptions lib) (dl_triggers lib) uuid dbc DatabaseName ''Subscriptions'') (\<lambda>ss.
     greturn \<lparr>db_AsyncOperations = as, db_OpenShiftClusters = cs, db_Subscriptions = ss\<rparr>)))))"

section \<open>The front end\<close>

datatype client_auth = NoClientCert | RequestClientCert | RequireAndVerifyClientCert

record 'k tls_config =
  tl_PrivateKey :: 'k
  tl_Certificate :: "string list"
  tl_NextProtos :: "string list"
  tl_ClientAuth :: client_auth
  tl_CipherSuites :: "string list"
  tl_PreferServerCipherSuites :: bool
  tl_SessionTicketsDisabled :: bool
  tl_MinVersion :: "nat \<times> nat"
  tl_CurvePreferences :: "string list"

definition tls_config_of :: "('c \<Rightarrow> string) \<Rightarrow> 'k \<times> 'c list \<Rightarrow> 'k tls_config" where
  "tls_config_of Raw secret =
     \<lparr>tl_PrivateKey = fst secret, tl_Certificate = map Raw (snd secret), tl_NextProtos = [''h2'', ''http/1.1''], tl_ClientAuth = RequestClientCert,
      tl_CipherSuites = [''TLS_ECDHE_RSA_WITH_CHACHA20_POLY1305'', ''TLS_ECDHE_ECDSA_WITH_CHACHA20_POLY1305'', ''TLS_ECDHE_RSA_WITH_AES_128_GCM_SHA256'',
        ''TLS_ECDHE_ECDSA_WITH_AES_128_GCM_SHA256'', ''TLS_ECDHE_RSA_WITH_AES_256_GCM_SHA384'', ''TLS_ECDHE_ECDSA_WITH_AES_256_GCM_SHA384''],
      tl_PreferServerCipherSuites = True, tl_SessionTicketsDisabled = True, tl_MinVersion = (1, 2), tl_CurvePreferences = [''CurveP256'', ''X25519'']\<rparr>"

text \<open>A new front end: its listener and TLS configuration; it is ready.\<close>

record ('l, 'k) front_end =
  fe_l :: "'l \<times> 'k tls_config"
  fe_ready :: bool

definition NewFrontend :: "('c \<Rightarrow> string) \<Rightarrow> ('w, 'l) go \<Rightarrow> (string \<Rightarrow> ('w, 'k \<times> 'c list) go) \<Rightarrow> ('w, ('l, 'k) front_end) go" where
  "NewFrontend Raw Listen GetSecret =
     gbind Listen (\<lambda>l.
     gbind (GetSecret ''rp-server'') (\<lambda>secret.
     greturn \<lparr>fe_l = (l, tls_config_of Raw secret), fe_ready = True\<rparr>))"

section \<open>The process\<close>

text \<open>
  The goroutines of a running provider: the main one, the front end's server with the goroutine that shuts it down, and the back end's loop (\<open>run_step\<close>). Time is in seconds.
  The server accepts requests until it is shut down; the shutdown waits for the requests in flight, but at most 65 seconds. A goroutine of the main program or of the shutdown that can
  go on, because its channel was closed or its timer has run out, is \<open>due\<close>: it is run within the second, that is, before the clock ticks again. Nothing of the kind is assumed of the
  requests and of the back end.
\<close>

datatype main_at = AwaitSignal | AwaitDone | Returned

datatype front_at = Serving | NotReady nat | ShuttingDown nat | ShutDown

record process =
  ps_now :: nat
  ps_main :: main_at
  ps_stop :: bool
  ps_done :: bool
  ps_ready :: bool
  ps_front :: front_at
  ps_requests :: nat
  ps_back :: loop

definition process_init :: process where
  "process_init = \<lparr>ps_now = 0, ps_main = AwaitSignal, ps_stop = False, ps_done = False, ps_ready = True, ps_front = Serving, ps_requests = 0, ps_back = loop_init\<rparr>"

definition accepting :: "front_at \<Rightarrow> bool" where
  "accepting f = (case f of Serving \<Rightarrow> True | NotReady _ \<Rightarrow> True | _ \<Rightarrow> False)"

definition due :: "process \<Rightarrow> bool" where
  "due p \<longleftrightarrow>
     (ps_main p = AwaitDone \<and> ps_done p) \<or>
     (case ps_front p of Serving \<Rightarrow> ps_stop p | NotReady t \<Rightarrow> t + 20 \<le> ps_now p | ShuttingDown t \<Rightarrow> t + 65 \<le> ps_now p | ShutDown \<Rightarrow> False)"

inductive process_step :: "process \<Rightarrow> process \<Rightarrow> bool" where
  second: "\<not> due p \<Longrightarrow> process_step p (p\<lparr>ps_now := Suc (ps_now p)\<rparr>)"
| request: "accepting (ps_front p) \<Longrightarrow> process_step p (p\<lparr>ps_requests := Suc (ps_requests p)\<rparr>)"
| answer: "0 < ps_requests p \<Longrightarrow> process_step p (p\<lparr>ps_requests := ps_requests p - 1\<rparr>)"
| sigterm: "ps_main p = AwaitSignal \<Longrightarrow> process_step p (p\<lparr>ps_main := AwaitDone, ps_stop := True\<rparr>)"
| mark_not_ready: "ps_stop p \<Longrightarrow> ps_front p = Serving \<Longrightarrow> process_step p (p\<lparr>ps_ready := False, ps_front := NotReady (ps_now p)\<rparr>)"
| begin_shutdown: "ps_front p = NotReady t \<Longrightarrow> t + 20 \<le> ps_now p \<Longrightarrow> process_step p (p\<lparr>ps_front := ShuttingDown (ps_now p)\<rparr>)"
| end_shutdown: "ps_front p = ShuttingDown t \<Longrightarrow> ps_requests p = 0 \<or> t + 65 \<le> ps_now p \<Longrightarrow>
     process_step p (p\<lparr>ps_front := ShutDown, ps_done := True\<rparr>)"
| return: "ps_main p = AwaitDone \<Longrightarrow> ps_done p \<Longrightarrow> process_step p (p\<lparr>ps_main := Returned\<rparr>)"
| back_end: "run_step (ps_back p) l \<Longrightarrow> lp_stopping l \<longrightarrow> lp_stopping (ps_back p) \<or> ps_stop p \<Longrightarrow> process_step p (p\<lparr>ps_back := l\<rparr>)"

inductive process_reachable :: "process \<Rightarrow> bool" where
  process_start: "process_reachable process_init"
| process_next: "process_reachable p \<Longrightarrow> process_step p p' \<Longrightarrow> process_reachable p'"

inductive_cases process_stepE: "process_step p p'"

text \<open>What comes before: the environment, the database under this process's identity, the metrics, the front end. The methods of \<^verbatim>\<open>dev\<close> are those of the \<^verbatim>\<open>prod\<close> it embeds, but for its own.\<close>

definition env_prod :: "('a, 'k, 'c, 't) env \<Rightarrow> ('a, 'k, 'c) prod" where
  "env_prod e = (case e of EDev d \<Rightarrow> dv_prod d | EProd p _ \<Rightarrow> p)"

definition env_DatabaseName :: "(string \<Rightarrow> string option) \<Rightarrow> ('a, 'k, 'c, 't) env \<Rightarrow> string" where
  "env_DatabaseName lookup e = (case e of EDev _ \<Rightarrow> dev_DatabaseName lookup | EProd _ _ \<Rightarrow> prod_DatabaseName)"

definition is_Dev :: "('a, 'k, 'c, 't) env \<Rightarrow> bool" where
  "is_Dev e = (case e of EDev _ \<Rightarrow> True | EProd _ _ \<Rightarrow> False)"

definition rp ::
    "('a, 'k, 'c, 'w) prod_env \<Rightarrow> ('a, 'k, 'c, 't, 'w) dev_env \<Rightarrow> ('i, 's, 'w) im_env \<Rightarrow> ('b, 'w) database_lib \<Rightarrow> 'w metrics_env \<Rightarrow>
     (string \<Rightarrow> ('w, 'l) go) \<Rightarrow> ('c \<Rightarrow> string) \<Rightarrow> ('w \<Rightarrow> string \<times> 'w) \<Rightarrow>
     ('w, ('a, 'k, 'c, 't) env \<times> 'w database \<times> metrics_interface \<times> ('l, 'k) front_end \<times> process) go" where
  "rp pe de ie lib me Listen Raw newUUID w =
     (case newUUID w of (uuid, w) \<Rightarrow>
      gbind (NewEnv pe de ie) (\<lambda>e.
      let p = env_prod e in
      gbind (NewDatabase lib (pr_cosmosDBAccountName p, pr_cosmosDBPrimaryMasterKey p) (env_DatabaseName (pe_LookupEnv pe) e) uuid) (\<lambda>db.
      gbind (statsd_New me (pe_LookupEnv pe) (is_Dev e) (im_Location (pr_metadata p))) (\<lambda>m.
      gbind (NewFrontend Raw (Listen (env_Listen e)) (env_GetSecret pe p)) (\<lambda>f.
      greturn (e, db, m, f, process_init\<lparr>ps_ready := fe_ready f\<rparr>))))) w)"

section \<open>What holds of the start\<close>

lemma create_triggers_all:
  assumes "create_triggers dbc tc path ts w = (Ok (), w')" "t \<in> set ts"
  shows "\<exists>w1 r w2. trigger_Create dbc tc path t w1 = (r, w2) \<and> ((\<exists>x. r = Ok x) \<or> is_status r 409)"
  using assms
proof (induction ts arbitrary: w)
  case (Cons u ts)
  obtain r w1 where r: "trigger_Create dbc tc path u w = (r, w1)" by fastforce
  with Cons.prems(1) have ok: "(\<exists>x. r = Ok x) \<or> is_status r 409" and rest: "create_triggers dbc tc path ts w1 = (Ok (), w')"
    by (auto split: result.splits if_splits)
  show ?case
  proof (cases "t = u")
    case True
    with r ok show ?thesis by blast
  next
    case False
    with Cons.prems(2) Cons.IH [OF rest] show ?thesis by simp
  qed
qed simp

text \<open>
  A provider that has started has made sure of its triggers: each trigger of a collection was created, or the service said that there is one of that name already. The triggers the
  collections ask for when they take, renew or end a lease are among them; the asynchronous operations have none and ask for none.
\<close>

lemma NewDatabase_triggers:
  assumes "NewDatabase lib CosmosDB DatabaseName uuid w = (Ok db, w')"
  shows "\<exists>dbc. NewDatabaseClient (dl_b64 lib) (dl_client lib) (fst CosmosDB) (snd CosmosDB) = Ok dbc
    \<and> (\<forall>(collid, t) \<in> {(''OpenShiftClusters'', renewLease_trigger), (''Subscriptions'', renewLease_trigger), (''Subscriptions'', retryLater_trigger)}.
         \<exists>w1 r w2. trigger_Create dbc (dl_triggers lib) (document_path (collection_path DatabaseName) collid) t w1 = (r, w2) \<and> ((\<exists>x. r = Ok x) \<or> is_status r 409))
    \<and> cl_uuid (db_AsyncOperations db) = uuid \<and> cl_uuid (db_OpenShiftClusters db) = uuid \<and> cl_uuid (db_Subscriptions db) = uuid"
proof -
  from assms obtain dbc w1 w2 where dbc: "NewDatabaseClient (dl_b64 lib) (dl_client lib) (fst CosmosDB) (snd CosmosDB) = Ok dbc"
    and t1: "create_triggers dbc (dl_triggers lib) (document_path (collection_path DatabaseName) ''OpenShiftClusters'') [renewLease_trigger] w1 = (Ok (), w2)"
    and t2: "create_triggers dbc (dl_triggers lib) (document_path (collection_path DatabaseName) ''Subscriptions'') [renewLease_trigger, retryLater_trigger] w2 = (Ok (), w')"
    and u: "cl_uuid (db_AsyncOperations db) = uuid" "cl_uuid (db_OpenShiftClusters db) = uuid" "cl_uuid (db_Subscriptions db) = uuid"
    by (auto simp: NewDatabase_def NewAsyncOperations_def NewOpenShiftClusters_def NewSubscriptions_def new_collection_def gbind_eq_Ok simp del: create_triggers.simps)
  note a1 = create_triggers_all [OF t1, of renewLease_trigger] and a2 = create_triggers_all [OF t2, of renewLease_trigger]
    and a3 = create_triggers_all [OF t2, of retryLater_trigger]
  show ?thesis using dbc u a1 a2 a3 by auto
qed

lemma asked_triggers_registered:
  "set (opt_PreTriggers renewLease) \<subseteq> {tr_ID renewLease_trigger}" "set (opt_PreTriggers retryLater_options) \<subseteq> {tr_ID retryLater_trigger}"
  by (simp_all add: renewLease_def retryLater_options_def renewLease_trigger_def retryLater_trigger_def zero_Options_def)

section \<open>What holds of the end\<close>

definition process_inv :: "process \<Rightarrow> bool" where
  "process_inv p \<longleftrightarrow>
     (ps_ready p \<longleftrightarrow> ps_front p = Serving)
     \<and> (ps_front p \<noteq> Serving \<longrightarrow> ps_stop p)
     \<and> (ps_done p \<longleftrightarrow> ps_front p = ShutDown)
     \<and> (ps_main p = AwaitSignal \<longleftrightarrow> \<not> ps_stop p)
     \<and> (ps_main p = Returned \<longrightarrow> ps_done p)
     \<and> (\<forall>t. ps_front p = NotReady t \<longrightarrow> t \<le> ps_now p \<and> ps_now p \<le> t + 20)
     \<and> (\<forall>t. ps_front p = ShuttingDown t \<longrightarrow> 20 \<le> t \<and> t \<le> ps_now p \<and> ps_now p \<le> t + 65)
     \<and> (ps_front p = ShutDown \<longrightarrow> 20 \<le> ps_now p)
     \<and> (lp_stopping (ps_back p) \<longrightarrow> ps_stop p)
     \<and> run_reachable (ps_back p)"

lemma process_inv_step: "process_inv p \<Longrightarrow> process_step p p' \<Longrightarrow> process_inv p'"
  by (erule process_stepE) (auto simp: process_inv_def accepting_def due_def intro: reach_step)

lemma process_invariant: "process_reachable p \<Longrightarrow> process_inv p"
proof (induction rule: process_reachable.induct)
  case process_start
  show ?case by (simp add: process_inv_def process_init_def loop_init_def reach_init [unfolded loop_init_def])
qed (rule process_inv_step)

text \<open>
  The readiness probe fails from the moment the shutdown begins: \<open>NotReady t\<close> is entered at the time \<open>t\<close> at which readiness ends, and from nowhere else, at least 20 seconds later, does the
  server stop accepting requests. The process returns only after that.
\<close>

lemma not_ready_first:
  assumes "process_reachable p"
  shows "\<not> accepting (ps_front p) \<Longrightarrow> \<not> ps_ready p \<and> ps_stop p \<and> 20 \<le> ps_now p"
    and "ps_main p = Returned \<Longrightarrow> \<not> accepting (ps_front p) \<and> ps_done p"
  using process_invariant [OF assms] by (auto simp: process_inv_def accepting_def split: front_at.splits)

lemma stops_accepting:
  assumes "process_reachable p" "process_step p p'"
  shows "accepting (ps_front p) \<Longrightarrow> \<not> accepting (ps_front p') \<Longrightarrow> \<exists>t. ps_front p = NotReady t \<and> t + 20 \<le> ps_now p'"
    and "ps_front p' = NotReady t \<Longrightarrow> ps_front p \<noteq> NotReady t \<Longrightarrow> ps_ready p \<and> \<not> ps_ready p' \<and> t = ps_now p'"
proof -
  show "accepting (ps_front p) \<Longrightarrow> \<not> accepting (ps_front p') \<Longrightarrow> \<exists>t. ps_front p = NotReady t \<and> t + 20 \<le> ps_now p'"
    using assms(2) by cases (simp_all add: accepting_def)
  have "ps_ready p \<longleftrightarrow> ps_front p = Serving" using process_invariant [OF assms(1)] by (simp add: process_inv_def)
  with assms(2) show "ps_front p' = NotReady t \<Longrightarrow> ps_front p \<noteq> NotReady t \<Longrightarrow> ps_ready p \<and> \<not> ps_ready p' \<and> t = ps_now p'"
    by cases simp_all
qed

text \<open>The time by which a provider that was told to stop has ended.\<close>

definition deadline :: "process \<Rightarrow> nat" where
  "deadline p = (case ps_front p of Serving \<Rightarrow> ps_now p + 85 | NotReady t \<Rightarrow> t + 85 | ShuttingDown t \<Rightarrow> t + 65 | ShutDown \<Rightarrow> ps_now p)"

lemma now_before_deadline: "process_inv p \<Longrightarrow> ps_now p \<le> deadline p"
  by (auto simp: process_inv_def deadline_def split: front_at.splits)

lemma deadline_step:
  assumes "process_inv p" "process_step p p'" "ps_stop p" "ps_main p' \<noteq> Returned"
  shows "deadline p' \<le> deadline p \<and> ps_stop p'"
  using assms(2,1,3,4)
  by cases (auto simp: process_inv_def deadline_def due_def split: front_at.splits, metis main_at.exhaust)

lemma Returned_stays: "process_step p p' \<Longrightarrow> ps_main p = Returned \<Longrightarrow> ps_main p' = Returned"
  by (erule process_stepE) auto

lemma deadline_steps:
  assumes "process_step\<^sup>*\<^sup>* p p'" "process_inv p" "ps_stop p" "ps_main p' \<noteq> Returned"
  shows "process_inv p' \<and> ps_stop p' \<and> deadline p' \<le> deadline p"
  using assms
proof (induction rule: rtranclp_induct)
  case (step y z)
  from step.hyps(2) step.prems(3) have "ps_main y \<noteq> Returned" using Returned_stays by blast
  with step.IH step.prems have y: "process_inv y" "ps_stop y" "deadline y \<le> deadline p" by auto
  from deadline_step [OF y(1) step.hyps(2) y(2) step.prems(3)] process_inv_step [OF y(1) step.hyps(2)] y(3) show ?case by auto
qed simp

lemma waits: "(\<And>k. k < n \<Longrightarrow> \<not> due (p\<lparr>ps_now := ps_now p + k\<rparr>)) \<Longrightarrow> process_step\<^sup>*\<^sup>* p (p\<lparr>ps_now := ps_now p + n\<rparr>)"
proof (induction n)
  case (Suc n)
  then have "process_step (p\<lparr>ps_now := ps_now p + n\<rparr>) (p\<lparr>ps_now := ps_now p + Suc n\<rparr>)"
    using second [of "p\<lparr>ps_now := ps_now p + n\<rparr>"] by simp
  with Suc show ?case by (meson less_Suc_eq rtranclp.rtrancl_into_rtrancl)
qed simp

definition ends_by :: "nat \<Rightarrow> process \<Rightarrow> bool" where
  "ends_by n p \<longleftrightarrow> (\<exists>p'. process_step\<^sup>*\<^sup>* p p' \<and> ps_main p' = Returned \<and> ps_now p' \<le> n \<and> ps_requests p' = ps_requests p \<and> ps_back p' = ps_back p)"

lemma ends_by_step:
  assumes "process_step\<^sup>*\<^sup>* p p1" "process_step p1 p2" "ps_requests p2 = ps_requests p" "ps_back p2 = ps_back p" "ends_by n p2"
  shows "ends_by n p"
  using assms unfolding ends_by_def by (metis rtranclp.rtrancl_into_rtrancl rtranclp_trans)

lemma ends_by_done:
  assumes "ps_main p = AwaitDone" "ps_done p" "ps_now p \<le> n"
  shows "ends_by n p"
  unfolding ends_by_def using return [OF assms(1,2)] assms(3) by (intro exI [of _ "p\<lparr>ps_main := Returned\<rparr>"]) auto

lemma ends_by_shutting:
  assumes "ps_main p = AwaitDone" "ps_front p = ShuttingDown t" "\<not> ps_done p" "ps_now p \<le> t + 65"
  shows "ends_by (t + 65) p"
proof -
  let ?p = "p\<lparr>ps_now := t + 65\<rparr>"
  have "process_step\<^sup>*\<^sup>* p ?p" using waits [of "t + 65 - ps_now p" p] assms by (simp add: due_def)
  moreover have "process_step ?p (?p\<lparr>ps_front := ShutDown, ps_done := True\<rparr>)" using assms(2) by (intro end_shutdown [of _ t]) auto
  moreover have "ends_by (t + 65) (?p\<lparr>ps_front := ShutDown, ps_done := True\<rparr>)" using assms by (intro ends_by_done) auto
  ultimately show ?thesis by (elim ends_by_step) simp_all
qed

lemma ends_by_not_ready:
  assumes "ps_main p = AwaitDone" "ps_front p = NotReady t" "\<not> ps_done p" "ps_now p \<le> t + 20"
  shows "ends_by (t + 85) p"
proof -
  let ?p = "p\<lparr>ps_now := t + 20\<rparr>"
  have "process_step\<^sup>*\<^sup>* p ?p" using waits [of "t + 20 - ps_now p" p] assms by (simp add: due_def)
  moreover have "process_step ?p (?p\<lparr>ps_front := ShuttingDown (t + 20)\<rparr>)" using begin_shutdown [of ?p t] assms(2) by simp
  moreover have "ends_by (t + 85) (?p\<lparr>ps_front := ShuttingDown (t + 20)\<rparr>)" using assms ends_by_shutting [of _ "t + 20"] by (simp add: add.commute)
  ultimately show ?thesis by (elim ends_by_step) simp_all
qed

lemma ends_by_deadline:
  assumes "process_inv p" "ps_stop p" "ps_main p \<noteq> Returned"
  shows "ends_by (deadline p) p"
proof -
  from assms have main: "ps_main p = AwaitDone" by (cases "ps_main p") (auto simp: process_inv_def)
  note inv = assms(1) [unfolded process_inv_def]
  show ?thesis
  proof (cases "ps_front p")
    case Serving
    let ?p = "p\<lparr>ps_ready := False, ps_front := NotReady (ps_now p)\<rparr>"
    have "ends_by (deadline p) ?p" using main inv Serving ends_by_not_ready [of ?p "ps_now p"] by (simp add: deadline_def)
    with mark_not_ready [OF assms(2) Serving] show ?thesis by (intro ends_by_step [of p p ?p]) simp_all
  next
    case (NotReady t)
    with inv main show ?thesis using ends_by_not_ready [of p t] by (simp add: deadline_def)
  next
    case (ShuttingDown t)
    with inv main show ?thesis using ends_by_shutting [of p t] by (simp add: deadline_def)
  next
    case ShutDown
    with inv main show ?thesis by (intro ends_by_done) (simp_all add: deadline_def)
  qed
qed

text \<open>
  C37. The provider shuts down in time. Whatever happens after a reachable provider was told to stop, requests, workers and the scheduler, it has not returned only if at most 85 seconds have
  passed; and it is never stuck before: its goroutines alone take it to its end within that time, even if no request in flight is answered and no worker of the back end makes a step.
\<close>
theorem shutdown_in_time:
  assumes "process_reachable p" "ps_stop p" "process_step\<^sup>*\<^sup>* p p'" "ps_main p' \<noteq> Returned"
  shows "ps_now p' \<le> ps_now p + 85
    \<and> (\<exists>q. process_step\<^sup>*\<^sup>* p' q \<and> ps_main q = Returned \<and> ps_now q \<le> ps_now p + 85 \<and> ps_requests q = ps_requests p' \<and> ps_back q = ps_back p')"
proof -
  note inv = process_invariant [OF assms(1)]
  have "deadline p \<le> ps_now p + 85" using inv by (auto simp: deadline_def process_inv_def split: front_at.splits)
  moreover from deadline_steps [OF assms(3) inv assms(2,4)] have p': "process_inv p'" "ps_stop p'" "deadline p' \<le> deadline p" by auto
  moreover have "ends_by (deadline p') p'" by (rule ends_by_deadline [OF p'(1,2) assms(4)])
  moreover note now_before_deadline [OF p'(1)]
  ultimately show ?thesis unfolding ends_by_def by (meson le_trans)
qed

text \<open>A provider whose back end has a worker when the signal comes.\<close>

definition working :: loop where
  "working = \<lparr>lp_at = AtSubscriptions True, lp_workers = 1, lp_running = 1, lp_stopping = False\<rparr>"

lemma working_steps: "run_step loop_init (loop_init\<lparr>lp_at := AtClusters\<rparr>)" "run_step (loop_init\<lparr>lp_at := AtClusters\<rparr>) working"
  using check_go [of loop_init] try_clusters [of "loop_init\<lparr>lp_at := AtClusters\<rparr>" True True]
  by (simp_all add: loop_init_def working_def spawn_def maxWorkers_def)

lemma stopped_working: "process_reachable (process_init\<lparr>ps_back := working, ps_main := AwaitDone, ps_stop := True\<rparr>)"
proof -
  have "process_reachable (process_init\<lparr>ps_back := loop_init\<lparr>lp_at := AtClusters\<rparr>\<rparr>)"
    by (rule process_next [OF process_start], rule back_end) (use working_steps(1) in \<open>simp_all add: process_init_def loop_init_def\<close>)
  then have "process_reachable (process_init\<lparr>ps_back := loop_init\<lparr>lp_at := AtClusters\<rparr>\<rparr>\<lparr>ps_back := working\<rparr>)"
    by (rule process_next, intro back_end) (use working_steps(2) in \<open>simp_all add: working_def\<close>)
  then have "process_reachable (process_init\<lparr>ps_back := working\<rparr>)" by simp
  then show ?thesis by (rule process_next) (use sigterm [of "process_init\<lparr>ps_back := working\<rparr>"] in \<open>simp add: process_init_def\<close>)
qed

theorem shutdown_in_time_witness:
  "\<exists>q. process_step\<^sup>*\<^sup>* (process_init\<lparr>ps_back := working, ps_main := AwaitDone, ps_stop := True, ps_requests := 1\<rparr>) q \<and> ps_main q = Returned \<and> ps_now q \<le> 85
    \<and> ps_requests q = 1 \<and> ps_back q = working"
proof -
  let ?p = "process_init\<lparr>ps_back := working, ps_main := AwaitDone, ps_stop := True\<rparr>"
  have "process_step\<^sup>*\<^sup>* ?p (?p\<lparr>ps_requests := 1\<rparr>)" using request [of ?p] by (auto simp: process_init_def accepting_def)
  from shutdown_in_time [OF stopped_working _ this] show ?thesis by (simp add: process_init_def)
qed

text \<open>The process does not wait for the back end: it can return while a worker is at work.\<close>

lemma reachable_steps: "process_step\<^sup>*\<^sup>* p p' \<Longrightarrow> process_reachable p \<Longrightarrow> process_reachable p'"
  by (induction rule: rtranclp_induct) (auto intro: process_next)

lemma workers_abandoned: "\<exists>p. process_reachable p \<and> ps_main p = Returned \<and> 0 < lp_running (ps_back p)"
proof -
  let ?p = "process_init\<lparr>ps_back := working, ps_main := AwaitDone, ps_stop := True\<rparr>"
  have "ends_by (deadline ?p) ?p" by (rule ends_by_deadline [OF process_invariant [OF stopped_working]]) simp_all
  then obtain p where p: "process_step\<^sup>*\<^sup>* ?p p" "ps_main p = Returned" "ps_back p = working" by (auto simp: ends_by_def)
  from reachable_steps [OF p(1) stopped_working] p(2,3) show ?thesis by (auto simp: working_def)
qed

end
