(* ===== verification/Tools.thy ===== *)
theory Tools
  imports Startup DynamicValidation
begin

unbundle bit_operations_syntax

text \<open>
  The tools beside the provider, \<^verbatim>\<open>src/hack\<close>: the check of the import statements (\<^verbatim>\<open>validate-imports\<close>), the one that adds licence headers (\<^verbatim>\<open>licenses\<close>), the proxy into the
  networks of development clusters (\<^verbatim>\<open>proxy\<close>), the generator of keys and certificates (\<^verbatim>\<open>genkey\<close> with \<^verbatim>\<open>pkg/util/tls\<close>), the component manifest (\<^verbatim>\<open>gencgmanifest\<close>) and the tool that
  shows a document (\<^verbatim>\<open>db\<close>); and the command line of the program, \<^verbatim>\<open>src/cmd/aro/main.go\<close>. Files, the Go parser, sockets and the cryptographic library are parameters.
\<close>

section \<open>Bytes\<close>

text \<open>\<^verbatim>\<open>bytes.Index\<close> with \<open>-1\<close> for none, and Go's order of strings, byte by byte.\<close>

fun bytes_Index :: "string \<Rightarrow> string \<Rightarrow> int" where
  "bytes_Index s sep =
     (if HasPrefix s sep then 0 else case s of [] \<Rightarrow> -1 | _ # s' \<Rightarrow> (let i = bytes_Index s' sep in if i < 0 then -1 else i + 1))"

declare bytes_Index.simps [simp del]

definition bytes_Contains :: "string \<Rightarrow> string \<Rightarrow> bool" where
  "bytes_Contains s sub = (bytes_Index s sub \<noteq> -1)"

fun string_less :: "string \<Rightarrow> string \<Rightarrow> bool" where
  "string_less xs [] = False"
| "string_less [] (y # ys) = True"
| "string_less (x # xs) (y # ys) = ((of_char x :: nat) < of_char y \<or> x = y \<and> string_less xs ys)"

fun trim_left_char :: "char \<Rightarrow> string \<Rightarrow> string" where
  "trim_left_char c [] = []"
| "trim_left_char c (x # xs) = (if x = c then trim_left_char c xs else x # xs)"

definition Trim_quotes :: "string \<Rightarrow> string" where
  "Trim_quotes s = rev (trim_left_char (CHR 0x22) (rev (trim_left_char (CHR 0x22) s)))"

lemma HasPrefix_append [simp]: "HasPrefix (s @ t) s"
  by (induction s) simp_all

lemma bytes_Index_append: "0 \<le> bytes_Index (u @ s @ v) s"
proof (induction u)
  case Nil
  then show ?case by (subst bytes_Index.simps) simp
next
  case (Cons x u)
  then show ?case by (subst bytes_Index.simps) (auto simp: Let_def split: if_splits)
qed

lemma bytes_Contains_append [simp]: "bytes_Contains (u @ s @ v) s"
  using bytes_Index_append [of u s v] by (simp add: bytes_Contains_def)

section \<open>The check of the imports\<close>

text \<open>An import as the parser gives it: the name if there is one, the quoted path and the line it is in.\<close>

record importSpec =
  is_Name :: "string option"
  is_Path :: string
  is_Line :: int

definition importStd :: int where "importStd = 1"
definition importDot :: int where "importDot = 2"
definition importOther :: int where "importOther = 4"
definition importLocal :: int where "importLocal = 8"

lemmas import_types = importStd_def importDot_def importOther_def importLocal_def

definition typeForImport :: "importSpec \<Rightarrow> int" where
  "typeForImport imp =
     (let path = Trim_quotes (is_Path imp) in
      if is_Name imp = Some ''.'' then importDot
      else if HasPrefix path ''github.com/Azure/ARO-RP/'' then importLocal
      else if CHR ''.'' \<in> set path then importOther
      else importStd)"

definition validateImport :: "importSpec \<Rightarrow> error list" where
  "validateImport imp =
     (if typeForImport imp = importDot
         \<and> Trim_quotes (is_Path imp) \<notin> {''github.com/onsi/ginkgo'', ''github.com/onsi/gomega'', ''github.com/onsi/gomega/gstruct''}
      then [ErrorfErr (Fmt ''invalid . import %s'' [AStr (is_Path imp)])] else [])"

text \<open>The groups: a new one is opened where there is more than one line between an import and the one before. \<open>prev\<close> is the line of the one before.\<close>

fun import_groups_from :: "int \<Rightarrow> importSpec list \<Rightarrow> importSpec list \<Rightarrow> importSpec list list" where
  "import_groups_from prev grp [] = [grp]"
| "import_groups_from prev grp (imp # imps) =
     (if is_Line imp - prev > 1 then grp # import_groups_from (is_Line imp) [imp] imps
      else import_groups_from (is_Line imp) (grp @ [imp]) imps)"

definition import_groups :: "importSpec list \<Rightarrow> importSpec list list" where
  "import_groups imps = (case imps of [] \<Rightarrow> [] | imp # imps' \<Rightarrow> import_groups_from (is_Line imp) [imp] imps')"

fun imports_IsSorted :: "importSpec list \<Rightarrow> bool" where
  "imports_IsSorted (a # b # is) = (\<not> string_less (is_Path b) (is_Path a) \<and> imports_IsSorted (b # is))"
| "imports_IsSorted _ = True"

fun check_groups :: "int \<Rightarrow> int \<Rightarrow> importSpec list list \<Rightarrow> error list" where
  "check_groups groupnum seenTypes [] = []"
| "check_groups groupnum seenTypes (grp # groups) =
     (let groupImportType = typeForImport (hd grp) in
      (if imports_IsSorted grp then [] else [ErrorfErr (Fmt ''group %d: imports are not sorted'' [AInt (groupnum + 1)])])
      @ (if seenTypes AND groupImportType \<noteq> 0 then [ErrorfErr (Fmt ''group %d: duplicate group or invalid group ordering'' [AInt (groupnum + 1)])] else [])
      @ concat (map validateImport grp)
      @ (if \<exists>imp \<in> set grp. typeForImport imp \<noteq> groupImportType then [ErrorfErr (Fmt ''group %d: mixed import type'' [AInt (groupnum + 1)])] else [])
      @ check_groups (groupnum + 1) (seenTypes OR (push_bit 1 groupImportType - 1)) groups)"

definition check_imports :: "(string \<Rightarrow> importSpec list result) \<Rightarrow> string \<Rightarrow> error list result" where
  "check_imports ParseFile path =
     (case ParseFile path of
        Err e \<Rightarrow> Ok [e]
      | Panic p \<Rightarrow> Panic p
      | Ok imps \<Rightarrow> Ok (check_groups 0 0 (import_groups imps)))"

text \<open>The exit status for the files of the given directories, which have been walked.\<close>

fun validate_imports_main :: "(string \<Rightarrow> importSpec list result) \<Rightarrow> string list \<Rightarrow> int result" where
  "validate_imports_main ParseFile [] = Ok 0"
| "validate_imports_main ParseFile (path # paths) =
     rbind (if HasSuffix path ''.go'' then check_imports ParseFile path else Ok []) (\<lambda>errs.
     rbind (validate_imports_main ParseFile paths) (\<lambda>rv. Ok (if errs = [] then rv else 1)))"

subsection \<open>What it accepts\<close>

text \<open>The mask of the types seen: after a type all smaller ones count as seen, too.\<close>

lemma seen_mask:
  assumes "seen \<in> {0, 1, 3, 7, 15}" "t \<in> {1, 2, 4, 8}"
  shows "(seen AND t = 0) \<longleftrightarrow> seen < (t :: int)" "seen OR (push_bit 1 t - 1) = max seen (2 * t - 1)" "max seen (2 * t - 1) \<in> {0, 1, 3, 7, 15}"
  using assms by (auto simp: push_bit_eq_mult)

lemma typeForImport_cases: "typeForImport imp \<in> {1, 2, 4, 8}"
  by (simp add: typeForImport_def Let_def import_types)

definition group_ok :: "importSpec list \<Rightarrow> bool" where
  "group_ok g \<longleftrightarrow> imports_IsSorted g \<and> (\<forall>imp \<in> set g. validateImport imp = [] \<and> typeForImport imp = typeForImport (hd g))"

lemma check_groups_Nil:
  assumes "seen \<in> {0, 1, 3, 7, 15}"
  shows "check_groups n seen gs = [] \<longleftrightarrow>
    (\<forall>g \<in> set gs. group_ok g \<and> seen < typeForImport (hd g)) \<and> sorted_wrt (\<lambda>g h. typeForImport (hd g) < typeForImport (hd h)) gs"
  using assms
proof (induction gs arbitrary: n seen)
  case (Cons g gs)
  let ?t = "typeForImport (hd g)"
  have t: "?t \<in> {1, 2, 4, 8}" by (rule typeForImport_cases)
  note mask = seen_mask [OF Cons.prems t]
  have lt: "max seen (2 * ?t - 1) < typeForImport (hd h) \<longleftrightarrow> seen < typeForImport (hd h) \<and> ?t < typeForImport (hd h)" for h
    using t typeForImport_cases [of "hd h"] by auto
  show ?case unfolding check_groups.simps Let_def append_is_Nil_conv mask(2) Cons.IH [OF mask(3)]
    using mask(1) lt by (auto simp: group_ok_def)
qed simp

lemma concat_import_groups_from: "concat (import_groups_from prev grp imps) = grp @ imps"
  by (induction prev grp imps rule: import_groups_from.induct) simp_all

lemma import_groups_from_nonempty: "grp \<noteq> [] \<Longrightarrow> [] \<notin> set (import_groups_from prev grp imps)"
  by (induction prev grp imps rule: import_groups_from.induct) auto

lemma import_groups_partition: "concat (import_groups imps) = imps" "[] \<notin> set (import_groups imps)"
  using import_groups_from_nonempty by (auto simp: import_groups_def concat_import_groups_from split: list.splits)

text \<open>
  The check of a file that parses finds nothing exactly if each of its groups is sorted, of one type and without a dot import that is not allowed, and the types of the groups are in the
  order of their declaration, each at most once: what the mask of the types seen is for.
\<close>

lemma check_imports_iff:
  assumes "ParseFile path = Ok imps"
  shows "check_imports ParseFile path = Ok [] \<longleftrightarrow>
    (\<forall>g \<in> set (import_groups imps). group_ok g) \<and> sorted_wrt (<) (map (\<lambda>g. typeForImport (hd g)) (import_groups imps))"
proof -
  have "0 < typeForImport imp" for imp using typeForImport_cases [of imp] by auto
  with assms check_groups_Nil [of 0 0 "import_groups imps"] show ?thesis by (auto simp: check_imports_def sorted_wrt_map)
qed

lemma validate_imports_main_status:
  assumes "validate_imports_main ParseFile paths = Ok rv"
  shows "rv = (if \<exists>path \<in> set paths. HasSuffix path ''.go'' \<and> check_imports ParseFile path \<noteq> Ok [] then 1 else 0)"
  using assms by (induction paths arbitrary: rv) (auto split: if_splits)

section \<open>The licence headers\<close>

text \<open>A slice expression with a bound below zero or above the length panics.\<close>

definition slice_to :: "string \<Rightarrow> int \<Rightarrow> string result" where
  "slice_to b i = (if 0 \<le> i \<and> i \<le> int (length b) then Ok (take (nat i) b) else Panic ''slice bounds out of range'')"

definition slice_from :: "string \<Rightarrow> int \<Rightarrow> string result" where
  "slice_from b i = (if 0 \<le> i \<and> i \<le> int (length b) then Ok (drop (nat i) b) else Panic ''slice bounds out of range'')"

definition nl :: string where "nl = [CHR 0x0A]"

definition goLicense :: string where
  "goLicense = ''// Copyright (c) Microsoft Corporation.'' @ nl @ ''// Licensed under the Apache License 2.0.''"

definition pythonLicense :: string where
  "pythonLicense = ''# Copyright (c) Microsoft Corporation.'' @ nl @ ''# Licensed under the Apache License 2.0.''"

text \<open>The contents of a file after the tool has seen it.\<close>

definition insert_at :: "string \<Rightarrow> int \<Rightarrow> string \<Rightarrow> string result" where
  "insert_at b i license =
     rbind (slice_to b i) (\<lambda>pre. rbind (slice_from b i) (\<lambda>post. Ok (pre @ nl @ nl @ license @ post)))"

definition applyGoLicense :: "string \<Rightarrow> string result" where
  "applyGoLicense b =
     (if bytes_Contains b ''DO NOT EDIT.'' then Ok b
      else if bytes_Contains b goLicense then Ok b
      else let i = bytes_Index b ''package '' in
        rbind (slice_from b i) (\<lambda>rest. insert_at b (i + bytes_Index rest nl) goLicense))"

definition applyPythonLicense :: "string \<Rightarrow> string result" where
  "applyPythonLicense b =
     (if bytes_Contains b pythonLicense then Ok b
      else if HasPrefix b ''#!'' then insert_at b (bytes_Index b nl) pythonLicense
      else Ok (pythonLicense @ nl @ nl @ b))"

text \<open>What is skipped of the tree, and which of the other files are looked at.\<close>

datatype walk_action = SkipDir | Ignore | Apply

definition go_walk :: "string \<Rightarrow> walk_action" where
  "go_walk path = (if path \<in> {''pkg/client'', ''vendor''} then SkipDir else if HasSuffix path ''.go'' then Apply else Ignore)"

definition python_walk :: "string \<Rightarrow> walk_action" where
  "python_walk path =
     (if HasPrefix path ''pyenv'' then SkipDir else if path \<in> {''python/client'', ''vendor''} then SkipDir
      else if HasSuffix path ''.py'' then Apply else Ignore)"

lemma insert_at_Ok: "insert_at b i license = Ok b' \<Longrightarrow> \<exists>u v. b = u @ v \<and> b' = u @ nl @ nl @ license @ v"
  by (auto simp: insert_at_def slice_to_def slice_from_def split: if_splits) (metis append_take_drop_id)

lemma inserted_contains: "bytes_Contains (u @ nl @ nl @ license @ v) license"
  using bytes_Contains_append [of "u @ nl @ nl" license v] by simp

text \<open>The tool only ever adds a header, and a second run changes nothing.\<close>

lemma applyGoLicense_adds:
  assumes "applyGoLicense b = Ok b'"
  shows "b' = b \<or> (\<exists>u v. b = u @ v \<and> b' = u @ nl @ nl @ goLicense @ v)" and "applyGoLicense b' = Ok b'"
proof -
  show one: "b' = b \<or> (\<exists>u v. b = u @ v \<and> b' = u @ nl @ nl @ goLicense @ v)"
    using assms by (auto simp: applyGoLicense_def Let_def dest: insert_at_Ok split: if_splits)
  show "applyGoLicense b' = Ok b'"
    using one assms by (elim disjE exE conjE) (simp_all add: applyGoLicense_def inserted_contains)
qed

lemma applyPythonLicense_adds:
  assumes "applyPythonLicense b = Ok b'"
  shows "applyPythonLicense b' = Ok b'"
proof -
  have "b' = b \<or> (\<exists>u v. b' = u @ nl @ nl @ pythonLicense @ v) \<or> b' = pythonLicense @ nl @ nl @ b"
    using assms insert_at_Ok [of b "bytes_Index b nl" pythonLicense b'] by (auto simp: applyPythonLicense_def split: if_splits)
  moreover have "bytes_Contains (pythonLicense @ nl @ nl @ b) pythonLicense" using bytes_Contains_append [of "[]"] by simp
  ultimately show ?thesis
    using assms by (elim disjE exE) (simp_all add: applyPythonLicense_def inserted_contains)
qed

text \<open>A Go file with no package clause makes it panic.\<close>

lemma applyGoLicense_no_package:
  assumes "bytes_Index b ''package '' = -1" "\<not> bytes_Contains b ''DO NOT EDIT.''" "\<not> bytes_Contains b goLicense"
  shows "applyGoLicense b = Panic ''slice bounds out of range''"
  using assms by (simp add: applyGoLicense_def Let_def slice_from_def)

section \<open>The proxy\<close>

text \<open>
  An answer is the status written first and whether a tunnel to the other side was opened. \<^verbatim>\<open>http.Error\<close> after a status has been written does not change it. \<open>hijacker\<close> says
  whether the writer has a connection to take over.
\<close>

record proxy_answer =
  pa_status :: int
  pa_tunnel :: bool

record ('c, 'w) proxy_env =
  px_parse6 :: "string \<Rightarrow> 128 word option"
  px_SplitHostPort :: "string \<Rightarrow> (string \<times> string) result"
  px_Dial :: "string \<Rightarrow> ('w, 'c) go"
  px_hijacker :: bool
  px_Hijack :: "('w, unit) go"

definition http_Error :: "int \<Rightarrow> ('w, proxy_answer) go" where
  "http_Error code = greturn \<lparr>pa_status = code, pa_tunnel = False\<rparr>"

definition proxy :: "('c, 'w) proxy_env \<Rightarrow> string \<Rightarrow> ('w, proxy_answer) go" where
  "proxy e host w =
     (case px_Dial e host w of
        (Panic p, w) \<Rightarrow> (Panic p, w)
      | (Err _, w) \<Rightarrow> http_Error 400 w
      | (Ok c2, w) \<Rightarrow>
          if \<not> px_hijacker e then http_Error 500 w
          else (case px_Hijack e w of
                  (Panic p, w) \<Rightarrow> (Panic p, w)
                | (Err _, w) \<Rightarrow> http_Error 200 w
                | (Ok _, w) \<Rightarrow> (Ok \<lparr>pa_status = 200, pa_tunnel = True\<rparr>, w)))"

definition proxy_handler :: "('c, 'w) proxy_env \<Rightarrow> ipnet \<Rightarrow> string \<Rightarrow> string \<Rightarrow> ('w, proxy_answer) go" where
  "proxy_handler e subnet meth host =
     (if meth \<noteq> ''CONNECT'' then http_Error 405
      else case px_SplitHostPort e host of
        Panic p \<Rightarrow> glift (Panic p)
      | Err _ \<Rightarrow> http_Error 400
      | Ok (ip, _) \<Rightarrow>
          (case ParseIP (px_parse6 e) ip of
             None \<Rightarrow> http_Error 403
           | Some x \<Rightarrow> if \<not> Contains subnet x then http_Error 403 else proxy e host))"

record ('k, 'c) proxy_config = "'k tls_config" +
  pt_ClientCAs :: "'c list"

record ('k, 'c, 'w) proxy_files =
  pf_ReadFile :: "string \<Rightarrow> ('w, string) go"
  pf_ParseCertificate :: "string \<Rightarrow> 'c result"
  pf_ParsePKCS1PrivateKey :: "string \<Rightarrow> 'k result"

definition proxy_tls :: "'k \<Rightarrow> string \<Rightarrow> 'c \<Rightarrow> ('k, 'c) proxy_config" where
  "proxy_tls key cert clientCert =
     \<lparr>tl_PrivateKey = key, tl_Certificate = [cert], tl_NextProtos = [], tl_ClientAuth = RequireAndVerifyClientCert,
      tl_CipherSuites = [''TLS_ECDHE_RSA_WITH_CHACHA20_POLY1305'', ''TLS_ECDHE_ECDSA_WITH_CHACHA20_POLY1305'', ''TLS_ECDHE_RSA_WITH_AES_128_GCM_SHA256'',
        ''TLS_ECDHE_ECDSA_WITH_AES_128_GCM_SHA256'', ''TLS_ECDHE_RSA_WITH_AES_256_GCM_SHA384'', ''TLS_ECDHE_ECDSA_WITH_AES_256_GCM_SHA384''],
      tl_PreferServerCipherSuites = True, tl_SessionTicketsDisabled = True, tl_MinVersion = (1, 2), tl_CurvePreferences = [''CurveP256'', ''X25519''],
      pt_ClientCAs = [clientCert]\<rparr>"

text \<open>The start of the proxy: the allowed subnet, the address and the configuration with which it listens. The files and the subnet are flags.\<close>

definition proxy_run ::
    "('c, 'w) proxy_env \<Rightarrow> ('k, 'c', 'w) proxy_files \<Rightarrow> string \<Rightarrow> string \<Rightarrow> string \<Rightarrow> string \<Rightarrow> ('w, ipnet \<times> string \<times> ('k, 'c') proxy_config) go" where
  "proxy_run e f subnet clientCertFile certFile keyFile =
     gbind (glift (ParseCIDR (px_parse6 e) subnet)) (\<lambda>subnet.
     gbind (pf_ReadFile f clientCertFile) (\<lambda>b.
     gbind (glift (pf_ParseCertificate f b)) (\<lambda>clientCert.
     gbind (pf_ReadFile f certFile) (\<lambda>cert.
     gbind (pf_ReadFile f keyFile) (\<lambda>b.
     gbind (glift (pf_ParsePKCS1PrivateKey f b)) (\<lambda>key.
     greturn (subnet, '':8443'', proxy_tls key cert clientCert)))))))"

text \<open>The proxy dials only for CONNECT, and only addresses of the allowed subnet, never a name; else it answers with an error and does nothing.\<close>

lemma proxy_dials_allowed:
  "proxy_handler e subnet meth host w = proxy e host w \<and> meth = ''CONNECT''
     \<and> (\<exists>ip port x. px_SplitHostPort e host = Ok (ip, port) \<and> ParseIP (px_parse6 e) ip = Some x \<and> Contains subnet x)
   \<or> (\<exists>code \<in> {400, 403, 405}. proxy_handler e subnet meth host w = (Ok \<lparr>pa_status = code, pa_tunnel = False\<rparr>, w))
   \<or> (\<exists>p. px_SplitHostPort e host = Panic p)"
  by (auto simp: proxy_handler_def http_Error_def split: result.splits option.splits Product_Type.prod.splits)

text \<open>The client is told that the tunnel is there before it is: a connection that cannot be taken over is answered with 200, too.\<close>

lemma proxy_hijack_failed:
  assumes "px_Dial e host w = (Ok c2, w1)" "px_hijacker e" "px_Hijack e w1 = (Err er, w2)"
  shows "proxy e host w = (Ok \<lparr>pa_status = 200, pa_tunnel = False\<rparr>, w2)"
  using assms by (simp add: proxy_def http_Error_def)

section \<open>Keys and certificates\<close>

datatype key_usage = KeyUsageDigitalSignature | KeyUsageKeyEncipherment | KeyUsageCertSign

datatype ext_key_usage = ExtKeyUsageClientAuth | ExtKeyUsageServerAuth

text \<open>The fields of a certificate that are set; times are in seconds.\<close>

record x509_certificate =
  xc_SerialNumber :: int
  xc_NotBefore :: int
  xc_NotAfter :: int
  xc_CommonName :: string
  xc_BasicConstraintsValid :: bool
  xc_KeyUsage :: "key_usage list"
  xc_IsCA :: bool
  xc_ExtKeyUsage :: "ext_key_usage list"
  xc_Raw :: string

record ('k, 'w) tls_env =
  te_GenerateKey :: "('w, 'k) go"
  te_Int :: "int \<Rightarrow> ('w, int) go"
  te_Now :: "'w \<Rightarrow> int"
  te_AddYear :: "int \<Rightarrow> int"
  te_CreateCertificate :: "x509_certificate \<Rightarrow> x509_certificate option \<Rightarrow> 'k \<Rightarrow> 'k option \<Rightarrow> ('w, string) go"
  te_ParseCertificate :: "string \<Rightarrow> x509_certificate result"

definition certificate_template :: "string \<Rightarrow> int \<Rightarrow> int \<Rightarrow> int \<Rightarrow> x509_certificate option \<Rightarrow> bool \<Rightarrow> bool \<Rightarrow> x509_certificate" where
  "certificate_template commonName serialNumber now notAfter parentCert isCA isClient =
     \<lparr>xc_SerialNumber = serialNumber, xc_NotBefore = now,
      xc_NotAfter = (case parentCert of None \<Rightarrow> notAfter | Some c \<Rightarrow> if xc_NotAfter c < notAfter then xc_NotAfter c else notAfter),
      xc_CommonName = commonName, xc_BasicConstraintsValid = True, xc_KeyUsage = [KeyUsageDigitalSignature, KeyUsageKeyEncipherment], xc_IsCA = isCA,
      xc_ExtKeyUsage = (if isCA then [] else if isClient then [ExtKeyUsageClientAuth] else [ExtKeyUsageServerAuth]), xc_Raw = []\<rparr>"

definition GenerateKeyAndCertificate ::
    "('k, 'w) tls_env \<Rightarrow> string \<Rightarrow> 'k option \<Rightarrow> x509_certificate option \<Rightarrow> bool \<Rightarrow> bool \<Rightarrow> ('w, 'k \<times> x509_certificate list) go" where
  "GenerateKeyAndCertificate e commonName parentKey parentCert isCA isClient =
     (if isCA \<and> isClient then glift (Err (ErrorfErr (Fmt ''cannot generate CA client certificate'' [])))
      else gbind (te_GenerateKey e) (\<lambda>key.
        gbind (te_Int e (2 ^ 128)) (\<lambda>serialNumber w.
        let now = te_Now e w; template = certificate_template commonName serialNumber now (te_AddYear e now) parentCert isCA isClient;
            (parentCert, parentKey) = (if parentCert = None \<and> parentKey = None then (Some template, Some key) else (parentCert, parentKey)) in
        gbind (te_CreateCertificate e template parentCert key parentKey) (\<lambda>b.
        gbind (glift (te_ParseCertificate e b)) (\<lambda>cert. greturn (key, [cert]))) w)))"

text \<open>When Go's library accepts a certificate as the signer of another one, \<^verbatim>\<open>CheckSignatureFrom\<close>.\<close>

definition may_sign :: "x509_certificate \<Rightarrow> bool" where
  "may_sign c \<longleftrightarrow> (xc_BasicConstraintsValid c \<longrightarrow> xc_IsCA c) \<and> (xc_KeyUsage c = [] \<or> KeyUsageCertSign \<in> set (xc_KeyUsage c))"

text \<open>
  A certificate is for clients or for servers, and does not outlive the one that signs it. One that is asked for as an authority lacks the usage for signing: what is signed with
  it is not accepted by Go.
\<close>

lemma certificate_template_props:
  fixes cn sn now notAfter parentCert isCA isClient
  defines "t \<equiv> certificate_template cn sn now notAfter parentCert isCA isClient"
  shows "parentCert = Some c \<Longrightarrow> xc_NotAfter t \<le> xc_NotAfter c" "xc_NotAfter t \<le> notAfter" "\<not> may_sign t"
  by (auto simp: t_def certificate_template_def may_sign_def split: option.splits)

text \<open>The tool writes three files; its answer is the list of those written, with their modes, and the first error.\<close>

record ('k, 'w) genkey_env = "('k, 'w) tls_env" +
  gk_ReadFile :: "string \<Rightarrow> ('w, string) go"
  gk_ParsePKCS1PrivateKey :: "string \<Rightarrow> 'k result"
  gk_MarshalPKCS1PrivateKey :: "'k \<Rightarrow> string"
  gk_MarshalPKCS8PrivateKey :: "'k \<Rightarrow> string result"
  gk_pem :: "string \<Rightarrow> string \<Rightarrow> string"
  gk_WriteFile :: "string \<Rightarrow> string \<Rightarrow> nat \<Rightarrow> ('w, unit) go"

definition read_optional :: "('k, 'w) genkey_env \<Rightarrow> string \<Rightarrow> (string \<Rightarrow> 'a result) \<Rightarrow> ('w, 'a option) go" where
  "read_optional e path parse =
     (if path = [] then greturn None else gbind (gk_ReadFile e path) (\<lambda>b. gbind (glift (parse b)) (\<lambda>x. greturn (Some x))))"

definition genkey_run :: "('k, 'w) genkey_env \<Rightarrow> bool \<Rightarrow> bool \<Rightarrow> string \<Rightarrow> string \<Rightarrow> string \<Rightarrow> ('w, unit) go" where
  "genkey_run e ca client keyFile certFile name =
     gbind (read_optional e keyFile (gk_ParsePKCS1PrivateKey e)) (\<lambda>signingKey.
     gbind (read_optional e certFile (te_ParseCertificate e)) (\<lambda>signingCert.
     gbind (GenerateKeyAndCertificate (tls_env.truncate e) name signingKey signingCert ca client) (\<lambda>(key, cert).
     gbind (gk_WriteFile e (name @ ''.key'') (gk_MarshalPKCS1PrivateKey e key) 384) (\<lambda>_.
     gbind (gk_WriteFile e (name @ ''.crt'') (xc_Raw (hd cert)) 438) (\<lambda>_.
     gbind (glift (gk_MarshalPKCS8PrivateKey e key)) (\<lambda>b.
     gk_WriteFile e (name @ ''.pem'') (gk_pem e ''PRIVATE KEY'' b @ gk_pem e ''CERTIFICATE'' (xc_Raw (hd cert))) 384))))))"

section \<open>The component manifest\<close>

record lock_project =
  lk_Name :: string
  lk_Packages :: "string list"
  lk_Revision :: string

record gitComponent =
  gc_CommitHash :: string
  gc_RepositoryURL :: string

definition project_name :: "lock_project \<Rightarrow> string" where
  "project_name p =
     (if HasPrefix (lk_Name p) ''k8s.io/'' then ''github.com/kubernetes'' @ drop 6 (lk_Name p)
      else if HasPrefix (lk_Name p) ''cloud.google.com/'' \<and> lk_Packages p \<noteq> [] then lk_Name p @ ''/'' @ hd (lk_Packages p)
      else lk_Name p)"

definition registrations :: "lock_project list \<Rightarrow> gitComponent list" where
  "registrations projects = map (\<lambda>p. \<lparr>gc_CommitHash = lk_Revision p, gc_RepositoryURL = ''https://'' @ project_name p @ ''/''\<rparr>) projects"

section \<open>The commands\<close>

text \<open>\<^verbatim>\<open>hack/db\<close>: the document of a cluster, encoded.\<close>

definition db_run ::
    "('a, 'k, 'c, 'w) prod_env \<Rightarrow> ('a, 'k, 'c, 't, 'w) dev_env \<Rightarrow> ('i, 's, 'w) im_env \<Rightarrow> ('b, 'w) database_lib \<Rightarrow> (OpenShiftClusterDocument \<Rightarrow> string result) \<Rightarrow>
     string list \<Rightarrow> ('w, string) go" where
  "db_run pe de ie lib Encode args =
     (if length args \<noteq> 2 then glift (if args = [] then Panic ''index out of range'' else Err (ErrorfErr (Fmt ''usage: %s resourceid'' [AStr (hd args)])))
      else gbind (NewEnv pe de ie) (\<lambda>e.
        let p = env_prod e in
        gbind (NewDatabase lib (pr_cosmosDBAccountName p, pr_cosmosDBPrimaryMasterKey p) (env_DatabaseName (pe_LookupEnv pe) e) []) (\<lambda>db.
        gbind (clusters_Get (db_OpenShiftClusters db) (ToLower (args ! 1))) (\<lambda>doc.
        gbind (glift (dl_AddExtensions lib)) (\<lambda>_.
        glift (Encode doc))))))"

text \<open>\<^verbatim>\<open>cmd/aro\<close>: the exit status, with the commands as arguments.\<close>

definition aro_main :: "('w, unit) go \<Rightarrow> ('w, unit) go \<Rightarrow> string list \<Rightarrow> ('w, int) go" where
  "aro_main mirror_cmd rp_cmd args =
     (if length args < 2 then greturn 1
      else let cmd = ToLower (args ! 1) in
        on_error (gbind (if cmd = ''mirror'' then mirror_cmd else if cmd = ''rp'' then rp_cmd else greturn ()) (\<lambda>_. greturn 0)) (\<lambda>_. greturn 1))"

text \<open>A command that is neither is not an error.\<close>

lemma aro_main_unknown:
  assumes "length args \<ge> 2" "ToLower (args ! 1) \<notin> {''mirror'', ''rp''}"
  shows "aro_main mirror_cmd rp_cmd args w = (Ok 0, w)"
  using assms by (simp add: aro_main_def Let_def)

end
