(* ===== verification/Spec2Isabelle.thy ===== *)
theory Spec2Isabelle
  imports Provider Immutable Server DynamicValidation Scale Graph InstallSpec Manager DeploySpec Env Mirror Swagger AzureClient OrderedMap Tools
begin

text \<open>
  A verification of the Azure Red Hat OpenShift resource provider (\<^verbatim>\<open>src/\<close>, Go).

  \<^bold>\<open>The program.\<close> The provider answers the requests of Azure Resource Manager about OpenShift clusters and carries them out.
  Its \<^emph>\<open>front end\<close> (\<^verbatim>\<open>pkg/frontend\<close>) validates a request, merges it into the cluster's document and stores the document in Cosmos DB in a state
  that asks for work (Creating, Updating, Deleting) together with an asynchronous operation that the client can poll. Its \<^emph>\<open>back end\<close>
  (\<^verbatim>\<open>pkg/backend\<close>) dequeues such documents under a lease, runs the \<^emph>\<open>cluster manager\<close> (\<^verbatim>\<open>pkg/backend/openshiftcluster\<close>), which creates a cluster with
  the \<^emph>\<open>installer\<close> (\<^verbatim>\<open>pkg/install\<close>), scales or deletes it, and records the outcome. Several processes of both kinds run at once; they share only the
  \<^emph>\<open>database\<close> (\<^verbatim>\<open>pkg/database\<close>), and entity tags and leases keep them apart. The provider's own infrastructure is described by ARM templates that
  \<^verbatim>\<open>pkg/deploy\<close> generates.

  \<^bold>\<open>Conventions.\<close> A Go function is a HOL function of the same name where HOL allows it. A fallible one returns \<open>result\<close>: \<open>Ok\<close>, \<open>Err\<close> with a Go error
  as a value, or \<open>Panic\<close>. A function with effects is a computation \<open>('w, 'a) go\<close> on an explicit world \<open>'w\<close>, composed with \<open>gbind\<close> (\<open>Prelude\<close>). Structs are
  records, with a nil pointer or nil slice as \<open>None\<close> where the code can tell the difference; the fields that \<^verbatim>\<open>MissingFields\<close>
  preserves are kept. What is outside the repository (Azure, Kubernetes, the OpenShift installer, JSON, clocks, random numbers) is a field of an environment record or an argument;
  what is relied on is a named hypothesis, and each property with a hypothesis is applied to a concrete instance by its witness.

  \<^bold>\<open>The theories.\<close>

  \<^item> \<open>Prelude\<close>, \<open>Regex\<close>, \<open>GoNet\<close>, \<open>Http\<close>: results and computations, strings, regular expressions with a matcher by derivatives, IP networks as words, headers and
    responses.

  \<^item> \<open>Api\<close> (\<^verbatim>\<open>pkg/api\<close>), \<open>V20191231preview\<close> (\<^verbatim>\<open>pkg/api/v20191231preview\<close>): the internal and the external types and their conversion; the round trips in both
    directions and what they lose. \<open>ResourceID\<close>: \<^verbatim>\<open>azure.ParseResourceID\<close> by the backtracking that defines it, and subnets.

  \<^item> \<open>StaticValidation\<close>, \<open>Immutable\<close> (\<^verbatim>\<open>pkg/util/immutable\<close>): every static validator, total and with 400 as the only refusal, and what an accepted cluster is;
    the reflective comparison accepts exactly the changes of mutable fields.

  \<^item> \<open>Permissions\<close>, \<open>Azure\<close>, \<open>DynamicValidation\<close>: \<^verbatim>\<open>CanDoAction\<close> is the documented meaning of permissions; polling, DNS records and private endpoints;
    the overlap check is exact, and what dynamic validation promises (and what it fails to report).

  \<^item> \<open>Cosmos\<close> (\<^verbatim>\<open>pkg/database/cosmosdb\<close>), \<open>Database\<close> (\<^verbatim>\<open>pkg/database\<close>): the requests of the client with their headers, retries and iterators; the collections with
    patches, leases and queues. \<open>Account\<close> has the contract of a document store as the locale \<open>document_store\<close> and interprets it on the repository's client
    connected to a reference account (stored documents, entity tags, pre-triggers, queries): leases are exclusive, ending and renewing them,
    what a process that lost its lease can do, and where the code's writes are unconditional.

  \<^item> \<open>Backend\<close>, \<open>World\<close>: both kinds of workers, the loop of \<^verbatim>\<open>Run\<close> as a transition system with its bound on workers; the three collections side by side, and
    a worker followed to the outcome it stores.

  \<^item> \<open>Frontend\<close>, \<open>FrontendSpec\<close>, \<open>Requests\<close>: every handler from its first read to its reply; the locale \<open>api_version\<close> is what the handlers rely on of a version of
    the API, interpreted on the preview version; what accepted requests store and answer, polling, and that no answer has a secret.
    \<open>Middleware\<close>, \<open>Server\<close>: the middleware as functions on handlers, the routes, and the whole server: it answers every request, an unauthorised client reaches no
    handler, and what a handler is given.

  \<^item> \<open>Lifecycle\<close>, \<open>Provider\<close>: the specification of the provider as an abstract transition system in which every cluster has a stage of life, and the refinement theorem: whole
    requests, dequeues, workers and heartbeats, in any order, take the stored clusters through its steps only.

  \<^item> \<open>Graph\<close>, \<open>Arm\<close>, \<open>InstallTemplates\<close>, \<open>Install\<close>, \<open>InstallSpec\<close>: the asset graph with its resolution and storage, ARM templates and when they can be deployed, the templates
    of a cluster, the three phases, and the loop over the phases, which resumes where the stored document says (locale \<open>leased_store\<close>, interpreted on the database).

  \<^item> \<open>Scale\<close>, \<open>Manager\<close>: the update of the machine sets, exact and even; creation and deletion of a cluster.

  \<^item> \<open>Deploy\<close>, \<open>DeploySpec\<close>: the templates of the provider itself with the scripts they embed, and that each declares the parameters it uses and refers only to resources that
    are there.

  \<^item> \<open>Authorizer\<close> (\<^verbatim>\<open>pkg/util/clientauthorizer\<close>, \<^verbatim>\<open>pkg/util/instancemetadata\<close>), \<open>Env\<close> (\<^verbatim>\<open>pkg/env\<close>): which clients are authorised, after any number of refreshes of the
    certificates Azure Resource Manager publishes (locale \<open>certificate_authorizer\<close>, interpreted on both authorizers that look at certificates); what the provider finds out about
    itself when it starts, its secrets, its zones, and in development its proxy and its role assignment. This theory puts authorisation and server together.

  \<^item> \<open>Mirror\<close> (\<^verbatim>\<open>pkg/mirror\<close>, \<^verbatim>\<open>cmd/aro/mirror.go\<close>): versions as bytes, the upgrade graph, the images of a release and the ten workers that copy them, under every schedule.

  \<^item> \<open>TypeWalker\<close>, \<open>Swagger\<close> (\<^verbatim>\<open>pkg/swagger\<close>): the walk from Go types to definitions, which ends and defines exactly what is reachable, and the document of the API, in which every
    reference resolves and every example that is referred to is written.

  \<^item> \<open>OrderedMap\<close> (\<^verbatim>\<open>pkg/util/orderedmap\<close>): JSON objects that keep their order, with the decoder's states within an object: what is written is read back.

  \<^item> \<open>AzureClient\<close> (the additions of \<^verbatim>\<open>pkg/util/azureclient\<close>): the two loops over the pages of a listing and what they return, long operations, the wait for a deployment.

  \<^item> \<open>Statsd\<close> (\<^verbatim>\<open>pkg/metrics\<close>), \<open>Startup\<close> (the constructors of \<^verbatim>\<open>pkg/database\<close> and \<^verbatim>\<open>pkg/frontend\<close>, \<^verbatim>\<open>cmd/aro/rp.go\<close>): the lines of the metrics; a provider that has started has the triggers
    its leases need; front end, main program and the back end's loop as one transition system with a clock: readiness ends 20 seconds before requests are refused, and the provider has returned
    85 seconds after it was told to stop, without waiting for its workers.

  \<^item> \<open>Tools\<close> (\<^verbatim>\<open>hack\<close>, \<^verbatim>\<open>pkg/util/tls\<close>, \<^verbatim>\<open>cmd/aro/main.go\<close>): the check of imports with its bit mask accepts exactly the files in order, licence headers are added once, the development
    proxy dials only into its subnet, certificates do not outlive their signer.

  \<^bold>\<open>Fuel and bounds.\<close> Loops over the pages of a query take fuel (\<open>cl_fuel\<close>, \<open>client_docs\<close>): a page per unit and one unit for the end of the list; the reference account answers in one page, so
    its collections have 2, and \<open>Cosmos.all_docs_complete\<close> says how much is enough for any number of pages. \<^verbatim>\<open>wait.Poll\<close> has the number of ticks of
    its timeout. Resolution of assets has a bound on the depth of the stack, and the rank of the asset is enough; the walk over types has one too, and the number of declarations is enough. The pages of an Azure listing and the members of an ordered object take a unit of fuel each and one for the end. The PEM blocks of a secret are at most as many as it has bytes. The installer's loop has \<open>install_phases\<close> = 3 turns, proved to be
    enough. Counts of replicas are 32-bit integers with wrap-around; dequeue counts and worker counts are unbounded integers, far from their limits.

  \<^bold>\<open>Concurrency.\<close> A computation runs from its first read to its last write. Races are expressed where they matter: \<open>lease_exclusive\<close> and \<open>blind_update_loses_lease\<close> are about
  arbitrary interleavings of single writes, and in \<open>life_cycle_refined\<close> a manager's run may include whatever others do that respects the lease.

  \<^bold>\<open>Not modelled.\<close> Logging. Of the Cosmos DB service, throughput and unique key policies; the users and permissions clients, which nothing calls.
  The TLS and HTTP libraries. The constructors of \<^verbatim>\<open>pkg/util/azureclient\<close>, which only forward to Azure's SDK. Of \<^verbatim>\<open>hack\<close> the tools that only call a library (the
  embedded assets, the image signatures). Generated code: the client SDK, the mocks and the embedded files of \<^verbatim>\<open>pkg/install/assets_vfsdata.go\<close>; of the three generated document
  clients, which differ only in the type of the document, one is modelled for any type.
\<close>

section \<open>Who reaches the provider\<close>

text \<open>
  C22. In production nobody but Azure Resource Manager reaches the provider. However often its certificates were refreshed, and whichever refreshes failed, a request
  reaches a handler (other than the readiness probe's) only over a connection whose leaf certificate is one of the stored ones and within its validity, and those are the
  certificates of one answer of Azure Resource Manager: of any other request the answer and the effect on the world are the same whatever the handlers do.
\<close>
theorem only_arm_reaches_handlers:
  assumes "refresh ae hours (NewARM, w) = (a, w')"
    and "mw_IsAuthorized e = env_IsAuthorized now (EProd p a)"
    and "\<not> (\<exists>raw rest c. in_TLS r = Some (raw # rest) \<and> c \<in> set (md_ClientCertificates (ar_m a))
      \<and> cc_Certificate c = raw \<and> cc_NotBefore c < now \<and> now < cc_NotAfter c)"
    and "handlers [] = handlers' []"
  shows "published ae a \<and> server e handlers r s = server e handlers' r s"
proof
  show "published ae a" using refresh_published [of ae "(NewARM, w)" hours] assms(1) by (simp add: published_def)
  have "\<not> mw_IsAuthorized e (in_TLS r)"
    using assms(2,3) by (auto simp: env_IsAuthorized_def arm_authorizer.authorized_iff arm_trusts_def cert_current_def)
  then show "server e handlers r s = server e handlers' r s" using assms(4) by (rule unauthorised_reaches_no_handler)
qed

text \<open>A connection whose leaf is not the published certificate, though the published one is in its chain.\<close>

theorem only_arm_reaches_handlers_witness:
  "server \<lparr>mw_newUUID = (\<lambda>w. ([], w)), mw_log = (\<lambda>_ w. w), mw_emit = (\<lambda>_ w. w),
      mw_IsAuthorized = env_IsAuthorized 4000 (EProd undefined (fst (refresh sample_arm_env [\<lambda>w. w + 3600] (NewARM, 20))) :: (unit, unit, unit, unit) env),
      mw_dev = False, mw_Location = [], mw_apis = (\<lambda>_. True), mw_urlString = id\<rparr>
     (\<lambda>n r s. (Ok (), (WriteHeader (if n = [] then 200 else 201) (fst s), 1 + snd s)))
     \<lparr>r_Method = MethodDelete, r_Path = sample_resourceID, r_OriginalPath = [], r_Vars = [], r_Header = [], r_Body = [],
      in_Query = [(''api-version'', [])], in_URL = [], in_TLS = Some [''issuer'', ''current''], in_Stream = None, in_Route = None\<rparr> (new_writer, 0 :: int) =
   server \<lparr>mw_newUUID = (\<lambda>w. ([], w)), mw_log = (\<lambda>_ w. w), mw_emit = (\<lambda>_ w. w),
      mw_IsAuthorized = env_IsAuthorized 4000 (EProd undefined (fst (refresh sample_arm_env [\<lambda>w. w + 3600] (NewARM, 20))) :: (unit, unit, unit, unit) env),
      mw_dev = False, mw_Location = [], mw_apis = (\<lambda>_. True), mw_urlString = id\<rparr>
     (\<lambda>n r s. if n = [] then (Ok (), (WriteHeader 200 (fst s), 1 + snd s)) else (Panic [], s))
     \<lparr>r_Method = MethodDelete, r_Path = sample_resourceID, r_OriginalPath = [], r_Vars = [], r_Header = [], r_Body = [],
      in_Query = [(''api-version'', [])], in_URL = [], in_TLS = Some [''issuer'', ''current''], in_Stream = None, in_Route = None\<rparr> (new_writer :: unit response_writer, 0)"
proof -
  let ?a = "\<lparr>ar_m = \<lparr>md_ClientCertificates = [sample_certificate]\<rparr>, ar_lastSuccessfulRefresh = 20\<rparr>"
  have run: "refresh sample_arm_env [\<lambda>w. w + 3600] (NewARM, 20) = (?a, 3620)" by code_simp
  show ?thesis
    unfolding run fst_conv
    by (rule only_arm_reaches_handlers [OF run, THEN conjunct2]) (simp_all add: sample_certificate_def)
qed

end
